(* ===== verification/Prelude.thy ===== *)
theory Prelude
  imports Main "HOL-Library.Word" "HOL-Library.State_Monad"
begin

text \<open>
  Shared vocabulary of the development.

  \<^item> Go's machine integers \<open>int32\<close> and \<open>int64\<close> as words read by \<open>sint\<close>.
  \<^item> Errors as values (\<open>err\<close>): the code tells apart only the API server's \<open>NotFound\<close> and
    \<open>Conflict\<close>, the poll helper's timeout, the two errors of \<open>strconv\<close> and every other error,
    which carries its text.
  \<^item> Run-time panics (an index out of range, a nil dereference) as the \<open>Panic\<close> branch of
    \<open>outcome\<close>.
  \<^item> The functions of Go's \<open>strings\<close> and \<open>strconv\<close> packages the sources call, on byte strings,
    with the split/join and print/parse round trips that the components rely on.
  \<^item> The state monad of the library, with \<open>ret\<close> for its unit, for code that talks to external
    services; the simp set \<open>run_simps\<close> runs such a program.
\<close>

section \<open>Collections of facts\<close>

named_theorems run_simps \<open>running a monadic program\<close>
named_theorems go_string_simps \<open>laws of the string functions\<close>
named_theorems leaves_intros \<open>programs that leave a view of the state alone\<close>

section \<open>Machine integers\<close>

type_synonym int32 = "32 word"
type_synonym int64 = "64 word"

text \<open>The conversion \<open>int32(len(xs))\<close>.\<close>

abbreviation len32 :: "'a list \<Rightarrow> int32" where
  "len32 xs \<equiv> of_nat (length xs)"

lemma sint32_of_int: "- (2 ^ 31) \<le> i \<Longrightarrow> i < 2 ^ 31 \<Longrightarrow> sint (of_int i :: int32) = i"
  by (simp add: signed_of_int signed_take_bit_int_eq_self)

lemma sint32_len: "length xs < 2 ^ 31 \<Longrightarrow> sint (len32 xs) = int (length xs)"
  using sint32_of_int [of "int (length xs)"] by simp

lemma sint32_add:
  fixes x :: int32
  assumes "- (2 ^ 31) \<le> sint x + i" "sint x + i < 2 ^ 31"
  shows "sint (x + of_int i) = sint x + i"
  using sint32_of_int [OF assms] by simp

lemma sint_inject: "sint x = sint y \<longleftrightarrow> x = (y :: 'a::len word)"
  by (auto dest: arg_cong [of "sint x" "sint y" "of_int :: int \<Rightarrow> 'a word"])

section \<open>Errors and panics\<close>

datatype err =
    NotFound string
  | Conflict string
  | WaitTimeout
  | NumSyntax string
  | NumRange string
  | ErrText string

primrec err_msg :: "err \<Rightarrow> string" where
  "err_msg (NotFound m) = m"
| "err_msg (Conflict m) = m"
| "err_msg WaitTimeout = ''timed out waiting for the condition''"
| "err_msg (NumSyntax s) = ''strconv.ParseInt: parsing '' @ s @ '': invalid syntax''"
| "err_msg (NumRange s) = ''strconv.ParseInt: parsing '' @ s @ '': value out of range''"
| "err_msg (ErrText m) = m"

primrec is_not_found :: "err \<Rightarrow> bool" where
  "is_not_found (NotFound _) = True"
| "is_not_found (Conflict _) = False"
| "is_not_found WaitTimeout = False"
| "is_not_found (NumSyntax _) = False"
| "is_not_found (NumRange _) = False"
| "is_not_found (ErrText _) = False"

primrec is_conflict :: "err \<Rightarrow> bool" where
  "is_conflict (NotFound _) = False"
| "is_conflict (Conflict _) = True"
| "is_conflict WaitTimeout = False"
| "is_conflict (NumSyntax _) = False"
| "is_conflict (NumRange _) = False"
| "is_conflict (ErrText _) = False"

datatype 'a outcome = Ret 'a | Panic

primrec map_outcome_ret :: "('a \<Rightarrow> 'b) \<Rightarrow> 'a outcome \<Rightarrow> 'b outcome" where
  "map_outcome_ret f (Ret x) = Ret (f x)"
| "map_outcome_ret f Panic = Panic"

section \<open>The state monad\<close>

abbreviation ret :: "'a \<Rightarrow> ('s, 'a) state" where
  "ret \<equiv> State_Monad.return"

declare run_state_bind [run_simps] run_state_return [run_simps]

text \<open>A program that is known to return \<open>x\<close>.\<close>

lemma run_returns: "fst (run_state m s) = x \<Longrightarrow> run_state m s = (x, snd (run_state m s))"
  by (metis prod.collapse)

text \<open>Taking apart a run of two programs in sequence.\<close>

lemma run_bindE:
  assumes "run_state (m \<bind> f) s = (y, s')"
  obtains x s1 where "run_state m s = (x, s1)" "run_state (f x) s1 = (y, s')"
  using assms by (cases "run_state m s") (simp add: run_state_bind)

text \<open>A loop \<open>for _, x := range xs\<close> whose body may return from the enclosing function.\<close>

primrec for_each :: "('a \<Rightarrow> ('s, 'r option) state) \<Rightarrow> 'a list \<Rightarrow> ('s, 'r option) state" where
  "for_each f [] = ret None"
| "for_each f (x # xs) = do {
     r \<leftarrow> f x;
     case r of None \<Rightarrow> for_each f xs | Some v \<Rightarrow> ret (Some v)
   }"

subsection \<open>Views of the state\<close>

text \<open>A program that leaves alone what the function \<open>v\<close> reads of the state.\<close>

definition leaves :: "('s \<Rightarrow> 'v) \<Rightarrow> ('s, 'a) state \<Rightarrow> bool" where
  "leaves v m \<longleftrightarrow> (\<forall>s. v (snd (run_state m s)) = v s)"

lemma leavesD: "leaves v m \<Longrightarrow> run_state m s = (x, s') \<Longrightarrow> v s' = v s"
  unfolding leaves_def by (metis snd_conv)

lemma leaves_ret [leaves_intros]: "leaves v (ret x)"
  by (simp add: leaves_def)

lemma leaves_bind [leaves_intros]:
  "leaves v m \<Longrightarrow> (\<And>x. leaves v (f x)) \<Longrightarrow> leaves v (m \<bind> f)"
  by (simp add: leaves_def run_state_bind split: prod.split) (metis snd_conv)

lemma leaves_if [leaves_intros]: "leaves v m \<Longrightarrow> leaves v n \<Longrightarrow> leaves v (if b then m else n)"
  by simp

lemma leaves_case_prod [leaves_intros]:
  "(\<And>a b. leaves v (f a b)) \<Longrightarrow> leaves v (case p of (a, b) \<Rightarrow> f a b)"
  by (cases p) simp

lemma leaves_case_option [leaves_intros]:
  "leaves v m \<Longrightarrow> (\<And>x. leaves v (f x)) \<Longrightarrow> leaves v (case p of None \<Rightarrow> m | Some x \<Rightarrow> f x)"
  by (cases p) simp_all

lemma leaves_case_sum [leaves_intros]:
  "(\<And>x. leaves v (f x)) \<Longrightarrow> (\<And>x. leaves v (g x)) \<Longrightarrow> leaves v (case p of Inl x \<Rightarrow> f x | Inr x \<Rightarrow> g x)"
  by (cases p) simp_all

lemma leaves_case_list [leaves_intros]:
  "leaves v m \<Longrightarrow> (\<And>x xs. leaves v (f x xs)) \<Longrightarrow> leaves v (case p of [] \<Rightarrow> m | x # xs \<Rightarrow> f x xs)"
  by (cases p) simp_all

lemma leaves_case_outcome [leaves_intros]:
  "(\<And>x. leaves v (f x)) \<Longrightarrow> leaves v m \<Longrightarrow> leaves v (case p of Ret x \<Rightarrow> f x | Panic \<Rightarrow> m)"
  by (cases p) simp_all

lemma leaves_Let [leaves_intros]: "(\<And>x. leaves v (f x)) \<Longrightarrow> leaves v (let x = a in f x)"
  by simp

section \<open>Strings\<close>

text \<open>\<open>strings.Split(s, sep)\<close> for a separator of one byte.\<close>

fun split_on :: "char \<Rightarrow> string \<Rightarrow> string list" where
  "split_on c [] = [[]]"
| "split_on c (x # xs) =
     (if x = c then [] # split_on c xs
      else (case split_on c xs of [] \<Rightarrow> [[x]] | w # ws \<Rightarrow> (x # w) # ws))"

text \<open>\<open>strings.Join\<close>.\<close>

fun join :: "string \<Rightarrow> string list \<Rightarrow> string" where
  "join sep [] = []"
| "join sep [w] = w"
| "join sep (w # v # ws) = w @ sep @ join sep (v # ws)"

definition has_prefix :: "string \<Rightarrow> string \<Rightarrow> bool" where
  "has_prefix s p \<longleftrightarrow> take (length p) s = p"

definition has_suffix :: "string \<Rightarrow> string \<Rightarrow> bool" where
  "has_suffix s p \<longleftrightarrow> has_prefix (rev s) (rev p)"

definition trim_prefix :: "string \<Rightarrow> string \<Rightarrow> string" where
  "trim_prefix s p = (if has_prefix s p then drop (length p) s else s)"

text \<open>\<open>strings.Contains(s, sub)\<close>.\<close>

fun contains :: "string \<Rightarrow> string \<Rightarrow> bool" where
  "contains [] t = (t = [])"
| "contains (x # xs) t = (has_prefix (x # xs) t \<or> contains xs t)"

text \<open>\<open>strings.ReplaceAll(s, old, new)\<close> for one-byte strings.\<close>

definition replace_all :: "string \<Rightarrow> char \<Rightarrow> char \<Rightarrow> string" where
  "replace_all s old new = map (\<lambda>x. if x = old then new else x) s"

text \<open>The ASCII white space of \<open>unicode.IsSpace\<close>.\<close>

definition is_space :: "char \<Rightarrow> bool" where
  "is_space c \<longleftrightarrow> c \<in> {CHR 0x09, CHR 0x0A, CHR 0x0B, CHR 0x0C, CHR 0x0D, CHR 0x20}"

definition trim_left_by :: "(char \<Rightarrow> bool) \<Rightarrow> string \<Rightarrow> string" where
  "trim_left_by p s = dropWhile p s"

definition trim_right_by :: "(char \<Rightarrow> bool) \<Rightarrow> string \<Rightarrow> string" where
  "trim_right_by p s = rev (dropWhile p (rev s))"

definition trim_space :: "string \<Rightarrow> string" where
  "trim_space s = trim_right_by is_space (trim_left_by is_space s)"

text \<open>\<open>strings.Fields\<close>: the maximal runs of bytes that are not white space.\<close>

fun str_fields_aux :: "string \<Rightarrow> string \<Rightarrow> string list" where
  "str_fields_aux acc [] = (if acc = [] then [] else [rev acc])"
| "str_fields_aux acc (x # xs) =
     (if is_space x
      then (if acc = [] then str_fields_aux [] xs else rev acc # str_fields_aux [] xs)
      else str_fields_aux (x # acc) xs)"

definition str_fields :: "string \<Rightarrow> string list" where
  "str_fields s = str_fields_aux [] s"

text \<open>The verb \<open>%v\<close> applied to a slice of strings.\<close>

definition fmt_slice :: "string list \<Rightarrow> string" where
  "fmt_slice xs = ''['' @ join '' '' xs @ '']''"

abbreviation newline :: char where
  "newline \<equiv> CHR 0x0A"

subsection \<open>Split and join\<close>

lemma split_on_not_Nil [simp]: "split_on c s \<noteq> []"
  by (induction s) (auto split: list.split)

lemma length_split_on: "length (split_on c s) = Suc (count_list s c)"
  by (induction s) (auto split: list.split)

lemma split_on_absent [simp]: "c \<notin> set s \<Longrightarrow> split_on c s = [s]"
  by (induction s) auto

lemma split_on_append_sep:
  "c \<notin> set w \<Longrightarrow> split_on c (w @ c # s) = w # split_on c s"
  by (induction w) auto

lemma split_on_pieces: "w \<in> set (split_on c s) \<Longrightarrow> c \<notin> set w"
proof (induction s arbitrary: w)
  case Nil
  then show ?case by simp
next
  case (Cons x xs)
  obtain v vs where v: "split_on c xs = v # vs"
    by (cases "split_on c xs") auto
  show ?case
    using Cons.prems Cons.IH v by (auto split: if_splits)
qed

lemma split_on_subset: "w \<in> set (split_on c s) \<Longrightarrow> set w \<subseteq> set s"
  by (induction s arbitrary: w) (fastforce split: if_splits list.splits)+

lemma split_on_append: "split_on c (s @ c # t) = split_on c s @ split_on c t"
proof (induction s)
  case Nil
  then show ?case by simp
next
  case (Cons x xs)
  obtain v vs where v: "split_on c xs = v # vs"
    by (cases "split_on c xs") auto
  show ?case using Cons.IH v by simp
qed

lemma join_Cons: "ws \<noteq> [] \<Longrightarrow> join sep (w # ws) = w @ sep @ join sep ws"
  by (cases ws) auto

lemma join_split_on [simp]: "join [c] (split_on c s) = s"
proof (induction s)
  case Nil
  then show ?case by simp
next
  case (Cons x xs)
  obtain v vs where v: "split_on c xs = v # vs"
    by (cases "split_on c xs") auto
  show ?case
    using Cons.IH v by (cases vs) (auto simp: join_Cons)
qed

lemma split_on_join:
  "ws \<noteq> [] \<Longrightarrow> \<forall>w \<in> set ws. c \<notin> set w \<Longrightarrow> split_on c (join [c] ws) = ws"
proof (induction ws)
  case Nil
  then show ?case by simp
next
  case (Cons w ws)
  then show ?case by (cases ws) (auto simp: split_on_append_sep)
qed

lemma set_join: "set (join sep ws) \<subseteq> set sep \<union> \<Union> (set ` set ws)"
  by (induction sep ws rule: join.induct) auto

lemma replace_all_inverse:
  "new \<notin> set s \<Longrightarrow> replace_all (replace_all s old new) new old = s"
  unfolding replace_all_def by (induction s) auto

lemma set_replace_all: "old \<noteq> new \<Longrightarrow> old \<notin> set (replace_all s old new)"
  unfolding replace_all_def by auto

lemma contains_Nil [simp]: "contains s []"
  by (cases s) (simp_all add: has_prefix_def)

lemma takeWhile_upto: "c \<notin> set xs \<Longrightarrow> takeWhile (\<lambda>x. x \<noteq> c) (xs @ c # ys) = xs"
  by (induction xs) auto

lemma dropWhile_upto: "c \<notin> set xs \<Longrightarrow> dropWhile (\<lambda>x. x \<noteq> c) (xs @ c # ys) = c # ys"
  by (induction xs) auto

lemma has_prefix_append [simp]: "has_prefix (t @ u) t"
  by (simp add: has_prefix_def)

lemma contains_prefix: "has_prefix s t \<Longrightarrow> contains s t"
  by (cases s) (simp_all add: has_prefix_def)

lemma contains_append [simp]: "contains (s @ t @ u) t"
  by (induction s) (simp_all add: contains_prefix)

lemma contains_iff: "contains s t \<longleftrightarrow> (\<exists>a b. s = a @ t @ b)"
proof
  show "contains s t \<Longrightarrow> \<exists>a b. s = a @ t @ b"
  proof (induction s)
    case Nil
    then show ?case by simp
  next
    case (Cons x xs)
    show ?case
    proof (cases "has_prefix (x # xs) t")
      case True
      then have "x # xs = [] @ t @ drop (length t) (x # xs)"
        unfolding has_prefix_def by (metis append_Nil append_take_drop_id)
      then show ?thesis by blast
    next
      case False
      with Cons obtain a b where "xs = a @ t @ b" by auto
      then have "x # xs = (x # a) @ t @ b" by simp
      then show ?thesis by blast
    qed
  qed
qed auto

end
