(* ===== verification/GoNum.thy ===== *)
theory GoNum
  imports Prelude
begin

text \<open>
  Decimal printing and parsing of integers as Go's \<open>strconv\<close> does it: \<open>FormatInt\<close>,
  \<open>ParseUint\<close> and \<open>ParseInt\<close> in base 10, with the value that is returned beside an error
  (the code ignores some of these errors and goes on with the value), and the round trip.
\<close>

section \<open>Printing\<close>

definition digit_char :: "nat \<Rightarrow> char" where
  "digit_char d = char_of (48 + d)"

fun fmt_nat :: "nat \<Rightarrow> string" where
  "fmt_nat n = (if n < 10 then [digit_char n] else fmt_nat (n div 10) @ [digit_char (n mod 10)])"

declare fmt_nat.simps [simp del]

definition fmt_int :: "int \<Rightarrow> string" where
  "fmt_int i = (if i < 0 then CHR ''-'' # fmt_nat (nat (- i)) else fmt_nat (nat i))"

definition FormatInt64 :: "int64 \<Rightarrow> string" where
  "FormatInt64 w = fmt_int (sint w)"

section \<open>Parsing\<close>

definition is_digit :: "char \<Rightarrow> bool" where
  "is_digit c \<longleftrightarrow> 48 \<le> (of_char c :: nat) \<and> (of_char c :: nat) \<le> 57"

definition digit_val :: "char \<Rightarrow> nat" where
  "digit_val c = of_char c - 48"

text \<open>
  The loop of \<open>ParseUint\<close> for a given bit size: a byte that is no digit stops it with a syntax
  error and value 0, an overflow with a range error and the largest value.
\<close>

fun parse_uint_loop :: "nat \<Rightarrow> string \<Rightarrow> nat \<Rightarrow> string \<Rightarrow> nat \<times> err option" where
  "parse_uint_loop bits s0 n [] = (n, None)"
| "parse_uint_loop bits s0 n (c # cs) =
     (if \<not> is_digit c then (0, Some (NumSyntax s0))
      else (let n' = 10 * n + digit_val c in
            if 2 ^ bits \<le> n' then (2 ^ bits - 1, Some (NumRange s0))
            else parse_uint_loop bits s0 n' cs))"

definition parse_uint :: "nat \<Rightarrow> string \<Rightarrow> nat \<times> err option" where
  "parse_uint bits s = (if s = [] then (0, Some (NumSyntax s)) else parse_uint_loop bits s 0 s)"

definition is_range :: "err option \<Rightarrow> bool" where
  "is_range e \<longleftrightarrow> (case e of Some (NumRange _) \<Rightarrow> True | _ \<Rightarrow> False)"

text \<open>\<open>ParseInt(s, 10, bits)\<close>: an optional sign, then \<open>ParseUint\<close>, then the cut-off.\<close>

definition parse_int :: "nat \<Rightarrow> string \<Rightarrow> int \<times> err option" where
  "parse_int bits s =
     (if s = [] then (0, Some (NumSyntax s))
      else let neg = (hd s = CHR ''-'');
               rest = (if hd s = CHR ''-'' \<or> hd s = CHR ''+'' then tl s else s);
               (un, e) = parse_uint bits rest
           in if e \<noteq> None \<and> \<not> is_range e then (0, Some (NumSyntax s))
              else if \<not> neg \<and> 2 ^ (bits - 1) \<le> un then (2 ^ (bits - 1) - 1, Some (NumRange s))
              else if neg \<and> 2 ^ (bits - 1) < un then (- (2 ^ (bits - 1)), Some (NumRange s))
              else ((if neg then - int un else int un), None))"

definition ParseInt64 :: "string \<Rightarrow> int64 \<times> err option" where
  "ParseInt64 s = (let (i, e) = parse_int 64 s in (word_of_int i, e))"

definition ParseUint64 :: "string \<Rightarrow> nat \<times> err option" where
  "ParseUint64 s = parse_uint 64 s"

section \<open>Round trip\<close>

lemma of_char_digit_char: "d < 10 \<Longrightarrow> (of_char (digit_char d) :: nat) = 48 + d"
  unfolding digit_char_def by (simp add: take_bit_eq_mod)

lemma is_digit_digit_char [simp]: "d < 10 \<Longrightarrow> is_digit (digit_char d)"
  by (simp add: is_digit_def of_char_digit_char)

lemma digit_val_digit_char [simp]: "d < 10 \<Longrightarrow> digit_val (digit_char d) = d"
  by (simp add: digit_val_def of_char_digit_char)

lemma digit_not_sign: "is_digit c \<Longrightarrow> c \<noteq> CHR ''-'' \<and> c \<noteq> CHR ''+''"
  by (auto simp: is_digit_def)

lemma fmt_nat_not_Nil [simp]: "fmt_nat n \<noteq> []"
  by (subst fmt_nat.simps) simp

lemma fmt_nat_digits: "\<forall>c \<in> set (fmt_nat n). is_digit c"
proof (induction n rule: fmt_nat.induct)
  case (1 n)
  then show ?case by (subst fmt_nat.simps) auto
qed

lemma parse_uint_loop_append:
  assumes "parse_uint_loop bits s0 n xs = (m, None)"
  shows "parse_uint_loop bits s0 n (xs @ ys) = parse_uint_loop bits s0 m ys"
  using assms
proof (induction xs arbitrary: n)
  case Nil
  then show ?case by simp
next
  case (Cons c cs)
  then show ?case by (auto simp: Let_def split: if_splits)
qed

lemma parse_uint_loop_fmt_nat:
  "n < 2 ^ bits \<Longrightarrow> parse_uint_loop bits s0 0 (fmt_nat n) = (n, None)"
proof (induction n rule: fmt_nat.induct)
  case (1 n)
  show ?case
  proof (cases "n < 10")
    case True
    with 1 show ?thesis by (subst fmt_nat.simps) simp
  next
    case False
    have "n div 10 < 2 ^ bits" using 1 by (meson div_le_dividend le_less_trans)
    with False 1 have "parse_uint_loop bits s0 0 (fmt_nat (n div 10)) = (n div 10, None)"
      by simp
    note step = parse_uint_loop_append [OF this, of "[digit_char (n mod 10)]"]
    from False 1 show ?thesis
      by (subst fmt_nat.simps) (simp add: step Let_def)
  qed
qed

lemma parse_uint_fmt_nat [simp]: "n < 2 ^ bits \<Longrightarrow> parse_uint bits (fmt_nat n) = (n, None)"
  by (simp add: parse_uint_def parse_uint_loop_fmt_nat)

lemma hd_fmt_nat: "hd (fmt_nat n) \<noteq> CHR ''-'' \<and> hd (fmt_nat n) \<noteq> CHR ''+''"
  using fmt_nat_digits [of n] digit_not_sign by (metis fmt_nat_not_Nil hd_in_set)

lemma parse_int_fmt_int:
  assumes "- (2 ^ (bits - 1)) \<le> i" and "i < 2 ^ (bits - 1)" and "0 < bits"
  shows "parse_int bits (fmt_int i) = (i, None)"
proof (cases "i < 0")
  case True
  have b: "nat (- i) \<le> 2 ^ (bits - 1)" using assms(1) by (simp add: nat_le_iff)
  have "(2::nat) ^ (bits - 1) < 2 ^ bits" using assms(3) by simp
  with b have "nat (- i) < 2 ^ bits" by linarith
  then show ?thesis using True b by (simp add: parse_int_def fmt_int_def)
next
  case False
  have b: "nat i < 2 ^ (bits - 1)" using False assms(2) by (simp add: nat_less_iff)
  have "(2::nat) ^ (bits - 1) \<le> 2 ^ bits" by (simp add: power_increasing)
  with b have "nat i < 2 ^ bits" by linarith
  then show ?thesis using False b hd_fmt_nat [of "nat i"]
    by (simp add: parse_int_def fmt_int_def)
qed

lemma ParseInt64_FormatInt64 [simp]: "ParseInt64 (FormatInt64 w) = (w, None)"
proof -
  have "- (2 ^ (64 - 1)) \<le> sint w" and "sint w < 2 ^ (64 - 1)"
    using sint_ge [of w] sint_lt [of w] by simp_all
  from parse_int_fmt_int [OF this] show ?thesis
    by (simp add: ParseInt64_def FormatInt64_def)
qed

lemma fmt_nat_all_digits: "list_all is_digit (fmt_nat n) \<and> fmt_nat n \<noteq> []"
  using fmt_nat_digits [of n] by (simp add: list_all_iff)

end
