(* ===== verification/ByteSize.thy ===== *)
theory ByteSize
  imports GoNum
begin

text \<open>
  Human-readable sizes (\<open>pkg/utils/byte_size.go\<close>): matching of the regular expression, the unit and the
  multiplication. The operations on \<open>float64\<close> are a parameter on bit patterns; what the
  laws need of them is that integers up to \<open>2^53\<close> are exact.
\<close>

section \<open>Floating-point numbers\<close>

type_synonym float64 = "64 word"

text \<open>
  \<open>ParseFloat\<close> with 64 bits, conversions from and to \<open>int64\<close>, the two operations the code uses, the
  format \<open>%.1f\<close>, and \<open>CustomSize\<close> of the units library.
\<close>

record float_ops =
  ParseFloat :: "string \<Rightarrow> float64 \<times> err option"
  FloatOfInt :: "int64 \<Rightarrow> float64"
  FloatMul :: "float64 \<Rightarrow> float64 \<Rightarrow> float64"
  FloatDiv :: "float64 \<Rightarrow> float64 \<Rightarrow> float64"
  FloatToInt :: "float64 \<Rightarrow> int64"
  FormatFloat1 :: "float64 \<Rightarrow> string"
  CustomSize :: "string \<Rightarrow> float64 \<Rightarrow> float64 \<Rightarrow> string list \<Rightarrow> string"

definition exact :: "int64 \<Rightarrow> bool" where
  "exact a \<longleftrightarrow> \<bar>sint a\<bar> \<le> 2 ^ 53"

definition float_contract :: "float_ops \<Rightarrow> bool" where
  "float_contract F \<longleftrightarrow>
     (\<forall>n. int n \<le> 2 ^ 53 \<longrightarrow> ParseFloat F (fmt_nat n) = (FloatOfInt F (of_nat n), None)) \<and>
     (\<forall>a b. exact a \<longrightarrow> exact b \<longrightarrow> \<bar>sint a * sint b\<bar> \<le> 2 ^ 53 \<longrightarrow>
        FloatMul F (FloatOfInt F a) (FloatOfInt F b) = FloatOfInt F (a * b)) \<and>
     (\<forall>a. exact a \<longrightarrow> FloatToInt F (FloatOfInt F a) = a)"

section \<open>The regular expression\<close>

text \<open>
  \<open>^(\d+(\.\d+)*) ?([kKmMgGtTpP])?[iI]?[bB]?$\<close>. The character classes that can follow one another are
  disjoint, so taking as much as possible at each step loses no match.
\<close>

text \<open>The longest prefix that matches \<open>(\.\d+)*\<close>, and the rest.\<close>

function dotted :: "string \<Rightarrow> string \<times> string" where
  "dotted s =
     (if s \<noteq> [] \<and> hd s = CHR ''.'' \<and> takeWhile is_digit (tl s) \<noteq> []
      then (let (m, r) = dotted (dropWhile is_digit (tl s))
            in (CHR ''.'' # takeWhile is_digit (tl s) @ m, r))
      else ([], s))"
  by pat_completeness auto
termination
proof (relation "measure length")
  fix s :: string
  assume "s \<noteq> [] \<and> hd s = CHR ''.'' \<and> takeWhile is_digit (tl s) \<noteq> []"
  then show "(dropWhile is_digit (tl s), s) \<in> measure length"
    using length_dropWhile_le [of is_digit "tl s"] by (cases s) auto
qed simp

declare dotted.simps [simp del]

definition optional_in :: "string \<Rightarrow> string \<Rightarrow> string \<times> string" where
  "optional_in cs s = (case s of
     [] \<Rightarrow> ([], [])
   | c # r \<Rightarrow> (if c \<in> set cs then ([c], r) else ([], s)))"

text \<open>The number and the unit prefix of a match.\<close>

definition size_match :: "string \<Rightarrow> (string \<times> string) option" where
  "size_match s =
     (let d = takeWhile is_digit s;
          (m, r) = dotted (dropWhile is_digit s);
          (_, r) = optional_in '' '' r;
          (u, r) = optional_in ''kKmMgGtTpP'' r;
          (_, r) = optional_in ''iI'' r;
          (_, r) = optional_in ''bB'' r
      in if d \<noteq> [] \<and> r = [] then Some (d @ m, u) else None)"

section \<open>Sizes\<close>

definition binaryMap :: "string \<rightharpoonup> int64" where
  "binaryMap = [''k'' \<mapsto> 1024, ''m'' \<mapsto> 1024 ^ 2, ''g'' \<mapsto> 1024 ^ 3, ''t'' \<mapsto> 1024 ^ 4,
     ''p'' \<mapsto> 1024 ^ 5, ''e'' \<mapsto> 1024 ^ 6]"

definition to_lower :: "char \<Rightarrow> char" where
  "to_lower c = (if 65 \<le> (of_char c :: nat) \<and> (of_char c :: nat) \<le> 90 then char_of (of_char c + 32 :: nat) else c)"

definition parseSize :: "float_ops \<Rightarrow> string \<Rightarrow> (string \<rightharpoonup> int64) \<Rightarrow> int64 \<times> err option" where
  "parseSize F sizeStr uMap =
     (case size_match sizeStr of
        None \<Rightarrow> (- 1, Some (ErrText (''invalid size: '' @ [CHR 0x27] @ sizeStr @ [CHR 0x27])))
      | Some (number, prefix) \<Rightarrow>
          (case ParseFloat F number of
             (_, Some e) \<Rightarrow> (- 1, Some e)
           | (sz, None) \<Rightarrow>
               (case uMap (map to_lower prefix) of
                  None \<Rightarrow> (FloatToInt F sz, None)
                | Some mul \<Rightarrow> (FloatToInt F (FloatMul F sz (FloatOfInt F mul)), None))))"

definition FromHumanSize :: "float_ops \<Rightarrow> string \<Rightarrow> int64 \<times> err option" where
  "FromHumanSize F sz = parseSize F sz binaryMap"

definition binaryAbbrs :: "string list" where
  "binaryAbbrs = [''B'', ''KiB'', ''MiB'', ''GiB'', ''TiB'', ''PiB'', ''EiB'', ''ZiB'', ''YiB'']"

definition utils_BytesSize :: "float_ops \<Rightarrow> float64 \<Rightarrow> string" where
  "utils_BytesSize F sz = CustomSize F ''%.2f%s'' sz (FloatOfInt F 1024) binaryAbbrs"

section \<open>Reading a size\<close>

lemma takeWhile_digits [simp]:
  "takeWhile is_digit (fmt_nat n @ r) = fmt_nat n @ takeWhile is_digit r"
  "dropWhile is_digit (fmt_nat n @ r) = dropWhile is_digit r"
  by (simp_all add: fmt_nat_digits)

lemma dotted_other [simp]: "s = [] \<or> hd s \<noteq> CHR ''.'' \<Longrightarrow> dotted s = ([], s)"
  by (subst dotted.simps) auto

lemma size_match_number:
  assumes "sp \<in> {[], '' ''}" "unit = [] \<or> (\<exists>c \<in> set ''kKmMgGtTpP''. unit = [c])"
    and "i \<in> {[], ''i'', ''I''}" "b \<in> {[], ''b'', ''B''}"
  shows "size_match (fmt_nat n @ sp @ unit @ i @ b) = Some (fmt_nat n, unit)"
proof -
  note tail = size_match_def optional_in_def is_digit_def
  have "unit \<in> {[], ''k'', ''K'', ''m'', ''M'', ''g'', ''G'', ''t'', ''T'', ''p'', ''P''}"
    using assms(2) by auto
  with assms show ?thesis
    by (auto simp: tail)
qed

lemma binaryMap_small:
  assumes "binaryMap s = Some m" "s \<noteq> ''e''"
  shows "1 \<le> sint m \<and> exact m"
proof -
  have "m \<in> {1024, 1048576, 1073741824, 1099511627776, 1125899906842624}"
    using assms by (simp add: binaryMap_def split: if_splits)
  then show ?thesis by (elim insertE emptyE) (simp_all add: exact_def)
qed

lemma lower_unit:
  assumes "c \<in> set ''kKmMgGtTpP''"
  shows "[to_lower c] \<noteq> ''e''"
proof -
  have "list_all (\<lambda>c. to_lower c \<noteq> CHR ''e'') ''kKmMgGtTpP''" by code_simp
  with assms show ?thesis unfolding list_all_iff by blast
qed

lemma sint64_of_int: "0 \<le> k \<Longrightarrow> k \<le> 2 ^ 53 \<Longrightarrow> sint (of_int k :: int64) = k"
  by (simp add: signed_of_int signed_take_bit_int_eq_self)

lemma sint64_nat: "int n \<le> 2 ^ 53 \<Longrightarrow> sint (of_nat n :: int64) = int n"
  by (simp add: signed_of_nat signed_take_bit_int_eq_self)

lemma FromHumanSize_plain:
  assumes "float_contract F" and "int n \<le> 2 ^ 53"
    and "sp \<in> {[], '' ''}" and "i \<in> {[], ''i'', ''I''}" and "b \<in> {[], ''b'', ''B''}"
  shows "FromHumanSize F (fmt_nat n @ sp @ i @ b) = (of_nat n, None)"
proof -
  have "size_match (fmt_nat n @ sp @ i @ b) = Some (fmt_nat n, [])"
    using size_match_number [of sp "[]" i b n] assms(3-5) by simp
  moreover have "exact (of_nat n)" using assms(2) by (simp add: exact_def sint64_nat)
  ultimately show ?thesis
    using assms by (simp add: FromHumanSize_def parseSize_def float_contract_def binaryMap_def)
qed

lemma FromHumanSize_bytes:
  assumes "float_contract F" and "int n \<le> 2 ^ 53"
  shows "FromHumanSize F (fmt_nat n @ ''B'') = (of_nat n, None)"
  using FromHumanSize_plain [OF assms, of "[]" "[]" "''B''"] by simp

lemma FromHumanSize_unit:
  assumes "float_contract F"
    and "sp \<in> {[], '' ''}" and "c \<in> set ''kKmMgGtTpP''"
    and "i \<in> {[], ''i'', ''I''}" and "b \<in> {[], ''b'', ''B''}"
    and "binaryMap [to_lower c] = Some m" and "int n * sint m \<le> 2 ^ 53"
  shows "FromHumanSize F (fmt_nat n @ sp @ [c] @ i @ b) = (of_nat n * m, None)"
proof -
  have match: "size_match (fmt_nat n @ sp @ [c] @ i @ b) = Some (fmt_nat n, [c])"
    using assms(2-5) by (intro size_match_number) auto
  have m: "1 \<le> sint m" "exact m" using binaryMap_small [OF assms(6)] lower_unit [OF assms(3)] by auto
  have "int n * 1 \<le> int n * sint m" using m(1) by (intro mult_left_mono) auto
  then have n: "int n \<le> 2 ^ 53" using assms(7) by linarith
  have en: "exact (of_nat n)" using n by (simp add: exact_def sint64_nat)
  have "of_nat n * m = (of_int (int n * sint m) :: int64)" by simp
  moreover have "sint (of_int (int n * sint m) :: int64) = int n * sint m"
    using assms(7) m(1) by (intro sint64_of_int) auto
  ultimately have prod: "sint (of_nat n * m) = int n * sint m" by metis
  have ep: "exact (of_nat n * m)" using assms(7) m(1) by (simp add: exact_def prod)
  have parse: "ParseFloat F (fmt_nat n) = (FloatOfInt F (of_nat n), None)"
    using assms(1) n by (simp add: float_contract_def)
  have "\<bar>sint (of_nat n :: int64) * sint m\<bar> \<le> 2 ^ 53"
    using assms(7) m(1) n by (simp add: sint64_nat)
  then have "FloatMul F (FloatOfInt F (of_nat n)) (FloatOfInt F m) = FloatOfInt F (of_nat n * m)"
    using assms(1) en m(2) by (simp add: float_contract_def)
  moreover have "FloatToInt F (FloatOfInt F (of_nat n * m)) = of_nat n * m"
    using assms(1) ep by (simp add: float_contract_def)
  ultimately show ?thesis
    using assms(6) by (simp add: FromHumanSize_def parseSize_def match [simplified] parse)
qed

text \<open>
  The powers of 1024 that the units stand for, in either case: 1 KiB is 1024 bytes.
\<close>

definition unit_power :: "(char \<times> nat) list" where
  "unit_power = zip ''kKmMgGtTpP'' [1, 1, 2, 2, 3, 3, 4, 4, 5, 5]"

lemma sint_unit_power: "e \<le> 5 \<Longrightarrow> sint (1024 ^ e :: int64) = 1024 ^ e"
proof -
  assume "e \<le> 5"
  then have "(1024 :: int) ^ e \<le> 1024 ^ 5" by (intro power_increasing) simp_all
  then have "sint (of_int (1024 ^ e) :: int64) = 1024 ^ e" by (intro sint64_of_int) simp_all
  then show ?thesis by simp
qed

lemma binaryMap_power:
  assumes "(c, e) \<in> set unit_power"
  shows "binaryMap [to_lower c] = Some (1024 ^ e) \<and> c \<in> set ''kKmMgGtTpP'' \<and> e \<le> 5"
proof -
  have "map (\<lambda>c. [to_lower c]) ''kKmMgGtTpP'' =
      [''k'', ''k'', ''m'', ''m'', ''g'', ''g'', ''t'', ''t'', ''p'', ''p'']"
    by code_simp
  then show ?thesis using assms by (auto simp: unit_power_def binaryMap_def)
qed

definition size_units :: "(string \<times> nat) set" where
  "size_units = {(''k'', 1), (''K'', 1), (''m'', 2), (''M'', 2), (''g'', 3), (''G'', 3), (''t'', 4), (''T'', 4),
     (''p'', 5), (''P'', 5), ([], 0)}"

lemma FromHumanSize_units:
  assumes "float_contract F" and "sp \<in> {[], '' ''}"
    and "i \<in> {[], ''i'', ''I''}" and "b \<in> {[], ''b'', ''B''}"
    and "int n * 1024 ^ e \<le> 2 ^ 53" and "(c, e) \<in> size_units"
  shows "FromHumanSize F (fmt_nat n @ sp @ c @ i @ b) = (of_int (int n * 1024 ^ e), None)"
proof (cases "c = []")
  case True
  then have "e = 0" using assms(6) by (simp add: size_units_def)
  then show ?thesis using FromHumanSize_plain [OF assms(1) _ assms(2-4), of n] assms(5) True by simp
next
  case False
  then obtain d where d: "c = [d]" "(d, e) \<in> set unit_power"
    using assms(6) unfolding size_units_def by (elim insertE) (simp_all add: unit_power_def)
  show ?thesis
    using FromHumanSize_unit [OF assms(1,2) _ assms(3,4), of d "1024 ^ e" n] binaryMap_power [OF d(2)]
      sint_unit_power [of e] d(1) assms(5)
    by simp
qed

text \<open>
  C40: A size as the cache reports it, a number with a unit in either case, an optional blank before
  and an optional \<open>i\<close> and \<open>B\<close> behind it, is read without loss as the number times the power of 1024
  of its unit (\<open>k\<close> the first, \<open>m\<close> the second, up to \<open>p\<close> the fifth), and a number of bytes without a unit as itself,
  as long as the result fits in the integers a double represents exactly.
\<close>

theorem FromHumanSize_exact:
  assumes "float_contract F" and "sp \<in> {[], '' ''}"
    and "i \<in> {[], ''i'', ''I''}" and "b \<in> {[], ''b'', ''B''}"
    and "int n * 1024 ^ e \<le> 2 ^ 53"
    and "(c, e) \<in> size_units"
  shows "FromHumanSize F (fmt_nat n @ sp @ c @ i @ b) = (of_int (int n * 1024 ^ e), None)"
  using assms by (rule FromHumanSize_units)

text \<open>
  The integers themselves stand for the doubles in the fake operations.
\<close>

definition integer_floats :: float_ops where
  "integer_floats = \<lparr>ParseFloat = (\<lambda>s. (of_nat (fst (ParseUint64 s)), snd (ParseUint64 s))),
     FloatOfInt = (\<lambda>i. i), FloatMul = (*), FloatDiv = (div), FloatToInt = (\<lambda>x. x),
     FormatFloat1 = (\<lambda>x. FormatInt64 x @ ''.0''),
     CustomSize = (\<lambda>f x b us. FormatInt64 x @ ''B'')\<rparr>"

lemma integer_floats_contract: "float_contract integer_floats"
  by (auto simp: float_contract_def integer_floats_def ParseUint64_def)

theorem FromHumanSize_exact_witness:
  "FromHumanSize integer_floats (fmt_nat 3 @ '' '' @ ''G'' @ ''i'' @ ''B'') = (3221225472, None)"
  using FromHumanSize_exact [OF integer_floats_contract,
      where sp = "'' ''" and c = "''G''" and e = 3 and i = "''i''" and b = "''B''" and n = 3]
  by (simp add: size_units_def)

text \<open>The largest unit of the table has no place in the expression.\<close>

theorem exa_not_read:
  assumes "c \<in> set ''eE''"
  shows "snd (FromHumanSize F (fmt_nat n @ [c] @ r)) \<noteq> None"
proof -
  have "size_match (fmt_nat n @ [c] @ r) = None"
    using assms by (auto simp: size_match_def optional_in_def is_digit_def)
  then show ?thesis by (simp add: FromHumanSize_def parseSize_def)
qed

theorem exa_not_read_witness:
  "binaryMap ''e'' \<noteq> None \<and> snd (FromHumanSize integer_floats (fmt_nat 1 @ ''E'' @ ''iB'')) \<noteq> None"
  using exa_not_read [of "CHR ''E''" integer_floats 1 "''iB''"] by (simp add: binaryMap_def)

end
