(* ===== verification/KubeTypes.thy ===== *)
theory KubeTypes
  imports GoNum
begin

text \<open>
  The Kubernetes objects the controllers read and write, as records with the fields the sources
  use. Their definition is not part of the repository: they are plain data here. A Go map is a
  partial function; a nil map and an empty one are both the empty map. A pointer to a value is an
  option. Times are nanoseconds. \<open>resource.Quantity\<close> is a type variable \<open>'q\<close>, and its
  operations are a parameter (\<open>quantity_ops\<close>).
\<close>

section \<open>Object metadata\<close>

type_synonym labels = "string \<rightharpoonup> string"

text \<open>A namespaced name: namespace and name.\<close>

type_synonym nskey = "string \<times> string"

record OwnerReference =
  or_APIVersion :: string
  or_Kind :: string
  or_Name :: string
  or_UID :: string
  or_Controller :: "bool option"

record ObjectMeta =
  om_Name :: string
  om_Namespace :: string
  om_UID :: string
  om_Generation :: int64
  om_CreationTimestamp :: int
  om_DeletionTimestamp :: "int option"
  om_Labels :: labels
  om_Annotations :: "string \<rightharpoonup> string"
  om_Finalizers :: "string list"
  om_OwnerReferences :: "OwnerReference list"

definition meta_key :: "ObjectMeta \<Rightarrow> nskey" where
  "meta_key m = (om_Namespace m, om_Name m)"

text \<open>The zero value of \<open>ObjectMeta\<close> but for the namespace and the name.\<close>

definition named_meta :: "string \<Rightarrow> string \<Rightarrow> ObjectMeta" where
  "named_meta ns n = \<lparr>om_Name = n, om_Namespace = ns, om_UID = [], om_Generation = 0,
     om_CreationTimestamp = 0, om_DeletionTimestamp = None, om_Labels = Map.empty,
     om_Annotations = Map.empty, om_Finalizers = [], om_OwnerReferences = []\<rparr>"

lemma meta_key_named_meta [simp]: "meta_key (named_meta ns n) = (ns, n)"
  by (simp add: meta_key_def named_meta_def)

section \<open>Workloads and nodes\<close>

datatype TaintEffect = NoSchedule | PreferNoSchedule | NoExecute

record Taint =
  taint_Key :: string
  taint_Value :: string
  taint_Effect :: TaintEffect

datatype ConditionStatus = ConditionTrue | ConditionFalse | ConditionUnknown

datatype NodeAddressType = NodeHostName | NodeInternalIP | NodeExternalIP | NodeInternalDNS | NodeExternalDNS

record 'q Node =
  node_meta :: ObjectMeta
  node_Unschedulable :: bool
  node_Taints :: "Taint list"
  node_AllocatableMemory :: 'q
  node_Conditions :: "(string \<times> ConditionStatus) list"
  node_Addresses :: "(NodeAddressType \<times> string) list"

abbreviation node_Name :: "'q Node \<Rightarrow> string" where
  "node_Name n \<equiv> om_Name (node_meta n)"

abbreviation node_Labels :: "'q Node \<Rightarrow> labels" where
  "node_Labels n \<equiv> om_Labels (node_meta n)"

text \<open>The API server fills in \<open>Spec.Replicas\<close> when it is absent, so the pointer is never nil.\<close>

record StatefulSet =
  sts_Kind :: string
  sts_Group :: string
  sts_meta :: ObjectMeta
  sts_SpecReplicas :: int32
  sts_Replicas :: int32
  sts_ReadyReplicas :: int32

record DaemonSet =
  ds_meta :: ObjectMeta
  ds_NodeSelector :: labels
  ds_DesiredNumberScheduled :: int32
  ds_UpdatedNumberScheduled :: int32
  ds_NumberReady :: int32
  ds_NumberAvailable :: int32
  ds_NumberUnavailable :: int32

record ConfigMap =
  cm_meta :: ObjectMeta
  cm_Data :: "string \<rightharpoonup> string"

record Service =
  svc_meta :: ObjectMeta
  svc_Ports :: "(string \<times> int32) list"

datatype PodPhase = PodPending | PodRunning | PodSucceeded | PodFailed | PodUnknown

record Volume =
  vol_Name :: string
  vol_ClaimName :: "string option"

record Pod =
  pod_meta :: ObjectMeta
  pod_Phase :: PodPhase
  pod_NodeName :: string
  pod_Volumes :: "Volume list"

record PersistentVolumeClaim =
  pvc_meta :: ObjectMeta

record PersistentVolume =
  pv_meta :: ObjectMeta

section \<open>Quantities\<close>

text \<open>
  The operations of \<open>resource.Quantity\<close> that are called: \<open>NewQuantity\<close>, \<open>Value\<close>,
  \<open>Add\<close>, \<open>Cmp\<close>, \<open>ParseQuantity\<close> and \<open>String\<close>, and \<open>BytesSize\<close> of
  \<open>go-units\<close> applied to \<open>float64\<close> of an integer.
\<close>

record 'q quantity_ops =
  NewQuantity :: "int64 \<Rightarrow> 'q"
  QuantityValue :: "'q \<Rightarrow> int64"
  QuantityAdd :: "'q \<Rightarrow> 'q \<Rightarrow> 'q"
  QuantityCmp :: "'q \<Rightarrow> 'q \<Rightarrow> int"
  ParseQuantity :: "string \<Rightarrow> err + 'q"
  QuantityString :: "'q \<Rightarrow> string"
  BytesSize :: "int64 \<Rightarrow> string"

text \<open>
  What the code relies on, for a predicate that selects the integral amounts: an amount built from
  an integer is integral and has that value, and the sum of two integral amounts is integral and
  has the sum of their values unless that sum leaves the range of \<open>int64\<close>.
\<close>

definition in_int64 :: "int \<Rightarrow> bool" where
  "in_int64 i \<longleftrightarrow> - (2 ^ 63) \<le> i \<and> i < 2 ^ 63"

definition quantity_laws :: "'q quantity_ops \<Rightarrow> ('q \<Rightarrow> bool) \<Rightarrow> bool" where
  "quantity_laws q integral \<longleftrightarrow>
     (\<forall>n. integral (NewQuantity q n) \<and> QuantityValue q (NewQuantity q n) = n) \<and>
     (\<forall>a b. integral a \<and> integral b \<and>
        in_int64 (sint (QuantityValue q a) + sint (QuantityValue q b)) \<longrightarrow>
        integral (QuantityAdd q a b) \<and>
        QuantityValue q (QuantityAdd q a b) = QuantityValue q a + QuantityValue q b)"

end
