(* ===== verification/ApiTypes.thy ===== *)
theory ApiTypes
  imports KubeTypes "HOL-Library.AList_Mapping"
begin

text \<open>
  The custom resources of \<open>api/v1alpha1\<close> and the constants and enumerations of \<open>pkg/common\<close>:
  the \<open>DataTable\<close> (\<open>datatable_types.go\<close>), the \<open>AlluxioRuntime\<close>
  (\<open>alluxioruntime_types.go\<close>) and its status (\<open>status.go\<close>, \<open>common.go\<close>).
\<close>

section \<open>Constants and enumerations of pkg/common\<close>

datatype MediumType = MEM | SSD | HDD

datatype CacheStoreType = DiskCacheStore | MemoryCacheStore

text \<open>\<open>tieredStoreOrderMap\<close> and \<open>GetDefaultTieredStoreOrder\<close>.\<close>

primrec GetDefaultTieredStoreOrder :: "MediumType \<Rightarrow> nat" where
  "GetDefaultTieredStoreOrder MEM = 0"
| "GetDefaultTieredStoreOrder SSD = 1"
| "GetDefaultTieredStoreOrder HDD = 2"

definition MediumType_String :: "MediumType \<Rightarrow> string" where
  "MediumType_String m = (case m of MEM \<Rightarrow> ''MEM'' | SSD \<Rightarrow> ''SSD'' | HDD \<Rightarrow> ''HDD'')"

text \<open>The media are ordered by their tier, so that the library's sorting applies to them.\<close>

instantiation MediumType :: linorder
begin

definition less_eq_MediumType :: "MediumType \<Rightarrow> MediumType \<Rightarrow> bool" where
  "less_eq_MediumType a b \<longleftrightarrow> GetDefaultTieredStoreOrder a \<le> GetDefaultTieredStoreOrder b"

definition less_MediumType :: "MediumType \<Rightarrow> MediumType \<Rightarrow> bool" where
  "less_MediumType a b \<longleftrightarrow> GetDefaultTieredStoreOrder a < GetDefaultTieredStoreOrder b"

instance
proof
  fix x y z :: MediumType
  show "(x < y) = (x \<le> y \<and> \<not> y \<le> x)"
    by (auto simp: less_eq_MediumType_def less_MediumType_def)
  show "x \<le> x" by (simp add: less_eq_MediumType_def)
  show "x \<le> y \<Longrightarrow> y \<le> z \<Longrightarrow> x \<le> z" by (simp add: less_eq_MediumType_def)
  show "x \<le> y \<Longrightarrow> y \<le> x \<Longrightarrow> x = y"
    by (cases x; cases y) (simp_all add: less_eq_MediumType_def)
  show "x \<le> y \<or> y \<le> x" by (auto simp: less_eq_MediumType_def)
qed

end

definition FluidExclusiveKey :: string where
  "FluidExclusiveKey = ''fluid_exclusive''"

definition LabelAnnotationPrefix :: string where
  "LabelAnnotationPrefix = ''fluid-io/''"

definition LabelAnnotationStorageCapacityPrefix :: string where
  "LabelAnnotationStorageCapacityPrefix = LabelAnnotationPrefix @ ''s-''"

definition LabelAnnotationFusePrefix :: string where
  "LabelAnnotationFusePrefix = LabelAnnotationPrefix @ ''f-''"

definition LabelAnnotationDatasetNum :: string where
  "LabelAnnotationDatasetNum = LabelAnnotationPrefix @ ''dataset-num''"

definition DeprecatedStorageCapacityPrefix :: string where
  "DeprecatedStorageCapacityPrefix = ''data.fluid.io/'' @ ''storage-''"

definition ExpectedFluidAnnotations :: "string \<rightharpoonup> string" where
  "ExpectedFluidAnnotations = [''CreatedBy'' \<mapsto> ''fluid'']"

definition ALLUXIO_RUNTIME :: string where
  "ALLUXIO_RUNTIME = ''alluxio''"

definition DefaultImagePullPolicy :: string where
  "DefaultImagePullPolicy = ''IfNotPresent''"

definition DEFAULT_ALLUXIO_RUNTIME_IMAGE :: string where
  "DEFAULT_ALLUXIO_RUNTIME_IMAGE =
     ''registry.cn-huhehaote.aliyuncs.com/alluxio/alluxio:2.3.0-SNAPSHOT-2c41226''"

definition DEFAULT_ALLUXIO_FUSE_IMAGE :: string where
  "DEFAULT_ALLUXIO_FUSE_IMAGE =
     ''registry.cn-huhehaote.aliyuncs.com/alluxio/alluxio-fuse:2.3.0-SNAPSHOT-2c41226''"

definition DefaultInitImage :: string where
  "DefaultInitImage = ''registry.cn-hangzhou.aliyuncs.com/fluid/init-users:v0.3.0-1467caa''"

section \<open>The DataTable resource\<close>

record Table =
  tbl_TableName :: string
  tbl_PreUrl :: string
  tbl_ColumnName :: "string list"
  tbl_PartitionColumn :: "(string, string) mapping list"

record Schema =
  sch_SchemaName :: string
  sch_Tables :: "Table list"

text \<open>
  \<open>IntelligentCache\<close> is a field of the resource's CRD and is read by the controller, but the Go
  structure lacks it.
\<close>

record DataTableSpec =
  dts_Url :: string
  dts_Schemas :: "Schema list"
  dts_IntelligentCache :: bool

datatype DatatablePhase = BoundDatasetPhase | FailedDatasetPhase | NotBoundDatasetPhase

datatype DatatableConditionType =
  RuntimeScheduled | DatasetReady | DatasetUpdateReady | DatasetUpdating | DatasetInitialized

record DatatableCondition =
  dtc_Type :: DatatableConditionType
  dtc_Status :: ConditionStatus
  dtc_Reason :: string
  dtc_Message :: string
  dtc_LastUpdateTime :: int
  dtc_LastTransitionTime :: int

record DataTableStatus =
  dtst_Schemas :: "Schema list"
  dtst_UfsTotal :: string
  dtst_Phase :: "DatatablePhase option"
  dtst_Conditions :: "DatatableCondition list"
  dtst_CacheStates :: "(string, string) mapping option"

record DataTable =
  dt_meta :: ObjectMeta
  dt_Spec :: DataTableSpec
  dt_Status :: DataTableStatus

section \<open>The AlluxioRuntime resource\<close>

record 'q ResourceRequirements =
  rr_Limits :: "string \<rightharpoonup> 'q"
  rr_Requests :: "string \<rightharpoonup> 'q"

record InitUsersSpec =
  iu_Image :: string
  iu_ImageTag :: string
  iu_ImagePullPolicy :: string
  iu_Env :: "string \<rightharpoonup> string"

record VersionSpec =
  ver_Image :: string
  ver_ImageTag :: string
  ver_ImagePullPolicy :: string

text \<open>The user and group that run a container; both identifiers are pointers.\<close>

record User =
  user_UID :: "int64 option"
  user_GID :: "int64 option"
  user_UserName :: string
  user_GroupName :: string

record AlluxioCompTemplateSpec =
  comp_Replicas :: int32
  comp_JvmOptions :: "string list"
  comp_Properties :: "string \<rightharpoonup> string"
  comp_Ports :: "string \<rightharpoonup> int"
  comp_Env :: "string \<rightharpoonup> string"
  comp_Enabled :: bool
  comp_NodeSelector :: "(string \<rightharpoonup> string) option"

record AlluxioFuseSpec =
  fuse_Image :: string
  fuse_ImageTag :: string
  fuse_ImagePullPolicy :: string
  fuse_JvmOptions :: "string list"
  fuse_Properties :: "string \<rightharpoonup> string"
  fuse_Env :: "string \<rightharpoonup> string"
  fuse_Args :: "string list"
  fuse_Global :: bool
  fuse_NodeSelector :: "string \<rightharpoonup> string"

record 'q TierLevel =
  lvl_MediumType :: MediumType
  lvl_Path :: string
  lvl_Quota :: "'q option"
  lvl_QuotaList :: string
  lvl_High :: string
  lvl_Low :: string

type_synonym 'q TieredStore = "'q TierLevel list"

record AlluxioData =
  data_Replicas :: int32
  data_Pin :: bool

record 'q AlluxioRuntimeSpec =
  spec_AlluxioVersion :: VersionSpec
  spec_Master :: AlluxioCompTemplateSpec
  spec_JobMaster :: AlluxioCompTemplateSpec
  spec_Worker :: AlluxioCompTemplateSpec
  spec_JobWorker :: AlluxioCompTemplateSpec
  spec_APIGateway :: AlluxioCompTemplateSpec
  spec_InitUsers :: InitUsersSpec
  spec_Fuse :: AlluxioFuseSpec
  spec_Properties :: "string \<rightharpoonup> string"
  spec_JvmOptions :: "string list"
  spec_TieredStore :: "'q TieredStore"
  spec_Data :: AlluxioData
  spec_Replicas :: int32
  spec_RunAs :: "User option"
  spec_DisablePrometheus :: bool
  spec_HadoopConfig :: string

datatype RuntimePhase =
  RuntimePhaseNone | RuntimePhaseNotReady | RuntimePhasePartialReady | RuntimePhaseReady

datatype RuntimeConditionType =
    RuntimeMasterInitialized | RuntimeMasterReady
  | RuntimeWorkersInitialized | RuntimeWorkersReady
  | RuntimeWorkerScaledIn | RuntimeWorkerScaledOut
  | RuntimeFusesInitialized | RuntimeFusesReady
  | RuntimeFusesScaledIn | RuntimeFusesScaledOut

record RuntimeCondition =
  rc_Type :: RuntimeConditionType
  rc_Status :: ConditionStatus
  rc_Reason :: string
  rc_Message :: string
  rc_LastProbeTime :: int
  rc_LastTransitionTime :: int

text \<open>
  The cache states are an option because the code tells a nil map from an empty one when it
  compares the old status with the new one.
\<close>

record RuntimeStatus =
  st_ValueFileConfigmap :: string
  st_MasterPhase :: RuntimePhase
  st_MasterReason :: string
  st_WorkerPhase :: RuntimePhase
  st_WorkerReason :: string
  st_DesiredWorkerNumberScheduled :: int32
  st_CurrentWorkerNumberScheduled :: int32
  st_WorkerNumberReady :: int32
  st_WorkerNumberAvailable :: int32
  st_WorkerNumberUnavailable :: int32
  st_DesiredMasterNumberScheduled :: int32
  st_CurrentMasterNumberScheduled :: int32
  st_MasterNumberReady :: int32
  st_FusePhase :: RuntimePhase
  st_FuseReason :: string
  st_CurrentFuseNumberScheduled :: int32
  st_DesiredFuseNumberScheduled :: int32
  st_FuseNumberReady :: int32
  st_FuseNumberUnavailable :: int32
  st_FuseNumberAvailable :: int32
  st_SetupDuration :: string
  st_Conditions :: "RuntimeCondition list"
  st_CacheStates :: "(string, string) mapping option"
  st_Selector :: string
  st_APIGatewayStatus :: "string option"

record 'q AlluxioRuntime =
  rt_meta :: ObjectMeta
  rt_Spec :: "'q AlluxioRuntimeSpec"
  rt_Status :: RuntimeStatus

text \<open>\<open>Replicas\<close>, the replicas of the runtime's workers.\<close>

definition Replicas :: "'q AlluxioRuntime \<Rightarrow> int32" where
  "Replicas runtime = spec_Replicas (rt_Spec runtime)"

end
