(* ===== verification/Client.thy ===== *)
theory Client
  imports ApiTypes
begin

text \<open>
  The services outside the repository that the code calls, as parameters. A \<open>client\<close> stands for
  the Kubernetes API client (controller-runtime), for \<open>retry.RetryOnConflict\<close>, \<open>wait.Poll\<close>,
  \<open>labels.Parse\<close> and the clock. Its fields are programs over an abstract world \<open>'w\<close>, one per kind of object and
  verb. What the code relies on is stated by named predicates on a client
  (\<open>retry_contract\<close>, \<open>status_update_contract\<close>, \<dots>); a theorem that needs one has it as a
  hypothesis.

  A function given to \<open>RetryOnConflict\<close> is a closure: it changes variables of its enclosing
  function, and these changes survive a failed attempt. The record \<open>captured\<close> holds those
  variables, and a flag that says that the closure panicked.
\<close>

section \<open>Label changes\<close>

text \<open>\<open>OperationType\<close>, \<open>LabelToModify\<close> and \<open>LabelsToModify\<close> of \<open>pkg/common/label.go\<close>.\<close>

datatype OperationType = AddLabel | DeleteLabel | UpdateLabel

record LabelToModify =
  labelKey :: string
  labelValue :: string
  operationType :: OperationType

type_synonym LabelsToModify = "LabelToModify list"

text \<open>A map of labels with no entry: \<open>len(node.Labels) == 0\<close>.\<close>

definition no_labels :: "labels \<Rightarrow> bool" where
  "no_labels l \<longleftrightarrow> l = Map.empty"

declare no_labels_def [code del]

section \<open>Variables captured by closures\<close>

record captured =
  cap_ready :: bool
  cap_masterReady :: bool
  cap_workerReady :: bool
  cap_healthy :: bool
  cap_labelsToModify :: LabelsToModify
  cap_modifiedLabels :: "string list"
  cap_panicked :: bool

definition captured0 :: captured where
  "captured0 = \<lparr>cap_ready = False, cap_masterReady = False, cap_workerReady = False,
     cap_healthy = False, cap_labelsToModify = [], cap_modifiedLabels = [],
     cap_panicked = False\<rparr>"

section \<open>The client\<close>

type_synonym selector = "labels \<Rightarrow> bool"

record ('w, 'q) client =
  Get_AlluxioRuntime :: "nskey \<Rightarrow> ('w, err + 'q AlluxioRuntime) state"
  Get_DataTable :: "nskey \<Rightarrow> ('w, err + DataTable) state"
  Get_StatefulSet :: "nskey \<Rightarrow> ('w, err + StatefulSet) state"
  Get_DaemonSet :: "nskey \<Rightarrow> ('w, err + DaemonSet) state"
  Get_Node :: "string \<Rightarrow> ('w, err + 'q Node) state"
  Get_ConfigMap :: "nskey \<Rightarrow> ('w, err + ConfigMap) state"
  Get_Service :: "nskey \<Rightarrow> ('w, err + Service) state"
  Get_Namespace :: "string \<Rightarrow> ('w, err option) state"
  Get_Pod :: "nskey \<Rightarrow> ('w, err + Pod) state"
  Get_PVC :: "nskey \<Rightarrow> ('w, err + PersistentVolumeClaim) state"
  Get_PV :: "string \<Rightarrow> ('w, err + PersistentVolume) state"
  List_AlluxioRuntime :: "('w, err + 'q AlluxioRuntime list) state"
  List_DataTable :: "selector \<Rightarrow> ('w, err + DataTable list) state"
  List_Node :: "selector \<Rightarrow> ('w, err + 'q Node list) state"
  List_Pod :: "string option \<Rightarrow> selector \<Rightarrow> ('w, err + Pod list) state"
  Update_AlluxioRuntime :: "'q AlluxioRuntime \<Rightarrow> ('w, err + 'q AlluxioRuntime) state"
  Update_DataTable :: "DataTable \<Rightarrow> ('w, err + DataTable) state"
  Update_Node :: "'q Node \<Rightarrow> ('w, err option) state"
  Update_PVC :: "PersistentVolumeClaim \<Rightarrow> ('w, err option) state"
  StatusUpdate_AlluxioRuntime :: "'q AlluxioRuntime \<Rightarrow> ('w, err option) state"
  PatchLabels_Node :: "string \<Rightarrow> (string \<rightharpoonup> string option) \<Rightarrow> ('w, err option) state"
  Create_Namespace :: "string \<Rightarrow> ('w, err option) state"
  Delete_ConfigMap :: "ConfigMap \<Rightarrow> ('w, err option) state"
  Delete_PVC :: "PersistentVolumeClaim \<Rightarrow> ('w, err option) state"
  Delete_PV :: "PersistentVolume \<Rightarrow> ('w, err option) state"
  LabelsParse :: "string \<Rightarrow> err + selector"
  RetryOnConflict :: "('w \<times> captured, err option) state \<Rightarrow> ('w \<times> captured, err option) state"
  Poll :: "('w, bool \<times> err option) state \<Rightarrow> ('w, err option) state"
  Now :: "('w, int) state"

text \<open>Selecting every object: empty list options.\<close>

definition everything :: selector where
  "everything l \<longleftrightarrow> True"

section \<open>Running closures\<close>

text \<open>A program over the world inside a closure, and reading and writing captured variables.\<close>

definition call :: "('w, 'a) state \<Rightarrow> ('w \<times> captured, 'a) state" where
  "call m = State (\<lambda>(w, c). case run_state m w of (x, w') \<Rightarrow> (x, (w', c)))"

definition get_captured :: "('w \<times> captured, captured) state" where
  "get_captured = State (\<lambda>(w, c). (c, (w, c)))"

definition upd_captured :: "(captured \<Rightarrow> captured) \<Rightarrow> ('w \<times> captured, unit) state" where
  "upd_captured f = State (\<lambda>(w, c). ((), (w, f c)))"

text \<open>\<open>RetryOnConflict\<close> called from a function whose captured variables have their zero values.\<close>

definition retrying ::
    "('w, 'q) client \<Rightarrow> ('w \<times> captured, err option) state \<Rightarrow> ('w, err option \<times> captured) state" where
  "retrying cl fn = State (\<lambda>w. case run_state (RetryOnConflict cl fn) (w, captured0) of
     (e, (w', c)) \<Rightarrow> ((e, c), w'))"

lemma run_call [run_simps]:
  "run_state (call m) (w, c) = (fst (run_state m w), (snd (run_state m w), c))"
  by (simp add: call_def split: prod.split)

lemma run_get_captured [run_simps]: "run_state get_captured (w, c) = (c, (w, c))"
  by (simp add: get_captured_def)

lemma run_upd_captured [run_simps]: "run_state (upd_captured f) (w, c) = ((), (w, f c))"
  by (simp add: upd_captured_def)

section \<open>Contracts\<close>

text \<open>
  \<open>RetryOnConflict\<close> runs the function once or more: it runs it again only after an attempt
  that ended in a conflict, and returns what the last attempt returned. Other actors may change
  the world between two attempts.
\<close>

inductive retries ::
    "('w \<times> captured, err option) state \<Rightarrow> 'w \<times> captured
      \<Rightarrow> err option \<times> ('w \<times> captured) \<Rightarrow> bool"
  for fn where
  retries_last: "run_state fn s = res \<Longrightarrow> retries fn s res"
| retries_again: "run_state fn s = (Some e, (w', c')) \<Longrightarrow> is_conflict e \<Longrightarrow>
    retries fn (w'', c') res \<Longrightarrow> retries fn s res"

definition retry_contract :: "('w, 'q) client \<Rightarrow> bool" where
  "retry_contract cl \<longleftrightarrow> (\<forall>fn s. retries fn s (run_state (RetryOnConflict cl fn) s))"

text \<open>
  A successful \<open>Status().Update\<close> leaves the runtime with the given status in the store, with the
  specification it was read with: an update of an outdated object is a conflict. \<open>stored\<close>
  reads the store in a state of the world.
\<close>

type_synonym ('w, 'q) runtime_store = "'w \<Rightarrow> nskey \<Rightarrow> 'q AlluxioRuntime option"

definition status_update_contract ::
    "('w, 'q) client \<Rightarrow> ('w, 'q) runtime_store \<Rightarrow> bool" where
  "status_update_contract cl stored \<longleftrightarrow>
     (\<forall>rt w w'. run_state (StatusUpdate_AlluxioRuntime cl rt) w = (None, w') \<longrightarrow>
        (\<exists>r. stored w' (meta_key (rt_meta rt)) = Some r \<and> rt_Status r = rt_Status rt \<and>
          rt_Spec r = rt_Spec rt))"

text \<open>
  A successful \<open>Get\<close> returns the stored object, under the name asked for, and does not change it.
\<close>

definition get_runtime_contract ::
    "('w, 'q) client \<Rightarrow> ('w, 'q) runtime_store \<Rightarrow> bool" where
  "get_runtime_contract cl stored \<longleftrightarrow>
     (\<forall>k w w' rt. run_state (Get_AlluxioRuntime cl k) w = (Inr rt, w') \<longrightarrow>
        stored w' k = Some rt \<and> meta_key (rt_meta rt) = k)"

text \<open>
  A successful \<open>Update\<close> stores the given object and returns it as it is stored, with the finalizers
  it was given.
\<close>

definition update_runtime_contract ::
    "('w, 'q) client \<Rightarrow> ('w, 'q) runtime_store \<Rightarrow> bool" where
  "update_runtime_contract cl stored \<longleftrightarrow>
     (\<forall>rt w w' r. run_state (Update_AlluxioRuntime cl rt) w = (Inr r, w') \<longrightarrow>
        stored w' (meta_key (rt_meta rt)) = Some r \<and>
        om_Finalizers (rt_meta r) = om_Finalizers (rt_meta rt))"

text \<open>
  Data tables: a successful \<open>Get\<close> returns the stored object, a successful \<open>Update\<close> stores the given
  labels, finalizers, specification and status (the resource has no status subresource).
\<close>

definition datatable_contract ::
    "('w, 'q) client \<Rightarrow> ('w \<Rightarrow> nskey \<rightharpoonup> DataTable) \<Rightarrow> bool" where
  "datatable_contract cl at \<longleftrightarrow>
     (\<forall>k w w' dt. run_state (Get_DataTable cl k) w = (Inr dt, w') \<longrightarrow>
        at w' k = Some dt \<and> meta_key (dt_meta dt) = k) \<and>
     (\<forall>dt w w' d. run_state (Update_DataTable cl dt) w = (Inr d, w') \<longrightarrow>
        at w' (meta_key (dt_meta dt)) = Some d \<and>
        om_Labels (dt_meta d) = om_Labels (dt_meta dt) \<and>
        om_Finalizers (dt_meta d) = om_Finalizers (dt_meta dt) \<and>
        dt_Spec d = dt_Spec dt \<and> dt_Status d = dt_Status dt)"

text \<open>Reading the clock, a service or a runtime does not change a stored runtime.\<close>

definition quiet_contract :: "('w, 'q) client \<Rightarrow> ('w, 'q) runtime_store \<Rightarrow> bool" where
  "quiet_contract cl stored \<longleftrightarrow>
     (\<forall>w. stored (snd (run_state (Now cl) w)) = stored w) \<and>
     (\<forall>k w. stored (snd (run_state (Get_Service cl k) w)) = stored w) \<and>
     (\<forall>k w. stored (snd (run_state (Get_AlluxioRuntime cl k) w)) = stored w)"

text \<open>
  \<open>labels.Parse\<close> of the requirement that a label is true selects the objects with that value. The API server
  admits only labels without the characters that the syntax of selectors and the quotes of statements use.
\<close>

definition label_key :: "string \<Rightarrow> bool" where
  "label_key k \<longleftrightarrow> CHR ''='' \<notin> set k \<and> CHR '','' \<notin> set k \<and> CHR ''!'' \<notin> set k \<and> CHR 0x22 \<notin> set k"

definition parse_contract :: "('w, 'q) client \<Rightarrow> bool" where
  "parse_contract cl \<longleftrightarrow>
     (\<forall>k sel. LabelsParse cl (k @ ''=true'') = Inr sel \<longrightarrow> label_key k \<longrightarrow>
        (\<forall>l. sel l \<longleftrightarrow> l k = Some ''true''))"

text \<open>
  What a strategic merge patch does to the labels of a node: a value is set, \<open>null\<close> deletes.
  A successful \<open>Patch\<close> merges the patch into the stored labels, and a successful \<open>Update\<close>
  stores the labels of the given node; \<open>node_labels\<close> reads the store.
\<close>

definition merge_labels :: "labels \<Rightarrow> (string \<rightharpoonup> string option) \<Rightarrow> labels" where
  "merge_labels labels p k = (case p k of None \<Rightarrow> labels k | Some v \<Rightarrow> v)"

type_synonym 'w label_store = "'w \<Rightarrow> string \<Rightarrow> labels option"

definition patch_contract :: "('w, 'q) client \<Rightarrow> 'w label_store \<Rightarrow> bool" where
  "patch_contract cl node_labels \<longleftrightarrow>
     (\<forall>n p w w' l. node_labels w n = Some l \<longrightarrow>
        run_state (PatchLabels_Node cl n p) w = (None, w') \<longrightarrow>
        node_labels w' n = Some (merge_labels l p))"

definition update_node_contract :: "('w, 'q) client \<Rightarrow> 'w label_store \<Rightarrow> bool" where
  "update_node_contract cl node_labels \<longleftrightarrow>
     (\<forall>node w w'. run_state (Update_Node cl node) w = (None, w') \<longrightarrow>
        node_labels w' (node_Name node) = Some (node_Labels node))"

text \<open>
  A successful \<open>Get\<close> of a node returns the stored labels, and reading leaves them alone.
  \<open>Poll\<close> does nothing to the world but run the condition: what the condition keeps, it keeps.
\<close>

definition get_node_contract :: "('w, 'q) client \<Rightarrow> 'w label_store \<Rightarrow> bool" where
  "get_node_contract cl node_labels \<longleftrightarrow>
     (\<forall>n w r w'. run_state (Get_Node cl n) w = (r, w') \<longrightarrow>
        node_labels w' = node_labels w \<and>
        (\<forall>node. r = Inr node \<longrightarrow> node_Name node = n \<and> node_labels w n = Some (node_Labels node)))"

definition poll_contract :: "('w, 'q) client \<Rightarrow> bool" where
  "poll_contract cl \<longleftrightarrow>
     (\<forall>P fn w. (\<forall>w. P w \<longrightarrow> P (snd (run_state fn w))) \<longrightarrow> P w \<longrightarrow> P (snd (run_state (Poll cl fn) w)))"

text \<open>
  Config maps: a \<open>Get\<close> changes nothing, answers not-found only for an absent object and returns the
  object of the given name; a successful \<open>Delete\<close> removes exactly that object.
\<close>

definition configmap_contract ::
    "('w, 'q) client \<Rightarrow> ('w \<Rightarrow> nskey \<rightharpoonup> ConfigMap) \<Rightarrow> bool" where
  "configmap_contract cl cm_at \<longleftrightarrow>
     (\<forall>k w r w'. run_state (Get_ConfigMap cl k) w = (r, w') \<longrightarrow> cm_at w' = cm_at w \<and>
        (\<forall>x. r = Inl x \<and> is_not_found x \<longrightarrow> cm_at w k = None) \<and>
        (\<forall>cm. r = Inr cm \<longrightarrow> meta_key (cm_meta cm) = k)) \<and>
     (\<forall>cm w w'. run_state (Delete_ConfigMap cl cm) w = (None, w') \<longrightarrow>
        cm_at w' = (cm_at w)(meta_key (cm_meta cm) := None))"

text \<open>
  No other actor changes what \<open>v\<close> reads between two attempts: when an attempt leaves it alone,
  so does \<open>RetryOnConflict\<close>.
\<close>

definition retry_quiet :: "('w, 'q) client \<Rightarrow> ('w \<Rightarrow> 'v) \<Rightarrow> bool" where
  "retry_quiet cl v \<longleftrightarrow> (\<forall>fn. leaves (\<lambda>s. v (fst s)) fn \<longrightarrow>
     leaves (\<lambda>s. v (fst s)) (RetryOnConflict cl fn))"

lemma leaves_call [leaves_intros]: "leaves v m \<Longrightarrow> leaves (\<lambda>s. v (fst s)) (call m)"
  by (auto simp: leaves_def call_def split: prod.split) (metis snd_conv)

lemma leaves_captured [leaves_intros]: "leaves (\<lambda>s. v (fst s)) (upd_captured f)"
  by (auto simp: leaves_def upd_captured_def)

lemma retrying_leaves:
  assumes "retry_quiet cl v" "leaves (\<lambda>s. v (fst s)) fn"
  shows "leaves v (retrying cl fn)"
proof -
  have "leaves (\<lambda>s. v (fst s)) (RetryOnConflict cl fn)" using assms by (simp add: retry_quiet_def)
  then show ?thesis by (simp add: leaves_def retrying_def split: prod.split) (metis fst_conv snd_conv)
qed

section \<open>Reasoning about retries\<close>

text \<open>
  A property of the captured variables that every attempt keeps, and a postcondition that every
  attempt establishes from it, hold of the result.
\<close>

lemma retries_induct_post:
  assumes "retries fn s res" "I (snd s)"
    and step: "\<And>w c e w' c'. I c \<Longrightarrow> run_state fn (w, c) = (e, (w', c')) \<Longrightarrow>
      I c' \<and> Q e w' c'"
  shows "Q (fst res) (fst (snd res)) (snd (snd res)) \<and> I (snd (snd res))"
  using assms(1,2)
proof (induction rule: retries.induct)
  case (retries_last s res)
  then show ?case
    using step [of "snd s" "fst s" "fst res" "fst (snd res)" "snd (snd res)"] by simp
next
  case (retries_again s e w' c' w'' res)
  then have "I c'"
    using step [of "snd s" "fst s" "Some e" w' c'] by simp
  then show ?case using retries_again.IH by simp
qed

lemma retrying_post:
  assumes "retry_contract cl" "run_state (retrying cl fn) w = ((e, c), w')" "I captured0"
    and "\<And>w c e w' c'. I c \<Longrightarrow> run_state fn (w, c) = (e, (w', c')) \<Longrightarrow>
      I c' \<and> Q e w' c'"
  shows "Q e w' c \<and> I c"
proof -
  let ?res = "run_state (RetryOnConflict cl fn) (w, captured0)"
  have r: "retries fn (w, captured0) ?res"
    using assms(1) unfolding retry_contract_def by blast
  have eq: "?res = (e, (w', c))"
    using assms(2) by (auto simp: retrying_def split: prod.splits)
  have "Q (fst ?res) (fst (snd ?res)) (snd (snd ?res)) \<and> I (snd (snd ?res))"
    by (rule retries_induct_post [OF r]) (use assms(3,4) in auto)
  then show ?thesis using eq by simp
qed

end
