(* ===== verification/FakeCluster.thy ===== *)
theory FakeCluster
  imports Client
begin

text \<open>
  A small in-memory cluster: a client over an explicit store, with quantities that are plain
  integers; beside it the catalog of Hive and the contents of Redis. It shows that the contracts of \<open>Client\<close> can hold together, and the concrete runs of
  the development use it. It models no code of the repository.
\<close>

record cluster =
  fc_runtimes :: "nskey \<rightharpoonup> int64 AlluxioRuntime"
  fc_rt_list :: "int64 AlluxioRuntime list"
  fc_datatables :: "nskey \<rightharpoonup> DataTable"
  fc_dt_list :: "DataTable list"
  fc_statefulsets :: "nskey \<rightharpoonup> StatefulSet"
  fc_daemonsets :: "nskey \<rightharpoonup> DaemonSet"
  fc_nodes :: "int64 Node list"
  fc_configmaps :: "nskey \<rightharpoonup> ConfigMap"
  fc_services :: "nskey \<rightharpoonup> Service"
  fc_namespaces :: "string list"
  fc_pods :: "Pod list"
  fc_pvcs :: "nskey \<rightharpoonup> PersistentVolumeClaim"
  fc_pvs :: "string \<rightharpoonup> PersistentVolume"
  fc_clock :: int
  fc_schema :: string
  fc_locations :: "string \<times> string \<rightharpoonup> string"
  fc_redis :: "string \<rightharpoonup> string"
  fc_scores :: "string list"

definition cluster0 :: cluster where
  "cluster0 = \<lparr>fc_runtimes = Map.empty, fc_rt_list = [], fc_datatables = Map.empty, fc_dt_list = [],
     fc_statefulsets = Map.empty, fc_daemonsets = Map.empty, fc_nodes = [],
     fc_configmaps = Map.empty, fc_services = Map.empty, fc_namespaces = [], fc_pods = [],
     fc_pvcs = Map.empty, fc_pvs = Map.empty, fc_clock = 0, fc_schema = [],
     fc_locations = Map.empty, fc_redis = Map.empty, fc_scores = []\<rparr>"

definition fake_lookup :: "('w \<Rightarrow> 'k \<rightharpoonup> 'v) \<Rightarrow> 'k \<Rightarrow> ('w, err + 'v) state" where
  "fake_lookup m k = State (\<lambda>w. (case m w k of None \<Rightarrow> Inl (NotFound ''not found'') | Some v \<Rightarrow> Inr v, w))"

definition fake_find :: "('w \<Rightarrow> 'v list) \<Rightarrow> ('v \<Rightarrow> bool) \<Rightarrow> ('w, err + 'v) state" where
  "fake_find m p = State (\<lambda>w. (case List.find p (m w) of
     None \<Rightarrow> Inl (NotFound ''not found'') | Some v \<Rightarrow> Inr v, w))"

definition fake_write :: "('w \<Rightarrow> bool) \<Rightarrow> ('w \<Rightarrow> 'w) \<Rightarrow> ('w, err option) state" where
  "fake_write ok f = State (\<lambda>w. if ok w then (None, f w) else (Some (NotFound ''not found''), w))"

text \<open>At most four attempts.\<close>

primrec attempts :: "nat \<Rightarrow> ('s, err option) state \<Rightarrow> ('s, err option) state" where
  "attempts 0 fn = fn"
| "attempts (Suc n) fn = do {
     e \<leftarrow> fn;
     case e of Some x \<Rightarrow> (if is_conflict x then attempts n fn else ret e) | None \<Rightarrow> ret None
   }"

text \<open>A poll that gives up after two tries.\<close>

primrec poll_tries :: "nat \<Rightarrow> ('w, bool \<times> err option) state \<Rightarrow> ('w, err option) state" where
  "poll_tries 0 f = ret (Some WaitTimeout)"
| "poll_tries (Suc n) f = do {
     (d, e) \<leftarrow> f;
     case e of Some x \<Rightarrow> ret (Some x) | None \<Rightarrow> (if d then ret None else poll_tries n f)
   }"

text \<open>The selector of a single equality requirement.\<close>

definition fake_parse :: "string \<Rightarrow> err + selector" where
  "fake_parse s = (if CHR ''='' \<in> set s
     then Inr (\<lambda>l. l (takeWhile (\<lambda>c. c \<noteq> CHR ''='') s) =
            Some (tl (dropWhile (\<lambda>c. c \<noteq> CHR ''='') s)))
     else Inl (ErrText ''unable to parse requirement''))"

definition set_node_labels :: "string \<Rightarrow> (labels \<Rightarrow> labels) \<Rightarrow> int64 Node list \<Rightarrow> int64 Node list" where
  "set_node_labels n f = map (\<lambda>x. if node_Name x = n
     then x\<lparr>node_meta := (node_meta x)\<lparr>om_Labels := f (node_Labels x)\<rparr>\<rparr> else x)"

definition runtime_at :: "cluster \<Rightarrow> nskey \<rightharpoonup> int64 AlluxioRuntime" where
  "runtime_at w k = (case fc_runtimes w k of
     Some r \<Rightarrow> (if meta_key (rt_meta r) = k then Some r else None) | None \<Rightarrow> None)"

definition datatable_at :: "cluster \<Rightarrow> nskey \<rightharpoonup> DataTable" where
  "datatable_at w k = (case fc_datatables w k of
     Some d \<Rightarrow> (if meta_key (dt_meta d) = k then Some d else None) | None \<Rightarrow> None)"

definition configmap_at :: "cluster \<Rightarrow> nskey \<rightharpoonup> ConfigMap" where
  "configmap_at w k = (case fc_configmaps w k of
     Some c \<Rightarrow> (if meta_key (cm_meta c) = k then Some c else None) | None \<Rightarrow> None)"

definition labels_at :: "cluster \<Rightarrow> string \<Rightarrow> labels option" where
  "labels_at w n = map_option node_Labels (List.find (\<lambda>x. node_Name x = n) (fc_nodes w))"

definition fake_client :: "(cluster, int64) client" where
  "fake_client = \<lparr>
     Get_AlluxioRuntime = fake_lookup runtime_at,
     Get_DataTable = fake_lookup datatable_at,
     Get_StatefulSet = fake_lookup fc_statefulsets,
     Get_DaemonSet = fake_lookup fc_daemonsets,
     Get_Node = (\<lambda>n. fake_find fc_nodes (\<lambda>x. node_Name x = n)),
     Get_ConfigMap = fake_lookup configmap_at,
     Get_Service = fake_lookup fc_services,
     Get_Namespace = (\<lambda>n. State (\<lambda>w. (if n \<in> set (fc_namespaces w) then None
        else Some (NotFound ''not found''), w))),
     Get_Pod = (\<lambda>k. fake_find fc_pods (\<lambda>p. meta_key (pod_meta p) = k)),
     Get_PVC = fake_lookup fc_pvcs,
     Get_PV = fake_lookup fc_pvs,
     List_AlluxioRuntime = State (\<lambda>w. (Inr (fc_rt_list w), w)),
     List_DataTable = (\<lambda>sel. State (\<lambda>w. (Inr (filter (\<lambda>d. sel (om_Labels (dt_meta d))) (fc_dt_list w)), w))),
     List_Node = (\<lambda>sel. State (\<lambda>w. (Inr (filter (\<lambda>n. sel (node_Labels n)) (fc_nodes w)), w))),
     List_Pod = (\<lambda>ns sel. State (\<lambda>w. (Inr (filter (\<lambda>p. sel (om_Labels (pod_meta p)) \<and>
        (case ns of None \<Rightarrow> True | Some n \<Rightarrow> om_Namespace (pod_meta p) = n)) (fc_pods w)), w))),
     Update_AlluxioRuntime = (\<lambda>r. State (\<lambda>w. if runtime_at w (meta_key (rt_meta r)) \<noteq> None
        then (Inr r, w\<lparr>fc_runtimes := (fc_runtimes w)(meta_key (rt_meta r) \<mapsto> r)\<rparr>)
        else (Inl (NotFound ''not found''), w))),
     Update_DataTable = (\<lambda>d. State (\<lambda>w. case datatable_at w (meta_key (dt_meta d)) of
          Some _ \<Rightarrow> (Inr d, w\<lparr>fc_datatables := (fc_datatables w)(meta_key (dt_meta d) \<mapsto> d)\<rparr>)
        | None \<Rightarrow> (Inl (NotFound ''not found''), w))),
     Update_Node = (\<lambda>n. fake_write (\<lambda>w. node_Name n \<in> set (map node_Name (fc_nodes w)))
        (\<lambda>w. w\<lparr>fc_nodes := map (\<lambda>x. if node_Name x = node_Name n then n else x) (fc_nodes w)\<rparr>)),
     Update_PVC = (\<lambda>c. fake_write (\<lambda>w. fc_pvcs w (meta_key (pvc_meta c)) \<noteq> None)
        (\<lambda>w. w\<lparr>fc_pvcs := (fc_pvcs w)(meta_key (pvc_meta c) \<mapsto> c)\<rparr>)),
     StatusUpdate_AlluxioRuntime = (\<lambda>r. fake_write (\<lambda>w. runtime_at w (meta_key (rt_meta r)) \<noteq> None)
        (\<lambda>w. w\<lparr>fc_runtimes := (fc_runtimes w)(meta_key (rt_meta r) :=
           map_option (\<lambda>old. old\<lparr>rt_Spec := rt_Spec r, rt_Status := rt_Status r\<rparr>)
             (fc_runtimes w (meta_key (rt_meta r))))\<rparr>)),
     PatchLabels_Node = (\<lambda>n p. fake_write (\<lambda>w. n \<in> set (map node_Name (fc_nodes w)))
        (\<lambda>w. w\<lparr>fc_nodes := set_node_labels n (\<lambda>l. merge_labels l p) (fc_nodes w)\<rparr>)),
     Create_Namespace = (\<lambda>n. fake_write (\<lambda>w. True)
        (\<lambda>w. w\<lparr>fc_namespaces := n # fc_namespaces w\<rparr>)),
     Delete_ConfigMap = (\<lambda>c. fake_write (\<lambda>w. configmap_at w (meta_key (cm_meta c)) \<noteq> None)
        (\<lambda>w. w\<lparr>fc_configmaps := (fc_configmaps w)(meta_key (cm_meta c) := None)\<rparr>)),
     Delete_PVC = (\<lambda>c. fake_write (\<lambda>w. fc_pvcs w (meta_key (pvc_meta c)) \<noteq> None)
        (\<lambda>w. w\<lparr>fc_pvcs := (fc_pvcs w)(meta_key (pvc_meta c) := None)\<rparr>)),
     Delete_PV = (\<lambda>v. fake_write (\<lambda>w. fc_pvs w (om_Name (pv_meta v)) \<noteq> None)
        (\<lambda>w. w\<lparr>fc_pvs := (fc_pvs w)(om_Name (pv_meta v) := None)\<rparr>)),
     LabelsParse = fake_parse,
     RetryOnConflict = attempts 3,
     Poll = poll_tries 2,
     Now = State (\<lambda>w. (fc_clock w, w\<lparr>fc_clock := fc_clock w + 1000000000\<rparr>))
   \<rparr>"

section \<open>The contracts hold\<close>

lemma attempts_retries: "retries fn s (run_state (attempts n fn) s)"
proof (induction n arbitrary: s)
  case 0
  then show ?case by (auto intro: retries_last)
next
  case (Suc n)
  obtain e w' c' where r: "run_state fn s = (e, (w', c'))" by (cases "run_state fn s") auto
  show ?case
  proof (cases e)
    case None
    then show ?thesis using r by (auto simp: run_simps intro: retries_last)
  next
    case (Some x)
    then show ?thesis
      using r Suc [of "(w', c')"]
      by (auto simp: run_simps intro: retries_last retries_again)
  qed
qed

lemma fake_retry: "retry_contract fake_client"
  by (simp add: retry_contract_def fake_client_def attempts_retries)

lemma fake_retry_quiet: "retry_quiet fake_client v"
proof -
  have "leaves u (attempts n fn)" if "leaves u fn" for u :: "cluster \<times> captured \<Rightarrow> 'a" and n fn
    using that by (induction n) (auto intro!: leaves_intros)
  then show ?thesis by (simp add: retry_quiet_def fake_client_def)
qed

lemma fake_get_runtime: "get_runtime_contract fake_client runtime_at"
  by (auto simp: get_runtime_contract_def fake_client_def fake_lookup_def runtime_at_def
      split: option.splits if_splits)

lemma fake_status_update: "status_update_contract fake_client runtime_at"
  by (auto simp: status_update_contract_def fake_client_def fake_write_def runtime_at_def
      split: option.splits if_splits)

lemma fake_update_runtime: "update_runtime_contract fake_client runtime_at"
  by (auto simp: update_runtime_contract_def fake_client_def runtime_at_def
      split: option.splits if_splits)

lemma fake_datatable: "datatable_contract fake_client datatable_at"
  by (auto simp: datatable_contract_def fake_client_def fake_lookup_def datatable_at_def
      split: option.splits if_splits)

lemma fake_quiet: "quiet_contract fake_client runtime_at"
  by (simp add: quiet_contract_def fake_client_def fake_lookup_def runtime_at_def [abs_def])

lemma fake_configmap: "configmap_contract fake_client configmap_at"
  by (auto simp: configmap_contract_def fake_client_def fake_lookup_def fake_write_def
      configmap_at_def [abs_def] fun_eq_iff split: option.splits if_splits)

lemma fake_parse_contract: "parse_contract fake_client"
  by (auto simp: parse_contract_def label_key_def fake_client_def fake_parse_def takeWhile_append2
      dropWhile_append split: if_splits)

lemma find_map_key:
  "(\<And>x. P (f x) = P x) \<Longrightarrow> List.find P (map f xs) = map_option f (List.find P xs)"
  by (induction xs) auto

lemma find_Some_P: "List.find P xs = Some x \<Longrightarrow> P x"
  by (induction xs) (auto split: if_splits)

lemma labels_at_set:
  "labels_at w n = Some l \<Longrightarrow>
   labels_at (w\<lparr>fc_nodes := set_node_labels n f (fc_nodes w)\<rparr>) n = Some (f l)"
proof -
  assume "labels_at w n = Some l"
  then obtain z where z: "List.find (\<lambda>x. node_Name x = n) (fc_nodes w) = Some z" "l = node_Labels z"
    by (auto simp: labels_at_def)
  then have "node_Name z = n" by (auto dest: find_Some_P)
  then show ?thesis
    using z by (simp add: labels_at_def set_node_labels_def find_map_key)
qed

lemma fake_patch: "patch_contract fake_client labels_at"
  by (auto simp: patch_contract_def fake_client_def fake_write_def labels_at_set split: if_splits)

lemma find_replace:
  "n = key x \<Longrightarrow> y \<in> set xs \<Longrightarrow> key y = n \<Longrightarrow>
   List.find (\<lambda>y. key y = n) (map (\<lambda>y. if key y = n then x else y) xs) = Some x"
  by (induction xs) auto

lemma fake_update_node: "update_node_contract fake_client labels_at"
proof -
  have "labels_at (w\<lparr>fc_nodes := map (\<lambda>x. if node_Name x = node_Name n then n else x) (fc_nodes w)\<rparr>)
      (node_Name n) = Some (node_Labels n)"
    if "x \<in> set (fc_nodes w)" "node_Name x = node_Name n" for w x n
    using find_replace [of "node_Name n" node_Name n x "fc_nodes w"] that
    by (simp add: labels_at_def)
  then have "node_Name n \<in> node_Name ` set (fc_nodes w) \<Longrightarrow>
      labels_at (w\<lparr>fc_nodes := map (\<lambda>x. if node_Name x = node_Name n then n else x) (fc_nodes w)\<rparr>)
        (node_Name n) = Some (node_Labels n)" for w n
    by (metis (no_types, lifting) imageE)
  then show ?thesis
    by (simp add: update_node_contract_def fake_client_def fake_write_def)
qed

lemma fake_get_node: "get_node_contract fake_client labels_at"
  by (auto simp: get_node_contract_def fake_client_def fake_find_def labels_at_def
      split: option.splits dest: find_Some_P)

lemma fake_poll: "poll_contract fake_client"
proof -
  have poll: "P (snd (run_state (poll_tries n fn) w))"
    if "\<forall>w. P w \<longrightarrow> P (snd (run_state fn w))" "P w" for P fn n w
    using that(2)
  proof (induction n arbitrary: w)
    case 0
    then show ?case by simp
  next
    case (Suc n)
    then have "P (snd (run_state fn w))" using that(1) by blast
    then show ?case using Suc.IH by (auto simp: run_simps split: prod.splits option.splits)
  qed
  have eq: "Poll fake_client = poll_tries 2" by (simp add: fake_client_def)
  show ?thesis
    unfolding poll_contract_def eq by (intro allI impI) (rule poll, blast+)
qed

end
