(* ===== verification/Utils.thy ===== *)
theory Utils
  imports FakeCluster "HOL-Library.FSet"
begin

text \<open>
  The helpers of \<open>pkg/utils\<close> and \<open>pkg/common/label.go\<close>: the results of a reconcile call
  (\<open>crtl_utils.go\<close>), string slices (\<open>slice.go\<close>, \<open>map.go\<close>), label changes and their UPDATE and
  PATCH modes (\<open>label.go\<close>), the conditions of a runtime (\<open>runtime_condition.go\<close>), the
  exclusive label (\<open>excluisve.go\<close>) and the arguments of the init container
  (\<open>init_user.go\<close>). The laws proved: a condition list keeps at most one condition per type and
  an update is what a later lookup finds; the PATCH mode and the UPDATE mode agree; slice
  subtraction and removal are filters.
\<close>

section \<open>Reconcile results\<close>

record Result =
  res_Requeue :: bool
  res_RequeueAfter :: int

type_synonym reconcile_result = "Result \<times> err option"

definition second :: int where
  "second = 1000000000"

definition IgnoreNotFound :: "err option \<Rightarrow> err option" where
  "IgnoreNotFound e = (case e of Some x \<Rightarrow> (if is_not_found x then None else e) | None \<Rightarrow> None)"

definition RequeueIfError :: "err option \<Rightarrow> reconcile_result" where
  "RequeueIfError e = (\<lparr>res_Requeue = False, res_RequeueAfter = 0\<rparr>, e)"

definition NoRequeue :: reconcile_result where
  "NoRequeue = RequeueIfError None"

definition RequeueAfterInterval :: "int \<Rightarrow> reconcile_result" where
  "RequeueAfterInterval interval = (\<lparr>res_Requeue = False, res_RequeueAfter = interval\<rparr>, None)"

definition RequeueImmediately :: reconcile_result where
  "RequeueImmediately = (\<lparr>res_Requeue = True, res_RequeueAfter = 0\<rparr>, None)"

definition RequeueImmediatelyUnlessGenerationChanged :: "int64 \<Rightarrow> int64 \<Rightarrow> reconcile_result" where
  "RequeueImmediatelyUnlessGenerationChanged prevGeneration curGeneration =
     (if prevGeneration = curGeneration then RequeueImmediately else NoRequeue)"

definition GetOrDefault :: "string option \<Rightarrow> string \<Rightarrow> string" where
  "GetOrDefault str defaultValue = (case str of None \<Rightarrow> defaultValue | Some s \<Rightarrow> s)"

definition HasDeletionTimestamp :: "ObjectMeta \<Rightarrow> bool" where
  "HasDeletionTimestamp obj \<longleftrightarrow> om_DeletionTimestamp obj \<noteq> None"

text \<open>
  \<open>Duration.Round(time.Second)\<close> (half a second rounds away from zero) and \<open>Duration.String\<close> for
  a whole number of seconds, as in the \<open>time\<close> package.
\<close>

definition round_second :: "int \<Rightarrow> int" where
  "round_second d =
     (let r = \<bar>d\<bar> mod second; base = \<bar>d\<bar> - r;
          x = (if r + r < second then base else base + second)
      in if d < 0 then - x else x)"

definition duration_string :: "int \<Rightarrow> string" where
  "duration_string d =
     (let u = \<bar>d\<bar> div second; s = u mod 60; m = (u div 60) mod 60; h = u div 3600;
          sign = (if d < 0 then ''-'' else [])
      in if u < 60 then sign @ fmt_int s @ ''s''
         else if u < 3600 then sign @ fmt_int m @ ''m'' @ fmt_int s @ ''s''
         else sign @ fmt_int h @ ''h'' @ fmt_int m @ ''m'' @ fmt_int s @ ''s'')"

text \<open>\<open>None\<close> stands for the zero \<open>finishTime\<close>, which is replaced by the clock.\<close>

definition CalculateDuration :: "('w, 'q) client \<Rightarrow> int \<Rightarrow> int option \<Rightarrow> ('w, string) state" where
  "CalculateDuration cl creationTime finishTime = do {
     finish \<leftarrow> (case finishTime of None \<Rightarrow> Now cl | Some t \<Rightarrow> ret t);
     ret (duration_string (round_second (finish - creationTime)))
   }"

section \<open>Slices and maps of strings\<close>

primrec ContainsString :: "string list \<Rightarrow> string \<Rightarrow> bool" where
  "ContainsString [] s = False"
| "ContainsString (item # slc) s = (if item = s then True else ContainsString slc s)"

primrec RemoveString :: "string list \<Rightarrow> string \<Rightarrow> string list" where
  "RemoveString [] s = []"
| "RemoveString (item # slc) s =
     (if item = s then RemoveString slc s else item # RemoveString slc s)"

text \<open>
  The selector is a map; its entries come in the order of the iteration. A label that is absent
  reads as the empty string.
\<close>

primrec ContainsSelector :: "labels \<Rightarrow> (string \<times> string) list \<Rightarrow> bool" where
  "ContainsSelector labels [] = True"
| "ContainsSelector labels (kv # selector) =
     (if (case labels (fst kv) of None \<Rightarrow> [] | Some v \<Rightarrow> v) \<noteq> snd kv then False
      else ContainsSelector labels selector)"

definition FillSliceWithString :: "string \<Rightarrow> nat \<Rightarrow> string list" where
  "FillSliceWithString str num = map (\<lambda>_. str) [0..<num]"

text \<open>\<open>SubtractString\<close>: a hash set of \<open>x\<close>, less the members of \<open>y\<close>, filters \<open>x\<close>.\<close>

definition hash_insert_all :: "string list \<Rightarrow> string fset" where
  "hash_insert_all xs = fold finsert xs {||}"

definition hash_delete_all :: "string list \<Rightarrow> string fset \<Rightarrow> string fset" where
  "hash_delete_all ys h = fold (\<lambda>v h. if v |\<in>| h then h |-| {|v|} else h) ys h"

definition SubtractString :: "string list \<Rightarrow> string list \<Rightarrow> string list" where
  "SubtractString x y =
     (if x = [] then []
      else if y = [] then x
      else (let hash = hash_delete_all y (hash_insert_all x) in filter (\<lambda>v. v |\<in>| hash) x))"

text \<open>The test \<open>len(m) == 0\<close> is implied: an empty map has no element of a non-empty slice.\<close>

primrec contains_all_loop :: "labels \<Rightarrow> string list \<Rightarrow> bool" where
  "contains_all_loop m [] = True"
| "contains_all_loop m (elem # slc) = (if m elem = None then False else contains_all_loop m slc)"

definition ContainsAll :: "labels \<Rightarrow> string list \<Rightarrow> bool" where
  "ContainsAll m slc = (if slc = [] then True else contains_all_loop m slc)"

definition CheckExpectValue :: "labels \<Rightarrow> string \<Rightarrow> string \<Rightarrow> bool" where
  "CheckExpectValue m key targetValue =
     (case m key of Some v \<Rightarrow> v = targetValue | None \<Rightarrow> False)"

section \<open>The exclusive label and the init user\<close>

definition GetExclusiveKey :: string where
  "GetExclusiveKey = FluidExclusiveKey"

definition GetExclusiveValue :: "string \<Rightarrow> string \<Rightarrow> string" where
  "GetExclusiveValue namespace name = namespace @ ''_'' @ name"

text \<open>Both identifiers are dereferenced: a nil pointer panics.\<close>

definition GetInitUsersArgs :: "User \<Rightarrow> string list outcome" where
  "GetInitUsersArgs user =
     (case user_UID user of None \<Rightarrow> Panic
      | Some u \<Rightarrow> (case user_GID user of None \<Rightarrow> Panic
        | Some g \<Rightarrow>
            (let uid = FormatInt64 u; gid = FormatInt64 g; username = user_UserName user
             in Ret [uid @ '':'' @ username @ '':'' @ gid, gid @ '':'' @ user_GroupName user])))"

definition GetInitUserEnv :: "User \<Rightarrow> string outcome" where
  "GetInitUserEnv user = map_outcome_ret (join '','') (GetInitUsersArgs user)"

section \<open>Label changes\<close>

definition label_operator :: "LabelsToModify \<Rightarrow> string \<Rightarrow> string \<Rightarrow> OperationType \<Rightarrow> LabelsToModify" where
  "label_operator labels key val op =
     labels @ [\<lparr>labelKey = key, labelValue = (if op \<noteq> DeleteLabel then val else []),
                operationType = op\<rparr>]"

definition labels_Add :: "LabelsToModify \<Rightarrow> string \<Rightarrow> string \<Rightarrow> LabelsToModify" where
  "labels_Add labels key val = label_operator labels key val AddLabel"

definition labels_Update :: "LabelsToModify \<Rightarrow> string \<Rightarrow> string \<Rightarrow> LabelsToModify" where
  "labels_Update labels key val = label_operator labels key val UpdateLabel"

definition labels_Delete :: "LabelsToModify \<Rightarrow> string \<Rightarrow> LabelsToModify" where
  "labels_Delete labels key = label_operator labels key [] DeleteLabel"

text \<open>
  The loop of the UPDATE mode: it changes the node's labels in place and collects the keys; it
  stops at the first operation that does not fit. The labels are a non-nil map.
\<close>

primrec update_mode_loop ::
    "LabelsToModify \<Rightarrow> labels \<Rightarrow> string list \<Rightarrow> labels \<times> (err + string list)" where
  "update_mode_loop [] labels modified = (labels, Inr modified)"
| "update_mode_loop (l # ls) labels modified =
     (let key = labelKey l; val = labelValue l in
      case operationType l of
        AddLabel \<Rightarrow>
          (if labels key \<noteq> None
           then (labels, Inl (ErrText (''fail to add the label due to the label '' @ key @
                   '' already exist'')))
           else update_mode_loop ls (labels(key \<mapsto> val)) (modified @ [key]))
      | UpdateLabel \<Rightarrow>
          (if labels key = None
           then (labels, Inl (ErrText (''fail to update the label due to the label '' @ key @
                   '' does not exist'')))
           else update_mode_loop ls (labels(key \<mapsto> val)) (modified @ [key]))
      | DeleteLabel \<Rightarrow>
          (if labels key = None
           then (labels, Inl (ErrText (''fail to delete the label due to the label '' @ key @
                   '' does not exist'')))
           else update_mode_loop ls (labels(key := None)) (modified @ [key])))"

text \<open>
  The map of labels of a node that came from the API server without labels is nil. Reading from it and
  deleting are harmless (and end the loop with an error), adding a label panics; this can only
  happen to the first label.
\<close>

definition nil_map_write :: "labels \<Rightarrow> LabelsToModify \<Rightarrow> bool" where
  "nil_map_write labels ls \<longleftrightarrow> no_labels labels \<and>
     (case ls of [] \<Rightarrow> False | l # _ \<Rightarrow> operationType l = AddLabel)"

text \<open>
  The result is the changed node, the modified labels and the error. \<open>errors.Wrapf\<close> makes a
  new error of the given text, which the API machinery in use no longer recognises as a conflict;
  the text leaves out the print of the labels.
\<close>

definition ChangeNodeLabelWithUpdateMode ::
    "('w, 'q) client \<Rightarrow> 'q Node \<Rightarrow> LabelsToModify
      \<Rightarrow> ('w, ('q Node \<times> string list \<times> err option) outcome) state" where
  "ChangeNodeLabelWithUpdateMode cl node labelsToModify =
     (if nil_map_write (node_Labels node) labelsToModify then ret Panic
      else case update_mode_loop labelsToModify (node_Labels node) [] of
        (ls, r) \<Rightarrow>
          (let node' = node\<lparr>node_meta := (node_meta node)\<lparr>om_Labels := ls\<rparr>\<rparr> in
           case r of
             Inl e \<Rightarrow> ret (Ret (node', [], Some e))
           | Inr modified \<Rightarrow> do {
               e \<leftarrow> Update_Node cl node';
               ret (Ret (case e of
                  Some x \<Rightarrow> (node', [], Some (ErrText (''update node labels failed, node name: '' @
                    node_Name node @ '': '' @ err_msg x)))
                | None \<Rightarrow> (node', modified, None)))
             }))"

text \<open>The loop of the PATCH mode builds the label part of the patch; \<open>null\<close> deletes.\<close>

primrec patch_mode_loop ::
    "LabelsToModify \<Rightarrow> (string \<rightharpoonup> string option) \<Rightarrow> string list
      \<Rightarrow> (string \<rightharpoonup> string option) \<times> string list" where
  "patch_mode_loop [] pairs modified = (pairs, modified)"
| "patch_mode_loop (l # ls) pairs modified =
     (let key = labelKey l in
      case operationType l of
        AddLabel \<Rightarrow> patch_mode_loop ls (pairs(key \<mapsto> Some (labelValue l))) (modified @ [key])
      | UpdateLabel \<Rightarrow> patch_mode_loop ls (pairs(key \<mapsto> Some (labelValue l))) (modified @ [key])
      | DeleteLabel \<Rightarrow> patch_mode_loop ls (pairs(key \<mapsto> None)) (modified @ [key]))"

definition ChangeNodeLabelWithPatchMode ::
    "('w, 'q) client \<Rightarrow> 'q Node \<Rightarrow> LabelsToModify \<Rightarrow> ('w, string list \<times> err option) state" where
  "ChangeNodeLabelWithPatchMode cl node labelsToModify =
     (let (pairs, modified) = patch_mode_loop labelsToModify Map.empty [] in do {
        e \<leftarrow> PatchLabels_Node cl (node_Name node) pairs;
        ret (case e of
           Some x \<Rightarrow> ([], Some (ErrText (''patch node labels failed, node name: '' @
              node_Name node @ '': '' @ err_msg x)))
         | None \<Rightarrow> (modified, None))
      })"

section \<open>Conditions of a runtime\<close>

text \<open>The clock is read twice, first for the transition time.\<close>

definition NewRuntimeCondition ::
    "('w, 'q) client \<Rightarrow> RuntimeConditionType \<Rightarrow> string \<Rightarrow> string \<Rightarrow> ConditionStatus
      \<Rightarrow> ('w, RuntimeCondition) state" where
  "NewRuntimeCondition cl conditionType reason message status = do {
     t1 \<leftarrow> Now cl;
     t2 \<leftarrow> Now cl;
     ret \<lparr>rc_Type = conditionType, rc_Status = status, rc_Reason = reason, rc_Message = message,
          rc_LastProbeTime = t2, rc_LastTransitionTime = t1\<rparr>
   }"

primrec get_condition_from ::
    "nat \<Rightarrow> RuntimeCondition list \<Rightarrow> RuntimeConditionType \<Rightarrow> (nat \<times> RuntimeCondition) option" where
  "get_condition_from i [] condType = None"
| "get_condition_from i (c # cs) condType =
     (if rc_Type c = condType then Some (i, c) else get_condition_from (Suc i) cs condType)"

text \<open>\<open>None\<close> stands for the pair of -1 and nil.\<close>

definition GetRuntimeCondition ::
    "RuntimeCondition list \<Rightarrow> RuntimeConditionType \<Rightarrow> (nat \<times> RuntimeCondition) option" where
  "GetRuntimeCondition conditions condType = get_condition_from 0 conditions condType"

definition UpdateRuntimeCondition ::
    "RuntimeCondition list \<Rightarrow> RuntimeCondition \<Rightarrow> RuntimeCondition list" where
  "UpdateRuntimeCondition conditions condition =
     (case GetRuntimeCondition conditions (rc_Type condition) of
        None \<Rightarrow> conditions @ [condition]
      | Some (index, oldCondition) \<Rightarrow>
          conditions[index :=
            (if rc_Status condition = rc_Status oldCondition
             then condition\<lparr>rc_LastTransitionTime := rc_LastTransitionTime oldCondition\<rparr>
             else condition)])"

section \<open>Laws of the slices\<close>

lemma ContainsString_iff [simp]: "ContainsString xs s \<longleftrightarrow> s \<in> set xs"
  by (induction xs) auto

lemma RemoveString_filter: "RemoveString xs s = filter (\<lambda>x. x \<noteq> s) xs"
  by (induction xs) auto

lemma set_RemoveString [simp]: "set (RemoveString xs s) = set xs - {s}"
  by (auto simp: RemoveString_filter)

lemma contains_all_loop_iff: "contains_all_loop m xs \<longleftrightarrow> set xs \<subseteq> dom m"
  by (induction xs) auto

lemma ContainsAll_iff: "ContainsAll m xs \<longleftrightarrow> set xs \<subseteq> dom m"
  by (simp add: ContainsAll_def contains_all_loop_iff)

lemma hash_insert_all_iff: "v |\<in>| fold finsert xs h \<longleftrightarrow> v \<in> set xs \<or> v |\<in>| h"
  by (induction xs arbitrary: h) auto

lemma hash_delete_all_iff: "v |\<in>| hash_delete_all ys h \<longleftrightarrow> v |\<in>| h \<and> v \<notin> set ys"
  unfolding hash_delete_all_def by (induction ys arbitrary: h) auto

lemma SubtractString_filter: "SubtractString x y = filter (\<lambda>v. v \<notin> set y) x"
proof -
  have "v |\<in>| hash_delete_all y (hash_insert_all x) \<longleftrightarrow> v \<in> set x \<and> v \<notin> set y" for v
    by (auto simp: hash_delete_all_iff hash_insert_all_def hash_insert_all_iff)
  then show ?thesis
    by (auto simp: SubtractString_def Let_def intro!: filter_cong)
qed

section \<open>Laws of the label changes\<close>

lemma merge_labels_empty [simp]: "merge_labels labels Map.empty = labels"
  by (simp add: merge_labels_def fun_eq_iff)

lemma merge_labels_upd: "merge_labels labels (p(k \<mapsto> v)) = (merge_labels labels p)(k := v)"
  by (simp add: merge_labels_def fun_eq_iff)

lemma update_patch_agree:
  "update_mode_loop ls labels' modified = (final, Inr keys) \<Longrightarrow>
   labels' = merge_labels labels p \<Longrightarrow>
   \<exists>p'. patch_mode_loop ls p modified = (p', keys) \<and> merge_labels labels p' = final"
proof (induction ls arbitrary: labels' modified p)
  case Nil
  then show ?case by simp
next
  case (Cons l ls)
  have upd: "(merge_labels labels p)(k := v) = merge_labels labels (p(k \<mapsto> v))" for k v
    by (simp only: merge_labels_upd)
  show ?case
    using Cons.prems
    by (cases "operationType l") (auto simp: Let_def split: if_splits intro!: Cons.IH upd)
qed

lemma patch_mode_keys: "snd (patch_mode_loop ls p modified) = modified @ map labelKey ls"
  by (induction ls arbitrary: p modified) (auto simp: Let_def split: OperationType.split)

lemma patch_mode_dom:
  "dom (fst (patch_mode_loop ls p modified)) = dom p \<union> set (map labelKey ls)"
  by (induction ls arbitrary: p modified) (auto simp: Let_def split: OperationType.split)

section \<open>Laws of the conditions\<close>

lemma get_condition_from_Some:
  "get_condition_from i cs t = Some (j, c) \<Longrightarrow>
   \<exists>k. j = i + k \<and> k < length cs \<and> cs ! k = c \<and> rc_Type c = t"
proof (induction cs arbitrary: i)
  case Nil
  then show ?case by simp
next
  case (Cons a cs)
  show ?case
  proof (cases "rc_Type a = t")
    case True
    then show ?thesis using Cons.prems by (intro exI [of _ 0]) simp
  next
    case False
    then obtain k where "j = Suc i + k" "k < length cs" "cs ! k = c" "rc_Type c = t"
      using Cons.prems Cons.IH [of "Suc i"] by auto
    then show ?thesis by (intro exI [of _ "Suc k"]) simp
  qed
qed

lemma get_condition_from_None:
  "get_condition_from i cs t = None \<longleftrightarrow> t \<notin> set (map rc_Type cs)"
  by (induction cs arbitrary: i) auto

lemma GetRuntimeCondition_Some:
  "GetRuntimeCondition cs t = Some (j, c) \<Longrightarrow> j < length cs \<and> cs ! j = c \<and> rc_Type c = t"
  unfolding GetRuntimeCondition_def using get_condition_from_Some [of 0 cs t j c] by simp

lemma GetRuntimeCondition_None:
  "GetRuntimeCondition cs t = None \<longleftrightarrow> t \<notin> set (map rc_Type cs)"
  unfolding GetRuntimeCondition_def by (rule get_condition_from_None)

lemma GetRuntimeCondition_nth:
  assumes "distinct (map rc_Type cs)" "j < length cs"
  shows "GetRuntimeCondition cs (rc_Type (cs ! j)) = Some (j, cs ! j)"
proof -
  obtain k c where kc: "GetRuntimeCondition cs (rc_Type (cs ! j)) = Some (k, c)"
    using assms(2) by (cases "GetRuntimeCondition cs (rc_Type (cs ! j))")
      (auto simp: GetRuntimeCondition_None)
  then have "k < length cs" "cs ! k = c" "rc_Type (cs ! k) = rc_Type (cs ! j)"
    using GetRuntimeCondition_Some by auto
  with assms have "k = j"
    by (metis length_map nth_eq_iff_index_eq nth_map)
  with kc \<open>cs ! k = c\<close> show ?thesis by simp
qed

lemma update_types:
  "map rc_Type (UpdateRuntimeCondition cs c) =
     (if rc_Type c \<in> set (map rc_Type cs) then map rc_Type cs else map rc_Type cs @ [rc_Type c])"
proof (cases "GetRuntimeCondition cs (rc_Type c)")
  case None
  moreover have "rc_Type c \<notin> set (map rc_Type cs)"
    using None by (simp add: GetRuntimeCondition_None)
  ultimately show ?thesis by (simp add: UpdateRuntimeCondition_def)
next
  case (Some a)
  obtain i old where a: "a = (i, old)" by (cases a)
  then have i: "i < length cs" "cs ! i = old" "rc_Type old = rc_Type c"
    using Some GetRuntimeCondition_Some by auto
  have "rc_Type c \<in> set (map rc_Type cs)"
    using Some a GetRuntimeCondition_None [of cs "rc_Type c"] by auto
  then show ?thesis
    using Some a i by (auto simp: UpdateRuntimeCondition_def map_update list_update_same_conv)
qed

lemma conditions_distinct:
  "distinct (map rc_Type cs) \<Longrightarrow> distinct (map rc_Type (UpdateRuntimeCondition cs c))"
  by (simp add: update_types)

lemma lookup_updated:
  assumes "distinct (map rc_Type cs)"
  shows "map_option snd (GetRuntimeCondition (UpdateRuntimeCondition cs c) (rc_Type c)) =
    Some (case GetRuntimeCondition cs (rc_Type c) of
            Some (_, old) \<Rightarrow> (if rc_Status c = rc_Status old
              then c\<lparr>rc_LastTransitionTime := rc_LastTransitionTime old\<rparr> else c)
          | None \<Rightarrow> c)"
proof (cases "GetRuntimeCondition cs (rc_Type c)")
  case None
  have "distinct (map rc_Type (cs @ [c]))"
    using None assms by (auto simp: GetRuntimeCondition_None)
  then show ?thesis
    using GetRuntimeCondition_nth [of "cs @ [c]" "length cs"] None
    by (simp add: UpdateRuntimeCondition_def)
next
  case (Some a)
  obtain i old where a: "a = (i, old)" by (cases a)
  define d where "d = (if rc_Status c = rc_Status old
    then c\<lparr>rc_LastTransitionTime := rc_LastTransitionTime old\<rparr> else c)"
  have u: "UpdateRuntimeCondition cs c = cs[i := d]" and i: "i < length cs" and d: "rc_Type d = rc_Type c"
    using Some a GetRuntimeCondition_Some [of cs "rc_Type c" i old]
    by (auto simp: UpdateRuntimeCondition_def d_def)
  have "distinct (map rc_Type (cs[i := d]))"
    using conditions_distinct [OF assms, of c] u by simp
  then show ?thesis
    using GetRuntimeCondition_nth [of "cs[i := d]" i] u i d Some a by (simp add: d_def)
qed

lemma lookup_other:
  assumes "distinct (map rc_Type cs)" "t \<noteq> rc_Type c"
  shows "map_option snd (GetRuntimeCondition (UpdateRuntimeCondition cs c) t) =
    map_option snd (GetRuntimeCondition cs t)"
proof (cases "GetRuntimeCondition cs t")
  case None
  then have "GetRuntimeCondition (UpdateRuntimeCondition cs c) t = None"
    using assms(2) by (auto simp: GetRuntimeCondition_None update_types simp del: set_map)
  with None show ?thesis by simp
next
  case (Some a)
  obtain j d where a: "a = (j, d)" by (cases a)
  have j: "j < length cs" "cs ! j = d" "rc_Type d = t"
    using Some a GetRuntimeCondition_Some by auto
  have "j < length (UpdateRuntimeCondition cs c) \<and> UpdateRuntimeCondition cs c ! j = d"
    using j assms(2)
    by (auto simp: UpdateRuntimeCondition_def nth_append nth_list_update split: option.splits
        dest!: GetRuntimeCondition_Some)
  then show ?thesis
    using GetRuntimeCondition_nth [OF conditions_distinct [OF assms(1)], of j c] j Some a by simp
qed

text \<open>Without the invariant the new condition is still the one that is found.\<close>

lemma get_condition_from_append:
  "t \<notin> set (map rc_Type cs) \<Longrightarrow>
   get_condition_from i (cs @ ds) t = get_condition_from (i + length cs) ds t"
  by (induction cs arbitrary: i) auto

lemma get_condition_from_update:
  "get_condition_from i cs t = Some (j, old) \<Longrightarrow> rc_Type d = t \<Longrightarrow>
   get_condition_from i (cs[j - i := d]) t = Some (j, d)"
proof (induction cs arbitrary: i)
  case (Cons a cs)
  show ?case
  proof (cases "rc_Type a = t")
    case True
    then show ?thesis using Cons.prems by simp
  next
    case False
    then have g: "get_condition_from (Suc i) cs t = Some (j, old)" using Cons.prems by simp
    then have "Suc i \<le> j" using get_condition_from_Some by fastforce
    then have "j - i = Suc (j - Suc i)" by simp
    then show ?thesis using False Cons.IH [OF g] Cons.prems(2) by simp
  qed
qed simp

lemma updated_found:
  "\<exists>t. map_option snd (GetRuntimeCondition (UpdateRuntimeCondition cs c) (rc_Type c)) =
     Some (c\<lparr>rc_LastTransitionTime := t\<rparr>)"
proof (cases "GetRuntimeCondition cs (rc_Type c)")
  case None
  then have "rc_Type c \<notin> set (map rc_Type cs)" by (simp add: GetRuntimeCondition_None)
  then have "GetRuntimeCondition (cs @ [c]) (rc_Type c) = Some (length cs, c)"
    by (simp add: GetRuntimeCondition_def get_condition_from_append)
  with None show ?thesis
    by (intro exI [of _ "rc_LastTransitionTime c"]) (simp add: UpdateRuntimeCondition_def)
next
  case (Some a)
  obtain i old where a: "a = (i, old)" by (cases a)
  let ?d = "if rc_Status c = rc_Status old
    then c\<lparr>rc_LastTransitionTime := rc_LastTransitionTime old\<rparr> else c"
  have "GetRuntimeCondition (cs[i := ?d]) (rc_Type c) = Some (i, ?d)"
    using get_condition_from_update [of 0 cs "rc_Type c" i old ?d] Some a
    by (simp add: GetRuntimeCondition_def)
  moreover have "UpdateRuntimeCondition cs c = cs[i := ?d]"
    using Some a by (simp add: UpdateRuntimeCondition_def)
  ultimately have "map_option snd (GetRuntimeCondition (UpdateRuntimeCondition cs c) (rc_Type c)) =
      Some (c\<lparr>rc_LastTransitionTime := if rc_Status c = rc_Status old
        then rc_LastTransitionTime old else rc_LastTransitionTime c\<rparr>)"
    by simp
  then show ?thesis by blast
qed

text \<open>A condition that changes neither status nor reason is still replaced.\<close>

lemma same_condition_updated:
  assumes "GetRuntimeCondition cs (rc_Type c) = Some (i, old)" "rc_Status c = rc_Status old"
    and "rc_Reason c = rc_Reason old"
  shows "UpdateRuntimeCondition cs c =
    cs[i := old\<lparr>rc_Message := rc_Message c, rc_LastProbeTime := rc_LastProbeTime c\<rparr>]"
proof -
  have "rc_Type old = rc_Type c" using GetRuntimeCondition_Some [OF assms(1)] by simp
  then have "c\<lparr>rc_LastTransitionTime := rc_LastTransitionTime old\<rparr> =
      old\<lparr>rc_Message := rc_Message c, rc_LastProbeTime := rc_LastProbeTime c\<rparr>"
    using assms(2,3) by simp
  then show ?thesis using assms(1,2) by (simp add: UpdateRuntimeCondition_def)
qed

section \<open>Properties\<close>

text \<open>
  C14: \<open>UpdateRuntimeCondition\<close> keeps the invariant that a runtime has at most one condition of
  each type; a later \<open>GetRuntimeCondition\<close> of the type finds the new condition, which keeps the
  old transition time exactly when the status did not change; the conditions of every other type
  are untouched. The comment of the function says that a condition with the same status and reason
  is not updated; the code updates it nevertheless: the stored condition then has the message
  and the probe time of the new one, and only its transition time is the old one.
\<close>

theorem UpdateRuntimeCondition_spec:
  assumes "distinct (map rc_Type cs)"
  shows "distinct (map rc_Type (UpdateRuntimeCondition cs c)) \<and>
    map_option snd (GetRuntimeCondition (UpdateRuntimeCondition cs c) (rc_Type c)) =
      Some (case GetRuntimeCondition cs (rc_Type c) of
              Some (_, old) \<Rightarrow> (if rc_Status c = rc_Status old
                then c\<lparr>rc_LastTransitionTime := rc_LastTransitionTime old\<rparr> else c)
            | None \<Rightarrow> c) \<and>
    (\<forall>i old. GetRuntimeCondition cs (rc_Type c) = Some (i, old) \<longrightarrow>
      rc_Status c = rc_Status old \<longrightarrow> rc_Reason c = rc_Reason old \<longrightarrow>
      UpdateRuntimeCondition cs c = cs[i := old\<lparr>rc_Message := rc_Message c, rc_LastProbeTime := rc_LastProbeTime c\<rparr>]) \<and>
    (\<forall>t. t \<noteq> rc_Type c \<longrightarrow>
      map_option snd (GetRuntimeCondition (UpdateRuntimeCondition cs c) t) =
      map_option snd (GetRuntimeCondition cs t))"
  using conditions_distinct lookup_updated lookup_other same_condition_updated assms by blast

definition cond_at :: "RuntimeConditionType \<Rightarrow> ConditionStatus \<Rightarrow> int \<Rightarrow> RuntimeCondition" where
  "cond_at t s n = \<lparr>rc_Type = t, rc_Status = s, rc_Reason = [], rc_Message = [],
     rc_LastProbeTime = n, rc_LastTransitionTime = n\<rparr>"

theorem UpdateRuntimeCondition_spec_witness:
  "GetRuntimeCondition (UpdateRuntimeCondition
      [cond_at RuntimeMasterReady ConditionTrue 1, cond_at RuntimeWorkersReady ConditionFalse 2]
      (cond_at RuntimeMasterReady ConditionTrue 5)) RuntimeMasterReady =
   Some (0, (cond_at RuntimeMasterReady ConditionTrue 5)\<lparr>rc_LastTransitionTime := 1\<rparr>)"
  using UpdateRuntimeCondition_spec
    [of "[cond_at RuntimeMasterReady ConditionTrue 1, cond_at RuntimeWorkersReady ConditionFalse 2]"
      "cond_at RuntimeMasterReady ConditionTrue 5"]
  by (simp add: cond_at_def GetRuntimeCondition_def UpdateRuntimeCondition_def)

text \<open>
  C19: The two ways of changing the labels of a node agree. When the given node carries the stored
  labels and both modes succeed, PATCH mode and UPDATE mode report the same modified labels and
  leave the same labels in the store.
\<close>

theorem patch_mode_equals_update_mode:
  assumes "patch_contract cl node_labels" "update_node_contract cl node_labels"
    and "node_labels w (node_Name node) = Some (node_Labels node)"
    and "run_state (ChangeNodeLabelWithUpdateMode cl node ls) w = (Ret (node', keys, None), w1)"
    and "run_state (ChangeNodeLabelWithPatchMode cl node ls) w = ((keys', None), w2)"
  shows "keys' = keys \<and> keys = map labelKey ls \<and>
    node_labels w2 (node_Name node) = node_labels w1 (node_Name node)"
proof -
  obtain final where loop: "update_mode_loop ls (node_Labels node) [] = (final, Inr keys)"
    and node': "node' = node\<lparr>node_meta := (node_meta node)\<lparr>om_Labels := final\<rparr>\<rparr>"
    and up: "run_state (Update_Node cl node') w = (None, w1)"
    using assms(4)
    by (auto simp: ChangeNodeLabelWithUpdateMode_def Let_def run_state_bind
        split: prod.splits sum.splits option.splits if_splits)
  obtain p where patch: "patch_mode_loop ls Map.empty [] = (p, keys)"
    and merged: "merge_labels (node_Labels node) p = final"
    using update_patch_agree [OF loop, of "node_Labels node" Map.empty] by auto
  have run: "keys' = keys" "run_state (PatchLabels_Node cl (node_Name node) p) w = (None, w2)"
    using assms(5) patch
    by (auto simp: ChangeNodeLabelWithPatchMode_def run_state_bind split: prod.splits option.splits)
  have "node_labels w1 (node_Name node) = Some final"
    using assms(2) up node' unfolding update_node_contract_def by fastforce
  moreover have "node_labels w2 (node_Name node) = Some final"
    using assms(1,3) run(2) merged unfolding patch_contract_def by blast
  moreover have "keys = map labelKey ls"
    using patch_mode_keys [of ls Map.empty "[]"] patch by simp
  ultimately show ?thesis using run(1) by simp
qed

definition sample_node :: "string \<Rightarrow> labels \<Rightarrow> int64 Node" where
  "sample_node n l = \<lparr>node_meta = (named_meta [] n)\<lparr>om_Labels := l\<rparr>, node_Unschedulable = False,
     node_Taints = [], node_AllocatableMemory = 100, node_Conditions = [(''Ready'', ConditionTrue)],
     node_Addresses = []\<rparr>"

definition sample_changes :: LabelsToModify where
  "sample_changes = labels_Delete (labels_Add [] ''a'' ''1'') ''b''"

lemma sample_not_nil: "nil_map_write [''b'' \<mapsto> ''x''] ls = False"
  by (simp add: nil_map_write_def no_labels_def)

theorem patch_mode_equals_update_mode_witness:
  "let n = sample_node ''n1'' [''b'' \<mapsto> ''x'']; w = cluster0\<lparr>fc_nodes := [n]\<rparr>;
       w2 = snd (run_state (ChangeNodeLabelWithPatchMode fake_client n sample_changes) w);
       w1 = snd (run_state (ChangeNodeLabelWithUpdateMode fake_client n sample_changes) w)
   in labels_at w2 ''n1'' = labels_at w1 ''n1'' \<and> labels_at w1 ''n1'' = Some [''a'' \<mapsto> ''1'']"
  using patch_mode_equals_update_mode [OF fake_patch fake_update_node,
      of "cluster0\<lparr>fc_nodes := [sample_node ''n1'' [''b'' \<mapsto> ''x'']]\<rparr>"
         "sample_node ''n1'' [''b'' \<mapsto> ''x'']" sample_changes] sample_not_nil
  by (simp add: labels_at_def sample_node_def cluster0_def named_meta_def sample_changes_def
      labels_Delete_def labels_Add_def label_operator_def ChangeNodeLabelWithPatchMode_def
      ChangeNodeLabelWithUpdateMode_def fake_client_def fake_write_def run_simps Let_def
      set_node_labels_def merge_labels_upd fun_eq_iff)

text \<open>
  \<open>SubtractString\<close> is order-preserving set difference: it keeps exactly the elements of its first
  argument that do not occur in the second, duplicates included, in their order.
\<close>

theorem SubtractString_is_filter:
  "SubtractString x y = filter (\<lambda>v. v \<notin> set y) x"
  by (rule SubtractString_filter)

end
