(* ===== verification/KubeClient.thy ===== *)
theory KubeClient
  imports Utils
begin

text \<open>
  The wrappers of \<open>pkg/utils/kubeclient\<close> around the API client: nodes, pods, services, config
  maps, namespaces, persistent volumes and claims, and the pods of a stateful set. Most of them
  turn a not-found error into an absent value. Laws: the parent and ordinal of a pod name
  round-trip, the pods that use a claim are counted per node, and a data set may be deleted
  exactly when no pod in use mounts its claim.
\<close>

section \<open>Nodes\<close>

definition GetNode :: "('w, 'q) client \<Rightarrow> string \<Rightarrow> ('w, err + 'q Node) state" where
  "GetNode cl name = Get_Node cl name"

primrec ready_loop :: "(string \<times> ConditionStatus) list \<Rightarrow> bool" where
  "ready_loop [] = True"
| "ready_loop (c # cs) =
     (if fst c = ''Ready'' \<and> snd c \<noteq> ConditionTrue then False else ready_loop cs)"

definition IsReady :: "'q Node \<Rightarrow> bool" where
  "IsReady node = ready_loop (node_Conditions node)"

section \<open>Pods, services, namespaces\<close>

text \<open>The argument is a pointer.\<close>

definition IsCompletePod :: "Pod option \<Rightarrow> bool" where
  "IsCompletePod p = (case p of
     None \<Rightarrow> False
   | Some pod \<Rightarrow>
       (if om_DeletionTimestamp (pod_meta pod) \<noteq> None then True
        else if pod_Phase pod = PodSucceeded \<or> pod_Phase pod = PodFailed then True
        else False))"

definition IsSucceededPod :: "Pod option \<Rightarrow> bool" where
  "IsSucceededPod p \<longleftrightarrow> (case p of None \<Rightarrow> False | Some pod \<Rightarrow> pod_Phase pod = PodSucceeded)"

definition IsFailedPod :: "Pod option \<Rightarrow> bool" where
  "IsFailedPod p \<longleftrightarrow> (case p of None \<Rightarrow> False | Some pod \<Rightarrow> pod_Phase pod = PodFailed)"

text \<open>A lookup that maps not-found to a nil object without error.\<close>

definition absent_if_not_found :: "err + 'a \<Rightarrow> err + 'a option" where
  "absent_if_not_found r = (case r of
     Inl e \<Rightarrow> (if is_not_found e then Inr None else Inl e) | Inr x \<Rightarrow> Inr (Some x))"

definition GetPodByName :: "('w, 'q) client \<Rightarrow> string \<Rightarrow> string \<Rightarrow> ('w, err + Pod option) state" where
  "GetPodByName cl name namespace = do {
     r \<leftarrow> Get_Pod cl (namespace, name);
     ret (absent_if_not_found r)
   }"

primrec claim_names :: "Volume list \<Rightarrow> string list" where
  "claim_names [] = []"
| "claim_names (v # vs) =
     (case vol_ClaimName v of None \<Rightarrow> claim_names vs | Some c \<Rightarrow> c # claim_names vs)"

definition GetPVCNamesFromPod :: "Pod \<Rightarrow> string list" where
  "GetPVCNamesFromPod pod = claim_names (pod_Volumes pod)"

definition GetServiceByName ::
    "('w, 'q) client \<Rightarrow> string \<Rightarrow> string \<Rightarrow> ('w, err + Service option) state" where
  "GetServiceByName cl name namespace = do {
     r \<leftarrow> Get_Service cl (namespace, name);
     ret (absent_if_not_found r)
   }"

definition createNamespace :: "('w, 'q) client \<Rightarrow> string \<Rightarrow> ('w, err option) state" where
  "createNamespace cl namespace = Create_Namespace cl namespace"

definition EnsureNamespace :: "('w, 'q) client \<Rightarrow> string \<Rightarrow> ('w, err option) state" where
  "EnsureNamespace cl namespace = do {
     e \<leftarrow> Get_Namespace cl namespace;
     case e of
       Some x \<Rightarrow> (if is_not_found x then createNamespace cl namespace else ret e)
     | None \<Rightarrow> ret e
   }"

section \<open>Config maps\<close>

definition IsConfigMapExist :: "('w, 'q) client \<Rightarrow> string \<Rightarrow> string \<Rightarrow> ('w, bool \<times> err option) state" where
  "IsConfigMapExist cl name namespace = do {
     r \<leftarrow> Get_ConfigMap cl (namespace, name);
     ret (case r of Inl e \<Rightarrow> (False, if is_not_found e then None else Some e) | Inr _ \<Rightarrow> (True, None))
   }"

definition GetConfigmapByName ::
    "('w, 'q) client \<Rightarrow> string \<Rightarrow> string \<Rightarrow> ('w, err + ConfigMap option) state" where
  "GetConfigmapByName cl name namespace = do {
     r \<leftarrow> Get_ConfigMap cl (namespace, name);
     ret (absent_if_not_found r)
   }"

definition DeleteConfigMap :: "('w, 'q) client \<Rightarrow> string \<Rightarrow> string \<Rightarrow> ('w, err option) state" where
  "DeleteConfigMap cl name namespace = do {
     r \<leftarrow> Get_ConfigMap cl (namespace, name);
     case r of
       Inl e \<Rightarrow> ret (if is_not_found e then None else Some e)
     | Inr cm \<Rightarrow> Delete_ConfigMap cl cm
   }"

section \<open>Volumes and claims\<close>

definition GetPersistentVolume :: "('w, 'q) client \<Rightarrow> string \<Rightarrow> ('w, err + PersistentVolume) state" where
  "GetPersistentVolume cl name = Get_PV cl name"

text \<open>
  The expected annotations are a map, given by its entries in the order of the iteration. An
  annotation that is absent reads as the empty string.
\<close>

primrec annotations_match :: "(string \<rightharpoonup> string) \<Rightarrow> (string \<times> string) list \<Rightarrow> bool" where
  "annotations_match actual [] = True"
| "annotations_match actual (kv # kvs) =
     (if (case actual (fst kv) of None \<Rightarrow> [] | Some v \<Rightarrow> v) \<noteq> snd kv then False
      else annotations_match actual kvs)"

definition exists_with :: "(string \<rightharpoonup> string) \<Rightarrow> (string \<times> string) list \<Rightarrow> bool" where
  "exists_with actual expected =
     (if actual = Map.empty then False else annotations_match actual expected)"

definition IsPersistentVolumeExist ::
    "('w, 'q) client \<Rightarrow> string \<Rightarrow> (string \<times> string) list \<Rightarrow> ('w, bool \<times> err option) state" where
  "IsPersistentVolumeExist cl name annotations = do {
     r \<leftarrow> Get_PV cl name;
     ret (case r of
        Inl e \<Rightarrow> (False, if is_not_found e then None else Some e)
      | Inr pv \<Rightarrow> (exists_with (om_Annotations (pv_meta pv)) annotations, None))
   }"

definition IsPersistentVolumeClaimExist ::
    "('w, 'q) client \<Rightarrow> string \<Rightarrow> string \<Rightarrow> (string \<times> string) list \<Rightarrow> ('w, bool \<times> err option) state" where
  "IsPersistentVolumeClaimExist cl name namespace annotations = do {
     r \<leftarrow> Get_PVC cl (namespace, name);
     ret (case r of
        Inl e \<Rightarrow> (False, if is_not_found e then None else Some e)
      | Inr pvc \<Rightarrow> (exists_with (om_Annotations (pvc_meta pvc)) annotations, None))
   }"

text \<open>A not-found error of the deletion itself is returned as it is.\<close>

definition DeletePersistentVolume :: "('w, 'q) client \<Rightarrow> string \<Rightarrow> ('w, err option) state" where
  "DeletePersistentVolume cl name = do {
     r \<leftarrow> Get_PV cl name;
     case r of
       Inl e \<Rightarrow> ret (if is_not_found e then None else Some e)
     | Inr pv \<Rightarrow> do {
         e \<leftarrow> Delete_PV cl pv;
         ret (case e of
            Some x \<Rightarrow> (if \<not> is_not_found x
              then Some (ErrText (''error deleting pv '' @ name @ '': '' @ err_msg x)) else e)
          | None \<Rightarrow> None)
       }
   }"

definition DeletePersistentVolumeClaim ::
    "('w, 'q) client \<Rightarrow> string \<Rightarrow> string \<Rightarrow> ('w, err option) state" where
  "DeletePersistentVolumeClaim cl name namespace = do {
     r \<leftarrow> Get_PVC cl (namespace, name);
     case r of
       Inl e \<Rightarrow> ret (if is_not_found e then None else Some e)
     | Inr pvc \<Rightarrow> do {
         e \<leftarrow> Delete_PVC cl pvc;
         ret (case e of
            Some x \<Rightarrow> (if \<not> is_not_found x
              then Some (ErrText (''error deleting pvc '' @ name @ '': '' @ err_msg x)) else e)
          | None \<Rightarrow> None)
       }
   }"

definition GetPVCsFromPod :: "Pod \<Rightarrow> Volume list" where
  "GetPVCsFromPod pod = filter (\<lambda>v. vol_ClaimName v \<noteq> None) (pod_Volumes pod)"

text \<open>A pod occurs once for each of its volumes that mounts the claim.\<close>

primrec mount_loop :: "string \<Rightarrow> Pod \<Rightarrow> Volume list \<Rightarrow> Pod list" where
  "mount_loop pvcName pod [] = []"
| "mount_loop pvcName pod (v # vs) =
     (if vol_ClaimName v = Some pvcName then pod # mount_loop pvcName pod vs
      else mount_loop pvcName pod vs)"

definition GetPvcMountPods ::
    "('w, 'q) client \<Rightarrow> string \<Rightarrow> string \<Rightarrow> ('w, err + Pod list) state" where
  "GetPvcMountPods cl pvcName namespace = do {
     r \<leftarrow> List_Pod cl (Some namespace) everything;
     ret (case r of
        Inl e \<Rightarrow> Inl e
      | Inr nsPods \<Rightarrow> Inr (concat (map (\<lambda>pod. mount_loop pvcName pod (GetPVCsFromPod pod)) nsPods)))
   }"

primrec count_loop :: "Pod list \<Rightarrow> (string \<rightharpoonup> int64) \<Rightarrow> (string \<rightharpoonup> int64)" where
  "count_loop [] m = m"
| "count_loop (pod # pods) m =
     (if IsCompletePod (Some pod) then count_loop pods m
      else let nodeName = pod_NodeName pod in
        if nodeName = [] then count_loop pods m
        else count_loop pods (m(nodeName \<mapsto> (case m nodeName of None \<Rightarrow> 1 | Some n \<Rightarrow> n + 1))))"

definition GetPvcMountNodes ::
    "('w, 'q) client \<Rightarrow> string \<Rightarrow> string \<Rightarrow> ('w, (string \<rightharpoonup> int64) \<times> err option) state" where
  "GetPvcMountNodes cl pvcName namespace = do {
     r \<leftarrow> GetPvcMountPods cl pvcName namespace;
     ret (case r of Inl e \<Rightarrow> (Map.empty, Some e) | Inr pods \<Rightarrow> (count_loop pods Map.empty, None))
   }"

definition persistentVolumeClaimProtectionFinalizerName :: string where
  "persistentVolumeClaimProtectionFinalizerName = ''kubernetes.io/pvc-protection''"

text \<open>After a not-found error the claim keeps its zero value and is still written back.\<close>

definition RemoveProtectionFinalizer :: "('w, 'q) client \<Rightarrow> string \<Rightarrow> string \<Rightarrow> ('w, err option) state" where
  "RemoveProtectionFinalizer cl name namespace = do {
     r \<leftarrow> Get_PVC cl (namespace, name);
     let remove = (\<lambda>pvc. pvc\<lparr>pvc_meta := (pvc_meta pvc)\<lparr>om_Finalizers :=
           RemoveString (om_Finalizers (pvc_meta pvc)) persistentVolumeClaimProtectionFinalizerName\<rparr>\<rparr>)
     in (case r of
       Inl e \<Rightarrow> (if \<not> is_not_found e then ret (Some e)
                 else Update_PVC cl (remove \<lparr>pvc_meta = named_meta [] []\<rparr>))
     | Inr pvc \<Rightarrow> Update_PVC cl (remove pvc))
   }"

primrec first_active :: "Pod list \<Rightarrow> Pod option" where
  "first_active [] = None"
| "first_active (pod # pods) = (if \<not> IsCompletePod (Some pod) then Some pod else first_active pods)"

definition fluid_annotations :: "(string \<times> string) list" where
  "fluid_annotations = [(''CreatedBy'', ''fluid'')]"

definition ShouldDeleteDataset :: "('w, 'q) client \<Rightarrow> string \<Rightarrow> string \<Rightarrow> ('w, err option) state" where
  "ShouldDeleteDataset cl name namespace = do {
     (exist, err) \<leftarrow> IsPersistentVolumeClaimExist cl name namespace fluid_annotations;
     if err \<noteq> None then ret err
     else if \<not> exist then ret None
     else do {
       r \<leftarrow> GetPvcMountPods cl name namespace;
       ret (case r of
          Inl e \<Rightarrow> Some e
        | Inr pods \<Rightarrow> (case first_active pods of
            None \<Rightarrow> None
          | Some pod \<Rightarrow> Some (ErrText (''can not delete dataset because Pod '' @
              om_Name (pod_meta pod) @ '' in Namespace '' @ om_Namespace (pod_meta pod) @
              '' is using it''))))
     }
   }"

definition ShouldRemoveProtectionFinalizer ::
    "('w, 'q) client \<Rightarrow> string \<Rightarrow> string \<Rightarrow> ('w, bool \<times> err option) state" where
  "ShouldRemoveProtectionFinalizer cl name namespace = do {
     r \<leftarrow> Get_PVC cl (namespace, name);
     case r of
       Inl e \<Rightarrow> ret (False, Some e)
     | Inr pvc \<Rightarrow>
         (case om_DeletionTimestamp (pvc_meta pvc) of
            None \<Rightarrow> ret (False, None)
          | Some deleted \<Rightarrow>
              (if \<not> ContainsString (om_Finalizers (pvc_meta pvc))
                      persistentVolumeClaimProtectionFinalizerName
               then ret (False, None)
               else do {
                 now \<leftarrow> Now cl;
                 if now < deleted + 30 * second then ret (False, None)
                 else do {
                   rp \<leftarrow> GetPvcMountPods cl name namespace;
                   ret (case rp of
                      Inl e \<Rightarrow> (False, Some e)
                    | Inr pods \<Rightarrow> (case first_active pods of
                        None \<Rightarrow> (True, None)
                      | Some pod \<Rightarrow> (False, Some (ErrText (
                          ''can not remove pvc-protection finalizer because Pod '' @
                          om_Name (pod_meta pod) @ '' in Namespace '' @
                          om_Namespace (pod_meta pod) @ '' is not completed'')))))
                 }
               }))
   }"

definition IsDatasetPVC :: "('w, 'q) client \<Rightarrow> string \<Rightarrow> string \<Rightarrow> ('w, bool \<times> err option) state" where
  "IsDatasetPVC cl name namespace = do {
     r \<leftarrow> Get_PVC cl (namespace, name);
     ret (case r of
        Inl e \<Rightarrow> (False, Some e)
      | Inr pvc \<Rightarrow> (om_Labels (pvc_meta pvc)
          (LabelAnnotationStorageCapacityPrefix @ namespace @ ''-'' @ name) \<noteq> None, None))
   }"

section \<open>Pods of a stateful set\<close>

text \<open>
  The regular expression \<open>(.*)-([0-9]+)$\<close> on a name without line breaks: the text after the last
  dash is a non-empty run of digits. The ordinal is -1 when it does not fit into 32 bits.
\<close>

definition getParentNameAndOrdinal :: "Pod \<Rightarrow> string \<times> int" where
  "getParentNameAndOrdinal pod =
     (let name = om_Name (pod_meta pod);
          digits = rev (takeWhile (\<lambda>c. c \<noteq> CHR ''-'') (rev name));
          parent = rev (tl (dropWhile (\<lambda>c. c \<noteq> CHR ''-'') (rev name)))
      in if CHR ''-'' \<in> set name \<and> digits \<noteq> [] \<and> list_all is_digit digits
         then (parent, case parse_int 32 digits of (i, None) \<Rightarrow> i | (_, Some _) \<Rightarrow> -1)
         else ([], -1))"

definition getParentName :: "Pod \<Rightarrow> string" where
  "getParentName pod = fst (getParentNameAndOrdinal pod)"

definition isMemberOf :: "StatefulSet \<Rightarrow> Pod \<Rightarrow> bool" where
  "isMemberOf sts pod \<longleftrightarrow> getParentName pod = om_Name (sts_meta sts)"

text \<open>\<open>metav1.GetControllerOf\<close>: the owner reference marked as the controller.\<close>

definition GetControllerOf :: "Pod \<Rightarrow> OwnerReference option" where
  "GetControllerOf pod =
     List.find (\<lambda>r. or_Controller r = Some True) (om_OwnerReferences (pod_meta pod))"

text \<open>
  \<open>parseGV\<close> stands for \<open>schema.ParseGroupVersion\<close> and gives the group. The kind and group
  compared with are those the given object carries. \<open>None\<close> is the nil object.
\<close>

definition resolveControllerRef ::
    "('w, 'q) client \<Rightarrow> (string \<Rightarrow> err + string) \<Rightarrow> OwnerReference option \<Rightarrow> string \<Rightarrow> StatefulSet
      \<Rightarrow> ('w, StatefulSet option \<times> err option) state" where
  "resolveControllerRef cl parseGV controllerRef namespace target =
     (case controllerRef of
        None \<Rightarrow> ret (None, None)
      | Some ref \<Rightarrow>
          (case parseGV (or_APIVersion ref) of
             Inl e \<Rightarrow> ret (None, Some e)
           | Inr grp \<Rightarrow>
               (if or_Kind ref \<noteq> sts_Kind target \<or> grp \<noteq> sts_Group target then ret (None, None)
                else do {
                  r \<leftarrow> Get_StatefulSet cl (namespace, or_Name ref);
                  ret (case r of Inl e \<Rightarrow> (None, IgnoreNotFound (Some e)) | Inr x \<Rightarrow> (Some x, None))
                })))"

definition compareOwnerRefMatcheWithExpected ::
    "('w, 'q) client \<Rightarrow> (string \<Rightarrow> err + string) \<Rightarrow> OwnerReference option \<Rightarrow> string \<Rightarrow> StatefulSet
      \<Rightarrow> ('w, bool \<times> err option) state" where
  "compareOwnerRefMatcheWithExpected cl parseGV controllerRef namespace target = do {
     (obj, e) \<leftarrow> resolveControllerRef cl parseGV controllerRef namespace target;
     ret (if e \<noteq> None \<or> obj = None then (False, e)
          else case controllerRef of
            None \<Rightarrow> (False, None)
          | Some ref \<Rightarrow> (or_UID ref = om_UID (sts_meta target), None))
   }"

text \<open>
  The loop appends the address of its variable, of which there is one for the whole loop (the module is
  compiled as Go 1.13): every pointer reads the value of the last iteration. The loop keeps the number of
  pointers and the variable.
\<close>

primrec sts_pods_loop ::
    "('w, 'q) client \<Rightarrow> (string \<Rightarrow> err + string) \<Rightarrow> StatefulSet \<Rightarrow> Pod list \<Rightarrow> nat \<Rightarrow> Pod option
      \<Rightarrow> ('w, nat \<times> Pod option \<times> err option) state" where
  "sts_pods_loop cl parseGV sts [] n var = ret (n, var, None)"
| "sts_pods_loop cl parseGV sts (pod # pods) n var =
     (if isMemberOf sts pod \<and> GetControllerOf pod \<noteq> None then do {
        (matched, e) \<leftarrow> compareOwnerRefMatcheWithExpected cl parseGV (GetControllerOf pod)
           (om_Namespace (pod_meta pod)) sts;
        case e of
          Some x \<Rightarrow> ret (n, Some pod, Some x)
        | None \<Rightarrow> sts_pods_loop cl parseGV sts pods (if matched then Suc n else n) (Some pod)
      }
      else sts_pods_loop cl parseGV sts pods n (Some pod))"

definition GetPodsForStatefulSet ::
    "('w, 'q) client \<Rightarrow> (string \<Rightarrow> err + string) \<Rightarrow> StatefulSet \<Rightarrow> selector
      \<Rightarrow> ('w, Pod list \<times> err option) state" where
  "GetPodsForStatefulSet cl parseGV sts sel = do {
     r \<leftarrow> List_Pod cl None sel;
     case r of
       Inl e \<Rightarrow> ret ([], Some e)
     | Inr items \<Rightarrow> do {
         (n, var, e) \<leftarrow> sts_pods_loop cl parseGV sts items 0 None;
         ret (case var of None \<Rightarrow> [] | Some pod \<Rightarrow> replicate n pod, e)
       }
   }"

section \<open>Laws\<close>

lemma first_active_None: "first_active pods = None \<longleftrightarrow> (\<forall>p \<in> set pods. IsCompletePod (Some p))"
  by (induction pods) auto

lemma set_mount_loop: "set (mount_loop c pod vs) = (if Some c \<in> vol_ClaimName ` set vs then {pod} else {})"
  by (induction vs) auto

text \<open>The pods of a list that mount a claim.\<close>

definition mounts :: "string \<Rightarrow> Pod \<Rightarrow> bool" where
  "mounts c pod \<longleftrightarrow> Some c \<in> vol_ClaimName ` set (pod_Volumes pod)"

lemma mounts_claims: "Some c \<in> vol_ClaimName ` set (GetPVCsFromPod pod) \<longleftrightarrow> mounts c pod"
  by (simp add: GetPVCsFromPod_def mounts_def image_iff) metis

lemma set_mounting:
  "set (concat (map (\<lambda>pod. mount_loop c pod (GetPVCsFromPod pod)) pods)) = {p \<in> set pods. mounts c p}"
  by (auto simp: set_mount_loop mounts_claims)

text \<open>The pods that count for a node.\<close>

definition counts_on :: "string \<Rightarrow> Pod \<Rightarrow> bool" where
  "counts_on n pod \<longleftrightarrow> \<not> IsCompletePod (Some pod) \<and> pod_NodeName pod = n"

lemma count_loop_spec:
  "n \<noteq> [] \<Longrightarrow> count_loop pods m n =
     (let k = length (filter (counts_on n) pods) in
      if k = 0 then m n else Some (case m n of None \<Rightarrow> of_nat k | Some v \<Rightarrow> v + of_nat k))"
proof (induction pods arbitrary: m)
  case Nil
  then show ?case by simp
next
  case (Cons p pods)
  show ?case
    using Cons.prems
    by (cases "m n") (auto simp: Cons.IH counts_on_def Let_def ac_simps split: option.splits)
qed

lemma count_loop_Nil: "count_loop pods m [] = m []"
  by (induction pods arbitrary: m) (auto simp: Let_def)

lemma sts_pods_loop_var:
  "run_state (sts_pods_loop cl gv sts pods n var) w = ((n', var', None), w') \<Longrightarrow>
   n \<le> n' \<and> var' = (if pods = [] then var else Some (last pods))"
proof (induction pods arbitrary: n var w)
  case Nil
  then show ?case by (simp add: run_simps)
next
  case (Cons pod pods)
  show ?case
  proof (cases "isMemberOf sts pod \<and> GetControllerOf pod \<noteq> None")
    case False
    then show ?thesis using Cons.prems by (auto dest!: Cons.IH)
  next
    case True
    then show ?thesis
      using Cons.prems
      by (auto simp: run_state_bind split: prod.splits option.splits if_splits dest!: Cons.IH)
  qed
qed

lemma no_dash_digits: "list_all is_digit ds \<Longrightarrow> CHR ''-'' \<notin> set ds"
  by (auto simp: list_all_iff is_digit_def)

lemma parent_of_indexed:
  assumes "list_all is_digit ds" "ds \<noteq> []" "om_Name (pod_meta pod) = parent @ ''-'' @ ds"
  shows "getParentNameAndOrdinal pod =
    (parent, case parse_int 32 ds of (i, None) \<Rightarrow> i | (_, Some _) \<Rightarrow> -1)"
proof -
  have nd: "CHR ''-'' \<notin> set (rev ds)" using no_dash_digits [OF assms(1)] by simp
  then show ?thesis
    using assms
    by (simp add: getParentNameAndOrdinal_def Let_def takeWhile_upto [OF nd] dropWhile_upto [OF nd])
qed

section \<open>Properties\<close>

text \<open>
  C35: The name that a stateful set gives to its pod, the set's name, a dash and the ordinal, is taken
  apart again: \<open>getParentNameAndOrdinal\<close> returns the set's name and the ordinal, so the pod is a member
  of that set and of no other.
\<close>

theorem stateful_pod_name_round_trip:
  assumes "om_Name (pod_meta pod) = parent @ ''-'' @ fmt_nat n" "n < 2 ^ 31"
  shows "getParentNameAndOrdinal pod = (parent, int n) \<and>
    (isMemberOf sts pod \<longleftrightarrow> om_Name (sts_meta sts) = parent)"
proof -
  have "parse_int 32 (fmt_nat n) = (int n, None)"
    using parse_int_fmt_int [of 32 "int n"] assms(2) by (simp add: fmt_int_def)
  then have "getParentNameAndOrdinal pod = (parent, int n)"
    using parent_of_indexed [OF _ _ assms(1)] fmt_nat_all_digits by simp
  then show ?thesis by (auto simp: isMemberOf_def getParentName_def)
qed

definition sample_pod :: "string \<Rightarrow> PodPhase \<Rightarrow> string \<Rightarrow> string option \<Rightarrow> Pod" where
  "sample_pod n ph node c = \<lparr>pod_meta = named_meta ''default'' n, pod_Phase = ph, pod_NodeName = node,
     pod_Volumes = [\<lparr>vol_Name = ''v'', vol_ClaimName = c\<rparr>]\<rparr>"

theorem stateful_pod_name_round_trip_witness:
  "getParentNameAndOrdinal (sample_pod ''demo-1-master-12'' PodRunning ''n1'' None) = (''demo-1-master'', 12)"
proof -
  have "fmt_nat 12 = ''12''" by code_simp
  then show ?thesis
    using stateful_pod_name_round_trip
      [of "sample_pod ''demo-1-master-12'' PodRunning ''n1'' None" "''demo-1-master''" 12]
    by (simp add: sample_pod_def named_meta_def)
qed

text \<open>
  C36: \<open>ShouldDeleteDataset\<close> lets a data set go exactly when its claim does not exist (with the
  annotation of the controller) or every pod of the namespace that mounts the claim is complete:
  finished, failed or being deleted.
\<close>

theorem ShouldDeleteDataset_iff_unused:
  assumes "run_state (Get_PVC cl (namespace, name)) w = (r, w1)" "\<forall>e. r = Inl e \<longrightarrow> is_not_found e"
    and "run_state (List_Pod cl (Some namespace) everything) w1 = (Inr pods, w2)"
  shows "fst (run_state (ShouldDeleteDataset cl name namespace) w) = None \<longleftrightarrow>
    (case r of Inl _ \<Rightarrow> True
     | Inr pvc \<Rightarrow> \<not> exists_with (om_Annotations (pvc_meta pvc)) fluid_annotations) \<or>
    (\<forall>p \<in> set pods. mounts name p \<longrightarrow> IsCompletePod (Some p))"
proof -
  let ?ps = "concat (map (\<lambda>pod. mount_loop name pod (GetPVCsFromPod pod)) pods)"
  have "(first_active ?ps = None) \<longleftrightarrow> (\<forall>p \<in> set pods. mounts name p \<longrightarrow> IsCompletePod (Some p))"
    unfolding first_active_None set_mounting by auto
  then show ?thesis
    using assms
    by (auto simp: ShouldDeleteDataset_def IsPersistentVolumeClaimExist_def GetPvcMountPods_def
        run_simps split: sum.splits option.splits)
qed

definition sample_pvc :: PersistentVolumeClaim where
  "sample_pvc = \<lparr>pvc_meta = (named_meta ''default'' ''hbase'')\<lparr>om_Annotations := [''CreatedBy'' \<mapsto> ''fluid'']\<rparr>\<rparr>"

theorem ShouldDeleteDataset_iff_unused_witness:
  "fst (run_state (ShouldDeleteDataset fake_client ''hbase'' ''default'')
     (cluster0\<lparr>fc_pvcs := [(''default'', ''hbase'') \<mapsto> sample_pvc],
       fc_pods := [sample_pod ''job'' PodRunning ''n1'' (Some ''hbase'')]\<rparr>)) \<noteq> None"
  using ShouldDeleteDataset_iff_unused
    [of fake_client "''default''" "''hbase''"
      "cluster0\<lparr>fc_pvcs := [(''default'', ''hbase'') \<mapsto> sample_pvc],
       fc_pods := [sample_pod ''job'' PodRunning ''n1'' (Some ''hbase'')]\<rparr>"]
  by (simp add: fake_client_def fake_lookup_def sample_pod_def sample_pvc_def named_meta_def
      everything_def mounts_def exists_with_def fluid_annotations_def IsCompletePod_def)

text \<open>
  \<open>GetPvcMountNodes\<close> counts, for each node, the mounts of the claim by pods on it that are not
  complete; a node without such a pod, and the empty node name of a pod that is not placed yet, have no entry.
\<close>

theorem GetPvcMountNodes_counts:
  assumes "run_state (List_Pod cl (Some namespace) everything) w = (Inr pods, w1)"
  shows "fst (run_state (GetPvcMountNodes cl pvcName namespace) w) =
    (\<lambda>n. (let k = length (filter (counts_on n)
              (concat (map (\<lambda>pod. mount_loop pvcName pod (GetPVCsFromPod pod)) pods)))
           in if n = [] \<or> k = 0 then None else Some (of_nat k)), None)"
proof -
  have "count_loop ps Map.empty = (\<lambda>n. let k = length (filter (counts_on n) ps)
      in if n = [] \<or> k = 0 then None else Some (of_nat k))" for ps
  proof (rule ext)
    fix n
    show "count_loop ps Map.empty n = (let k = length (filter (counts_on n) ps)
      in if n = [] \<or> k = 0 then None else Some (of_nat k))"
      by (cases "n = []") (auto simp: count_loop_spec count_loop_Nil Let_def)
  qed
  then show ?thesis
    using assms by (simp add: GetPvcMountNodes_def GetPvcMountPods_def run_simps)
qed

theorem GetPvcMountNodes_counts_witness:
  "fst (fst (run_state (GetPvcMountNodes fake_client ''hbase'' ''default'')
     (cluster0\<lparr>fc_pods := [sample_pod ''a'' PodRunning ''n1'' (Some ''hbase''),
       sample_pod ''b'' PodRunning ''n1'' (Some ''hbase''), sample_pod ''c'' PodFailed ''n1'' (Some ''hbase''),
       sample_pod ''d'' PodRunning ''n2'' None]\<rparr>))) ''n1'' = Some 2"
  using GetPvcMountNodes_counts
    [of fake_client "''default''" "cluster0\<lparr>fc_pods := [sample_pod ''a'' PodRunning ''n1'' (Some ''hbase''),
       sample_pod ''b'' PodRunning ''n1'' (Some ''hbase''), sample_pod ''c'' PodFailed ''n1'' (Some ''hbase''),
       sample_pod ''d'' PodRunning ''n2'' None]\<rparr>" _ _ "''hbase''"]
  by (simp add: fake_client_def sample_pod_def named_meta_def everything_def GetPVCsFromPod_def
      counts_on_def IsCompletePod_def)

text \<open>
  C37: When \<open>GetPodsForStatefulSet\<close> returns without error, all pods it returns are the same pod, the last
  one listed, whether or not that pod belongs to the set: the slice holds pointers to the loop
  variable.
\<close>

theorem GetPodsForStatefulSet_aliases_last:
  assumes "run_state (List_Pod cl None sel) w = (Inr items, w1)"
    and "run_state (GetPodsForStatefulSet cl parseGV sts sel) w = ((pods, None), w')"
  shows "\<forall>p \<in> set pods. items \<noteq> [] \<and> p = last items"
  using assms
  by (auto simp: GetPodsForStatefulSet_def run_simps split: prod.splits option.splits if_splits
      dest!: sts_pods_loop_var)

definition sample_sts :: StatefulSet where
  "sample_sts = \<lparr>sts_Kind = ''StatefulSet'', sts_Group = ''apps'',
     sts_meta = (named_meta ''default'' ''demo'')\<lparr>om_UID := ''u''\<rparr>,
     sts_SpecReplicas = 1, sts_Replicas = 1, sts_ReadyReplicas = 1\<rparr>"

definition owned_pod :: Pod where
  "owned_pod = (sample_pod ''demo-0'' PodRunning ''n1'' None)\<lparr>pod_meta :=
     (named_meta ''default'' ''demo-0'')\<lparr>om_OwnerReferences := [\<lparr>or_APIVersion = ''apps'',
       or_Kind = ''StatefulSet'', or_Name = ''demo'', or_UID = ''u'', or_Controller = Some True\<rparr>]\<rparr>\<rparr>"

lemma owned_pod_member: "isMemberOf sample_sts owned_pod"
proof -
  have "list_all is_digit ''0''" by code_simp
  then show ?thesis
    using parent_of_indexed [of "''0''" owned_pod "''demo''"]
    by (simp add: isMemberOf_def getParentName_def owned_pod_def sample_sts_def named_meta_def)
qed

lemma owned_pod_owner:
  "GetControllerOf owned_pod = Some \<lparr>or_APIVersion = ''apps'', or_Kind = ''StatefulSet'',
     or_Name = ''demo'', or_UID = ''u'', or_Controller = Some True\<rparr>"
  "om_Namespace (pod_meta owned_pod) = ''default''"
  by (simp_all add: GetControllerOf_def owned_pod_def named_meta_def)

lemma sample_sts_fields:
  "sts_Kind sample_sts = ''StatefulSet''" "sts_Group sample_sts = ''apps''"
  "om_UID (sts_meta sample_sts) = ''u''"
  by (simp_all add: sample_sts_def)

lemma other_pod_not_member: "\<not> isMemberOf sample_sts (sample_pod ''web'' PodRunning ''n1'' None)"
  by (simp add: isMemberOf_def getParentName_def getParentNameAndOrdinal_def sample_pod_def
      sample_sts_def named_meta_def)

theorem GetPodsForStatefulSet_aliases_last_witness:
  "fst (run_state (GetPodsForStatefulSet fake_client Inr sample_sts everything)
     (cluster0\<lparr>fc_statefulsets := [(''default'', ''demo'') \<mapsto> sample_sts],
        fc_pods := [owned_pod, sample_pod ''web'' PodRunning ''n1'' None]\<rparr>)) =
   ([sample_pod ''web'' PodRunning ''n1'' None], None)"
  (is "fst ?run = _")
proof -
  have "length (fst (fst ?run)) = 1 \<and> snd (fst ?run) = None"
    using owned_pod_member other_pod_not_member
    by (simp add: GetPodsForStatefulSet_def fake_client_def run_simps everything_def
        compareOwnerRefMatcheWithExpected_def resolveControllerRef_def owned_pod_owner
        fake_lookup_def sample_sts_fields)
  moreover have "\<forall>p \<in> set (fst (fst ?run)). p = sample_pod ''web'' PodRunning ''n1'' None"
    using GetPodsForStatefulSet_aliases_last [of fake_client everything
        "cluster0\<lparr>fc_statefulsets := [(''default'', ''demo'') \<mapsto> sample_sts],
           fc_pods := [owned_pod, sample_pod ''web'' PodRunning ''n1'' None]\<rparr>"
        "[owned_pod, sample_pod ''web'' PodRunning ''n1'' None]" _ Inr sample_sts
        "fst (fst ?run)" "snd ?run"] calculation
    by (simp add: fake_client_def everything_def prod_eq_iff)
  ultimately show ?thesis
    by (cases "fst (fst ?run)") (auto simp: prod_eq_iff)
qed

end
