(* ===== verification/Tieredstore.thy ===== *)
theory Tieredstore
  imports Utils
begin

text \<open>
  What the engine knows of a runtime (\<open>pkg/ddc/base/runtime.go\<close>, \<open>label.go\<close>) and its tiered
  store (\<open>pkg/utils/tieredstore\<close>): the conversion of the store of the resource into levels
  with cache paths and quotas, the names of the node labels, the storage needed per kind of store, and the
  rank of a medium. The label names are an interface (\<open>runtime_labels\<close>) that the scheduler relies
  on: the five labels of one runtime never collide.
\<close>

section \<open>Data\<close>

record 'q CachePath =
  cp_Path :: string
  cp_Quota :: 'q

record 'q Level =
  level_MediumType :: MediumType
  level_CachePaths :: "'q CachePath list"
  level_High :: string
  level_Low :: string

type_synonym 'q TieredStoreInfo = "'q Level list"

record Fuse =
  fuse_info_Global :: bool
  fuse_info_NodeSelector :: labels

record 'q RuntimeInfo =
  info_name :: string
  info_namespace :: string
  info_runtimeType :: string
  info_tieredstoreInfo :: "'q TieredStoreInfo"
  info_exclusive :: bool
  info_fuse :: Fuse
  info_deprecatedNodeLabel :: bool
  info_deprecatedPVName :: bool

section \<open>Building the information\<close>

text \<open>Go's integer division truncates towards zero.\<close>

definition quot64 :: "int64 \<Rightarrow> int64 \<Rightarrow> int64" where
  "quot64 a b = word_of_int (sgn (sint a) * sgn (sint b) * (\<bar>sint a\<bar> div \<bar>sint b\<bar>))"

definition trim_slashes :: "string \<Rightarrow> string" where
  "trim_slashes path = trim_right_by (\<lambda>c. c = CHR ''/'') path"

text \<open>The loop over the quota list: the path of the same index, the first error stops it.\<close>

primrec convert_quotas ::
    "'q quantity_ops \<Rightarrow> (string \<times> string) list \<Rightarrow> err + 'q CachePath list" where
  "convert_quotas q [] = Inr []"
| "convert_quotas q (x # xs) =
     (case ParseQuantity q (snd x) of
        Inl _ \<Rightarrow> Inl (ErrText (''can'' @ [CHR 0x27] @ ''t correctly parse quota '' @ [CHR 0x22] @
                   snd x @ [CHR 0x22] @ '' to a quantity type''))
      | Inr quota \<Rightarrow> (case convert_quotas q xs of Inl e \<Rightarrow> Inl e
          | Inr ps \<Rightarrow> Inr (\<lparr>cp_Path = trim_slashes (fst x), cp_Quota = quota\<rparr> # ps)))"

definition convert_level :: "'q quantity_ops \<Rightarrow> 'q TierLevel \<Rightarrow> err + 'q Level" where
  "convert_level q level =
     (let paths = split_on CHR '','' (lvl_Path level);
          numPaths = length paths;
          cachePaths =
            (if lvl_QuotaList level = [] then
               (case lvl_Quota level of
                  None \<Rightarrow> Inl (ErrText ''either quota or quotaList must be set'')
                | Some quota \<Rightarrow>
                    (let avgQuota = NewQuantity q (quot64 (QuantityValue q quota) (of_nat numPaths))
                     in Inr (map (\<lambda>p. \<lparr>cp_Path = trim_slashes p, cp_Quota = avgQuota\<rparr>) paths)))
             else
               (let quotaStrs = split_on CHR '','' (lvl_QuotaList level) in
                if length quotaStrs \<noteq> numPaths
                then Inl (ErrText ''length of quotaList must be consistent with length of paths'')
                else convert_quotas q (zip paths quotaStrs)))
      in case cachePaths of
           Inl e \<Rightarrow> Inl e
         | Inr ps \<Rightarrow> Inr \<lparr>level_MediumType = lvl_MediumType level, level_CachePaths = ps,
                         level_High = lvl_High level, level_Low = lvl_Low level\<rparr>)"

primrec convertToTieredstoreInfo ::
    "'q quantity_ops \<Rightarrow> 'q TieredStore \<Rightarrow> err + 'q TieredStoreInfo" where
  "convertToTieredstoreInfo q [] = Inr []"
| "convertToTieredstoreInfo q (level # levels) =
     (case convert_level q level of
        Inl e \<Rightarrow> Inl e
      | Inr l \<Rightarrow> (case convertToTieredstoreInfo q levels of Inl e \<Rightarrow> Inl e | Inr ls \<Rightarrow> Inr (l # ls)))"

definition BuildRuntimeInfo ::
    "'q quantity_ops \<Rightarrow> string \<Rightarrow> string \<Rightarrow> string \<Rightarrow> 'q TieredStore \<Rightarrow> err + 'q RuntimeInfo" where
  "BuildRuntimeInfo q name namespace runtimeType tieredstore =
     (case convertToTieredstoreInfo q tieredstore of
        Inl e \<Rightarrow> Inl e
      | Inr info \<Rightarrow> Inr \<lparr>info_name = name, info_namespace = namespace, info_runtimeType = runtimeType,
          info_tieredstoreInfo = info, info_exclusive = False,
          info_fuse = \<lparr>fuse_info_Global = False, fuse_info_NodeSelector = Map.empty\<rparr>,
          info_deprecatedNodeLabel = False, info_deprecatedPVName = False\<rparr>)"

definition SetupFuseDeployMode :: "'q RuntimeInfo \<Rightarrow> bool \<Rightarrow> labels \<Rightarrow> 'q RuntimeInfo" where
  "SetupFuseDeployMode info global nodeSelector =
     info\<lparr>info_fuse := \<lparr>fuse_info_Global = True, fuse_info_NodeSelector = nodeSelector\<rparr>\<rparr>"

definition GetFuseDeployMode :: "'q RuntimeInfo \<Rightarrow> bool \<times> labels" where
  "GetFuseDeployMode info =
     (fuse_info_Global (info_fuse info), fuse_info_NodeSelector (info_fuse info))"

definition SetDeprecatedNodeLabel :: "'q RuntimeInfo \<Rightarrow> bool \<Rightarrow> 'q RuntimeInfo" where
  "SetDeprecatedNodeLabel info b = info\<lparr>info_deprecatedNodeLabel := b\<rparr>"

definition SetDeprecatedPVName :: "'q RuntimeInfo \<Rightarrow> bool \<Rightarrow> 'q RuntimeInfo" where
  "SetDeprecatedPVName info b = info\<lparr>info_deprecatedPVName := b\<rparr>"

section \<open>Label names\<close>

definition storage_prefix :: "'q RuntimeInfo \<Rightarrow> string" where
  "storage_prefix info = (if info_deprecatedNodeLabel info then DeprecatedStorageCapacityPrefix
     else LabelAnnotationStorageCapacityPrefix)"

definition getStoragetLabelName :: "'q RuntimeInfo \<Rightarrow> string \<Rightarrow> string \<Rightarrow> string" where
  "getStoragetLabelName info rd storage =
     storage_prefix info @ rd @ info_runtimeType info @ ''-'' @ storage @ info_namespace info @
     ''-'' @ info_name info"

definition GetLabelNameForMemory :: "'q RuntimeInfo \<Rightarrow> string" where
  "GetLabelNameForMemory info = (if info_deprecatedNodeLabel info
     then getStoragetLabelName info ''human-'' ''mem-'' else getStoragetLabelName info ''h-'' ''m-'')"

definition GetLabelNameForDisk :: "'q RuntimeInfo \<Rightarrow> string" where
  "GetLabelNameForDisk info = (if info_deprecatedNodeLabel info
     then getStoragetLabelName info ''human-'' ''disk-'' else getStoragetLabelName info ''h-'' ''d-'')"

definition GetLabelNameForTotal :: "'q RuntimeInfo \<Rightarrow> string" where
  "GetLabelNameForTotal info = (if info_deprecatedNodeLabel info
     then getStoragetLabelName info ''human-'' ''total-'' else getStoragetLabelName info ''h-'' ''t-'')"

definition GetCommonLabelName :: "'q RuntimeInfo \<Rightarrow> string" where
  "GetCommonLabelName info = storage_prefix info @ info_namespace info @ ''-'' @ info_name info"

definition GetRuntimeLabelName :: "'q RuntimeInfo \<Rightarrow> string" where
  "GetRuntimeLabelName info =
     storage_prefix info @ info_runtimeType info @ ''-'' @ info_namespace info @ ''-'' @ info_name info"

definition GetDatasetNumLabelName :: "'q RuntimeInfo \<Rightarrow> string" where
  "GetDatasetNumLabelName info = LabelAnnotationDatasetNum"

definition GetFuseLabelName :: "'q RuntimeInfo \<Rightarrow> string" where
  "GetFuseLabelName info = LabelAnnotationFusePrefix @ info_namespace info @ ''-'' @ info_name info"

section \<open>The tiered store\<close>

text \<open>The loop with its map of known media, then \<open>sort.Sort\<close> by tier.\<close>

primrec dedup_media :: "MediumType list \<Rightarrow> MediumType list \<Rightarrow> MediumType list" where
  "dedup_media [] known = []"
| "dedup_media (c # cs) known =
     (if c \<in> set known then dedup_media cs known else c # dedup_media cs (c # known))"

definition makeMediumTypeSorted :: "MediumType list \<Rightarrow> MediumType list" where
  "makeMediumTypeSorted mediumTypes = sort_key GetDefaultTieredStoreOrder (dedup_media mediumTypes [])"

definition store_of :: "MediumType \<Rightarrow> CacheStoreType" where
  "store_of m = (if m = SSD \<or> m = HDD then DiskCacheStore else MemoryCacheStore)"

primrec storage_loop ::
    "'q quantity_ops \<Rightarrow> 'q Level list \<Rightarrow> (CacheStoreType \<rightharpoonup> 'q) \<Rightarrow> (CacheStoreType \<rightharpoonup> 'q)" where
  "storage_loop q [] storage = storage"
| "storage_loop q (level # levels) storage =
     (let storageType = store_of (level_MediumType level);
          totalQuota = (case storage storageType of None \<Rightarrow> NewQuantity q 0 | Some capacity \<Rightarrow> capacity);
          totalQuota = foldl (\<lambda>t cp. QuantityAdd q t (cp_Quota cp)) totalQuota (level_CachePaths level)
      in storage_loop q levels (storage(storageType \<mapsto> totalQuota)))"

definition GetLevelStorageMap :: "'q quantity_ops \<Rightarrow> 'q RuntimeInfo \<Rightarrow> CacheStoreType \<rightharpoonup> 'q" where
  "GetLevelStorageMap q info = storage_loop q (info_tieredstoreInfo info) Map.empty"

primrec index_from :: "int \<Rightarrow> 'a list \<Rightarrow> 'a \<Rightarrow> int" where
  "index_from i [] v = -1"
| "index_from i (x # xs) v = (if x = v then i else index_from (i + 1) xs v)"

definition GetTieredLevel :: "'q RuntimeInfo \<Rightarrow> MediumType \<Rightarrow> int" where
  "GetTieredLevel info mediumType =
     index_from 0 (makeMediumTypeSorted (map level_MediumType (info_tieredstoreInfo info))) mediumType"

section \<open>The interface of the label names\<close>

text \<open>
  \<open>RuntimeInfoInterface\<close>, as far as the scheduler uses it: the names of the labels that mark a
  node. A provider promises that the names of one runtime are different.
\<close>

locale runtime_labels =
  fixes commonName runtimeName memoryName diskName totalName :: "'i \<Rightarrow> string"
  assumes names_distinct:
    "distinct [runtimeName i, totalName i, diskName i, memoryName i, commonName i]"
begin

definition node_label_names :: "'i \<Rightarrow> string list" where
  "node_label_names i = [runtimeName i, totalName i, diskName i, memoryName i, commonName i]"

lemma names_neq:
  "runtimeName i \<noteq> commonName i" "memoryName i \<noteq> diskName i" "memoryName i \<noteq> totalName i"
  "diskName i \<noteq> totalName i" "runtimeName i \<noteq> memoryName i" "runtimeName i \<noteq> diskName i"
  "runtimeName i \<noteq> totalName i" "commonName i \<noteq> memoryName i" "commonName i \<noteq> diskName i"
  "commonName i \<noteq> totalName i"
  using names_distinct [of i] by auto

lemma card_names: "card (set (node_label_names i)) = 5"
  using distinct_card [OF names_distinct [of i]] by (simp add: node_label_names_def)

end

lemmas label_name_defs =
  storage_prefix_def getStoragetLabelName_def GetLabelNameForMemory_def GetLabelNameForDisk_def
  GetLabelNameForTotal_def GetCommonLabelName_def GetRuntimeLabelName_def

lemma neq_by_length: "length xs \<noteq> length ys \<Longrightarrow> xs \<noteq> ys"
  by auto

interpretation info_labels: runtime_labels GetCommonLabelName GetRuntimeLabelName
  GetLabelNameForMemory GetLabelNameForDisk GetLabelNameForTotal
proof
  fix i :: "'a RuntimeInfo"
  show "distinct [GetRuntimeLabelName i, GetLabelNameForTotal i, GetLabelNameForDisk i,
      GetLabelNameForMemory i, GetCommonLabelName i]"
    by (cases "info_deprecatedNodeLabel i")
      (auto simp: label_name_defs dest: arg_cong [where f = length])
qed

section \<open>Laws of the conversion\<close>

lemma convert_quotas_ok:
  "(\<exists>ps. convert_quotas q xs = Inr ps) \<longleftrightarrow> (\<forall>x \<in> set xs. \<exists>v. ParseQuantity q (snd x) = Inr v)"
  by (induction xs) (auto split: sum.splits)

lemma convert_quotas_paths:
  "convert_quotas q xs = Inr ps \<Longrightarrow> map cp_Path ps = map (trim_slashes \<circ> fst) xs"
  by (induction xs arbitrary: ps) (auto split: sum.splits)

text \<open>What a level of the resource needs to be accepted.\<close>

definition level_ok :: "'q quantity_ops \<Rightarrow> 'q TierLevel \<Rightarrow> bool" where
  "level_ok q level \<longleftrightarrow>
     (if lvl_QuotaList level = [] then lvl_Quota level \<noteq> None
      else (let quotas = split_on CHR '','' (lvl_QuotaList level) in
            length quotas = length (split_on CHR '','' (lvl_Path level)) \<and>
            (\<forall>s \<in> set quotas. case ParseQuantity q s of Inl _ \<Rightarrow> False | Inr _ \<Rightarrow> True)))"

lemma convert_level_ok: "(\<exists>l. convert_level q level = Inr l) \<longleftrightarrow> level_ok q level"
proof (cases "lvl_QuotaList level = []")
  case True
  then show ?thesis
    by (auto simp: convert_level_def level_ok_def Let_def split: option.splits)
next
  case False
  let ?ps = "split_on CHR '','' (lvl_Path level)"
  let ?qs = "split_on CHR '','' (lvl_QuotaList level)"
  have conv: "(\<exists>l. convert_level q level = Inr l) \<longleftrightarrow>
      length ?qs = length ?ps \<and> (\<exists>ps. convert_quotas q (zip ?ps ?qs) = Inr ps)"
    using False by (auto simp: convert_level_def Let_def split: sum.splits)
  have "set ?qs = snd ` set (zip ?ps ?qs)" if "length ?qs = length ?ps"
    using that by (metis list.set_map map_snd_zip)
  then have "(\<forall>x \<in> set (zip ?ps ?qs). \<exists>v. ParseQuantity q (snd x) = Inr v) \<longleftrightarrow>
      (\<forall>s \<in> set ?qs. \<exists>v. ParseQuantity q s = Inr v)" if "length ?qs = length ?ps"
    using that by simp
  moreover have "(case ParseQuantity q s of Inl _ \<Rightarrow> False | Inr _ \<Rightarrow> True) \<longleftrightarrow>
      (\<exists>v. ParseQuantity q s = Inr v)" for s
    by (auto split: sum.splits)
  ultimately show ?thesis
    unfolding conv convert_quotas_ok level_ok_def Let_def using False by auto
qed

lemma convert_level_shape:
  assumes "convert_level q level = Inr l"
  shows "level_MediumType l = lvl_MediumType level \<and>
    map cp_Path (level_CachePaths l) = map trim_slashes (split_on CHR '','' (lvl_Path level))"
proof -
  let ?ps = "split_on CHR '','' (lvl_Path level)"
  let ?qs = "split_on CHR '','' (lvl_QuotaList level)"
  have "map (trim_slashes \<circ> fst) (zip ?ps ?qs) = map trim_slashes ?ps" if "length ?qs = length ?ps"
    using that by (metis map_fst_zip map_map)
  then show ?thesis
    using assms
    by (auto simp: convert_level_def Let_def comp_def split: if_splits option.splits sum.splits
        dest!: convert_quotas_paths)
qed

lemma convert_ok:
  "(\<exists>info. convertToTieredstoreInfo q ts = Inr info) \<longleftrightarrow> (\<forall>level \<in> set ts. level_ok q level)"
  by (induction ts) (auto simp: convert_level_ok [symmetric] split: sum.splits)

lemma convert_shape:
  "convertToTieredstoreInfo q ts = Inr info \<Longrightarrow>
   list_all2 (\<lambda>level l. convert_level q level = Inr l) ts info"
  by (induction ts arbitrary: info) (auto split: sum.splits)

section \<open>Laws of the tiers\<close>

lemma set_dedup: "set (dedup_media cs known) = set cs - set known"
  by (induction cs arbitrary: known) auto

lemma distinct_dedup: "distinct (dedup_media cs known)"
  by (induction cs arbitrary: known) (auto simp: set_dedup)

lemma order_inj: "inj GetDefaultTieredStoreOrder"
proof (rule injI)
  fix x y
  show "GetDefaultTieredStoreOrder x = GetDefaultTieredStoreOrder y \<Longrightarrow> x = y"
    by (cases x; cases y) auto
qed

lemma makeMediumTypeSorted_facts:
  "sorted (map GetDefaultTieredStoreOrder (makeMediumTypeSorted ms))"
  "distinct (makeMediumTypeSorted ms)" "set (makeMediumTypeSorted ms) = set ms"
  by (simp_all add: makeMediumTypeSorted_def distinct_dedup set_dedup)

lemma index_from_absent: "v \<notin> set xs \<Longrightarrow> index_from i xs v = -1"
  by (induction xs arbitrary: i) auto

lemma index_from_sorted:
  fixes f :: "'a \<Rightarrow> nat"
  assumes "inj f" "sorted (map f xs)" "distinct xs" "v \<in> set xs"
  shows "index_from i xs v = i + int (card {x \<in> set xs. f x < f v})"
  using assms(2-4)
proof (induction xs arbitrary: i)
  case Nil
  then show ?case by simp
next
  case (Cons a xs)
  show ?case
  proof (cases "a = v")
    case True
    then have "{x \<in> set (a # xs). f x < f v} = {}" using Cons.prems by auto
    then show ?thesis using True by simp
  next
    case False
    then have v: "v \<in> set xs" and "f a \<le> f v" using Cons.prems by auto
    moreover have "f a \<noteq> f v" using False assms(1) by (auto dest: injD)
    ultimately have "{x \<in> set (a # xs). f x < f v} = insert a {x \<in> set xs. f x < f v}" by auto
    then show ?thesis
      using Cons.IH [of "i + 1"] Cons.prems v False by simp
  qed
qed

section \<open>Laws of the storage map\<close>

lemma sint_add_in_range:
  fixes a b :: int64
  assumes "in_int64 (sint a + sint b)"
  shows "sint (a + b) = sint a + sint b"
proof -
  have "sint (a + b) = signed_take_bit 63 (sint a + sint b)"
    by (simp add: sint_word_ariths)
  then show ?thesis
    using assms by (simp add: in_int64_def signed_take_bit_int_eq_self)
qed

definition quota_sum :: "'q quantity_ops \<Rightarrow> 'q CachePath list \<Rightarrow> int" where
  "quota_sum q cps = sum_list (map (\<lambda>cp. sint (QuantityValue q (cp_Quota cp))) cps)"

lemma quota_sum_simps [simp]:
  "quota_sum q [] = 0"
  "quota_sum q (cp # cps) = sint (QuantityValue q (cp_Quota cp)) + quota_sum q cps"
  "quota_sum q (xs @ ys) = quota_sum q xs + quota_sum q ys"
  by (simp_all add: quota_sum_def)

text \<open>An amount the laws apply to: integral and not negative.\<close>

definition proper :: "'q quantity_ops \<Rightarrow> ('q \<Rightarrow> bool) \<Rightarrow> 'q \<Rightarrow> bool" where
  "proper q integral a \<longleftrightarrow> integral a \<and> 0 \<le> sint (QuantityValue q a)"

lemma quota_sum_nonneg:
  "\<forall>cp \<in> set cps. proper q integral (cp_Quota cp) \<Longrightarrow> 0 \<le> quota_sum q cps"
  by (induction cps) (auto simp: proper_def)

lemma fold_add:
  assumes "quantity_laws q integral" "proper q integral t"
    and "\<forall>cp \<in> set cps. proper q integral (cp_Quota cp)"
    and "sint (QuantityValue q t) + quota_sum q cps < 2 ^ 63"
  shows "let t' = foldl (\<lambda>t cp. QuantityAdd q t (cp_Quota cp)) t cps
    in proper q integral t' \<and>
       sint (QuantityValue q t') = sint (QuantityValue q t) + quota_sum q cps"
  using assms(2-4)
proof (induction cps arbitrary: t)
  case Nil
  then show ?case by simp
next
  case (Cons cp cps)
  let ?t = "QuantityAdd q t (cp_Quota cp)"
  have nn: "0 \<le> quota_sum q cps" using Cons.prems quota_sum_nonneg by auto
  then have range: "in_int64 (sint (QuantityValue q t) + sint (QuantityValue q (cp_Quota cp)))"
    using Cons.prems by (auto simp: in_int64_def proper_def)
  then have "integral ?t \<and> QuantityValue q ?t = QuantityValue q t + QuantityValue q (cp_Quota cp)"
    using assms(1) Cons.prems by (auto simp: quantity_laws_def proper_def)
  then have "proper q integral ?t" and
    "sint (QuantityValue q ?t) = sint (QuantityValue q t) + sint (QuantityValue q (cp_Quota cp))"
    using sint_add_in_range [OF range] Cons.prems by (auto simp: proper_def)
  then show ?case using Cons.IH [of ?t] Cons.prems by (simp add: Let_def)
qed

text \<open>The cache paths of the levels of one kind of store.\<close>

definition paths_of :: "'q Level list \<Rightarrow> CacheStoreType \<Rightarrow> 'q CachePath list" where
  "paths_of levels st =
     concat (map level_CachePaths (filter (\<lambda>l. store_of (level_MediumType l) = st) levels))"

definition stored_amount :: "'q quantity_ops \<Rightarrow> 'q option \<Rightarrow> int" where
  "stored_amount q a = (case a of None \<Rightarrow> 0 | Some v \<Rightarrow> sint (QuantityValue q v))"

lemma storage_loop_total:
  assumes "quantity_laws q integral"
    and "\<forall>cp \<in> set (paths_of levels st). proper q integral (cp_Quota cp)"
    and "\<forall>v. storage st = Some v \<longrightarrow> proper q integral v"
    and "stored_amount q (storage st) + quota_sum q (paths_of levels st) < 2 ^ 63"
  shows "(storage_loop q levels storage st = None \<longleftrightarrow>
      storage st = None \<and> (\<forall>l \<in> set levels. store_of (level_MediumType l) \<noteq> st)) \<and>
    stored_amount q (storage_loop q levels storage st) =
      stored_amount q (storage st) + quota_sum q (paths_of levels st)"
  using assms(2-4)
proof (induction levels arbitrary: storage)
  case Nil
  then show ?case by (simp add: paths_of_def)
next
  case (Cons level levels)
  let ?st = "store_of (level_MediumType level)"
  define base where "base = (case storage ?st of None \<Rightarrow> NewQuantity q 0 | Some c \<Rightarrow> c)"
  define t where "t = foldl (\<lambda>t cp. QuantityAdd q t (cp_Quota cp)) base (level_CachePaths level)"
  define storage' where "storage' = storage(?st \<mapsto> t)"
  have step: "storage_loop q (level # levels) storage = storage_loop q levels storage'"
    by (simp add: Let_def base_def t_def storage'_def)
  show ?case
  proof (cases "?st = st")
    case False
    then have "paths_of (level # levels) st = paths_of levels st" by (simp add: paths_of_def)
    moreover have "storage' st = storage st" using False by (simp add: storage'_def)
    ultimately show ?thesis
      using Cons.IH [of storage'] Cons.prems False unfolding step by simp
  next
    case True
    have paths: "paths_of (level # levels) st = level_CachePaths level @ paths_of levels st"
      using True by (simp add: paths_of_def)
    have base: "proper q integral base \<and> sint (QuantityValue q base) = stored_amount q (storage st)"
      using assms(1) Cons.prems(2) True
      by (auto simp: base_def proper_def quantity_laws_def stored_amount_def split: option.splits)
    have "0 \<le> quota_sum q (paths_of levels st)"
      using Cons.prems(1) paths quota_sum_nonneg [of "paths_of levels st"] by auto
    then have "proper q integral t \<and>
        sint (QuantityValue q t) = stored_amount q (storage st) + quota_sum q (level_CachePaths level)"
      using fold_add [OF assms(1), of base "level_CachePaths level"] base Cons.prems paths
      by (simp add: Let_def t_def)
    moreover have "storage' st = Some t" using True by (simp add: storage'_def)
    ultimately show ?thesis
      using Cons.IH [of storage'] Cons.prems True paths unfolding step
      by (simp add: stored_amount_def)
  qed
qed

lemma sint_int64: "in_int64 i \<Longrightarrow> sint (word_of_int i :: int64) = i"
  by (simp add: in_int64_def signed_of_int signed_take_bit_int_eq_self)

lemma div_in_int64:
  assumes "0 \<le> sint (v :: int64)" "0 < (n :: int)"
  shows "in_int64 (sint v div n)"
proof -
  have "sint v < 2 ^ 63" using sint_lt [of v] by simp
  then have "sint v div n < 2 ^ 63" using assms by (smt (verit) div_by_1 zdiv_mono2)
  moreover have "0 \<le> sint v div n" using assms by (simp add: pos_imp_zdiv_nonneg_iff)
  ultimately show ?thesis by (simp add: in_int64_def)
qed

lemma quot64_nonneg:
  assumes "0 \<le> sint v" "0 < n" "n < 2 ^ 63"
  shows "sint (quot64 v (of_nat n)) = sint v div int n"
proof -
  have n: "sint (of_nat n :: int64) = int n"
    using assms(3) by (simp add: signed_of_nat signed_take_bit_int_eq_self)
  have "sgn (sint v) * sgn (int n) * (\<bar>sint v\<bar> div \<bar>int n\<bar>) = sint v div int n"
    using assms(1,2) by (cases "sint v = 0") (auto simp: sgn_if)
  then have "quot64 v (of_nat n) = word_of_int (sint v div int n)"
    unfolding quot64_def n by simp
  then show ?thesis
    using sint_int64 [OF div_in_int64, of v "int n"] assms(1,2) by simp
qed

section \<open>Concrete quantities\<close>

text \<open>Quantities that are plain integers, for concrete runs.\<close>

definition int_quantities :: "int64 quantity_ops" where
  "int_quantities = \<lparr>NewQuantity = (\<lambda>n. n), QuantityValue = (\<lambda>n. n), QuantityAdd = (+),
     QuantityCmp = (\<lambda>a b. sgn (sint a - sint b)),
     ParseQuantity = (\<lambda>s. if s \<noteq> [] \<and> list_all is_digit s
        then Inr (foldl (\<lambda>n c. 10 * n + of_nat (digit_val c)) 0 s) else Inl (NumSyntax s)),
     QuantityString = FormatInt64, BytesSize = FormatInt64\<rparr>"

lemma int_quantities_laws: "quantity_laws int_quantities (\<lambda>_. True)"
  by (simp add: quantity_laws_def int_quantities_def)

definition sample_level :: "MediumType \<Rightarrow> string \<Rightarrow> int64 option \<Rightarrow> string \<Rightarrow> int64 TierLevel" where
  "sample_level m p v qs = \<lparr>lvl_MediumType = m, lvl_Path = p, lvl_Quota = v, lvl_QuotaList = qs,
     lvl_High = ''0.95'', lvl_Low = ''0.7''\<rparr>"

section \<open>Properties\<close>

text \<open>
  C22: \<open>convertToTieredstoreInfo\<close> succeeds exactly when every level is well formed: it has a quota, or
  a quota list with one parsable quota for each path (the list wins over the quota). The result has
  one level per level of the resource, with the same medium and with the level's paths, split at the commas and
  freed of trailing slashes.
\<close>

theorem convertToTieredstoreInfo_spec:
  "((\<exists>info. convertToTieredstoreInfo q ts = Inr info) \<longleftrightarrow> (\<forall>level \<in> set ts. level_ok q level)) \<and>
   (\<forall>info. convertToTieredstoreInfo q ts = Inr info \<longrightarrow>
      list_all2 (\<lambda>level l. level_MediumType l = lvl_MediumType level \<and>
        map cp_Path (level_CachePaths l) = map trim_slashes (split_on CHR '','' (lvl_Path level)))
      ts info)"
  using convert_ok convert_shape convert_level_shape by (blast intro: list_all2_mono)

theorem convertToTieredstoreInfo_spec_witness:
  "(\<exists>info. convertToTieredstoreInfo int_quantities
      [sample_level MEM ''/dev/shm/,/data'' None ''10,20''] = Inr info) \<and>
   \<not> (\<exists>info. convertToTieredstoreInfo int_quantities
      [sample_level MEM ''/dev/shm/,/data'' None ''10''] = Inr info)"
proof -
  have "level_ok int_quantities (sample_level MEM ''/dev/shm/,/data'' None ''10,20'')"
    "\<not> level_ok int_quantities (sample_level MEM ''/dev/shm/,/data'' None ''10'')"
    by code_simp+
  then show ?thesis
    using convertToTieredstoreInfo_spec
        [of int_quantities "[sample_level MEM ''/dev/shm/,/data'' None ''10,20'']"]
      convertToTieredstoreInfo_spec
        [of int_quantities "[sample_level MEM ''/dev/shm/,/data'' None ''10'']"]
    by (simp del: convertToTieredstoreInfo.simps)
qed

text \<open>
  C23: When a level has only a quota, \<open>convert_level\<close> gives each of its \<open>n\<close> paths the quota divided by
  \<open>n\<close>, rounded down: the paths together never exceed the quota and fall short of it by less
  than \<open>n\<close> bytes.
\<close>

theorem quota_divided_among_paths:
  assumes "quantity_laws q integral" "lvl_QuotaList level = []" "lvl_Quota level = Some quota"
    and "0 \<le> sint (QuantityValue q quota)" "convert_level q level = Inr l"
    and "length (split_on CHR '','' (lvl_Path level)) < 2 ^ 63"
  shows "quota_sum q (level_CachePaths l) \<le> sint (QuantityValue q quota) \<and>
    sint (QuantityValue q quota) - quota_sum q (level_CachePaths l)
      < int (length (level_CachePaths l))"
proof -
  define n where "n = length (split_on CHR '','' (lvl_Path level))"
  define v where "v = sint (QuantityValue q quota)"
  have n: "0 < n" by (simp add: n_def)
  have l: "level_CachePaths l = map (\<lambda>p. \<lparr>cp_Path = trim_slashes p,
      cp_Quota = NewQuantity q (quot64 (QuantityValue q quota) (of_nat n))\<rparr>)
      (split_on CHR '','' (lvl_Path level))"
    using assms(2,3,5) by (auto simp: convert_level_def n_def Let_def)
  have "quota_sum q (level_CachePaths l) = int n * (v div int n)"
    using assms(1,4,6) n quot64_nonneg [of "QuantityValue q quota" n]
    unfolding l quota_sum_def n_def v_def
    by (simp add: quantity_laws_def comp_def sum_list_triv)
  moreover have "int n * (v div int n) = v - v mod int n" by (simp add: minus_mod_eq_mult_div)
  moreover have "0 \<le> v mod int n" "v mod int n < int n" using n by simp_all
  moreover have "length (level_CachePaths l) = n" by (simp add: l n_def)
  ultimately show ?thesis unfolding v_def [symmetric] by linarith
qed

theorem quota_divided_among_paths_witness:
  "\<exists>l. convert_level int_quantities (sample_level MEM ''/a,/b,/c'' (Some 100) []) = Inr l \<and>
     quota_sum int_quantities (level_CachePaths l) \<le> 100"
proof -
  obtain l where l: "convert_level int_quantities (sample_level MEM ''/a,/b,/c'' (Some 100) []) = Inr l"
    by (simp add: convert_level_def sample_level_def Let_def)
  show ?thesis
    using quota_divided_among_paths [OF int_quantities_laws, of
        "sample_level MEM ''/a,/b,/c'' (Some 100) []" 100 l] l
    by (simp add: sample_level_def int_quantities_def)
qed

text \<open>
  \<open>GetTieredLevel\<close> is the rank of a medium among the media in use: the number of different media
  of the tiered store that are faster, or -1 when no level uses the medium. It rests on
  \<open>makeMediumTypeSorted\<close>, which returns the media in use once each, from the fastest to the slowest.
\<close>

theorem GetTieredLevel_rank:
  "let ms = map level_MediumType (info_tieredstoreInfo info) in
   GetTieredLevel info m =
     (if m \<in> set ms
      then int (card {x \<in> set ms. GetDefaultTieredStoreOrder x < GetDefaultTieredStoreOrder m})
      else -1) \<and>
   sorted (map GetDefaultTieredStoreOrder (makeMediumTypeSorted ms)) \<and>
   distinct (makeMediumTypeSorted ms) \<and> set (makeMediumTypeSorted ms) = set ms"
  using index_from_sorted [OF order_inj makeMediumTypeSorted_facts(1,2), of m _ 0]
    makeMediumTypeSorted_facts
  by (simp add: GetTieredLevel_def Let_def index_from_absent)

text \<open>
  \<open>GetLevelStorageMap\<close> adds up the quotas: a kind of store has an entry exactly when a level uses
  it, and the entry is the sum of the quotas of all cache paths of its levels, as long as the quotas are
  integral, not negative and their sum fits into 64 bits.
\<close>

theorem GetLevelStorageMap_total:
  assumes "quantity_laws q integral"
    and "\<forall>cp \<in> set (paths_of (info_tieredstoreInfo info) st). proper q integral (cp_Quota cp)"
    and "quota_sum q (paths_of (info_tieredstoreInfo info) st) < 2 ^ 63"
  shows "(GetLevelStorageMap q info st = None \<longleftrightarrow>
      (\<forall>l \<in> set (info_tieredstoreInfo info). store_of (level_MediumType l) \<noteq> st)) \<and>
    stored_amount q (GetLevelStorageMap q info st) =
      quota_sum q (paths_of (info_tieredstoreInfo info) st)"
  using storage_loop_total [OF assms(1,2), of Map.empty] assms(3)
  by (simp add: GetLevelStorageMap_def stored_amount_def)

definition sample_info :: "int64 RuntimeInfo" where
  "sample_info = (case BuildRuntimeInfo int_quantities ''hbase'' ''default'' ''alluxio''
     [sample_level SSD ''/ssd'' None ''30'', sample_level MEM ''/a,/b'' None ''10,20'',
      sample_level HDD ''/hdd'' None ''50''] of Inr i \<Rightarrow> i | Inl _ \<Rightarrow> undefined)"

lemma sample_info_stores:
  "info_tieredstoreInfo sample_info =
    [\<lparr>level_MediumType = SSD, level_CachePaths = [\<lparr>cp_Path = ''/ssd'', cp_Quota = 30\<rparr>],
      level_High = ''0.95'', level_Low = ''0.7''\<rparr>,
     \<lparr>level_MediumType = MEM, level_CachePaths = [\<lparr>cp_Path = ''/a'', cp_Quota = 10\<rparr>,
        \<lparr>cp_Path = ''/b'', cp_Quota = 20\<rparr>], level_High = ''0.95'', level_Low = ''0.7''\<rparr>,
     \<lparr>level_MediumType = HDD, level_CachePaths = [\<lparr>cp_Path = ''/hdd'', cp_Quota = 50\<rparr>],
      level_High = ''0.95'', level_Low = ''0.7''\<rparr>]"
  by code_simp

theorem GetLevelStorageMap_total_witness:
  "stored_amount int_quantities (GetLevelStorageMap int_quantities sample_info DiskCacheStore) = 80"
proof -
  have p: "paths_of (info_tieredstoreInfo sample_info) DiskCacheStore =
      [\<lparr>cp_Path = ''/ssd'', cp_Quota = 30\<rparr>, \<lparr>cp_Path = ''/hdd'', cp_Quota = 50\<rparr>]"
    by (simp add: sample_info_stores paths_of_def store_of_def)
  show ?thesis
    using GetLevelStorageMap_total [OF int_quantities_laws, of sample_info DiskCacheStore]
    by (simp add: p proper_def int_quantities_def)
qed

text \<open>
  The five labels that mark a node for one runtime (runtime, total, disk, memory and common) are
  pairwise different, for the current and the deprecated naming; two runtimes of different
  namespaces can share all of them.
\<close>

theorem label_names_distinct:
  "distinct [GetRuntimeLabelName info, GetLabelNameForTotal info, GetLabelNameForDisk info,
     GetLabelNameForMemory info, GetCommonLabelName info] \<and>
   GetCommonLabelName (info\<lparr>info_namespace := ''a-b'', info_name := ''c''\<rparr>) =
   GetCommonLabelName (info\<lparr>info_namespace := ''a'', info_name := ''b-c''\<rparr>)"
  using info_labels.names_distinct [of info] by (simp add: label_name_defs)

end
