(* ===== verification/Schedule.thy ===== *)
theory Schedule
  imports KubeClient Tieredstore "HOL-Library.AList" "HOL-Library.Multiset"
begin

text \<open>
  The placement of a runtime on the nodes of the cluster (\<open>pkg/utils/lifecycle\<close>): whether a node is or can
  be assigned, labelling and unlabelling a node, the choice of nodes, the order in which nodes
  are tried, and tolerations.

  A Go map is iterated in an unspecified order: the functions that iterate over the storage map take the
  order \<open>ord\<close> of its keys as an argument, and skip the keys that are not in the map.
\<close>

section \<open>Assigned and assignable nodes\<close>

definition AlreadyAssigned :: "'q RuntimeInfo \<Rightarrow> 'q Node \<Rightarrow> bool" where
  "AlreadyAssigned info node = (node_Labels node (GetCommonLabelName info) \<noteq> None)"

primrec fits_loop ::
    "'q quantity_ops \<Rightarrow> (CacheStoreType \<rightharpoonup> 'q) \<Rightarrow> 'q Node \<Rightarrow> CacheStoreType list \<Rightarrow> bool" where
  "fits_loop q storageMap node [] = True"
| "fits_loop q storageMap node (key # keys) =
     (case storageMap key of
        None \<Rightarrow> fits_loop q storageMap node keys
      | Some requirement \<Rightarrow>
          (if key = MemoryCacheStore then
             (if QuantityCmp q requirement (node_AllocatableMemory node) \<le> 0
              then fits_loop q storageMap node keys else False)
           else fits_loop q storageMap node keys))"

definition CanbeAssigned ::
    "'q quantity_ops \<Rightarrow> CacheStoreType list \<Rightarrow> 'q RuntimeInfo \<Rightarrow> 'q Node \<Rightarrow> bool" where
  "CanbeAssigned q ord info node =
     (if node_Labels node GetExclusiveKey \<noteq> None then False
      else fits_loop q (GetLevelStorageMap q info) node ord)"

definition FindLabelNameOnNode :: "'q Node \<Rightarrow> string \<Rightarrow> bool" where
  "FindLabelNameOnNode node key = (node_Labels node key \<noteq> None)"

section \<open>Labelling a node\<close>

text \<open>Both counters of data sets are commented out in the code: nothing changes, no error.\<close>

definition increaseDatasetNum ::
    "'q Node \<Rightarrow> 'q RuntimeInfo \<Rightarrow> LabelsToModify \<Rightarrow> LabelsToModify \<times> err option" where
  "increaseDatasetNum toUpdate info labelsToModify = (labelsToModify, None)"

definition DecreaseDatasetNum ::
    "'q Node \<Rightarrow> 'q RuntimeInfo \<Rightarrow> LabelsToModify \<Rightarrow> LabelsToModify \<times> err option" where
  "DecreaseDatasetNum toUpdate info labelsToModify = (labelsToModify, None)"

definition TranformQuantityToUnits :: "'q quantity_ops \<Rightarrow> 'q \<Rightarrow> string" where
  "TranformQuantityToUnits q a = BytesSize q (QuantityValue q a)"

primrec capacity_loop ::
    "'q quantity_ops \<Rightarrow> 'q RuntimeInfo \<Rightarrow> (CacheStoreType \<rightharpoonup> 'q) \<Rightarrow> CacheStoreType list
      \<Rightarrow> LabelsToModify \<times> 'q \<Rightarrow> LabelsToModify \<times> 'q" where
  "capacity_loop q info storageMap [] acc = acc"
| "capacity_loop q info storageMap (key # keys) acc =
     (case storageMap key of
        None \<Rightarrow> capacity_loop q info storageMap keys acc
      | Some requirement \<Rightarrow>
          (let val = TranformQuantityToUnits q requirement;
               lm = (if key = MemoryCacheStore
                     then labels_Add (fst acc) (GetLabelNameForMemory info) val
                     else labels_Add (fst acc) (GetLabelNameForDisk info) val)
           in capacity_loop q info storageMap keys (lm, QuantityAdd q (snd acc) requirement)))"

text \<open>The total starts from \<open>resource.MustParse("0Gi")\<close>, the amount 0.\<close>

definition labelNodeWithCapacityInfo ::
    "'q quantity_ops \<Rightarrow> CacheStoreType list \<Rightarrow> 'q RuntimeInfo \<Rightarrow> LabelsToModify \<Rightarrow> LabelsToModify" where
  "labelNodeWithCapacityInfo q ord info labelsToModify =
     (let (lm, totalRequirement) =
            capacity_loop q info (GetLevelStorageMap q info) ord (labelsToModify, NewQuantity q 0)
      in labels_Add lm (GetLabelNameForTotal info) (TranformQuantityToUnits q totalRequirement))"

text \<open>The labels that one attempt of \<open>LabelCacheNode\<close> appends to those of earlier attempts.\<close>

definition cache_labels ::
    "'q quantity_ops \<Rightarrow> CacheStoreType list \<Rightarrow> 'q RuntimeInfo \<Rightarrow> 'q Node \<Rightarrow> LabelsToModify
      \<Rightarrow> LabelsToModify \<times> err option" where
  "cache_labels q ord info node lm0 =
     (let lm = labels_Add lm0 (GetRuntimeLabelName info) ''true'';
          lm = labels_Add lm (GetCommonLabelName info) ''ok'';
          lm = (if info_exclusive info
                then labels_Add lm GetExclusiveKey (GetExclusiveValue (info_namespace info) (info_name info))
                else lm);
          (lm, err) = increaseDatasetNum node info lm
      in case err of
           Some e \<Rightarrow> (lm, Some e)
         | None \<Rightarrow> (labelNodeWithCapacityInfo q ord info lm, None))"

definition label_attempt ::
    "('w, 'q) client \<Rightarrow> 'q quantity_ops \<Rightarrow> CacheStoreType list \<Rightarrow> 'q RuntimeInfo \<Rightarrow> string
      \<Rightarrow> ('w \<times> captured, err option) state" where
  "label_attempt cl q ord info nodeName = do {
     r \<leftarrow> call (GetNode cl nodeName);
     case r of
       Inl e \<Rightarrow> ret (Some e)
     | Inr node \<Rightarrow> do {
         c \<leftarrow> get_captured;
         let (lm, err) = cache_labels q ord info node (cap_labelsToModify c) in do {
           _ \<leftarrow> upd_captured (\<lambda>c. c\<lparr>cap_labelsToModify := lm\<rparr>);
           case err of
             Some e \<Rightarrow> ret (Some e)
           | None \<Rightarrow> do {
               (modified, e) \<leftarrow> call (ChangeNodeLabelWithPatchMode cl node lm);
               _ \<leftarrow> upd_captured (\<lambda>c. c\<lparr>cap_modifiedLabels := modified\<rparr>);
               ret e
             }
         }
       }
   }"

text \<open>
  The error that the poll loop tests is the one of the enclosing function, which is nil there
  (the result of \<open>wait.Poll\<close> is bound to an inner variable of the same name): the loop body
  runs once, and the function returns nil whether or not the poll timed out.
\<close>

definition LabelCacheNode ::
    "('w, 'q) client \<Rightarrow> 'q quantity_ops \<Rightarrow> CacheStoreType list \<Rightarrow> 'q Node \<Rightarrow> 'q RuntimeInfo
      \<Rightarrow> ('w, err option) state" where
  "LabelCacheNode cl q ord nodeToLabel info =
     (let nodeName = node_Name nodeToLabel in do {
        (err, c) \<leftarrow> retrying cl (label_attempt cl q ord info nodeName);
        case err of
          Some e \<Rightarrow> ret (Some e)
        | None \<Rightarrow> do {
            _ \<leftarrow> Poll cl (do {
              r \<leftarrow> GetNode cl nodeName;
              ret (case r of
                 Inl e \<Rightarrow> (False, Some (ErrText (''failed to get node: '' @ err_msg e)))
               | Inr node \<Rightarrow> (ContainsAll (node_Labels node) (cap_modifiedLabels c), None))
            });
            ret None
          }
      })"

section \<open>Unlabelling a node\<close>

definition cache_label_names :: "'q RuntimeInfo \<Rightarrow> string list" where
  "cache_label_names info =
     [GetRuntimeLabelName info, GetLabelNameForTotal info, GetLabelNameForDisk info,
      GetLabelNameForMemory info, GetCommonLabelName info]"

definition uncache_labels :: "'q RuntimeInfo \<Rightarrow> 'q Node \<Rightarrow> LabelsToModify \<Rightarrow> LabelsToModify" where
  "uncache_labels info node lm0 =
     (let lm = foldl labels_Delete lm0 (cache_label_names info)
      in if node_Labels node GetExclusiveKey =
              Some (GetExclusiveValue (info_namespace info) (info_name info))
         then labels_Delete lm GetExclusiveKey else lm)"

definition unlabel_attempt ::
    "('w, 'q) client \<Rightarrow> 'q RuntimeInfo \<Rightarrow> string \<Rightarrow> ('w \<times> captured, err option) state" where
  "unlabel_attempt cl info nodeName = do {
     r \<leftarrow> call (Get_Node cl nodeName);
     case r of
       Inl e \<Rightarrow> ret (Some e)
     | Inr node \<Rightarrow> do {
         c \<leftarrow> get_captured;
         let lm = uncache_labels info node (cap_labelsToModify c);
             (lm, err) = DecreaseDatasetNum node info lm in do {
           _ \<leftarrow> upd_captured (\<lambda>c. c\<lparr>cap_labelsToModify := lm\<rparr>);
           case err of
             Some e \<Rightarrow> ret (Some e)
           | None \<Rightarrow> do {
               (modified, e) \<leftarrow> call (ChangeNodeLabelWithPatchMode cl node lm);
               ret e
             }
         }
       }
   }"

definition UnlabelCacheNode ::
    "('w, 'q) client \<Rightarrow> 'q Node \<Rightarrow> 'q RuntimeInfo \<Rightarrow> ('w, err option) state" where
  "UnlabelCacheNode cl node info = do {
     (err, c) \<leftarrow> retrying cl (unlabel_attempt cl info (node_Name node));
     ret err
   }"

section \<open>Choosing nodes\<close>

text \<open>
  The loop over the candidate nodes: the map of scheduled nodes by name, and the nodes that are new.
\<close>

primrec select_loop ::
    "'q quantity_ops \<Rightarrow> CacheStoreType list \<Rightarrow> 'q RuntimeInfo \<Rightarrow> int32 \<Rightarrow> 'q Node list
      \<Rightarrow> (string \<times> 'q Node) list \<times> 'q Node list \<Rightarrow> (string \<times> 'q Node) list \<times> 'q Node list" where
  "select_loop q ord info desiredNum [] acc = acc"
| "select_loop q ord info desiredNum (node # nodes) acc =
     (let (current, new) = acc; go = select_loop q ord info desiredNum nodes in
      if len32 current = desiredNum then acc
      else if map_of current (node_Name node) \<noteq> None then go acc
      else if \<not> IsReady node then go acc
      else if node_Unschedulable node then go acc
      else if \<not> AlreadyAssigned info node then
        (if \<not> CanbeAssigned q ord info node then go acc
         else go (AList.update (node_Name node) node current, new @ [node]))
      else go (AList.update (node_Name node) node current, new))"

text \<open>
  The mutex that serialises the scheduling is left out: a call is one sequential program. A
  not-found error of the second listing is kept in \<open>err\<close> and returned when no node is labelled.
\<close>

definition AssignDatasetToNodes ::
    "('w, 'q) client \<Rightarrow> 'q quantity_ops \<Rightarrow> CacheStoreType list \<Rightarrow> 'q RuntimeInfo \<Rightarrow> int32
      \<Rightarrow> ('w, int32 \<times> err option) state" where
  "AssignDatasetToNodes cl q ord info desiredNum = do {
     r \<leftarrow> List_Node cl everything;
     case r of
       Inl e \<Rightarrow> ret (0, Some e)
     | Inr nodes \<Rightarrow>
         (case LabelsParse cl (GetCommonLabelName info @ ''=true'') of
            Inl e \<Rightarrow> ret (0, Some e)
          | Inr datasetLabels \<Rightarrow> do {
              s \<leftarrow> List_Node cl datasetLabels;
              case (case s of
                  Inl e \<Rightarrow> (if is_not_found e then Inr ([], Some e) else Inl e)
                | Inr items \<Rightarrow> Inr (items, None)) of
                Inl e \<Rightarrow> ret (0, Some e)
              | Inr (alreadySched, err) \<Rightarrow>
                  (let current = foldl (\<lambda>m n. AList.update (node_Name n) n m) [] alreadySched;
                       (current, new) = select_loop q ord info desiredNum nodes (current, []);
                       currentScheduleNum = len32 current
                   in do {
                     failed \<leftarrow> for_each (\<lambda>node. LabelCacheNode cl q ord node info) new;
                     ret (currentScheduleNum,
                          case failed of Some e \<Rightarrow> Some e
                          | None \<Rightarrow> (if new = [] then err else None))
                   })
            })
   }"

section \<open>The order of candidates\<close>

definition mount_num :: "(string \<rightharpoonup> int64) \<Rightarrow> 'q Node \<Rightarrow> int" where
  "mount_num m node = (case m (node_Name node) of None \<Rightarrow> 0 | Some n \<Rightarrow> sint n)"

text \<open>The binary search; the interval is never outside of the list.\<close>

function insert_position :: "(string \<rightharpoonup> int64) \<Rightarrow> int \<Rightarrow> 'q Node list \<Rightarrow> int \<Rightarrow> int \<Rightarrow> int" where
  "insert_position m num xs low high =
     (if low \<le> high then
        (let middle = (low + high) div 2 in
         if num > mount_num m (xs ! nat middle) then insert_position m num xs low (middle - 1)
         else insert_position m num xs (middle + 1) high)
      else low)"
  by pat_completeness auto
termination
  by (relation "measure (\<lambda>(m, num, xs, low, high). nat (high - low + 1))") auto

declare insert_position.simps [simp del]

text \<open>The loop that moves the elements from \<open>low\<close> on by one place, from the last to the first.\<close>

function shift_loop :: "'a list \<Rightarrow> int \<Rightarrow> int \<Rightarrow> 'a list" where
  "shift_loop xs k low =
     (if low \<le> k then shift_loop (xs[nat (k + 1) := xs ! nat k]) (k - 1) low else xs)"
  by pat_completeness auto
termination
  by (relation "measure (\<lambda>(xs, k, low). nat (k - low + 1))") auto

declare shift_loop.simps [simp del]

definition binary_insert :: "(string \<rightharpoonup> int64) \<Rightarrow> 'q Node \<Rightarrow> 'q Node list \<Rightarrow> 'q Node list" where
  "binary_insert m node xs =
     (if xs = [] then [node]
      else (let k = int (length xs) - 1;
                low = insert_position m (mount_num m node) xs 0 k;
                ys = shift_loop (xs @ [xs ! nat k]) k low
            in ys[nat low := node]))"

primrec sort_loop ::
    "(string \<rightharpoonup> int64) \<Rightarrow> (string \<times> string) list \<Rightarrow> 'q Node list
      \<Rightarrow> 'q Node list \<times> 'q Node list \<times> 'q Node list \<Rightarrow> 'q Node list \<times> 'q Node list \<times> 'q Node list" where
  "sort_loop m selector [] acc = acc"
| "sort_loop m selector (node # nodes) acc =
     (let (mounted, selected, notSelected) = acc in
      sort_loop m selector nodes
        (if m (node_Name node) \<noteq> None then (binary_insert m node mounted, selected, notSelected)
         else if ContainsSelector (node_Labels node) selector
         then (mounted, selected @ [node], notSelected)
         else (mounted, selected, notSelected @ [node])))"

definition sortNodesToBeScheduled ::
    "'q Node list \<Rightarrow> (string \<rightharpoonup> int64) \<Rightarrow> (string \<times> string) list \<Rightarrow> 'q Node list" where
  "sortNodesToBeScheduled nodes pvcMountNodesMap nodeSelector =
     (let (mounted, selected, notSelected) = sort_loop pvcMountNodesMap nodeSelector nodes ([], [], [])
      in mounted @ selected @ notSelected)"

section \<open>Tolerations\<close>

text \<open>\<open>tolerates\<close> stands for the method \<open>ToleratesTaint\<close> of a toleration.\<close>

definition toleratesTaints :: "('t \<Rightarrow> Taint \<Rightarrow> bool) \<Rightarrow> Taint list \<Rightarrow> 't list \<Rightarrow> bool" where
  "toleratesTaints tolerates taints tolerations =
     (let filteredTaints = filter (\<lambda>t. taint_Effect t = NoExecute \<or> taint_Effect t = NoSchedule) taints
      in if tolerations = [] then False
         else list_all (\<lambda>taint. list_ex (\<lambda>t. tolerates t taint) tolerations) filteredTaints)"

section \<open>Insertion into a sorted list\<close>

text \<open>
  What the ordering loop needs of its insertion: the new element goes behind every element that ranks
  the same or before, and the rest follows. Inserting the elements of a list one after the other
  is then a stable sort.
\<close>

locale stable_insertion =
  fixes rank :: "'a \<Rightarrow> int" and ins :: "'a \<Rightarrow> 'a list \<Rightarrow> 'a list"
  assumes ins_law: "sorted (map rank xs) \<Longrightarrow>
    \<exists>ys zs. xs = ys @ zs \<and> ins a xs = ys @ a # zs \<and>
      (\<forall>y \<in> set ys. rank y \<le> rank a) \<and> (\<forall>z \<in> set zs. rank a < rank z)"
begin

lemma ins_facts:
  assumes "sorted (map rank xs)"
  shows "sorted (map rank (ins a xs)) \<and> mset (ins a xs) = mset (xs @ [a]) \<and>
    (\<forall>k. filter (\<lambda>x. rank x = k) (ins a xs) = filter (\<lambda>x. rank x = k) (xs @ [a]))"
proof -
  obtain ys zs where d: "xs = ys @ zs" "ins a xs = ys @ a # zs"
    "\<forall>y \<in> set ys. rank y \<le> rank a" "\<forall>z \<in> set zs. rank a < rank z"
    using ins_law [OF assms] by blast
  have "filter (\<lambda>x. rank x = rank a) zs = []" using d(4) by (auto simp: filter_empty_conv)
  then show ?thesis
    using assms d by (auto simp: sorted_append le_less)
qed

lemma foldl_ins:
  "sorted (map rank acc) \<Longrightarrow>
   sorted (map rank (foldl (\<lambda>l a. ins a l) acc xs)) \<and>
   mset (foldl (\<lambda>l a. ins a l) acc xs) = mset (acc @ xs) \<and>
   (\<forall>k. filter (\<lambda>x. rank x = k) (foldl (\<lambda>l a. ins a l) acc xs) = filter (\<lambda>x. rank x = k) (acc @ xs))"
proof (induction xs arbitrary: acc)
  case Nil
  then show ?case by simp
next
  case (Cons a xs)
  note f = ins_facts [OF Cons.prems, of a]
  then show ?case using Cons.IH [of "ins a acc"] by simp
qed

lemma foldl_ins_sort: "foldl (\<lambda>l a. ins a l) [] xs = sort_key rank xs"
proof -
  have "sorted (map rank (foldl (\<lambda>l a. ins a l) [] xs))"
    "mset (foldl (\<lambda>l a. ins a l) [] xs) = mset xs"
    "\<And>k. filter (\<lambda>x. rank x = k) (foldl (\<lambda>l a. ins a l) [] xs) = filter (\<lambda>x. rank x = k) xs"
    using foldl_ins [of "[]" xs] by auto
  then show ?thesis
    using properties_for_sort_key [of "foldl (\<lambda>l a. ins a l) [] xs" xs rank]
    by (metis (mono_tags, lifting) filter_cong)
qed

end

lemma shift_loop_spec:
  assumes "-1 \<le> k" "0 \<le> low" "nat (k + 1) < length xs" "low \<le> k + 1"
  shows "(shift_loop xs k low)[nat low := a] =
    take (nat low) xs @ a # take (nat (k + 1) - nat low) (drop (nat low) xs) @ drop (nat (k + 2)) xs"
  using assms
proof (induction xs k low rule: shift_loop.induct)
  case (1 xs k low)
  show ?case
  proof (cases "low \<le> k")
    case False
    with 1 have k: "nat (k + 1) = nat low" "nat (k + 2) = Suc (nat low)" by linarith+
    have "shift_loop xs k low = xs" using False by (simp add: shift_loop.simps)
    then show ?thesis using 1(4) k by (simp add: upd_conv_take_nth_drop)
  next
    case True
    let ?xs = "xs[nat (k + 1) := xs ! nat k]"
    have "shift_loop xs k low = shift_loop ?xs (k - 1) low"
      using True by (subst shift_loop.simps) simp
    moreover have "(shift_loop ?xs (k - 1) low)[nat low := a] =
        take (nat low) ?xs @ a # take (nat k - nat low) (drop (nat low) ?xs) @ drop (nat (k + 1)) ?xs"
      using 1 True by (auto simp: add.commute)
    moreover have "take (nat low) ?xs = take (nat low) xs"
      using True 1(3) by (simp add: take_update_cancel)
    moreover have "take (nat k - nat low) (drop (nat low) ?xs) = take (nat k - nat low) (drop (nat low) xs)"
      using True 1(3) by (simp add: drop_update_swap take_update_cancel nat_diff_distrib)
    moreover have "drop (nat (k + 1)) ?xs = xs ! nat k # drop (nat (k + 2)) xs"
    proof -
      have "nat (k + 2) = Suc (nat (k + 1))" using True 1(3) by linarith
      then show ?thesis using 1(4) by (simp add: Cons_nth_drop_Suc [symmetric])
    qed
    moreover have "take (nat (k + 1) - nat low) (drop (nat low) xs) =
        take (nat k - nat low) (drop (nat low) xs) @ [xs ! nat k]"
    proof -
      have e: "nat (k + 1) - nat low = Suc (nat k - nat low)" using True 1(3) by linarith
      have l: "nat k - nat low < length (drop (nat low) xs)" using True 1(3,4) by simp
      show ?thesis
        unfolding e take_Suc_conv_app_nth [OF l] using True 1(3,4) by simp
    qed
    ultimately show ?thesis by simp
  qed
qed

lemma insert_position_spec:
  assumes "0 \<le> low" "low \<le> high + 1" "high < int (length xs)"
    and "\<forall>i < nat low. num \<le> mount_num m (xs ! i)"
    and "\<forall>i < length xs. nat (high + 1) \<le> i \<longrightarrow> mount_num m (xs ! i) < num"
    and "sorted (map (\<lambda>n. - mount_num m n) xs)"
  shows "let p = insert_position m num xs low high in
    0 \<le> p \<and> p \<le> int (length xs) \<and> (\<forall>i < nat p. num \<le> mount_num m (xs ! i)) \<and>
    (\<forall>i < length xs. nat p \<le> i \<longrightarrow> mount_num m (xs ! i) < num)"
  using assms
proof (induction m num xs low high rule: insert_position.induct)
  case (1 m num xs low high)
  have anti: "mount_num m (xs ! j) \<le> mount_num m (xs ! i)" if "i \<le> j" "j < length xs" for i j
    using 1(8) that by (auto simp: sorted_iff_nth_mono)
  show ?case
  proof (cases "low \<le> high")
    case False
    then have "high + 1 = low" using 1(4) by simp
    then show ?thesis
      using False 1(3-7) by (simp add: insert_position.simps [of m num xs low high])
  next
    case True
    define mid where "mid = (low + high) div 2"
    have mid: "low \<le> mid" "mid \<le> high" using True by (auto simp: mid_def)
    show ?thesis
    proof (cases "mount_num m (xs ! nat mid) < num")
      case less: True
      have "mount_num m (xs ! i) < num" if "nat mid \<le> i" "i < length xs" for i
        using anti [of "nat mid" i] that less by simp
      then show ?thesis
        using 1(1) [OF True mid_def less] 1(3-8) mid True less
        by (simp add: insert_position.simps [of m num xs low high] mid_def [symmetric])
    next
      case ge: False
      have "num \<le> mount_num m (xs ! i)" if "i < nat (mid + 1)" for i
        using anti [of i "nat mid"] that ge mid 1(3,5) by linarith
      then show ?thesis
        using 1(2) [OF True mid_def] ge 1(3-8) mid True
        by (simp add: insert_position.simps [of m num xs low high] mid_def [symmetric])
    qed
  qed
qed

lemma binary_insert_law:
  assumes "sorted (map (\<lambda>n. - mount_num m n) xs)"
  shows "\<exists>ys zs. xs = ys @ zs \<and> binary_insert m a xs = ys @ a # zs \<and>
    (\<forall>y \<in> set ys. - mount_num m y \<le> - mount_num m a) \<and>
    (\<forall>z \<in> set zs. - mount_num m a < - mount_num m z)"
proof (cases "xs = []")
  case True
  then show ?thesis by (auto simp: binary_insert_def)
next
  case False
  define k where "k = int (length xs) - 1"
  define p where "p = insert_position m (mount_num m a) xs 0 k"
  have p: "0 \<le> p" "p \<le> int (length xs)" "\<forall>i < nat p. mount_num m a \<le> mount_num m (xs ! i)"
    "\<forall>i < length xs. nat p \<le> i \<longrightarrow> mount_num m (xs ! i) < mount_num m a"
    using insert_position_spec [of 0 k xs "mount_num m a" m] assms
    by (auto simp: k_def p_def Let_def)
  have "binary_insert m a xs =
      take (nat p) xs @ a # take (length xs - nat p) (drop (nat p) (xs @ [xs ! nat k]))"
    using shift_loop_spec [of k p "xs @ [xs ! nat k]" a] p(1,2) False
    by (simp add: binary_insert_def Let_def k_def p_def nat_add_distrib)
  then have "binary_insert m a xs = take (nat p) xs @ a # drop (nat p) xs"
    using p(1,2) by simp
  moreover have "\<forall>y \<in> set (take (nat p) xs). - mount_num m y \<le> - mount_num m a"
    using p(2,3) by (auto simp: in_set_conv_nth)
  moreover have "\<forall>z \<in> set (drop (nat p) xs). - mount_num m a < - mount_num m z"
    using p(4) by (auto simp: in_set_conv_nth)
  ultimately show ?thesis by (metis append_take_drop_id)
qed

interpretation mount_order: stable_insertion "\<lambda>n. - mount_num m n" "binary_insert m" for m
  by unfold_locales (rule binary_insert_law)

lemma sort_loop_spec:
  "sort_loop m selector nodes (a, b, c) =
     (foldl (\<lambda>l n. binary_insert m n l) a (filter (\<lambda>n. m (node_Name n) \<noteq> None) nodes),
      b @ filter (\<lambda>n. m (node_Name n) = None \<and> ContainsSelector (node_Labels n) selector) nodes,
      c @ filter (\<lambda>n. m (node_Name n) = None \<and> \<not> ContainsSelector (node_Labels n) selector) nodes)"
  by (induction nodes arbitrary: a b c) auto

section \<open>Laws of the selection\<close>

definition eligible ::
    "'q quantity_ops \<Rightarrow> CacheStoreType list \<Rightarrow> 'q RuntimeInfo \<Rightarrow> 'q Node \<Rightarrow> bool" where
  "eligible q ord info node \<longleftrightarrow> IsReady node \<and> \<not> node_Unschedulable node \<and>
     (AlreadyAssigned info node \<or> CanbeAssigned q ord info node)"

lemma update_new: "map_of al k = None \<Longrightarrow> AList.update k v al = al @ [(k, v)]"
  by (induction al) (auto split: if_splits)

lemma len32_eq: "length xs < 2 ^ 32 \<Longrightarrow> len32 xs = n \<longleftrightarrow> length xs = unat n"
  by (auto simp: unat_of_nat take_bit_nat_eq_self dest!: arg_cong [of _ n unat] intro: unsigned_word_eqI)

lemma select_loop_step:
  "select_loop q ord info d (node # nodes) (cur, new) =
     (if len32 cur = d then (cur, new)
      else if map_of cur (node_Name node) \<noteq> None \<or> \<not> eligible q ord info node
      then select_loop q ord info d nodes (cur, new)
      else select_loop q ord info d nodes (cur @ [(node_Name node, node)],
             if AlreadyAssigned info node then new else new @ [node]))"
  by (auto simp: eligible_def update_new Let_def)

lemma select_loop_spec:
  assumes "select_loop q ord info d nodes (cur, new) = (cur', new')"
    and "distinct (map fst cur)" "length cur \<le> unat d"
  shows "distinct (map fst cur') \<and> length cur' \<le> unat d \<and>
    (\<exists>added. cur' = cur @ map (\<lambda>n. (node_Name n, n)) added \<and>
       new' = new @ filter (\<lambda>n. \<not> AlreadyAssigned info n) added \<and>
       (\<forall>n \<in> set added. n \<in> set nodes \<and> eligible q ord info n)) \<and>
    (length cur' < unat d \<longrightarrow>
       (\<forall>n \<in> set nodes. eligible q ord info n \<longrightarrow> node_Name n \<in> fst ` set cur'))"
  using assms
proof (induction nodes arbitrary: cur new)
  case Nil
  then show ?case by simp
next
  case (Cons node nodes)
  have u: "unat d < 2 ^ 32" using unsigned_less [of d] by simp
  have full: "len32 cur = d \<longleftrightarrow> length cur = unat d" using len32_eq [of cur d] Cons.prems(3) u by simp
  let ?added = "\<lambda>cur cur' new new' nodes added. cur' = cur @ map (\<lambda>n. (node_Name n, n)) added \<and>
      new' = new @ filter (\<lambda>n. \<not> AlreadyAssigned info n) added \<and>
      (\<forall>n \<in> set added. n \<in> set nodes \<and> eligible q ord info n)"
  show ?case
  proof (cases "len32 cur = d")
    case True
    then show ?thesis using Cons.prems full by (auto simp: select_loop_step intro: exI [of _ "[]"])
  next
    case False
    show ?thesis
    proof (cases "map_of cur (node_Name node) \<noteq> None \<or> \<not> eligible q ord info node")
      case skip: True
      have eq: "select_loop q ord info d nodes (cur, new) = (cur', new')"
        using Cons.prems(1) False skip by (simp only: select_loop_step) simp
      note IH = Cons.IH [OF eq Cons.prems(2,3)]
      then obtain added where added: "?added cur cur' new new' nodes added" by auto
      then have c1: "\<exists>added. ?added cur cur' new new' (node # nodes) added" by auto
      have c2: "node_Name node \<in> fst ` set cur'" if "eligible q ord info node"
        using skip that added by (auto simp: map_of_eq_None_iff)
      show ?thesis
        by (intro conjI c1) (use IH c2 in simp_all)
    next
      case take: False
      let ?cur = "cur @ [(node_Name node, node)]"
      let ?new = "if AlreadyAssigned info node then new else new @ [node]"
      have eq: "select_loop q ord info d nodes (?cur, ?new) = (cur', new')"
        using Cons.prems(1) False take by (simp only: select_loop_step) simp
      have "distinct (map fst ?cur)" using take Cons.prems(2) by (auto simp: map_of_eq_None_iff)
      moreover have "length ?cur \<le> unat d" using False full Cons.prems(3) by simp
      ultimately have IH: "distinct (map fst cur') \<and> length cur' \<le> unat d \<and>
          (\<exists>added. ?added ?cur cur' ?new new' nodes added) \<and>
          (length cur' < unat d \<longrightarrow>
            (\<forall>n \<in> set nodes. eligible q ord info n \<longrightarrow> node_Name n \<in> fst ` set cur'))"
        by (rule Cons.IH [OF eq])
      then obtain added where added: "?added ?cur cur' ?new new' nodes added" by blast
      then have "?added cur cur' new new' (node # nodes) (node # added)" using take by auto
      then have c1: "\<exists>added. ?added cur cur' new new' (node # nodes) added" by blast
      have c2: "node_Name node \<in> fst ` set cur'" using added by auto
      show ?thesis
        by (intro conjI c1) (use IH c2 in simp_all)
    qed
  qed
qed

lemma count_scheduled:
  "distinct (map fst cur @ map node_Name ns) \<Longrightarrow>
   foldl (\<lambda>m n. AList.update (node_Name n) n m) cur ns = cur @ map (\<lambda>n. (node_Name n, n)) ns"
proof (induction ns arbitrary: cur)
  case Nil
  then show ?case by simp
next
  case (Cons n ns)
  then have "AList.update (node_Name n) n cur = cur @ [(node_Name n, n)]"
    by (intro update_new) (auto simp: map_of_eq_None_iff)
  then show ?case using Cons.IH [of "cur @ [(node_Name n, n)]"] Cons.prems by simp
qed

section \<open>Laws of the labels\<close>

definition patch_of :: "LabelsToModify \<Rightarrow> string \<rightharpoonup> string option" where
  "patch_of lm = fst (patch_mode_loop lm Map.empty [])"

lemma patch_mode_snoc:
  "fst (patch_mode_loop (ls @ [l]) p md) = (fst (patch_mode_loop ls p md))
     (labelKey l \<mapsto> (if operationType l = DeleteLabel then None else Some (labelValue l)))"
  by (induction ls arbitrary: p md) (auto simp: Let_def split: OperationType.split)

lemma patch_of_simps [simp]:
  "patch_of (labels_Add lm k v) = (patch_of lm)(k \<mapsto> Some v)"
  "patch_of (labels_Delete lm k) = (patch_of lm)(k \<mapsto> None)"
  by (simp_all add: patch_of_def labels_Add_def labels_Delete_def label_operator_def patch_mode_snoc)

lemma patch_run:
  "snd (fst (run_state (ChangeNodeLabelWithPatchMode cl node lm) w)) = None \<Longrightarrow>
   run_state (PatchLabels_Node cl (node_Name node) (patch_of lm)) w =
     (None, snd (run_state (ChangeNodeLabelWithPatchMode cl node lm) w))"
  by (auto simp: ChangeNodeLabelWithPatchMode_def patch_of_def run_simps split: prod.splits option.splits)

lemma capacity_loop_other:
  "k \<noteq> GetLabelNameForMemory info \<Longrightarrow> k \<noteq> GetLabelNameForDisk info \<Longrightarrow>
   patch_of (fst (capacity_loop q info sm keys acc)) k = patch_of (fst acc) k"
  by (induction keys arbitrary: acc) (auto simp: Let_def split: option.splits)

lemma exclusive_key_other:
  "GetExclusiveKey \<noteq> GetCommonLabelName info" "GetExclusiveKey \<noteq> GetRuntimeLabelName info"
  "GetExclusiveKey \<noteq> GetLabelNameForTotal info" "GetExclusiveKey \<noteq> GetLabelNameForDisk info"
  "GetExclusiveKey \<noteq> GetLabelNameForMemory info"
  by (simp_all add: GetExclusiveKey_def FluidExclusiveKey_def label_name_defs
      DeprecatedStorageCapacityPrefix_def LabelAnnotationStorageCapacityPrefix_def
      LabelAnnotationPrefix_def)

lemma cache_labels_no_error: "snd (cache_labels q ord info node lm) = None"
  by (simp add: cache_labels_def increaseDatasetNum_def Let_def)

lemma cache_labels_patch:
  "patch_of (fst (cache_labels q ord info node lm)) (GetRuntimeLabelName info) = Some (Some ''true'')"
  "patch_of (fst (cache_labels q ord info node lm)) (GetCommonLabelName info) = Some (Some ''ok'')"
  "info_exclusive info \<Longrightarrow> patch_of (fst (cache_labels q ord info node lm)) GetExclusiveKey =
     Some (Some (GetExclusiveValue (info_namespace info) (info_name info)))"
  "\<exists>v. patch_of (fst (cache_labels q ord info node lm)) (GetLabelNameForTotal info) = Some (Some v)"
  using info_labels.names_neq [of info] exclusive_key_other [of info]
  by (simp_all add: cache_labels_def increaseDatasetNum_def labelNodeWithCapacityInfo_def Let_def
      capacity_loop_other case_prod_beta)

lemma foldl_delete:
  "patch_of (foldl labels_Delete lm ks) k = (if k \<in> set ks then Some None else patch_of lm k)"
  by (induction ks arbitrary: lm) auto

lemma uncache_labels_patch:
  "k \<in> set (cache_label_names info) \<Longrightarrow> patch_of (uncache_labels info node lm) k = Some None"
  "node_Labels node GetExclusiveKey = Some (GetExclusiveValue (info_namespace info) (info_name info)) \<Longrightarrow>
     patch_of (uncache_labels info node lm) GetExclusiveKey = Some None"
  by (auto simp: uncache_labels_def Let_def foldl_delete)

lemma label_attempt_post:
  assumes "get_node_contract cl node_labels" "patch_contract cl node_labels"
    and "run_state (label_attempt cl q ord info n) (w, c) = (None, (w', c'))"
  shows "\<exists>l node lm. node_labels w' n = Some (merge_labels l (patch_of (fst (cache_labels q ord info node lm))))"
proof -
  obtain node w1 where get: "run_state (Get_Node cl n) w = (Inr node, w1)"
    using assms(3)
    by (cases "run_state (Get_Node cl n) w"; cases "fst (run_state (Get_Node cl n) w)")
      (auto simp: label_attempt_def GetNode_def run_simps)
  then have n: "node_Name node = n" "node_labels w1 n = Some (node_Labels node)"
    using assms(1) unfolding get_node_contract_def by metis+
  let ?lm = "cache_labels q ord info node (cap_labelsToModify c)"
  have "snd (fst (run_state (ChangeNodeLabelWithPatchMode cl node (fst ?lm)) w1)) = None \<and>
      snd (run_state (ChangeNodeLabelWithPatchMode cl node (fst ?lm)) w1) = w'"
    using assms(3) get cache_labels_no_error [of q ord info node "cap_labelsToModify c"]
    by (auto simp: label_attempt_def GetNode_def run_simps split: prod.splits)
  then have "run_state (PatchLabels_Node cl n (patch_of (fst ?lm))) w1 = (None, w')"
    using patch_run [of cl node "fst ?lm" w1] n(1) by simp
  then have "node_labels w' n = Some (merge_labels (node_Labels node) (patch_of (fst ?lm)))"
    using assms(2) n(2) unfolding patch_contract_def by blast
  then show ?thesis by blast
qed

text \<open>The label changes collected by unlabelling only delete.\<close>

definition deletes_only :: "LabelsToModify \<Rightarrow> bool" where
  "deletes_only lm \<longleftrightarrow> (\<forall>k v. patch_of lm k = Some v \<longrightarrow> v = None)"

lemma deletes_only_uncache: "deletes_only lm \<Longrightarrow> deletes_only (uncache_labels info node lm)"
  by (auto simp: deletes_only_def uncache_labels_def Let_def foldl_delete)

lemma merged_uncache:
  assumes "deletes_only lm"
  shows "k \<in> set (cache_label_names info) \<Longrightarrow>
      merge_labels l (patch_of (uncache_labels info node lm)) k = None"
    and "merge_labels (node_Labels node) (patch_of (uncache_labels info node lm)) GetExclusiveKey
      \<noteq> Some (GetExclusiveValue (info_namespace info) (info_name info))"
proof -
  show "k \<in> set (cache_label_names info) \<Longrightarrow>
      merge_labels l (patch_of (uncache_labels info node lm)) k = None"
    by (simp add: merge_labels_def uncache_labels_patch)
  show "merge_labels (node_Labels node) (patch_of (uncache_labels info node lm)) GetExclusiveKey
      \<noteq> Some (GetExclusiveValue (info_namespace info) (info_name info))"
    using assms
    by (auto simp: merge_labels_def uncache_labels_def Let_def foldl_delete deletes_only_def
        split: option.splits if_splits)
qed

definition uncached :: "'q RuntimeInfo \<Rightarrow> labels \<Rightarrow> bool" where
  "uncached info l \<longleftrightarrow> (\<forall>k \<in> set (cache_label_names info). l k = None) \<and>
     l GetExclusiveKey \<noteq> Some (GetExclusiveValue (info_namespace info) (info_name info))"

lemma unlabel_attempt_post:
  assumes "get_node_contract cl node_labels" "patch_contract cl node_labels"
    and "deletes_only (cap_labelsToModify c)"
    and "run_state (unlabel_attempt cl info n) (w, c) = (e, (w', c'))"
  shows "deletes_only (cap_labelsToModify c') \<and>
    (e = None \<longrightarrow> (\<exists>l. node_labels w' n = Some l \<and> uncached info l))"
proof (cases "run_state (Get_Node cl n) w")
  case (Pair r w1)
  show ?thesis
  proof (cases r)
    case (Inl x)
    then show ?thesis using Pair assms(3,4) by (auto simp: unlabel_attempt_def run_simps)
  next
    case (Inr node)
    then have n: "node_Name node = n" "node_labels w1 n = Some (node_Labels node)"
      using assms(1) Pair unfolding get_node_contract_def by metis+
    let ?lm = "uncache_labels info node (cap_labelsToModify c)"
    let ?change = "run_state (ChangeNodeLabelWithPatchMode cl node ?lm) w1"
    have run: "c' = c\<lparr>cap_labelsToModify := ?lm\<rparr>" "snd (fst ?change) = e" "snd ?change = w'"
      using assms(4) Pair Inr
      by (auto simp: unlabel_attempt_def run_simps DecreaseDatasetNum_def Let_def split: prod.splits)
    have "uncached info (merge_labels (node_Labels node) (patch_of ?lm))"
      by (simp add: uncached_def merged_uncache [OF assms(3)])
    moreover have "node_labels w' n = Some (merge_labels (node_Labels node) (patch_of ?lm))"
      if "e = None"
      using assms(2) n patch_run [of cl node ?lm w1] run(2,3) that
      unfolding patch_contract_def by fastforce
    ultimately show ?thesis
      using run(1) deletes_only_uncache [OF assms(3)] by simp
  qed
qed

definition cached_labels :: "'q RuntimeInfo \<Rightarrow> labels \<Rightarrow> bool" where
  "cached_labels info l \<longleftrightarrow>
     l (GetRuntimeLabelName info) = Some ''true'' \<and> l (GetCommonLabelName info) = Some ''ok'' \<and>
     l (GetLabelNameForTotal info) \<noteq> None \<and>
     (info_exclusive info \<longrightarrow>
        l GetExclusiveKey = Some (GetExclusiveValue (info_namespace info) (info_name info)))"

lemma merged_cache: "cached_labels info (merge_labels l (patch_of (fst (cache_labels q ord info node lm))))"
proof -
  obtain v where
    "patch_of (fst (cache_labels q ord info node lm)) (GetLabelNameForTotal info) = Some (Some v)"
    using cache_labels_patch(4) by blast
  then show ?thesis by (simp add: cached_labels_def merge_labels_def cache_labels_patch)
qed

lemma LabelCacheNode_post:
  assumes "retry_contract cl" "poll_contract cl" "get_node_contract cl node_labels"
    "patch_contract cl node_labels"
    and "run_state (LabelCacheNode cl q ord node info) w = (None, w')"
  shows "\<exists>l. node_labels w' (node_Name node) = Some l \<and> cached_labels info l"
proof -
  let ?n = "node_Name node"
  let ?Q = "\<lambda>w. \<exists>l. node_labels w ?n = Some l \<and> cached_labels info l"
  obtain c w1 where retry: "run_state (retrying cl (label_attempt cl q ord info ?n)) w = ((None, c), w1)"
    using assms(5) by (auto simp: LabelCacheNode_def Let_def run_simps split: prod.splits option.splits)
  have "(None = (None :: err option) \<longrightarrow> ?Q w1) \<and> True"
  proof (rule retrying_post [OF assms(1) retry, of "\<lambda>_. True" "\<lambda>e w c. e = None \<longrightarrow> ?Q w"])
    fix w c e w' c'
    assume "run_state (label_attempt cl q ord info ?n) (w, c) = (e, (w', c'))"
    then show "True \<and> (e = None \<longrightarrow> ?Q w')"
      using label_attempt_post [OF assms(3,4)] merged_cache by metis
  qed simp
  then have Q1: "?Q w1" by simp
  have keep: "?Q (snd (run_state (do { r \<leftarrow> GetNode cl ?n; ret (f r) }) w))" if "?Q w" for w f
    using assms(3) that unfolding get_node_contract_def
    by (cases "run_state (Get_Node cl ?n) w") (auto simp: GetNode_def run_simps)
  have "?Q (snd (run_state (Poll cl (do { r \<leftarrow> GetNode cl ?n; ret (f r) })) w1))" for f
    by (rule assms(2) [unfolded poll_contract_def, rule_format, where P = ?Q]) (use keep Q1 in blast)+
  moreover have "\<exists>f. w' = snd (run_state (Poll cl (do { r \<leftarrow> GetNode cl ?n; ret (f r) })) w1)"
    using assms(5) retry
    by (auto simp: LabelCacheNode_def Let_def run_simps case_prod_beta intro!: exI dest!: arg_cong [of _ _ snd])
  ultimately show ?thesis by blast
qed

section \<open>Properties\<close>

text \<open>
  C15: \<open>sortNodesToBeScheduled\<close>, with its hand-written binary insertion, is a stable sort: first the
  nodes with pods that mount the claim, by descending number of mounts and in their old order
  when the numbers are equal, then the nodes that the selector selects, then the others, both in their old order.
\<close>

theorem sortNodesToBeScheduled_stable:
  "sortNodesToBeScheduled nodes m selector =
     sort_key (\<lambda>n. - mount_num m n) (filter (\<lambda>n. m (node_Name n) \<noteq> None) nodes) @
     filter (\<lambda>n. m (node_Name n) = None \<and> ContainsSelector (node_Labels n) selector) nodes @
     filter (\<lambda>n. m (node_Name n) = None \<and> \<not> ContainsSelector (node_Labels n) selector) nodes"
  by (simp add: sortNodesToBeScheduled_def sort_loop_spec mount_order.foldl_ins_sort)

text \<open>
  C16: The choice of nodes. When the nodes that are already counted have different names and do not
  exceed the desired number, \<open>AssignDatasetToNodes\<close> returns a number that does not exceed it
  either; every node it labels is in the cluster, ready, schedulable, not labelled yet, not taken by an exclusive runtime and has
  the memory; no node is counted twice; and when the desired number is not reached, every
  eligible node of the cluster is counted.
\<close>

theorem AssignDatasetToNodes_choice:
  assumes "run_state (List_Node cl everything) w = (Inr nodes, w1)"
    and "LabelsParse cl (GetCommonLabelName info @ ''=true'') = Inr sel"
    and "run_state (List_Node cl sel) w1 = (Inr scheduled, w2)"
    and "distinct (map node_Name scheduled)" "length scheduled \<le> unat desired"
    and "run_state (AssignDatasetToNodes cl q ord info desired) w = ((num, err), w')"
  shows "\<exists>added. let new = filter (\<lambda>n. \<not> AlreadyAssigned info n) added in
    num = len32 (scheduled @ added) \<and> length (scheduled @ added) \<le> unat desired \<and>
    distinct (map node_Name (scheduled @ added)) \<and>
    (\<forall>n \<in> set added. n \<in> set nodes \<and> eligible q ord info n) \<and>
    (length (scheduled @ added) < unat desired \<longrightarrow>
       (\<forall>n \<in> set nodes. eligible q ord info n \<longrightarrow> node_Name n \<in> node_Name ` set (scheduled @ added))) \<and>
    run_state (for_each (\<lambda>n. LabelCacheNode cl q ord n info) new) w2 = (err, w')"
proof -
  let ?cur = "map (\<lambda>n. (node_Name n, n)) scheduled"
  obtain cur' new where sel: "select_loop q ord info desired nodes (?cur, []) = (cur', new)"
    by fastforce
  have "distinct (map fst ?cur)" "length ?cur \<le> unat desired" using assms(4,5) by (simp_all add: comp_def)
  from select_loop_spec [OF sel this]
  obtain added where added: "cur' = ?cur @ map (\<lambda>n. (node_Name n, n)) added"
    "new = filter (\<lambda>n. \<not> AlreadyAssigned info n) added"
    "\<forall>n \<in> set added. n \<in> set nodes \<and> eligible q ord info n"
    and facts: "distinct (map fst cur')" "length cur' \<le> unat desired"
    "length cur' < unat desired \<longrightarrow>
       (\<forall>n \<in> set nodes. eligible q ord info n \<longrightarrow> node_Name n \<in> fst ` set cur')"
    by auto
  have cur': "length cur' = length (scheduled @ added)" "map fst cur' = map node_Name (scheduled @ added)"
    "fst ` set cur' = node_Name ` set (scheduled @ added)"
    using added(1) by (auto simp: image_Un image_image)
  have run: "num = len32 cur' \<and>
      run_state (for_each (\<lambda>n. LabelCacheNode cl q ord n info) new) w2 = (err, w')"
    using assms(1-3,6) count_scheduled [of "[]" scheduled] assms(4) sel
    by (auto simp: AssignDatasetToNodes_def run_simps split: prod.splits option.splits if_splits)
  show ?thesis
    unfolding Let_def
    by (rule exI [of _ added]) (use run facts added(2,3) cur' in simp)
qed

text \<open>A cluster of two bare nodes for concrete runs.\<close>

definition two_nodes :: cluster where
  "two_nodes = cluster0\<lparr>fc_nodes := [sample_node ''n1'' Map.empty, sample_node ''n2'' Map.empty]\<rparr>"

definition both_stores :: "CacheStoreType list" where
  "both_stores = [MemoryCacheStore, DiskCacheStore]"

theorem AssignDatasetToNodes_choice_witness:
  "\<exists>added. fst (fst (run_state (AssignDatasetToNodes fake_client int_quantities both_stores sample_info 1)
     two_nodes)) = len32 added \<and> length added \<le> 1 \<and> set added \<subseteq> set (fc_nodes two_nodes)"
proof -
  let ?run = "run_state (AssignDatasetToNodes fake_client int_quantities both_stores sample_info 1) two_nodes"
  obtain sel where sel: "LabelsParse fake_client (GetCommonLabelName sample_info @ ''=true'') = Inr sel"
    and none: "\<not> sel Map.empty"
    by (simp add: fake_client_def fake_parse_def)
  have all: "run_state (List_Node fake_client everything) two_nodes = (Inr (fc_nodes two_nodes), two_nodes)"
    by (simp add: fake_client_def everything_def two_nodes_def)
  have empty: "run_state (List_Node fake_client sel) two_nodes = (Inr [], two_nodes)"
    using none by (simp add: fake_client_def two_nodes_def sample_node_def)
  show ?thesis
    using AssignDatasetToNodes_choice [OF all sel empty, of 1 int_quantities both_stores
        "fst (fst ?run)" "snd (fst ?run)" "snd ?run"]
    by (fastforce simp: Let_def prod_eq_iff)
qed

text \<open>
  C17: After \<open>LabelCacheNode\<close> has returned without error the node carries the labels of the runtime: the
  runtime label with value true, the common label with value ok, the total capacity and, for an exclusive runtime, the
  exclusive label. As the scheduler and the shutdown select with the requirement that the common label is true,
  they do not find the node.
\<close>

theorem LabelCacheNode_marks_but_is_not_found:
  assumes "retry_contract cl" "poll_contract cl" "parse_contract cl"
    and "get_node_contract cl node_labels" "patch_contract cl node_labels"
    and "label_key (GetCommonLabelName info)"
    and "run_state (LabelCacheNode cl q ord node info) w = (None, w')"
  shows "\<exists>l. node_labels w' (node_Name node) = Some l \<and> cached_labels info l \<and>
    (\<forall>sel. LabelsParse cl (GetCommonLabelName info @ ''=true'') = Inr sel \<longrightarrow> \<not> sel l)"
proof -
  obtain l where l: "node_labels w' (node_Name node) = Some l" "cached_labels info l"
    using LabelCacheNode_post [OF assms(1,2,4,5,7)] by blast
  have "\<not> sel l" if "LabelsParse cl (GetCommonLabelName info @ ''=true'') = Inr sel" for sel
  proof -
    have "sel l \<longleftrightarrow> l (GetCommonLabelName info) = Some ''true''"
      using assms(3,6) that by (simp add: parse_contract_def)
    then show ?thesis using l(2) by (simp add: cached_labels_def)
  qed
  with l show ?thesis by blast
qed

lemma sample_label_run:
  "fst (run_state (LabelCacheNode fake_client int_quantities both_stores
     (sample_node ''n1'' Map.empty) sample_info) two_nodes) = None"
  by code_simp

theorem LabelCacheNode_marks_but_is_not_found_witness:
  "\<exists>l sel. labels_at (snd (run_state (LabelCacheNode fake_client int_quantities both_stores
       (sample_node ''n1'' Map.empty) sample_info) two_nodes)) ''n1'' = Some l \<and>
     cached_labels sample_info l \<and>
     LabelsParse fake_client (GetCommonLabelName sample_info @ ''=true'') = Inr sel \<and> \<not> sel l"
proof -
  let ?run = "run_state (LabelCacheNode fake_client int_quantities both_stores
     (sample_node ''n1'' Map.empty) sample_info) two_nodes"
  have run: "?run = (None, snd ?run)" using sample_label_run by (simp add: prod_eq_iff)
  have eq: "label_key (GetCommonLabelName sample_info)" by code_simp
  obtain sel where "LabelsParse fake_client (GetCommonLabelName sample_info @ ''=true'') = Inr sel"
    by (simp add: fake_client_def fake_parse_def)
  moreover have "node_Name (sample_node ''n1'' Map.empty) = ''n1''"
    by (simp add: sample_node_def named_meta_def)
  ultimately show ?thesis
    using LabelCacheNode_marks_but_is_not_found [OF fake_retry fake_poll fake_parse_contract
        fake_get_node fake_patch eq run] by auto
qed

text \<open>
  C18: After \<open>UnlabelCacheNode\<close> has returned without error the node carries none of the five labels of
  the runtime, and the exclusive label no longer names the runtime.
\<close>

theorem UnlabelCacheNode_clears:
  assumes "retry_contract cl" "get_node_contract cl node_labels" "patch_contract cl node_labels"
    and "run_state (UnlabelCacheNode cl node info) w = (None, w')"
  shows "\<exists>l. node_labels w' (node_Name node) = Some l \<and> uncached info l"
proof -
  obtain c where retry: "run_state (retrying cl (unlabel_attempt cl info (node_Name node))) w = ((None, c), w')"
    using assms(4) by (auto simp: UnlabelCacheNode_def run_simps split: prod.splits)
  have "deletes_only (cap_labelsToModify captured0)"
    by (simp add: captured0_def deletes_only_def patch_of_def)
  then show ?thesis
    using retrying_post [OF assms(1) retry, of "\<lambda>c. deletes_only (cap_labelsToModify c)"
        "\<lambda>e w c. e = None \<longrightarrow> (\<exists>l. node_labels w (node_Name node) = Some l \<and> uncached info l)"]
      unlabel_attempt_post [OF assms(2,3)] by blast
qed

definition labelled_node :: cluster where
  "labelled_node = cluster0\<lparr>fc_nodes := [sample_node ''n1'' [GetCommonLabelName sample_info \<mapsto> ''ok'',
     GetExclusiveKey \<mapsto> GetExclusiveValue ''default'' ''hbase'']]\<rparr>"

lemma sample_unlabel_run:
  "fst (run_state (UnlabelCacheNode fake_client (sample_node ''n1'' Map.empty) sample_info) labelled_node) = None"
  by code_simp

theorem UnlabelCacheNode_clears_witness:
  "\<exists>l. labels_at (snd (run_state (UnlabelCacheNode fake_client (sample_node ''n1'' Map.empty) sample_info)
      labelled_node)) ''n1'' = Some l \<and> uncached sample_info l"
proof -
  let ?run = "run_state (UnlabelCacheNode fake_client (sample_node ''n1'' Map.empty) sample_info) labelled_node"
  have run: "?run = (None, snd ?run)" using sample_unlabel_run by (simp add: prod_eq_iff)
  show ?thesis
    using UnlabelCacheNode_clears [OF fake_retry fake_get_node fake_patch run]
    by (simp add: sample_node_def named_meta_def)
qed

end
