(* ===== verification/PodExec.thy ===== *)
theory PodExec
  imports Utils
begin

text \<open>
  Commands in the containers of the Alluxio cluster. \<open>kubeclient/exec.go\<close> runs a command over the API
  server; the transport is a parameter (\<open>RawExec\<close>) and so is the race of a command with a timer.
  \<open>utils/exec/execInPod.go\<close> mounts, unmounts and measures tables; its package-level variables,
  the pod that commands go to, are a record that every function takes and returns.
\<close>

section \<open>Executing a command\<close>

record ExecOptions =
  eo_Command :: "string list"
  eo_Namespace :: string
  eo_PodName :: string
  eo_ContainerName :: string
  eo_CaptureStdout :: bool
  eo_CaptureStderr :: bool
  eo_PreserveWhitespace :: bool

text \<open>
  \<open>RawExec\<close> stands for the client set-up and the remote execution, with the raw outputs;
  \<open>TimerFires\<close> tells whether a timer expires before a command ends; \<open>Sleep\<close> waits.
\<close>

record 'w podexec =
  RawExec :: "ExecOptions \<Rightarrow> ('w, string \<times> string \<times> err option) state"
  TimerFires :: "string list \<Rightarrow> ('w, bool) state"
  Sleep :: "int \<Rightarrow> ('w, unit) state"

definition ExecWithOptions :: "'w podexec \<Rightarrow> ExecOptions \<Rightarrow> ('w, string \<times> string \<times> err option) state" where
  "ExecWithOptions px options = do {
     (stdout, stderr, e) \<leftarrow> RawExec px options;
     ret (if eo_PreserveWhitespace options then (stdout, stderr, e)
          else (trim_space stdout, trim_space stderr, e))
   }"

definition ExecCommandInContainerWithFullOutput ::
    "'w podexec \<Rightarrow> string \<Rightarrow> string \<Rightarrow> string \<Rightarrow> string list \<Rightarrow> ('w, string \<times> string \<times> err option) state" where
  "ExecCommandInContainerWithFullOutput px podName containerName namespace cmd =
     ExecWithOptions px \<lparr>eo_Command = cmd, eo_Namespace = namespace, eo_PodName = podName,
       eo_ContainerName = containerName, eo_CaptureStdout = True, eo_CaptureStderr = True,
       eo_PreserveWhitespace = False\<rparr>"

definition ExecCommandInContainer ::
    "'w podexec \<Rightarrow> string \<Rightarrow> string \<Rightarrow> string \<Rightarrow> string list \<Rightarrow> ('w, string \<times> string \<times> err option) state" where
  "ExecCommandInContainer px podName containerName namespace cmd =
     ExecCommandInContainerWithFullOutput px podName containerName namespace cmd"

definition ExecShellInContainer ::
    "'w podexec \<Rightarrow> string \<Rightarrow> string \<Rightarrow> string \<Rightarrow> string \<Rightarrow> ('w, string \<times> string \<times> err option) state" where
  "ExecShellInContainer px podName containerName namespace cmd =
     ExecCommandInContainer px podName containerName namespace [''/bin/sh'', ''-c'', cmd]"

section \<open>Tables in the cache\<close>

record exec_vars =
  execpodName :: string
  execnamespace :: string
  execcontainerName :: string

definition exec_vars0 :: exec_vars where
  "exec_vars0 = \<lparr>execpodName = ''demo1-master-0'', execnamespace = ''default'',
     execcontainerName = ''alluxio-master''\<rparr>"

definition hdfs_master_ip :: string where
  "hdfs_master_ip = ''210.28.132.15''"

definition initVal :: "('w, 'q) client \<Rightarrow> exec_vars \<Rightarrow> ('w, err option \<times> exec_vars) state" where
  "initVal cl ev = do {
     r \<leftarrow> List_AlluxioRuntime cl;
     ret (case r of
        Inl e \<Rightarrow> (Some e, ev)
      | Inr [] \<Rightarrow> (Some (ErrText ''fail to get the alluxio runtime''), ev)
      | Inr (rt # _) \<Rightarrow> (None, \<lparr>execpodName = om_Name (rt_meta rt) @ ''-master-0'',
          execnamespace = om_Namespace (rt_meta rt), execcontainerName = ''alluxio-master''\<rparr>))
   }"

text \<open>\<open>exec\<close> remembers where the command went.\<close>

definition exec_cmd ::
    "'w podexec \<Rightarrow> string list \<Rightarrow> exec_vars \<Rightarrow> ('w, string \<times> string \<times> err option) state" where
  "exec_cmd px command ev =
     ExecCommandInContainer px (execpodName ev) (execcontainerName ev) (execnamespace ev) command"

definition pod_vars :: "string \<Rightarrow> string \<Rightarrow> string \<Rightarrow> exec_vars" where
  "pod_vars podName containerName namespace =
     \<lparr>execpodName = podName, execnamespace = namespace, execcontainerName = containerName\<rparr>"

text \<open>The outputs of the two commands are parsed as they come; the difference wraps around.\<close>

definition ExecAlluxioFreeSize ::
    "'w podexec \<Rightarrow> string \<Rightarrow> string \<Rightarrow> string \<Rightarrow> ('w, int64 \<times> err option \<times> exec_vars) state" where
  "ExecAlluxioFreeSize px podName containerName namespace =
     (let ev = pod_vars podName containerName namespace in do {
        (stdout, stderr, e) \<leftarrow> exec_cmd px [''alluxio'', ''fs'', ''getUsedBytes''] ev;
        if e \<noteq> None then ret (0, e, ev)
        else (case ParseInt64 stdout of
          (_, Some e) \<Rightarrow> ret (0, Some e, ev)
        | (usedSize, None) \<Rightarrow> do {
            (stdout, stderr, e) \<leftarrow> exec_cmd px [''alluxio'', ''fs'', ''getCapacityBytes''] ev;
            if e \<noteq> None then ret (0, e, ev)
            else (case ParseInt64 stdout of
              (_, Some e) \<Rightarrow> ret (0, Some e, ev)
            | (totalSize, None) \<Rightarrow> ret (totalSize - usedSize, None, ev))
          })
      })"

definition schema_dir :: "string \<Rightarrow> string" where
  "schema_dir schemaName =
     (if \<not> (schemaName = ''default'' \<or> schemaName = []) then schemaName @ ''.db/'' else [])"

definition warehouse :: string where
  "warehouse = ''/user/hive/warehouse/''"

definition ExecAlluxioTableUnmount ::
    "'w podexec \<Rightarrow> string \<Rightarrow> string \<Rightarrow> string \<Rightarrow> string \<Rightarrow> string
      \<Rightarrow> ('w, string \<times> err option \<times> exec_vars) state" where
  "ExecAlluxioTableUnmount px podName containerName namespace schemaName fileName =
     (let ev = pod_vars podName containerName namespace in do {
        (stdout, stderr, e) \<leftarrow> exec_cmd px
           [''alluxio'', ''fs'', ''unmount'', warehouse @ schema_dir schemaName @ fileName] ev;
        ret (if e \<noteq> None then [] else stdout, e, ev)
      })"

definition ExecAlluxioTableUnmountWithoutInfos ::
    "'w podexec \<Rightarrow> exec_vars \<Rightarrow> string \<Rightarrow> string \<Rightarrow> ('w, string \<times> err option \<times> exec_vars) state" where
  "ExecAlluxioTableUnmountWithoutInfos px ev schemaName tableName =
     ExecAlluxioTableUnmount px (execpodName ev) (execcontainerName ev) (execnamespace ev)
       schemaName tableName"

text \<open>
  Mounting a path below the warehouse: look whether it is there, make the parent directory when it
  is not, mount. The outcome of the first commands is read from their output only.
\<close>

definition mount_path ::
    "'w podexec \<Rightarrow> exec_vars \<Rightarrow> string \<Rightarrow> string \<Rightarrow> ('w, err option) state" where
  "mount_path px ev parent child = do {
     (out, _, _) \<leftarrow> exec_cmd px [''alluxio'', ''fs'', ''ls'', warehouse @ child] ev;
     if \<not> contains out ''not'' then ret None
     else do {
       (out, _, _) \<leftarrow> exec_cmd px [''alluxio'', ''fs'', ''ls'', warehouse @ parent] ev;
       _ \<leftarrow> (if contains out ''not'' then do {
              _ \<leftarrow> exec_cmd px [''alluxio'', ''fs'', ''mkdir'', warehouse @ parent] ev;
              ret ()
            } else ret ());
       (_, stderr, e) \<leftarrow> exec_cmd px [''alluxio'', ''fs'', ''mount'', warehouse @ child,
          ''hdfs://'' @ hdfs_master_ip @ '':9000'' @ warehouse @ child] ev;
       ret e
     }
   }"

definition ExecAlluxioTablemount ::
    "('w, 'q) client \<Rightarrow> 'w podexec \<Rightarrow> exec_vars \<Rightarrow> string \<Rightarrow> string
      \<Rightarrow> ('w, err option \<times> exec_vars) state" where
  "ExecAlluxioTablemount cl px ev schemaName tableName =
     (if execpodName ev = [] then initVal cl ev
      else do {
        e \<leftarrow> mount_path px ev (schema_dir schemaName) (schema_dir schemaName @ tableName);
        ret (e, ev)
      })"

definition ExecAlluxioPartitionTableUnmount ::
    "'w podexec \<Rightarrow> exec_vars \<Rightarrow> string \<Rightarrow> string \<Rightarrow> string \<Rightarrow> ('w, string \<times> err option) state" where
  "ExecAlluxioPartitionTableUnmount px ev schemaName tableName partitionName = do {
     (stdout, stderr, e) \<leftarrow> exec_cmd px [''alluxio'', ''fs'', ''unmount'',
        warehouse @ schema_dir schemaName @ tableName @ ''/'' @ partitionName] ev;
     ret (if e \<noteq> None then [] else stdout, e)
   }"

definition ExecAlluxioPartitionTablemount ::
    "('w, 'q) client \<Rightarrow> 'w podexec \<Rightarrow> exec_vars \<Rightarrow> string \<Rightarrow> string \<Rightarrow> string
      \<Rightarrow> ('w, err option \<times> exec_vars) state" where
  "ExecAlluxioPartitionTablemount cl px ev schemaName tableName partitionName =
     (if execpodName ev = [] then initVal cl ev
      else do {
        e \<leftarrow> mount_path px ev (schema_dir schemaName @ tableName)
           (schema_dir schemaName @ tableName @ ''/'' @ partitionName);
        ret (e, ev)
      })"

text \<open>
  The lines of \<open>alluxio fs du\<close> after the first: the first field is a size. A line without a field
  panics; the sum wraps around.
\<close>

primrec sum_sizes :: "string list \<Rightarrow> int64 \<Rightarrow> (int64 \<times> err option) outcome" where
  "sum_sizes [] tableSize = Ret (tableSize, None)"
| "sum_sizes (s # str) tableSize =
     (case str_fields s of
        [] \<Rightarrow> Panic
      | d # _ \<Rightarrow> (case ParseInt64 d of
          (_, Some e) \<Rightarrow> Ret (-1, Some e)
        | (sz, None) \<Rightarrow> sum_sizes str (tableSize + sz)))"

definition table_size_of :: "string \<Rightarrow> (int64 \<times> err option) outcome" where
  "table_size_of stdout =
     (let str = split_on newline stdout in
      if length str = 1 then Ret (-1, None) else sum_sizes (tl str) 0)"

definition ExecTableSize ::
    "('w, 'q) client \<Rightarrow> 'w podexec \<Rightarrow> exec_vars \<Rightarrow> string \<Rightarrow> string
      \<Rightarrow> ('w, (int64 \<times> err option) outcome \<times> exec_vars) state" where
  "ExecTableSize cl px ev schemaName tableName = do {
     (e0, ev) \<leftarrow> (if execpodName ev = [] then initVal cl ev else ret (None, ev));
     case e0 of
       Some e \<Rightarrow> ret (Ret (-1, Some e), ev)
     | None \<Rightarrow> do {
         (stdout, stderr, e) \<leftarrow> exec_cmd px [''alluxio'', ''fs'', ''du'',
            warehouse @ schema_dir schemaName @ tableName] ev;
         ret (case e of Some x \<Rightarrow> Ret (0, Some x) | None \<Rightarrow> table_size_of stdout, ev)
       }
   }"

section \<open>Laws\<close>

lemma str_fields_aux_word:
  "\<forall>c \<in> set w. \<not> is_space c \<Longrightarrow> str_fields_aux acc (w @ s) = str_fields_aux (rev w @ acc) s"
  by (induction w arbitrary: acc) auto

text \<open>A line that starts with a word: the word is its first field.\<close>

lemma fields_word:
  assumes "\<forall>c \<in> set w. \<not> is_space c" "w \<noteq> []" "rest = [] \<or> is_space (hd rest)"
  shows "\<exists>ws. str_fields (w @ rest) = w # ws"
proof -
  have "str_fields (w @ rest) = str_fields_aux (rev w) rest"
    using str_fields_aux_word [OF assms(1), of "[]" rest] by (simp add: str_fields_def)
  then show ?thesis using assms(2,3) by (cases rest) auto
qed

lemma digit_not_space: "is_digit c \<Longrightarrow> \<not> is_space c"
  by (auto simp: is_digit_def is_space_def)

lemma FormatInt64_word: "(\<forall>c \<in> set (FormatInt64 v). \<not> is_space c) \<and> FormatInt64 v \<noteq> []"
proof -
  have "\<forall>c \<in> set (fmt_nat n). \<not> is_space c" for n
    using fmt_nat_all_digits [of n] digit_not_space by (auto simp: list_all_iff)
  then show ?thesis
    using fmt_nat_all_digits by (auto simp: FormatInt64_def fmt_int_def is_space_def)
qed

lemma sum_sizes_rows:
  assumes "\<forall>r \<in> set rows. snd r = [] \<or> is_space (hd (snd r))"
  shows "sum_sizes (map (\<lambda>r. FormatInt64 (fst r) @ snd r) rows) acc =
    Ret (acc + sum_list (map fst rows), None)"
  using assms
proof (induction rows arbitrary: acc)
  case Nil
  then show ?case by simp
next
  case (Cons r rows)
  obtain ws where "str_fields (FormatInt64 (fst r) @ snd r) = FormatInt64 (fst r) # ws"
    using fields_word [of "FormatInt64 (fst r)" "snd r"] FormatInt64_word [of "fst r"] Cons.prems by auto
  then show ?case using Cons by (simp add: algebra_simps)
qed

section \<open>Properties\<close>

text \<open>
  The size of a table. When \<open>alluxio fs du\<close> prints a header line and then one line per file, each
  with the file's size as its first field, \<open>ExecTableSize\<close> returns the sum of the sizes in 64-bit arithmetic; output
  of a single line gives -1 without an error.
\<close>

theorem ExecTableSize_sums:
  assumes "rows \<noteq> []" "newline \<notin> set header"
    and "\<forall>r \<in> set rows. newline \<notin> set (snd r) \<and> (snd r = [] \<or> is_space (hd (snd r)))"
    and "execpodName ev \<noteq> []"
    and "run_state (exec_cmd px [''alluxio'', ''fs'', ''du'', warehouse @ schema_dir schemaName @ tableName] ev) w =
      ((join [newline] (header # map (\<lambda>r. FormatInt64 (fst r) @ snd r) rows), stderr, None), w')"
  shows "run_state (ExecTableSize cl px ev schemaName tableName) w =
    ((Ret (sum_list (map fst rows), None), ev), w')"
proof -
  let ?lines = "header # map (\<lambda>r. FormatInt64 (fst r) @ snd r) rows"
  have "\<forall>l \<in> set ?lines. newline \<notin> set l"
    using assms(2,3) FormatInt64_word by (fastforce simp: is_space_def)
  then have "split_on newline (join [newline] ?lines) = ?lines"
    using split_on_join [of ?lines newline] by simp
  then have "table_size_of (join [newline] ?lines) = Ret (sum_list (map fst rows), None)"
    using assms(1,3) sum_sizes_rows [of rows 0] by (simp add: table_size_of_def Let_def)
  then show ?thesis using assms(4,5) by (simp add: ExecTableSize_def run_simps)
qed

text \<open>A transport that prints a fixed text.\<close>

definition echo_exec :: "string \<Rightarrow> 'w podexec" where
  "echo_exec out = \<lparr>RawExec = (\<lambda>_. ret (out, [], None)), TimerFires = (\<lambda>_. ret False),
     Sleep = (\<lambda>_. ret ())\<rparr>"

theorem ExecTableSize_sums_witness:
  "fst (fst (run_state (ExecTableSize fake_client
      (echo_exec (''Size Path'' @ newline # FormatInt64 30 @ '' /a'' @ newline # FormatInt64 12 @ '' /b''))
      exec_vars0 ''sales'' ''orders'') cluster0)) = Ret (42, None)"
proof -
  let ?out = "''Size Path'' @ newline # FormatInt64 30 @ '' /a'' @ newline # FormatInt64 12 @ '' /b''"
  have "trim_space ?out = ?out" by code_simp
  then have run: "run_state (exec_cmd (echo_exec ?out)
      [''alluxio'', ''fs'', ''du'', warehouse @ schema_dir ''sales'' @ ''orders''] exec_vars0) cluster0 =
      ((join [newline] (''Size Path'' # map (\<lambda>r. FormatInt64 (fst r) @ snd r) [(30, '' /a''), (12, '' /b'')]),
        trim_space [], None), cluster0)"
    by (simp add: exec_cmd_def ExecCommandInContainer_def ExecCommandInContainerWithFullOutput_def
        ExecWithOptions_def echo_exec_def run_simps)
  show ?thesis
    using ExecTableSize_sums [OF _ _ _ _ run, of fake_client] by (simp add: exec_vars0_def is_space_def)
qed

end
