(* ===== verification/Operations.thy ===== *)
theory Operations
  imports PodExec
begin

text \<open>
  The Alluxio shell commands of \<open>pkg/ddc/alluxio/operations\<close>: each builds a command line, runs it in
  the master's container and reads its output. The reading is exact: the panics on short lines are
  values, and numbers are parsed as \<open>strconv\<close> does.
\<close>

record AlluxioFileUtils =
  afu_podName :: string
  afu_namespace :: string
  afu_container :: string

definition NewAlluxioFileUtils :: "string \<Rightarrow> string \<Rightarrow> string \<Rightarrow> AlluxioFileUtils" where
  "NewAlluxioFileUtils podName containerName namespace =
     \<lparr>afu_podName = podName, afu_namespace = namespace, afu_container = containerName\<rparr>"

section \<open>Running a command\<close>

definition execWithoutTimeout ::
    "'w podexec \<Rightarrow> AlluxioFileUtils \<Rightarrow> string list \<Rightarrow> ('w, string \<times> string \<times> err option) state" where
  "execWithoutTimeout px a command =
     ExecCommandInContainer px (afu_podName a) (afu_container a) (afu_namespace a) command"

text \<open>
  The command runs in a goroutine and races with a timer of 1500 seconds. When the timer wins,
  the command still runs, but its outputs are not awaited.
\<close>

definition afu_exec ::
    "'w podexec \<Rightarrow> AlluxioFileUtils \<Rightarrow> string list \<Rightarrow> ('w, string \<times> string \<times> err option) state" where
  "afu_exec px a command = do {
     late \<leftarrow> TimerFires px command;
     r \<leftarrow> execWithoutTimeout px a command;
     ret (if late then ([], [], Some (ErrText (''timeout when executing '' @ fmt_slice command))) else r)
   }"

definition exec_error :: "string list \<Rightarrow> err \<Rightarrow> string \<Rightarrow> string \<Rightarrow> err" where
  "exec_error command e stdout stderr =
     ErrText (''execute command '' @ fmt_slice command @ '' with expectedErr: '' @ err_msg e @
       '' stdout '' @ stdout @ '' and stderr '' @ stderr)"

text \<open>A command whose output is returned, or dropped, and whose error is wrapped.\<close>

definition wrap_error :: "string list \<Rightarrow> string \<times> string \<times> err option \<Rightarrow> string \<times> err option" where
  "wrap_error command r = (case r of (stdout, stderr, e) \<Rightarrow>
     (stdout, case e of None \<Rightarrow> None | Some x \<Rightarrow> Some (exec_error command x stdout stderr)))"

definition run_out :: "'w podexec \<Rightarrow> AlluxioFileUtils \<Rightarrow> string list \<Rightarrow> ('w, string \<times> err option) state" where
  "run_out px a command = do { r \<leftarrow> afu_exec px a command; ret (wrap_error command r) }"

definition run_only :: "'w podexec \<Rightarrow> AlluxioFileUtils \<Rightarrow> string list \<Rightarrow> ('w, err option) state" where
  "run_only px a command = do { r \<leftarrow> run_out px a command; ret (snd r) }"

section \<open>Commands\<close>

definition IsExist :: "'w podexec \<Rightarrow> AlluxioFileUtils \<Rightarrow> string \<Rightarrow> ('w, bool \<times> err option) state" where
  "IsExist px a alluxioPath =
     (let command = [''alluxio'', ''fs'', ''ls'', alluxioPath] in do {
        (stdout, stderr, e) \<leftarrow> afu_exec px a command;
        ret (case e of
           Some x \<Rightarrow> (if contains stdout ''does not exist'' then (False, None)
                      else (False, Some (exec_error command x stdout stderr)))
         | None \<Rightarrow> (True, None))
      })"

definition ReportSummary :: "'w podexec \<Rightarrow> AlluxioFileUtils \<Rightarrow> ('w, string \<times> err option) state" where
  "ReportSummary px a = run_out px a [''alluxio'', ''fsadmin'', ''report'', ''summary'']"

definition ReportMetrics :: "'w podexec \<Rightarrow> AlluxioFileUtils \<Rightarrow> ('w, string \<times> err option) state" where
  "ReportMetrics px a = run_out px a [''alluxio'', ''fsadmin'', ''report'', ''metrics'']"

definition ReportCapacity :: "'w podexec \<Rightarrow> AlluxioFileUtils \<Rightarrow> ('w, string \<times> err option) state" where
  "ReportCapacity px a = run_out px a [''alluxio'', ''fsadmin'', ''report'', ''capacity'']"

definition GetConf :: "'w podexec \<Rightarrow> AlluxioFileUtils \<Rightarrow> string \<Rightarrow> ('w, string \<times> err option) state" where
  "GetConf px a key = run_out px a [''alluxio'', ''getConf'', key]"

definition LoadMetadataWithoutTimeout ::
    "'w podexec \<Rightarrow> AlluxioFileUtils \<Rightarrow> string \<Rightarrow> ('w, err option) state" where
  "LoadMetadataWithoutTimeout px a alluxioPath =
     (let command = [''alluxio'', ''fs'', ''loadMetadata'', ''-R'', alluxioPath] in do {
        r \<leftarrow> execWithoutTimeout px a command;
        ret (snd (wrap_error command r))
      })"

definition LoadMetaData :: "'w podexec \<Rightarrow> AlluxioFileUtils \<Rightarrow> string \<Rightarrow> bool \<Rightarrow> ('w, err option) state" where
  "LoadMetaData px a alluxioPath sync = run_only px a
     (if sync
      then [''alluxio'', ''fs'', ''-Dalluxio.user.file.metadata.sync.interval=0'', ''ls'', ''-R'', alluxioPath]
      else [''alluxio'', ''fs'', ''ls'', ''-R'', alluxioPath])"

datatype KeyOfMetaDataFile = DatasetName | Namespace | UfsTotal | FileNum

definition key_string :: "KeyOfMetaDataFile \<Rightarrow> string" where
  "key_string k = (case k of DatasetName \<Rightarrow> ''dataset'' | Namespace \<Rightarrow> ''namespace''
     | UfsTotal \<Rightarrow> ''ufstotal'' | FileNum \<Rightarrow> ''filenum'')"

definition QueryMetaDataInfoIntoFile ::
    "'w podexec \<Rightarrow> AlluxioFileUtils \<Rightarrow> KeyOfMetaDataFile \<Rightarrow> string \<Rightarrow> ('w, string \<times> err option) state" where
  "QueryMetaDataInfoIntoFile px a key filename =
     (let line = (case key of DatasetName \<Rightarrow> ''1p'' | Namespace \<Rightarrow> ''2p'' | UfsTotal \<Rightarrow> ''3p'' | FileNum \<Rightarrow> ''4p'');
          command = [''bash'', ''-c'', ''sed -n '' @ [CHR 0x27] @ line @ [CHR 0x27] @ '' '' @ filename]
      in do {
        (stdout, stderr, e) \<leftarrow> afu_exec px a command;
        ret (case e of
           Some x \<Rightarrow> ([], Some (ErrText (''execute command '' @ fmt_slice command @
             '' with  expectedErr: '' @ err_msg x @ '' stdout '' @ stdout @ '' and stderr '' @ stderr)))
         | None \<Rightarrow> (trim_prefix stdout (key_string key @ '': ''), None))
      })"

definition Mkdir :: "'w podexec \<Rightarrow> AlluxioFileUtils \<Rightarrow> string \<Rightarrow> ('w, err option) state" where
  "Mkdir px a alluxioPath = run_only px a [''alluxio'', ''fs'', ''mkdir'', alluxioPath]"

text \<open>The options are a map, given by its entries in the order of the iteration.\<close>

definition Mount ::
    "'w podexec \<Rightarrow> AlluxioFileUtils \<Rightarrow> string \<Rightarrow> string \<Rightarrow> (string \<times> string) list \<Rightarrow> bool \<Rightarrow> bool
      \<Rightarrow> ('w, err option) state" where
  "Mount px a alluxioPath ufsPath options readOnly shared =
     run_only px a ([''alluxio'', ''fs'', ''mount''] @
       (if readOnly then [''--readonly''] else []) @
       (if shared then [''--shared''] else []) @
       concat (map (\<lambda>kv. [''--option'', fst kv @ ''='' @ snd kv]) options) @
       [alluxioPath, ufsPath])"

definition UnMount :: "'w podexec \<Rightarrow> AlluxioFileUtils \<Rightarrow> string \<Rightarrow> ('w, err option) state" where
  "UnMount px a alluxioPath = run_only px a [''alluxio'', ''fs'', ''unmount'', alluxioPath]"

text \<open>A line of the mount table with fewer than three fields panics.\<close>

primrec mounted_loop :: "string \<Rightarrow> string list \<Rightarrow> bool outcome" where
  "mounted_loop alluxioPath [] = Ret False"
| "mounted_loop alluxioPath (line # results) =
     (let fs = str_fields line in
      if length fs < 3 then Panic
      else if fs ! 2 = alluxioPath then Ret True
      else mounted_loop alluxioPath results)"

definition IsMounted ::
    "'w podexec \<Rightarrow> AlluxioFileUtils \<Rightarrow> string \<Rightarrow> ('w, (bool \<times> err option) outcome) state" where
  "IsMounted px a alluxioPath = do {
     (stdout, e) \<leftarrow> run_out px a [''alluxio'', ''fs'', ''mount''];
     ret (case e of
        Some x \<Rightarrow> Ret (False, Some x)
      | None \<Rightarrow> map_outcome_ret (\<lambda>m. (m, None)) (mounted_loop alluxioPath (split_on newline stdout)))
   }"

definition Ready :: "'w podexec \<Rightarrow> AlluxioFileUtils \<Rightarrow> ('w, bool) state" where
  "Ready px a = do {
     (stdout, stderr, e) \<leftarrow> afu_exec px a [''alluxio'', ''fsadmin'', ''report''];
     ret (e = None)
   }"

text \<open>
  The output of \<open>du -s\<close>: two lines, the second with four fields. The results that are already set
  are returned beside a parse error.
\<close>

definition parse_du :: "string \<Rightarrow> int64 \<times> int64 \<times> string \<times> err option" where
  "parse_du stdout =
     (let str = split_on newline stdout in
      if length str \<noteq> 2 then (0, 0, [], Some (ErrText (''failed to parse '' @ fmt_slice str @ '' in Du method'')))
      else let data = str_fields (str ! 1) in
      if length data \<noteq> 4 then (0, 0, [], Some (ErrText (''failed to parse '' @ fmt_slice data @ '' in Du method'')))
      else case ParseInt64 (data ! 0) of
        (ufs, Some e) \<Rightarrow> (ufs, 0, [], Some e)
      | (ufs, None) \<Rightarrow>
          (case ParseInt64 (data ! 1) of
             (cached, Some e) \<Rightarrow> (ufs, cached, [], Some e)
           | (cached, None) \<Rightarrow>
               (ufs, cached,
                trim_right_by (\<lambda>c. c = CHR '')'') (trim_left_by (\<lambda>c. c = CHR ''('') (data ! 2)), None)))"

definition Du ::
    "'w podexec \<Rightarrow> AlluxioFileUtils \<Rightarrow> string \<Rightarrow> ('w, int64 \<times> int64 \<times> string \<times> err option) state" where
  "Du px a alluxioPath = do {
     (stdout, e) \<leftarrow> run_out px a [''alluxio'', ''fs'', ''du'', ''-s'', alluxioPath];
     ret (case e of Some x \<Rightarrow> (0, 0, [], Some x) | None \<Rightarrow> parse_du stdout)
   }"

text \<open>
  The output of \<open>count\<close>: the results are set together, after the three numbers have been parsed as
  unsigned; the conversion to \<open>int64\<close> keeps the bits.
\<close>

definition parse_count :: "string \<Rightarrow> int64 \<times> int64 \<times> int64 \<times> err option" where
  "parse_count stdout =
     (let str = split_on newline stdout in
      if length str \<noteq> 2 then (0, 0, 0, Some (ErrText (''failed to parse '' @ fmt_slice str @ '' in Count method'')))
      else let data = str_fields (str ! 1) in
      if length data \<noteq> 3 then (0, 0, 0, Some (ErrText (''failed to parse '' @ fmt_slice data @ '' in Count method'')))
      else case ParseUint64 (data ! 0) of
        (_, Some e) \<Rightarrow> (0, 0, 0, Some e)
      | (ufileCount, None) \<Rightarrow>
          (case ParseUint64 (data ! 1) of
             (_, Some e) \<Rightarrow> (0, 0, 0, Some e)
           | (ufolderCount, None) \<Rightarrow>
               (case ParseUint64 (data ! 2) of
                  (_, Some e) \<Rightarrow> (0, 0, 0, Some e)
                | (utotal, None) \<Rightarrow> (of_nat ufileCount, of_nat ufolderCount, of_nat utotal, None))))"

definition Count ::
    "'w podexec \<Rightarrow> AlluxioFileUtils \<Rightarrow> string \<Rightarrow> ('w, int64 \<times> int64 \<times> int64 \<times> err option) state" where
  "Count px a alluxioPath =
     (let command = [''alluxio'', ''fs'', ''count'', alluxioPath] in do {
        r \<leftarrow> execWithoutTimeout px a command;
        ret (case wrap_error command r of
           (_, Some x) \<Rightarrow> (0, 0, 0, Some x) | (stdout, None) \<Rightarrow> parse_count stdout)
      })"

text \<open>Commas are dropped, then the first run of digits counts.\<close>

definition parse_file_count :: "string \<Rightarrow> int64 \<times> err option" where
  "parse_file_count stdout =
     (let s = filter (\<lambda>c. c \<noteq> CHR '','') stdout
      in ParseInt64 (takeWhile is_digit (dropWhile (\<lambda>c. \<not> is_digit c) s)))"

definition GetFileCount :: "'w podexec \<Rightarrow> AlluxioFileUtils \<Rightarrow> ('w, int64 \<times> err option) state" where
  "GetFileCount px a =
     (let command = [''bash'', ''-c'',
            join '' '' [''alluxio'', ''fsadmin'', ''report'', ''metrics'', ''|'', ''grep'', ''Master.FilesCompleted'']]
      in do {
        r \<leftarrow> execWithoutTimeout px a command;
        ret (case wrap_error command r of
           (_, Some x) \<Rightarrow> (0, Some x) | (stdout, None) \<Rightarrow> parse_file_count stdout)
      })"

text \<open>
  The length tests are too weak: a report of one line, and a second line of exactly two fields, panic.
\<close>

definition parse_master :: "string list \<Rightarrow> string \<Rightarrow> string \<Rightarrow> (string \<times> err option) outcome" where
  "parse_master command podName stdout =
     (let str = split_on newline stdout;
          wrong = Ret (podName, Some (ErrText (''get wrong result when using command '' @ fmt_slice command)))
      in if length str < 1 then wrong
         else if length str < 2 then Panic
         else let data = str_fields (str ! 1) in
         if length data < 2 then wrong
         else if length data < 3 then Panic
         else Ret (hd (split_on CHR '':'' (data ! 2)), None))"

definition MasterPodName ::
    "'w podexec \<Rightarrow> AlluxioFileUtils \<Rightarrow> ('w, (string \<times> err option) outcome) state" where
  "MasterPodName px a =
     (let command = [''alluxio'', ''fsadmin'', ''report''] in do {
        (stdout, e) \<leftarrow> run_out px a command;
        ret (case e of
           Some x \<Rightarrow> Ret (afu_podName a, Some x)
         | None \<Rightarrow> parse_master command (afu_podName a) stdout)
      })"

text \<open>\<open>ramInBytes\<close> stands for \<open>units.RAMInBytes\<close>. The last matching line decides.\<close>

primrec cached_loop ::
    "(string \<Rightarrow> int64 \<times> err option) \<Rightarrow> string list \<Rightarrow> int64 \<Rightarrow> bool \<Rightarrow> int64 \<times> bool \<times> err option" where
  "cached_loop ramInBytes [] cached found = (cached, found, None)"
| "cached_loop ramInBytes (s # str) cached found =
     (if contains s ''Used Capacity:'' then
        (let values = str_fields s in
         if values = [] then (cached, found, Some (ErrText (''failed to parse '' @ s)))
         else case ramInBytes (last values) of
           (v, Some e) \<Rightarrow> (v, found, Some e)
         | (v, None) \<Rightarrow> cached_loop ramInBytes str v True)
      else cached_loop ramInBytes str cached found)"

definition CachedState ::
    "(string \<Rightarrow> int64 \<times> err option) \<Rightarrow> 'w podexec \<Rightarrow> AlluxioFileUtils \<Rightarrow> ('w, int64 \<times> err option) state" where
  "CachedState ramInBytes px a = do {
     (stdout, e) \<leftarrow> run_out px a [''alluxio'', ''fsadmin'', ''report''];
     ret (case e of
        Some x \<Rightarrow> (0, Some x)
      | None \<Rightarrow> (case cached_loop ramInBytes (split_on newline stdout) 0 False of
          (v, _, Some x) \<Rightarrow> (v, Some x)
        | (v, found, None) \<Rightarrow> (v, if found then None
            else Some (ErrText (''failed to find the cache in output '' @ stdout)))))
   }"

definition CleanCache :: "'w podexec \<Rightarrow> AlluxioFileUtils \<Rightarrow> string \<Rightarrow> ('w, err option) state" where
  "CleanCache px a path = do {
     (stdout, e) \<leftarrow> run_out px a [''cat'', ''/etc/issue''];
     case e of
       Some x \<Rightarrow> ret (Some x)
     | None \<Rightarrow>
         (let command = [''60'', ''alluxio'', ''fs'', ''free'', ''-f'', path] in
          if contains stdout ''Ubuntu'' then run_only px a (''timeout'' # command)
          else if contains stdout ''Alpine'' then run_only px a (''timeout'' # ''-t'' # command)
          else ret (Some (ErrText ''unknow release version for linux'')))
   }"

definition SyncLocalDir :: "'w podexec \<Rightarrow> AlluxioFileUtils \<Rightarrow> string \<Rightarrow> ('w, err option) state" where
  "SyncLocalDir px a path =
     (let command = [''du'', ''-sh'', path] in do {
        r \<leftarrow> execWithoutTimeout px a command;
        ret (snd (wrap_error command r))
      })"

section \<open>Laws\<close>

definition no_space :: "string \<Rightarrow> bool" where
  "no_space w \<longleftrightarrow> w \<noteq> [] \<and> (\<forall>c \<in> set w. \<not> is_space c)"

lemma fields_cons:
  "no_space w \<Longrightarrow> str_fields (w @ CHR '' '' # s) = w # str_fields s"
  using str_fields_aux_word [of w "[]" "CHR '' '' # s"]
  by (simp add: no_space_def str_fields_def is_space_def)

lemma fields_single: "no_space w \<Longrightarrow> str_fields w = [w]"
  using str_fields_aux_word [of w "[]" "[]"] by (simp add: no_space_def str_fields_def)

lemma no_space_FormatInt64: "no_space (FormatInt64 v)"
  using FormatInt64_word [of v] by (simp add: no_space_def)

text \<open>Words that are separated by single spaces are the fields of the line.\<close>

lemma fields_join: "\<forall>w \<in> set ws. no_space w \<Longrightarrow> str_fields (join '' '' ws) = ws"
proof (induction ws)
  case Nil
  then show ?case by (simp add: str_fields_def)
next
  case (Cons w ws)
  then show ?case by (cases ws) (auto simp: fields_cons fields_single)
qed

lemma no_space_newline: "no_space w \<Longrightarrow> newline \<notin> set w"
  by (auto simp: no_space_def is_space_def)

lemma newline_join: "\<forall>w \<in> set ws. newline \<notin> set w \<Longrightarrow> newline \<notin> set (join '' '' ws)"
  by (induction "'' ''" ws rule: join.induct) auto

lemma trim_parens:
  assumes "p \<noteq> []" "hd p \<noteq> CHR ''(''" "last p \<noteq> CHR '')''"
  shows "trim_right_by (\<lambda>c. c = CHR '')'') (trim_left_by (\<lambda>c. c = CHR ''('') (CHR ''('' # p @ '')'')) = p"
proof -
  have "dropWhile (\<lambda>c. c = CHR ''('') (CHR ''('' # p @ '')'') = p @ '')''"
    using assms(1,2) by (cases p) auto
  moreover have "dropWhile (\<lambda>c. c = CHR '')'') (CHR '')'' # rev p) = rev p"
    using assms(1,3) by (cases "rev p") (auto simp: last_rev [symmetric])
  ultimately show ?thesis by (simp add: trim_right_by_def trim_left_by_def)
qed

lemma parse_du_line:
  assumes "newline \<notin> set header" "no_space path" "no_space p" "hd p \<noteq> CHR ''(''" "last p \<noteq> CHR '')''"
  shows "parse_du (header @ newline # join '' '' [FormatInt64 u, FormatInt64 c, CHR ''('' # p @ '')'', path]) =
    (u, c, p, None)"
proof -
  let ?ws = "[FormatInt64 u, FormatInt64 c, CHR ''('' # p @ '')'', path]"
  have ws: "\<forall>w \<in> set ?ws. no_space w"
    using assms(2,3) no_space_FormatInt64 by (auto simp: no_space_def is_space_def)
  then have "newline \<notin> set (join '' '' ?ws)"
    using newline_join [of ?ws] no_space_newline by blast
  then have "split_on newline (header @ newline # join '' '' ?ws) = [header, join '' '' ?ws]"
    using assms(1) by (simp add: split_on_append_sep del: join.simps)
  then show ?thesis
    using fields_join [OF ws] trim_parens [OF _ assms(4,5)] assms(3)
    by (simp add: parse_du_def Let_def no_space_def del: join.simps)
qed

section \<open>Properties\<close>

text \<open>
  \<open>Du\<close> reads back what \<open>alluxio fs du -s\<close> prints: from a header and a line with the size, the cached
  size, the percentage in parentheses and the path it returns the two sizes, whatever their sign, and
  the percentage without the parentheses.
\<close>

theorem Du_reads_report:
  assumes "newline \<notin> set header" "no_space path" "no_space p" "hd p \<noteq> CHR ''(''" "last p \<noteq> CHR '')''"
    and "run_state (afu_exec px a [''alluxio'', ''fs'', ''du'', ''-s'', alluxioPath]) w =
      ((header @ newline # join '' '' [FormatInt64 u, FormatInt64 c, CHR ''('' # p @ '')'', path], stderr, None), w')"
  shows "run_state (Du px a alluxioPath) w = ((u, c, p, None), w')"
  using assms(6) parse_du_line [OF assms(1-5)]
  by (simp add: Du_def run_out_def wrap_error_def run_simps del: join.simps)

theorem Du_reads_report_witness:
  "fst (run_state (Du (echo_exec (''File Size In Alluxio Path'' @ newline #
       join '' '' [FormatInt64 2000, FormatInt64 500, ''(25%)'', ''/''])) (NewAlluxioFileUtils ''p'' ''c'' ''n'') ''/'')
     cluster0) = (2000, 500, ''25%'', None)"
proof -
  let ?out = "''File Size In Alluxio Path'' @ newline #
       join '' '' [FormatInt64 2000, FormatInt64 500, CHR ''('' # ''25%'' @ '')'', ''/'']"
  have "trim_space ?out = ?out" by code_simp
  then have "run_state (afu_exec (echo_exec ?out) (NewAlluxioFileUtils ''p'' ''c'' ''n'')
      [''alluxio'', ''fs'', ''du'', ''-s'', ''/'']) cluster0 = ((?out, trim_space [], None), cluster0)"
    by (simp add: afu_exec_def execWithoutTimeout_def ExecCommandInContainer_def
        ExecCommandInContainerWithFullOutput_def ExecWithOptions_def echo_exec_def run_simps del: join.simps)
  from Du_reads_report [OF _ _ _ _ _ this] show ?thesis
    by (simp add: no_space_def is_space_def del: join.simps)
qed

text \<open>
  \<open>IsMounted\<close> and \<open>MasterPodName\<close> panic on short outputs: \<open>IsMounted\<close> when the mount table is
  empty, \<open>MasterPodName\<close> when the report has a single line, or a second line of two words, although a
  length test stands before each access.
\<close>

theorem short_outputs_panic:
  "mounted_loop path (split_on newline []) = Panic \<and>
   (\<forall>line. newline \<notin> set line \<longrightarrow> parse_master cmd podName line = Panic) \<and>
   (\<forall>header v1 v2. newline \<notin> set header \<and> no_space v1 \<and> no_space v2 \<longrightarrow>
      parse_master cmd podName (header @ newline # v1 @ '' '' @ v2) = Panic)"
proof (intro conjI allI impI)
  show "mounted_loop path (split_on newline []) = Panic" by (simp add: str_fields_def)
next
  fix line
  assume "newline \<notin> set line"
  then show "parse_master cmd podName line = Panic" by (simp add: parse_master_def)
next
  fix header v1 v2
  assume a: "newline \<notin> set header \<and> no_space v1 \<and> no_space v2"
  then have "newline \<notin> set (v1 @ '' '' @ v2)" using no_space_newline by auto
  then have "split_on newline (header @ newline # v1 @ '' '' @ v2) = [header, v1 @ '' '' @ v2]"
    using a by (simp add: split_on_append_sep)
  then show "parse_master cmd podName (header @ newline # v1 @ '' '' @ v2) = Panic"
    using a by (simp add: parse_master_def Let_def fields_cons fields_single)
qed

theorem short_outputs_panic_witness:
  "parse_master [''alluxio''] ''p'' ''Alluxio cluster summary:'' = Panic"
  using short_outputs_panic [of "[]" "[''alluxio'']" "''p''"] by simp

end
