(* ===== verification/Docker.thy ===== *)
theory Docker
  imports KubeClient
begin

text \<open>
  Container images (\<open>pkg/utils/docker/image.go\<close>, \<open>parseRuntimeImage\<close> and
  \<open>parseFuseImage\<close> of \<open>pkg/ddc/alluxio/utils.go\<close>, \<open>transform_init_users.go\<close>): the image
  and the tag come from the resource, from an environment variable, or from a constant. The environment is a
  parameter.
\<close>

definition ParseDockerImage :: "string \<Rightarrow> string \<times> string" where
  "ParseDockerImage img =
     (let matches = split_on CHR '':'' img in
      if 2 \<le> length matches then (matches ! 0, matches ! 1)
      else if length matches = 1 then (matches ! 0, ''latest'')
      else ([], []))"

text \<open>The regular expression \<open>^\S+:\S+$\<close>.\<close>

definition ImageTagEnvRegex :: "string \<Rightarrow> bool" where
  "ImageTagEnvRegex v \<longleftrightarrow>
     list_all (\<lambda>c. c \<notin> {CHR 0x09, CHR 0x0A, CHR 0x0C, CHR 0x0D, CHR 0x20}) v \<and>
     list_ex (\<lambda>i. v ! i = CHR '':'') [1..<length v - 1]"

type_synonym env = "string \<Rightarrow> string option"

definition GetImageRepoFromEnv :: "env \<Rightarrow> string \<Rightarrow> string" where
  "GetImageRepoFromEnv env envName =
     (case env envName of
        None \<Rightarrow> []
      | Some v \<Rightarrow> (if ImageTagEnvRegex v then fst (ParseDockerImage v) else []))"

definition GetImageTagFromEnv :: "env \<Rightarrow> string \<Rightarrow> string" where
  "GetImageTagFromEnv env envName =
     (case env envName of
        None \<Rightarrow> []
      | Some v \<Rightarrow> (if ImageTagEnvRegex v then snd (ParseDockerImage v) else []))"

text \<open>The steps the three parsers share: explicit value, environment, constant.\<close>

definition image_or_default :: "env \<Rightarrow> string \<Rightarrow> string \<Rightarrow> string \<Rightarrow> string outcome" where
  "image_or_default env envName default_image img =
     (if img \<noteq> [] then Ret img
      else let img = GetImageRepoFromEnv env envName in
      if img \<noteq> [] then Ret img
      else let info = split_on CHR '':'' default_image in
      if length info < 1 then Panic else Ret (info ! 0))"

definition tag_or_default :: "env \<Rightarrow> string \<Rightarrow> string \<Rightarrow> string \<Rightarrow> string outcome" where
  "tag_or_default env envName default_image tag =
     (if tag \<noteq> [] then Ret tag
      else let tag = GetImageTagFromEnv env envName in
      if tag \<noteq> [] then Ret tag
      else let info = split_on CHR '':'' default_image in
      if length info < 2 then Panic else Ret (info ! 1))"

definition parse_image ::
    "env \<Rightarrow> string \<Rightarrow> string \<Rightarrow> string \<Rightarrow> string \<Rightarrow> string \<Rightarrow> (string \<times> string \<times> string) outcome" where
  "parse_image env envName default_image img tag imagePullPolicy =
     (let policy = (if imagePullPolicy = [] then DefaultImagePullPolicy else imagePullPolicy) in
      case image_or_default env envName default_image img of
        Panic \<Rightarrow> Panic
      | Ret img \<Rightarrow> (case tag_or_default env envName default_image tag of
          Panic \<Rightarrow> Panic
        | Ret tag \<Rightarrow> Ret (img, tag, policy)))"

definition ParseInitImage ::
    "env \<Rightarrow> string \<Rightarrow> string \<Rightarrow> string \<Rightarrow> string \<Rightarrow> (string \<times> string \<times> string) outcome" where
  "ParseInitImage env img tag imagePullPolicy envName =
     parse_image env envName DefaultInitImage img tag imagePullPolicy"

definition parseRuntimeImage ::
    "env \<Rightarrow> string \<Rightarrow> string \<Rightarrow> string \<Rightarrow> (string \<times> string \<times> string) outcome" where
  "parseRuntimeImage env img tag imagePullPolicy =
     parse_image env ''ALLUXIO_RUNTIME_IMAGE_ENV'' DEFAULT_ALLUXIO_RUNTIME_IMAGE img tag imagePullPolicy"

definition parseFuseImage ::
    "env \<Rightarrow> string \<Rightarrow> string \<Rightarrow> string \<Rightarrow> (string \<times> string \<times> string) outcome" where
  "parseFuseImage env img tag imagePullPolicy =
     parse_image env ''ALLUXIO_FUSE_IMAGE_ENV'' DEFAULT_ALLUXIO_FUSE_IMAGE img tag imagePullPolicy"

primrec worker_image_loop :: "string list \<Rightarrow> string \<times> string \<Rightarrow> string \<times> string" where
  "worker_image_loop [] acc = acc"
| "worker_image_loop (split # splits) acc =
     (let acc = (if has_prefix split ''image: '' then (trim_prefix split ''image: '', snd acc) else acc);
          acc = (if has_prefix split ''imageTag: '' then (fst acc, trim_prefix split ''imageTag: '') else acc)
      in worker_image_loop splits acc)"

definition GetWorkerImage ::
    "('w, 'q) client \<Rightarrow> string \<Rightarrow> string \<Rightarrow> string \<Rightarrow> ('w, string \<times> string) state" where
  "GetWorkerImage cl datasetName runtimeType namespace = do {
     r \<leftarrow> GetConfigmapByName cl (datasetName @ ''-'' @ runtimeType @ ''-values'') namespace;
     ret (case r of
        Inr (Some cm) \<Rightarrow> (case cm_Data cm ''data'' of
            None \<Rightarrow> ([], [])
          | Some val \<Rightarrow> worker_image_loop (split_on newline val) ([], []))
      | _ \<Rightarrow> ([], []))
   }"

section \<open>The init container\<close>

record InitUsers =
  init_Image :: string
  init_ImageTag :: string
  init_ImagePullPolicy :: string
  init_EnvUsers :: string
  init_Dir :: string
  init_Enabled :: bool
  init_EnvTieredPaths :: string

record UserInfo =
  ui_User :: int64
  ui_Group :: int64
  ui_FSGroup :: int64

definition getInitUserDir :: "string \<Rightarrow> string \<Rightarrow> string" where
  "getInitUserDir namespace name = ''/tmp/fluid/'' @ namespace @ ''/'' @ name"

definition getInitTierPathsEnv :: "'q AlluxioRuntime \<Rightarrow> string" where
  "getInitTierPathsEnv runtime =
     join '':'' (concat (map (\<lambda>level. split_on CHR '','' (lvl_Path level))
       (spec_TieredStore (rt_Spec runtime))))"

text \<open>The user information of the value is given and returned beside the init container.\<close>

definition transformInitUsers ::
    "env \<Rightarrow> string \<Rightarrow> string \<Rightarrow> 'q AlluxioRuntime \<Rightarrow> UserInfo \<Rightarrow> (UserInfo \<times> InitUsers) outcome" where
  "transformInitUsers env namespace name runtime user =
     (let spec = rt_Spec runtime; iu = spec_InitUsers spec;
          off = \<lparr>init_Image = [], init_ImageTag = [], init_ImagePullPolicy = [], init_EnvUsers = [],
                 init_Dir = [], init_Enabled = False, init_EnvTieredPaths = []\<rparr>;
          start = (case spec_RunAs spec of
             None \<Rightarrow> Ret (user, off)
           | Some u \<Rightarrow> (case user_UID u of None \<Rightarrow> Panic | Some uid \<Rightarrow>
               (case user_GID u of None \<Rightarrow> Panic | Some gid \<Rightarrow>
                 map_outcome_ret (\<lambda>envUsers. (user\<lparr>ui_User := uid, ui_Group := gid\<rparr>,
                    off\<lparr>init_Enabled := True, init_Dir := getInitUserDir namespace name,
                        init_EnvUsers := envUsers, init_EnvTieredPaths := getInitTierPathsEnv runtime\<rparr>))
                   (GetInitUserEnv u))))
      in case start of
           Panic \<Rightarrow> Panic
         | Ret (user', init) \<Rightarrow>
             map_outcome_ret (\<lambda>(img, tag, policy). (user', init\<lparr>init_Image := img,
                 init_ImageTag := tag, init_ImagePullPolicy := policy\<rparr>))
               (ParseInitImage env (iu_Image iu) (iu_ImageTag iu) (iu_ImagePullPolicy iu) ''DEFAULT_INIT_IMAGE_ENV''))"

section \<open>Laws\<close>

lemma parse_image_total:
  assumes "length (split_on CHR '':'' d) = 2" "split_on CHR '':'' d ! 0 \<noteq> []" "split_on CHR '':'' d ! 1 \<noteq> []"
  shows "\<exists>i t p. parse_image env n d img tag policy = Ret (i, t, p) \<and> i \<noteq> [] \<and> t \<noteq> [] \<and> p \<noteq> [] \<and>
    (img \<noteq> [] \<longrightarrow> i = img) \<and> (tag \<noteq> [] \<longrightarrow> t = tag) \<and> (policy \<noteq> [] \<longrightarrow> p = policy)"
  using assms
  by (auto simp: parse_image_def image_or_default_def tag_or_default_def Let_def DefaultImagePullPolicy_def)

section \<open>Properties\<close>

text \<open>
  The three image parsers never panic and never leave a part empty: whatever the environment holds, the image, the
  tag and the pull policy of the result are non-empty, and each is the given one when that is non-empty.
\<close>

theorem image_parsers_total:
  "\<forall>parse \<in> {parseRuntimeImage env, parseFuseImage env, \<lambda>i t p. ParseInitImage env i t p envName}.
     \<exists>i t p. parse img tag policy = Ret (i, t, p) \<and> i \<noteq> [] \<and> t \<noteq> [] \<and> p \<noteq> [] \<and>
       (img \<noteq> [] \<longrightarrow> i = img) \<and> (tag \<noteq> [] \<longrightarrow> t = tag) \<and> (policy \<noteq> [] \<longrightarrow> p = policy)"
proof -
  have "length (split_on CHR '':'' d) = 2 \<and> split_on CHR '':'' d ! 0 \<noteq> [] \<and> split_on CHR '':'' d ! 1 \<noteq> []"
    if "d \<in> {DEFAULT_ALLUXIO_RUNTIME_IMAGE, DEFAULT_ALLUXIO_FUSE_IMAGE, DefaultInitImage}" for d
    using that
    by (auto simp: DEFAULT_ALLUXIO_RUNTIME_IMAGE_def DEFAULT_ALLUXIO_FUSE_IMAGE_def DefaultInitImage_def)
  then show ?thesis
    using parse_image_total
    by (auto simp: parseRuntimeImage_def parseFuseImage_def ParseInitImage_def)
qed

theorem image_parsers_total_witness:
  "\<exists>t p. parseRuntimeImage (\<lambda>_. None) ''my/alluxio'' [] [] = Ret (''my/alluxio'', t, p) \<and> t \<noteq> []"
  using image_parsers_total [of "\<lambda>_. None" "[]" "''my/alluxio''" "[]" "[]"] by auto

text \<open>
  \<open>ParseDockerImage\<close> splits a repository without a colon and a tag; without a tag it answers latest.
  When the registry has a port, the port number and the rest of the repository are taken for the tag and the real tag is lost.
\<close>

theorem ParseDockerImage_parts:
  "(\<forall>repo tag. CHR '':'' \<notin> set repo \<and> CHR '':'' \<notin> set tag \<longrightarrow>
      ParseDockerImage (repo @ '':'' @ tag) = (repo, tag) \<and> ParseDockerImage repo = (repo, ''latest'')) \<and>
   ParseDockerImage ''reg:5000/img:v1'' = (''reg'', ''5000/img'')"
  by (simp add: ParseDockerImage_def split_on_append_sep)

theorem ParseDockerImage_parts_witness:
  "ParseDockerImage ''alluxio:v2'' = (''alluxio'', ''v2'')"
  using conjunct1 [OF ParseDockerImage_parts, rule_format, of "''alluxio''" "''v2''"] by simp

end
