(* ===== verification/Helm.thy ===== *)
theory Helm
  imports Utils
begin

text \<open>
  Releases of the Alluxio chart (\<open>pkg/utils/helm/utils.go\<close>, \<open>helm.go\<close>). The programs of the
  operating system are a parameter: looking up a binary, testing for a file and running a
  process.
\<close>

section \<open>The operating system\<close>

text \<open>
  How a process ends: it could not be started, waiting for it failed, or it exited with a
  status (0 is success, -1 a signal) and an output.
\<close>

datatype proc = StartFailed err | WaitFailed err | Exited int string

record 'w os =
  LookPath :: "string \<Rightarrow> ('w, err + string) state"
  StatNotExist :: "string \<Rightarrow> ('w, err option) state"
  RunProcess :: "string \<Rightarrow> string list \<Rightarrow> ('w, proc) state"

definition exit_error :: "int \<Rightarrow> err" where
  "exit_error n = ErrText (''exit status '' @ fmt_int n)"

text \<open>\<open>Output\<close> and \<open>CombinedOutput\<close> of a command.\<close>

definition proc_output :: "proc \<Rightarrow> string \<times> err option" where
  "proc_output p = (case p of
     StartFailed e \<Rightarrow> ([], Some e)
   | WaitFailed e \<Rightarrow> ([], Some e)
   | Exited n out \<Rightarrow> (out, if n = 0 then None else Some (exit_error n)))"

definition helm_binary :: string where
  "helm_binary = ''helm''"

section \<open>Releases\<close>

definition chart_path :: string where
  "chart_path = ''/data1/wwx/Fluid-DataTable-main/charts/alluxio/''"

text \<open>The label that the workers of a release are bound to.\<close>

definition worker_selector :: "string \<Rightarrow> string \<Rightarrow> string" where
  "worker_selector namespace name =
     ''worker.nodeSelector.'' @ LabelAnnotationStorageCapacityPrefix @ namespace @ ''-'' @ name @ ''=ok''"

definition install_args :: "string \<Rightarrow> string \<Rightarrow> string \<Rightarrow> string \<Rightarrow> string list" where
  "install_args name namespace chartName engineName =
     [''install'', name, ''-f'', chart_path @ ''values.yaml'', ''--namespace'', namespace,
      ''--set'', ''master.name='' @ engineName,
      ''--set'', worker_selector namespace name,
      chartName]"

definition InstallRelease ::
    "'w os \<Rightarrow> string \<Rightarrow> string \<Rightarrow> string \<Rightarrow> string \<Rightarrow> string \<Rightarrow> ('w, err option) state" where
  "InstallRelease os name namespace valueFile chartName engineName = do {
     r \<leftarrow> LookPath os helm_binary;
     case r of
       Inl e \<Rightarrow> ret (Some e)
     | Inr binary \<Rightarrow> do {
         missing \<leftarrow> (if has_prefix chartName ''/'' then StatNotExist os chartName else ret None);
         case missing of
           Some e \<Rightarrow> ret (Some e)
         | None \<Rightarrow> do {
             p \<leftarrow> RunProcess os binary (install_args name namespace chartName engineName);
             ret (snd (proc_output p))
           }
       }
   }"

definition CheckRelease :: "'w os \<Rightarrow> string \<Rightarrow> string \<Rightarrow> ('w, bool \<times> err option) state" where
  "CheckRelease os name namespace = do {
     r \<leftarrow> LookPath os helm_binary;
     case r of
       Inl e \<Rightarrow> ret (False, Some e)
     | Inr _ \<Rightarrow> do {
         p \<leftarrow> RunProcess os helm_binary [''status'', name, ''-n'', namespace];
         ret (case p of
            StartFailed e \<Rightarrow> (False, Some e)
          | WaitFailed e \<Rightarrow> (False, Some e)
          | Exited n out \<Rightarrow>
              (if n \<noteq> 0 then (False, if n = 1 then None else Some (exit_error n)) else (True, None)))
       }
   }"

definition DeleteRelease :: "'w os \<Rightarrow> string \<Rightarrow> string \<Rightarrow> ('w, err option) state" where
  "DeleteRelease os name namespace = do {
     r \<leftarrow> LookPath os helm_binary;
     case r of
       Inl e \<Rightarrow> ret (Some e)
     | Inr binary \<Rightarrow> do {
         p \<leftarrow> RunProcess os binary [''uninstall'', name, ''-n'', namespace];
         ret (snd (proc_output p))
       }
   }"

definition list_output :: "'w os \<Rightarrow> string list \<Rightarrow> ('w, err + string) state" where
  "list_output os args = do {
     r \<leftarrow> LookPath os helm_binary;
     case r of
       Inl e \<Rightarrow> ret (Inl e)
     | Inr _ \<Rightarrow> do {
         p \<leftarrow> RunProcess os helm_binary args;
         ret (case proc_output p of (_, Some e) \<Rightarrow> Inl e | (out, None) \<Rightarrow> Inr out)
       }
   }"

definition ListReleases :: "'w os \<Rightarrow> string \<Rightarrow> ('w, string list \<times> err option) state" where
  "ListReleases os namespace = do {
     r \<leftarrow> list_output os [''list'', ''-q'', ''-n'', namespace];
     ret (case r of Inl e \<Rightarrow> ([], Some e) | Inr out \<Rightarrow> (split_on newline out, None))
   }"

definition trim_blanks :: "string \<Rightarrow> string" where
  "trim_blanks s = trim_right_by (\<lambda>c. c = CHR '' '') (trim_left_by (\<lambda>c. c = CHR '' '') s)"

primrec release_rows :: "nat \<Rightarrow> string list \<Rightarrow> (string \<rightharpoonup> string list) \<Rightarrow> (string \<rightharpoonup> string list)" where
  "release_rows n [] m = m"
| "release_rows n (line # lines) m =
     (let line = trim_blanks line; cols = str_fields line in
      release_rows n lines
        (if \<not> contains line ''NAME'' \<and> n < length cols then m(cols ! 0 \<mapsto> cols) else m))"

definition ListReleaseMap :: "'w os \<Rightarrow> string \<Rightarrow> ('w, (string \<rightharpoonup> string) \<times> err option) state" where
  "ListReleaseMap os namespace = do {
     r \<leftarrow> list_output os [''list'', ''-n'', namespace];
     ret (case r of
        Inl e \<Rightarrow> (Map.empty, Some e)
      | Inr out \<Rightarrow> (map_option last \<circ> release_rows 1 (split_on newline out) Map.empty, None))
   }"

definition ListAllReleasesWithDetail ::
    "'w os \<Rightarrow> string \<Rightarrow> ('w, (string \<rightharpoonup> string list) \<times> err option) state" where
  "ListAllReleasesWithDetail os namespace = do {
     r \<leftarrow> list_output os [''list'', ''--all'', ''-n'', namespace];
     ret (case r of
        Inl e \<Rightarrow> (Map.empty, Some e)
      | Inr out \<Rightarrow> (release_rows 3 (split_on newline out) Map.empty, None))
   }"

definition DeleteReleaseIfExists :: "'w os \<Rightarrow> string \<Rightarrow> string \<Rightarrow> ('w, err option) state" where
  "DeleteReleaseIfExists os name namespace = do {
     (existed, e) \<leftarrow> CheckRelease os name namespace;
     if e \<noteq> None then ret e
     else if existed then DeleteRelease os name namespace
     else ret None
   }"

text \<open>
  \<open>GetChartVersion\<close>: the text after the colon of the first line. \<open>Stat\<close> fails on any error here;
  \<open>statError\<close> gives it.
\<close>

definition GetChartVersion ::
    "'w os \<Rightarrow> (string \<Rightarrow> ('w, err option) state) \<Rightarrow> string \<Rightarrow> ('w, string \<times> err option) state" where
  "GetChartVersion os statError chart = do {
     r \<leftarrow> LookPath os helm_binary;
     case r of
       Inl e \<Rightarrow> ret ([], Some e)
     | Inr binary \<Rightarrow> do {
         missing \<leftarrow> statError chart;
         case missing of
           Some e \<Rightarrow> ret ([], Some e)
         | None \<Rightarrow>
             (let args = [binary, ''inspect'', ''chart'', chart, ''|'', ''grep'', ''version:''] in do {
                p \<leftarrow> RunProcess os ''bash'' [''-c'', join '' '' args];
                ret (case proc_output p of
                   (_, Some e) \<Rightarrow> ([], Some e)
                 | (out, None) \<Rightarrow>
                     (let cols = split_on CHR '':'' (hd (split_on newline out)) in
                      if length cols \<noteq> 2
                      then ([], Some (ErrText (''failed to find version when executing '' @ fmt_slice args @
                             '', result is '' @ out)))
                      else (trim_space (cols ! 1), None)))
              })
       }
   }"

section \<open>Properties\<close>

text \<open>
  \<open>CheckRelease\<close> tells a release that exists from one that does not by the exit status of \<open>helm status\<close>:
  status 0 means that it exists, status 1 that it does not, and everything else, a missing binary included, is an error and
  never reported as an existing release; \<open>DeleteReleaseIfExists\<close> uninstalls exactly in the first case.
\<close>

theorem CheckRelease_classifies:
  assumes "run_state (LookPath os helm_binary) w = (Inr binary, w1)"
    and "run_state (RunProcess os helm_binary [''status'', name, ''-n'', namespace]) w1 = (p, w2)"
  shows "run_state (CheckRelease os name namespace) w =
      ((\<exists>out. p = Exited 0 out,
        if \<exists>out. p = Exited 0 out \<or> p = Exited 1 out then None else snd (proc_output p)), w2) \<and>
    ((\<exists>out. p = Exited 0 out \<or> p = Exited 1 out) \<or> snd (proc_output p) \<noteq> None) \<and>
    run_state (DeleteReleaseIfExists os name namespace) w =
      (if \<exists>out. p = Exited 0 out then run_state (DeleteRelease os name namespace) w2
       else (if \<exists>out. p = Exited 1 out then None else snd (proc_output p), w2))"
  using assms
  by (cases p) (auto simp: CheckRelease_def DeleteReleaseIfExists_def proc_output_def run_simps)

text \<open>A helm that answers every command with one result.\<close>

definition fixed_os :: "proc \<Rightarrow> 'w os" where
  "fixed_os p = \<lparr>LookPath = (\<lambda>b. ret (Inr b)), StatNotExist = (\<lambda>_. ret None), RunProcess = (\<lambda>_ _. ret p)\<rparr>"

theorem CheckRelease_classifies_witness:
  "fst (run_state (CheckRelease (fixed_os (Exited 1 [])) ''hbase'' ''default'') cluster0) = (False, None)"
  using CheckRelease_classifies
    [of "fixed_os (Exited 1 [])" cluster0 helm_binary cluster0 "''hbase''" "''default''" "Exited 1 []" cluster0]
  by (simp add: fixed_os_def)

end
