(* ===== verification/Engine.thy ===== *)
theory Engine
  imports ByteSize Schedule Operations Docker Helm
begin

text \<open>
  The Alluxio engine (\<open>pkg/ddc/alluxio\<close>): its state, the names it derives, how it reads the
  objects of its runtime, the runtime information it caches, and the closure that most of its
  methods hand to \<open>RetryOnConflict\<close>: read the runtime, compute a new status, write it when it
  differs.

  A method that changes the engine takes it and returns it. What lies outside of the repository
  comes with the record \<open>services\<close>.
\<close>

section \<open>Services\<close>

text \<open>
  The parameters of the engine: the API client, the arithmetic of quantities, the order in which
  the storage map is iterated, execution in pods, processes, \<open>LabelSelectorAsSelector\<close> followed
  by \<open>String\<close>, floating-point numbers, and \<open>sort.Slice\<close> by an integer key (the
  library does not say in which order it leaves elements with equal keys).
\<close>

record ('w, 'q) services =
  sv_client :: "('w, 'q) client"
  sv_quantity :: "'q quantity_ops"
  sv_order :: "CacheStoreType list"
  sv_exec :: "'w podexec"
  sv_os :: "'w os"
  sv_selector :: "(string \<times> string) list \<Rightarrow> err + string"
  sv_float :: float_ops
  sv_sort :: "('q Node \<Rightarrow> int) \<Rightarrow> 'q Node list \<Rightarrow> 'q Node list"

definition sort_contract :: "('w, 'q) services \<Rightarrow> bool" where
  "sort_contract sv \<longleftrightarrow>
     (\<forall>k xs. mset (sv_sort sv k xs) = mset xs \<and> sorted (map k (sv_sort sv k xs)))"

section \<open>The engine\<close>

text \<open>The channel over which an asynchronous synchronisation reports.\<close>

datatype channel = NilChannel | OpenChannel | ClosedChannel

record 'q AlluxioEngine =
  eng_runtime :: "'q AlluxioRuntime option"
  eng_name :: string
  eng_namespace :: string
  eng_runtimeType :: string
  eng_gracefulShutdownLimits :: int32
  eng_retryShutdown :: int32
  eng_initImage :: string
  eng_MetadataSyncDoneCh :: channel
  eng_runtimeInfo :: "'q RuntimeInfo option"
  eng_UnitTest :: bool

section \<open>Names\<close>

definition getMasterPodInfo :: "'q AlluxioEngine \<Rightarrow> string \<times> string" where
  "getMasterPodInfo e = (eng_name e @ ''-master-0'', ''alluxio-master'')"

definition getMasterStatefulsetName :: "'q AlluxioEngine \<Rightarrow> string" where
  "getMasterStatefulsetName e = eng_name e @ ''-master''"

definition getWorkerDaemonsetName :: "'q AlluxioEngine \<Rightarrow> string" where
  "getWorkerDaemonsetName e = eng_name e @ ''-worker''"

definition getFuseDaemonsetName :: "'q AlluxioEngine \<Rightarrow> string" where
  "getFuseDaemonsetName e = eng_name e @ ''-fuse''"

definition getConfigmapName :: "'q AlluxioEngine \<Rightarrow> string" where
  "getConfigmapName e = eng_name e @ ''-'' @ eng_runtimeType e @ ''-values''"

definition getDeprecatedCommonLabelname :: "'q AlluxioEngine \<Rightarrow> string" where
  "getDeprecatedCommonLabelname e =
     DeprecatedStorageCapacityPrefix @ eng_namespace e @ ''-'' @ eng_name e"

definition GetMetadataFileName :: "'q AlluxioEngine \<Rightarrow> string" where
  "GetMetadataFileName e = ''metadata-backup-'' @ eng_name e @ ''-'' @ eng_namespace e @ ''.gz''"

definition GetMetadataInfoFileName :: "'q AlluxioEngine \<Rightarrow> string" where
  "GetMetadataInfoFileName e = eng_name e @ ''-'' @ eng_namespace e @ ''.yaml''"

text \<open>\<open>MOUNT_ROOT\<close> has to be an absolute path.\<close>

definition GetMountRoot :: "env \<Rightarrow> string \<times> err option" where
  "GetMountRoot env =
     (let mountRoot = (case env ''MOUNT_ROOT'' of None \<Rightarrow> [] | Some v \<Rightarrow> v) in
      if \<not> has_prefix mountRoot ''/''
      then (mountRoot, Some (ErrText ''the the value of the env variable named MOUNT_ROOT is illegal''))
      else (mountRoot, None))"

definition getMountRoot :: "env \<Rightarrow> string" where
  "getMountRoot env =
     (case GetMountRoot env of
        (path, Some _) \<Rightarrow> ''/'' @ ALLUXIO_RUNTIME
      | (path, None) \<Rightarrow> path @ ''/'' @ ALLUXIO_RUNTIME)"

definition getMountPoint :: "env \<Rightarrow> 'q AlluxioEngine \<Rightarrow> string" where
  "getMountPoint env e =
     getMountRoot env @ ''/'' @ eng_namespace e @ ''/'' @ eng_name e @ ''/alluxio-fuse''"

primrec isPortInUsed :: "int \<Rightarrow> int list \<Rightarrow> bool" where
  "isPortInUsed port [] = False"
| "isPortInUsed port (usedPort # usedPorts) =
     (if port = usedPort then True else isPortInUsed port usedPorts)"

definition getWorkerSelectors :: "('w, 'q) services \<Rightarrow> 'q AlluxioEngine \<Rightarrow> string" where
  "getWorkerSelectors sv e =
     (case sv_selector sv [(''release'', eng_name e), (''role'', ''alluxio-worker''),
        (''app'', ALLUXIO_RUNTIME)] of
        Inl _ \<Rightarrow> [] | Inr s \<Rightarrow> s)"

section \<open>Reading objects\<close>

definition engine_key :: "'q AlluxioEngine \<Rightarrow> nskey" where
  "engine_key e = (eng_namespace e, eng_name e)"

definition getRuntime ::
    "('w, 'q) client \<Rightarrow> 'q AlluxioEngine \<Rightarrow> ('w, err + 'q AlluxioRuntime) state" where
  "getRuntime cl e = Get_AlluxioRuntime cl (engine_key e)"

definition getMasterStatefulset ::
    "('w, 'q) client \<Rightarrow> string \<Rightarrow> string \<Rightarrow> ('w, err + StatefulSet) state" where
  "getMasterStatefulset cl name namespace = Get_StatefulSet cl (namespace, name)"

definition getDaemonset ::
    "('w, 'q) client \<Rightarrow> string \<Rightarrow> string \<Rightarrow> ('w, err + DaemonSet) state" where
  "getDaemonset cl name namespace = Get_DaemonSet cl (namespace, name)"

definition HasDeprecatedCommonLabelname ::
    "('w, 'q) client \<Rightarrow> 'q AlluxioEngine \<Rightarrow> ('w, bool \<times> err option) state" where
  "HasDeprecatedCommonLabelname cl e = do {
     r \<leftarrow> getDaemonset cl (getWorkerDaemonsetName e) (eng_namespace e);
     ret (case r of
        Inl x \<Rightarrow> (if is_not_found x then (False, None) else (False, Some x))
      | Inr workers \<Rightarrow> (ds_NodeSelector workers (getDeprecatedCommonLabelname e) \<noteq> None, None))
   }"

primrec rest_endpoint :: "string \<Rightarrow> (string \<times> int32) list \<Rightarrow> string" where
  "rest_endpoint host [] = []"
| "rest_endpoint host (port # ports) =
     (if fst port = ''rest'' then host @ '':'' @ fmt_int (sint (snd port))
      else rest_endpoint host ports)"

definition queryAPIGatewayEndpoint ::
    "('w, 'q) client \<Rightarrow> 'q AlluxioEngine \<Rightarrow> ('w, err + string) state" where
  "queryAPIGatewayEndpoint cl e =
     (let serviceName = eng_name e @ ''-master-0'';
          host = serviceName @ ''.'' @ eng_namespace e in do {
        r \<leftarrow> GetServiceByName cl serviceName (eng_namespace e);
        ret (case r of
           Inl x \<Rightarrow> Inl x
         | Inr None \<Rightarrow> Inr []
         | Inr (Some svc) \<Rightarrow> Inr (rest_endpoint host (svc_Ports svc)))
      })"

definition GetAPIGatewayStatus ::
    "('w, 'q) client \<Rightarrow> 'q AlluxioEngine \<Rightarrow> ('w, err + string) state" where
  "GetAPIGatewayStatus cl e = queryAPIGatewayEndpoint cl e"

section \<open>The cached runtime information\<close>

text \<open>
  The information is built at the first call. When only the check for deprecated labels fails,
  the error is returned but the information stays cached, with the flag unset.
\<close>

definition getRuntimeInfo ::
    "('w, 'q) services \<Rightarrow> 'q AlluxioEngine \<Rightarrow> ('w, (err + 'q RuntimeInfo) \<times> 'q AlluxioEngine) state" where
  "getRuntimeInfo sv e =
     (case eng_runtimeInfo e of
        Some info \<Rightarrow> ret (Inr info, e)
      | None \<Rightarrow> do {
          r \<leftarrow> getRuntime (sv_client sv) e;
          case r of
            Inl x \<Rightarrow> ret (Inl x, e)
          | Inr runtime \<Rightarrow>
              (case BuildRuntimeInfo (sv_quantity sv) (eng_name e) (eng_namespace e)
                  (eng_runtimeType e) (spec_TieredStore (rt_Spec runtime)) of
                 Inl x \<Rightarrow> ret (Inl x, e)
               | Inr info \<Rightarrow>
                   (let e1 = e\<lparr>eng_runtimeInfo := Some info\<rparr> in
                    if eng_UnitTest e then ret (Inr info, e1)
                    else do {
                      (deprecated, err) \<leftarrow> HasDeprecatedCommonLabelname (sv_client sv) e;
                      case err of
                        Some x \<Rightarrow> ret (Inl x, e1)
                      | None \<Rightarrow>
                          (let info = SetDeprecatedNodeLabel info deprecated in
                           ret (Inr info, e\<lparr>eng_runtimeInfo := Some info\<rparr>))
                    }))
        })"

definition AssignNodesToCache ::
    "('w, 'q) services \<Rightarrow> 'q AlluxioEngine \<Rightarrow> int32
      \<Rightarrow> ('w, (int32 \<times> err option) \<times> 'q AlluxioEngine) state" where
  "AssignNodesToCache sv e desiredNum = do {
     (r, e) \<leftarrow> getRuntimeInfo sv e;
     case r of
       Inl x \<Rightarrow> ret ((0, Some x), e)
     | Inr info \<Rightarrow> do {
         res \<leftarrow> AssignDatasetToNodes (sv_client sv) (sv_quantity sv) (sv_order sv) info desiredNum;
         ret (res, e)
       }
   }"

text \<open>Only the cached information changes.\<close>

lemma engine_self [simp]: "\<exists>i. e = e\<lparr>eng_runtimeInfo := i\<rparr>"
  by (rule exI [of _ "eng_runtimeInfo e"]) simp

lemma getRuntimeInfo_engine:
  assumes "run_state (getRuntimeInfo sv e) w = ((r, e'), w')"
  shows "\<exists>i. e' = e\<lparr>eng_runtimeInfo := i\<rparr>"
  using assms
  by (auto simp: getRuntimeInfo_def run_simps Let_def
      split: prod.splits sum.splits option.splits if_splits)

lemma AssignNodesToCache_engine:
  "run_state (AssignNodesToCache sv e n) w = ((r, e'), w') \<Longrightarrow> \<exists>i. e' = e\<lparr>eng_runtimeInfo := i\<rparr>"
  by (auto simp: AssignNodesToCache_def run_simps split: prod.splits sum.splits
      dest: getRuntimeInfo_engine)

text \<open>The bodies of these methods are commented out.\<close>

definition SyncScheduleInfoToCacheNodes :: "'q AlluxioEngine \<Rightarrow> ('w, err option) state" where
  "SyncScheduleInfoToCacheNodes e = ret None"

definition SyncMetadata :: "'q AlluxioEngine \<Rightarrow> ('w, err option) state" where
  "SyncMetadata e = ret None"

definition SyncReplicas :: "'q AlluxioEngine \<Rightarrow> ('w, err option) state" where
  "SyncReplicas e = ret None"

definition CheckRuntimeHealthy :: "'q AlluxioEngine \<Rightarrow> ('w, err option) state" where
  "CheckRuntimeHealthy e = ret None"

definition ShouldCheckUFS :: "'q AlluxioEngine \<Rightarrow> ('w, bool \<times> err option) state" where
  "ShouldCheckUFS e = ret (True, None)"

definition PrepareUFS :: "'q AlluxioEngine \<Rightarrow> ('w, err option) state" where
  "PrepareUFS e = ret None"

definition UpdateOnUFSChange :: "'q AlluxioEngine \<Rightarrow> ('w, bool \<times> err option) state" where
  "UpdateOnUFSChange e = ret (False, None)"

section \<open>The status closure\<close>

text \<open>
  \<open>change\<close> computes the new status, or returns early (\<open>Inl\<close>) with nil or an error.
\<close>

definition status_attempt ::
    "('w, 'q) client \<Rightarrow> 'q AlluxioEngine
      \<Rightarrow> ('q AlluxioRuntime \<Rightarrow> ('w \<times> captured, err option + RuntimeStatus) state)
      \<Rightarrow> ('w \<times> captured, err option) state" where
  "status_attempt cl e change = do {
     r \<leftarrow> call (getRuntime cl e);
     case r of
       Inl x \<Rightarrow> ret (Some x)
     | Inr runtime \<Rightarrow> do {
         s \<leftarrow> change runtime;
         case s of
           Inl early \<Rightarrow> ret early
         | Inr status \<Rightarrow>
             (if rt_Status runtime \<noteq> status
              then call (StatusUpdate_AlluxioRuntime cl (runtime\<lparr>rt_Status := status\<rparr>))
              else ret None)
       }
   }"

text \<open>A new condition put into the conditions of a status.\<close>

definition put_condition ::
    "('w, 'q) client \<Rightarrow> RuntimeConditionType \<Rightarrow> string \<Rightarrow> string \<Rightarrow> ConditionStatus \<Rightarrow> RuntimeStatus
      \<Rightarrow> ('w \<times> captured, RuntimeStatus) state" where
  "put_condition cl ty reason message status st = do {
     cond \<leftarrow> call (NewRuntimeCondition cl ty reason message status);
     ret (st\<lparr>st_Conditions := UpdateRuntimeCondition (st_Conditions st) cond\<rparr>)
   }"

text \<open>The same, only when the status has no condition of that type.\<close>

definition put_missing_condition ::
    "('w, 'q) client \<Rightarrow> RuntimeConditionType \<Rightarrow> string \<Rightarrow> string \<Rightarrow> ConditionStatus \<Rightarrow> RuntimeStatus
      \<Rightarrow> ('w \<times> captured, RuntimeStatus) state" where
  "put_missing_condition cl ty reason message status st = do {
     cond \<leftarrow> call (NewRuntimeCondition cl ty reason message status);
     ret (case GetRuntimeCondition (st_Conditions st) (rc_Type cond) of
        None \<Rightarrow> st\<lparr>st_Conditions := UpdateRuntimeCondition (st_Conditions st) cond\<rparr>
      | Some (i, old) \<Rightarrow>
          (if rc_Type old \<noteq> rc_Type cond
           then st\<lparr>st_Conditions := UpdateRuntimeCondition (st_Conditions st) cond\<rparr> else st))
   }"

section \<open>Laws of the status closure\<close>

text \<open>The contracts of the client that the status closure relies on.\<close>

definition api_contracts :: "('w, 'q) client \<Rightarrow> ('w, 'q) runtime_store \<Rightarrow> bool" where
  "api_contracts cl stored \<longleftrightarrow> retry_contract cl \<and> get_runtime_contract cl stored \<and>
     status_update_contract cl stored \<and> quiet_contract cl stored"

lemma fake_api: "api_contracts fake_client runtime_at"
  by (simp add: api_contracts_def fake_retry fake_get_runtime fake_status_update fake_quiet)

text \<open>The condition of a type that a status carries.\<close>

definition condition_of :: "RuntimeStatus \<Rightarrow> RuntimeConditionType \<Rightarrow> RuntimeCondition option" where
  "condition_of st ty = map_option snd (GetRuntimeCondition (st_Conditions st) ty)"

text \<open>A program inside a closure that leaves the stored runtimes and the captured variables alone.\<close>

definition keeps ::
    "('w, 'q) runtime_store \<Rightarrow> ('w \<times> captured, 'a) state \<Rightarrow> bool" where
  "keeps stored m \<longleftrightarrow> (\<forall>w c. stored (fst (snd (run_state m (w, c)))) = stored w)"

lemma keeps_ret: "keeps stored (ret x)"
  by (simp add: keeps_def run_simps)

lemma keeps_bind:
  assumes "keeps stored m" "\<And>x. keeps stored (f x)"
  shows "keeps stored (m \<bind> f)"
  using assms by (auto simp: keeps_def run_simps split: prod.splits) (metis fst_conv snd_conv)

lemma keeps_if:
  "keeps stored m \<Longrightarrow> keeps stored n \<Longrightarrow> keeps stored (if b then m else n)"
  by simp

lemma keeps_case_prod:
  "(\<And>a b. keeps stored (f a b)) \<Longrightarrow> keeps stored (case p of (a, b) \<Rightarrow> f a b)"
  by (cases p) simp

lemma keeps_captured:
  "keeps stored get_captured" "keeps stored (upd_captured f)"
  by (simp_all add: keeps_def run_simps)

lemmas keeps_intros = keeps_ret keeps_bind keeps_if keeps_case_prod keeps_captured

lemma keeps_now:
  "quiet_contract cl stored \<Longrightarrow> keeps stored (call (Now cl))"
  by (simp add: keeps_def run_simps quiet_contract_def)

lemma call_bind: "call (m \<bind> f) = call m \<bind> (\<lambda>x. call (f x))"
  by (rule state.expand) (auto simp: run_simps fun_eq_iff split: prod.splits)

lemma call_ret: "call (ret x) = ret x"
  by (rule state.expand) (auto simp: run_simps fun_eq_iff)

lemma keeps_new_condition:
  "quiet_contract cl stored \<Longrightarrow> keeps stored (call (NewRuntimeCondition cl ty reason msg s))"
  unfolding NewRuntimeCondition_def call_bind call_ret by (intro keeps_intros keeps_now)

lemma keeps_put_condition:
  "quiet_contract cl stored \<Longrightarrow> keeps stored (put_condition cl ty reason msg s st)"
  unfolding put_condition_def by (intro keeps_intros keeps_new_condition)

lemma keeps_put_missing:
  "quiet_contract cl stored \<Longrightarrow> keeps stored (put_missing_condition cl ty reason msg s st)"
  unfolding put_missing_condition_def by (intro keeps_intros keeps_new_condition)

lemma keeps_gateway:
  "quiet_contract cl stored \<Longrightarrow> keeps stored (call (GetAPIGatewayStatus cl e))"
  by (auto simp: GetAPIGatewayStatus_def queryAPIGatewayEndpoint_def GetServiceByName_def Let_def
      call_bind call_ret keeps_def run_simps quiet_contract_def split: prod.splits)

text \<open>
  One attempt that ends without an error: the closure returned early, or the store holds the new
  status.
\<close>

lemma status_attempt_stored:
  assumes "get_runtime_contract cl stored" "status_update_contract cl stored"
    and "\<And>rt. keeps stored (change rt)"
    and run: "run_state (status_attempt cl e change) (w, c) = (None, (w', c'))"
  obtains rt w1 early where "run_state (change rt) (w1, c) = (Inl None, (w', c'))"
  | rt w1 st w2 r where "run_state (change rt) (w1, c) = (Inr st, (w2, c'))"
      "stored w' (engine_key e) = Some r" "rt_Status r = st" "rt_Spec r = rt_Spec rt"
proof -
  obtain rt w1 where get: "run_state (Get_AlluxioRuntime cl (engine_key e)) w = (Inr rt, w1)"
    using run by (auto simp: status_attempt_def getRuntime_def run_simps split: prod.splits sum.splits)
      (metis prod.collapse)+
  then have key: "meta_key (rt_meta rt) = engine_key e" and at: "stored w1 (engine_key e) = Some rt"
    using assms(1) unfolding get_runtime_contract_def by blast+
  obtain s w2 c2 where ch: "run_state (change rt) (w1, c) = (s, (w2, c2))"
    by (cases "run_state (change rt) (w1, c)") auto
  then have at2: "stored w2 (engine_key e) = Some rt"
    using assms(3) [of rt] at unfolding keeps_def by (metis fst_conv snd_conv)
  show thesis
  proof (cases s)
    case (Inl early)
    then have "run_state (change rt) (w1, c) = (Inl None, (w', c'))"
      using run get ch by (auto simp: status_attempt_def getRuntime_def run_simps)
    then show thesis by (rule that(1))
  next
    case (Inr st)
    have c2: "c2 = c'"
      using run get ch Inr by (auto simp: status_attempt_def getRuntime_def run_simps split: if_splits)
    show thesis
    proof (cases "rt_Status rt = st")
      case True
      then have "w2 = w'"
        using run get ch Inr by (auto simp: status_attempt_def getRuntime_def run_simps)
      then show thesis using that(2) [of rt w1 st w2 rt] ch Inr c2 at2 True by simp
    next
      case False
      then have "run_state (StatusUpdate_AlluxioRuntime cl (rt\<lparr>rt_Status := st\<rparr>)) w2 = (None, w')"
        using run get ch Inr by (auto simp: status_attempt_def getRuntime_def run_simps prod_eq_iff)
      then obtain r where "stored w' (engine_key e) = Some r" "rt_Status r = st" "rt_Spec r = rt_Spec rt"
        using assms(2) key unfolding status_update_contract_def by fastforce
      then show thesis using that(2) ch Inr c2 by blast
    qed
  qed
qed

text \<open>
  A call of \<open>RetryOnConflict\<close> that returns nil: some attempt was the last one. \<open>I\<close> is an invariant of
  the captured variables.
\<close>

lemma retry_status_spec:
  assumes api: "api_contracts cl stored"
    and keep: "\<And>rt. keeps stored (change rt)"
    and run: "run_state (retrying cl (status_attempt cl e change)) w = ((None, c'), w')"
    and init: "I captured0"
    and step: "\<And>rt w1 c s w2 c2. run_state (change rt) (w1, c) = (s, (w2, c2)) \<Longrightarrow> I c \<Longrightarrow>
      I c2 \<and> (s = Inl None \<longrightarrow> E c2) \<and> (\<forall>st. s = Inr st \<longrightarrow> Q rt st c2)"
  shows "I c' \<and> (E c' \<or> (\<exists>rt r. stored w' (engine_key e) = Some r \<and> rt_Spec r = rt_Spec rt \<and> Q rt (rt_Status r) c'))"
proof -
  have contracts: "retry_contract cl" "get_runtime_contract cl stored" "status_update_contract cl stored"
    using api by (simp_all add: api_contracts_def)
  let ?Post = "\<lambda>(x :: err option) w' c'. x = None \<longrightarrow>
    E c' \<or> (\<exists>rt r. stored w' (engine_key e) = Some r \<and> rt_Spec r = rt_Spec rt \<and> Q rt (rt_Status r) c')"
  have attempt: "I c' \<and> ?Post err w' c'"
    if I: "I c" and r: "run_state (status_attempt cl e change) (w, c) = (err, (w', c'))"
    for w c err w' c'
  proof -
    have "I c'"
      using r I step
      by (auto simp: status_attempt_def run_simps split: prod.splits sum.splits if_splits)
    moreover have "?Post err w' c'"
    proof
      assume "err = None"
      with r have r': "run_state (status_attempt cl e change) (w, c) = (None, (w', c'))" by simp
      show "E c' \<or> (\<exists>rt r. stored w' (engine_key e) = Some r \<and> rt_Spec r = rt_Spec rt \<and> Q rt (rt_Status r) c')"
        by (rule status_attempt_stored [OF contracts(2,3) keep r']) (use step I in blast)+
    qed
    ultimately show ?thesis by blast
  qed
  have "?Post None w' c' \<and> I c'"
    by (rule retrying_post [where I = I and Q = ?Post, OF contracts(1) run init]) (rule attempt)
  then show ?thesis by blast
qed

lemma retry_status:
  assumes "api_contracts cl stored" "\<And>rt. keeps stored (change rt)"
    and "run_state (retrying cl (status_attempt cl e change)) w = ((None, c'), w')" "I captured0"
    and "\<And>rt w1 c s w2 c2. run_state (change rt) (w1, c) = (s, (w2, c2)) \<Longrightarrow> I c \<Longrightarrow>
      I c2 \<and> (s = Inl None \<longrightarrow> E c2) \<and> (\<forall>st. s = Inr st \<longrightarrow> Q rt st c2)"
  shows "I c' \<and> (E c' \<or> (\<exists>rt r. stored w' (engine_key e) = Some r \<and> Q rt (rt_Status r) c'))"
proof -
  have "I c' \<and> (E c' \<or> (\<exists>rt r. stored w' (engine_key e) = Some r \<and> rt_Spec r = rt_Spec rt \<and>
      Q rt (rt_Status r) c'))"
    by (rule retry_status_spec [where I = I and E = E and Q = Q, OF assms(1-4)]) (rule assms(5))
  then show ?thesis by blast
qed

text \<open>The same for a closure that has no early return and no captured variables.\<close>

lemma retry_status_plain:
  assumes "api_contracts cl stored" "\<And>rt. keeps stored (change rt)"
    and "run_state (retrying cl (status_attempt cl e change)) w = ((None, c'), w')"
    and "\<And>rt w1 c s w2 c2. run_state (change rt) (w1, c) = (s, (w2, c2)) \<Longrightarrow>
      s \<noteq> Inl None \<and> (\<forall>st. s = Inr st \<longrightarrow> Q rt st)"
  shows "\<exists>rt r. stored w' (engine_key e) = Some r \<and> Q rt (rt_Status r)"
  using retry_status [OF assms(1,2,3), of "\<lambda>c. True" "\<lambda>c. False" "\<lambda>rt st c. Q rt st"] assms(4)
  by blast

lemma run_NewRuntimeCondition:
  "run_state (NewRuntimeCondition cl ty reason msg s) w = (cond, w') \<Longrightarrow>
   rc_Type cond = ty \<and> rc_Status cond = s \<and> rc_Reason cond = reason \<and> rc_Message cond = msg"
  by (auto simp: NewRuntimeCondition_def run_simps split: prod.splits)

lemma run_put_condition:
  assumes "run_state (put_condition cl ty reason msg s st) (w, c) = (st', (w', c'))"
  shows "c' = c \<and> (\<exists>cs. st' = st\<lparr>st_Conditions := cs\<rparr>) \<and>
    (\<exists>cond. condition_of st' ty = Some cond \<and> rc_Status cond = s \<and> rc_Message cond = msg)"
proof -
  obtain cond w1 where n: "run_state (NewRuntimeCondition cl ty reason msg s) w = (cond, w1)"
    and st': "st' = st\<lparr>st_Conditions := UpdateRuntimeCondition (st_Conditions st) cond\<rparr>" and c: "c' = c"
    using assms by (auto simp: put_condition_def run_simps split: prod.splits) (metis prod.collapse)
  obtain t where "condition_of st' ty = Some (cond\<lparr>rc_LastTransitionTime := t\<rparr>)"
    using updated_found [of "st_Conditions st" cond] run_NewRuntimeCondition [OF n] st'
    by (auto simp: condition_of_def)
  then show ?thesis using run_NewRuntimeCondition [OF n] st' c by auto
qed

end
