(* ===== verification/Fixtures.thy ===== *)
theory Fixtures
  imports Engine
begin

text \<open>
  A concrete runtime, its workloads and its engine in the in-memory cluster. The concrete
  instances of the theorems on the engine, the template engine and the controllers use them.
  Nothing here models code of the repository.
\<close>

definition zero_status :: RuntimeStatus where
  "zero_status = \<lparr>st_ValueFileConfigmap = [], st_MasterPhase = RuntimePhaseNone, st_MasterReason = [],
     st_WorkerPhase = RuntimePhaseNone, st_WorkerReason = [],
     st_DesiredWorkerNumberScheduled = 0, st_CurrentWorkerNumberScheduled = 0,
     st_WorkerNumberReady = 0, st_WorkerNumberAvailable = 0, st_WorkerNumberUnavailable = 0,
     st_DesiredMasterNumberScheduled = 0, st_CurrentMasterNumberScheduled = 0,
     st_MasterNumberReady = 0, st_FusePhase = RuntimePhaseNone, st_FuseReason = [],
     st_CurrentFuseNumberScheduled = 0, st_DesiredFuseNumberScheduled = 0,
     st_FuseNumberReady = 0, st_FuseNumberUnavailable = 0, st_FuseNumberAvailable = 0,
     st_SetupDuration = [], st_Conditions = [], st_CacheStates = None, st_Selector = [],
     st_APIGatewayStatus = None\<rparr>"

definition zero_comp :: AlluxioCompTemplateSpec where
  "zero_comp = \<lparr>comp_Replicas = 0, comp_JvmOptions = [], comp_Properties = Map.empty,
     comp_Ports = Map.empty, comp_Env = Map.empty, comp_Enabled = False, comp_NodeSelector = None\<rparr>"

definition zero_spec :: "int64 AlluxioRuntimeSpec" where
  "zero_spec = \<lparr>spec_AlluxioVersion = \<lparr>ver_Image = [], ver_ImageTag = [], ver_ImagePullPolicy = []\<rparr>,
     spec_Master = zero_comp, spec_JobMaster = zero_comp, spec_Worker = zero_comp,
     spec_JobWorker = zero_comp, spec_APIGateway = zero_comp,
     spec_InitUsers = \<lparr>iu_Image = [], iu_ImageTag = [], iu_ImagePullPolicy = [], iu_Env = Map.empty\<rparr>,
     spec_Fuse = \<lparr>fuse_Image = [], fuse_ImageTag = [], fuse_ImagePullPolicy = [],
       fuse_JvmOptions = [], fuse_Properties = Map.empty, fuse_Env = Map.empty, fuse_Args = [],
       fuse_Global = False, fuse_NodeSelector = Map.empty\<rparr>,
     spec_Properties = Map.empty, spec_JvmOptions = [], spec_TieredStore = [],
     spec_Data = \<lparr>data_Replicas = 0, data_Pin = False\<rparr>, spec_Replicas = 2, spec_RunAs = None,
     spec_DisablePrometheus = False, spec_HadoopConfig = []\<rparr>"

text \<open>The runtime \<open>default/demo\<close> with two workers.\<close>

definition demo_runtime :: "int64 AlluxioRuntime" where
  "demo_runtime = \<lparr>rt_meta = named_meta ''default'' ''demo'', rt_Spec = zero_spec, rt_Status = zero_status\<rparr>"

definition demo_master :: "int32 \<Rightarrow> StatefulSet" where
  "demo_master ready = \<lparr>sts_Kind = [], sts_Group = [], sts_meta = named_meta ''default'' ''demo-master'',
     sts_SpecReplicas = 1, sts_Replicas = 1, sts_ReadyReplicas = ready\<rparr>"

definition demo_daemonset :: "string \<Rightarrow> int32 \<Rightarrow> int32 \<Rightarrow> DaemonSet" where
  "demo_daemonset name ready unavailable = \<lparr>ds_meta = named_meta ''default'' name,
     ds_NodeSelector = Map.empty, ds_DesiredNumberScheduled = 2, ds_UpdatedNumberScheduled = 2,
     ds_NumberReady = ready, ds_NumberAvailable = ready, ds_NumberUnavailable = unavailable\<rparr>"

definition demo_cluster :: "int32 \<Rightarrow> int32 \<Rightarrow> cluster" where
  "demo_cluster masterReady workersReady = cluster0
     \<lparr>fc_runtimes := [(''default'', ''demo'') \<mapsto> demo_runtime],
      fc_statefulsets := [(''default'', ''demo-master'') \<mapsto> demo_master masterReady],
      fc_daemonsets := [(''default'', ''demo-worker'') \<mapsto> demo_daemonset ''demo-worker'' workersReady 0,
        (''default'', ''demo-fuse'') \<mapsto> demo_daemonset ''demo-fuse'' 2 0],
      fc_nodes := [sample_node ''n1'' Map.empty, sample_node ''n2'' Map.empty],
      fc_namespaces := [''default'']\<rparr>"

definition demo_engine :: "int64 AlluxioEngine" where
  "demo_engine = \<lparr>eng_runtime = Some demo_runtime, eng_name = ''demo'', eng_namespace = ''default'',
     eng_runtimeType = ''alluxio'', eng_gracefulShutdownLimits = 5, eng_retryShutdown = 0,
     eng_initImage = [], eng_MetadataSyncDoneCh = NilChannel, eng_runtimeInfo = None,
     eng_UnitTest = False\<rparr>"

text \<open>Helm knows the release, no command prints anything, and sorting is the library's.\<close>

definition demo_services :: "(cluster, int64) services" where
  "demo_services = \<lparr>sv_client = fake_client, sv_quantity = int_quantities,
     sv_order = [MemoryCacheStore, DiskCacheStore], sv_exec = echo_exec [],
     sv_os = fixed_os (Exited 0 []), sv_selector = (\<lambda>_. Inr ''release=demo''),
     sv_float = integer_floats, sv_sort = sort_key\<rparr>"

lemma demo_sort: "sort_contract demo_services"
  by (simp add: sort_contract_def demo_services_def)

lemma demo_api: "api_contracts (sv_client demo_services) runtime_at"
  using fake_api by (simp add: demo_services_def)

lemma demo_reads:
  "run_state (getRuntime fake_client demo_engine) (demo_cluster a b) =
     (Inr demo_runtime, demo_cluster a b)"
  "run_state (getMasterStatefulset fake_client (getMasterStatefulsetName demo_engine)
     (eng_namespace demo_engine)) (demo_cluster a b) = (Inr (demo_master a), demo_cluster a b)"
  "run_state (getDaemonset fake_client (getWorkerDaemonsetName demo_engine)
     (eng_namespace demo_engine)) (demo_cluster a b) =
     (Inr (demo_daemonset ''demo-worker'' b 0), demo_cluster a b)"
  "run_state (getDaemonset fake_client (getFuseDaemonsetName demo_engine)
     (eng_namespace demo_engine)) (demo_cluster a b) =
     (Inr (demo_daemonset ''demo-fuse'' 2 0), demo_cluster a b)"
  by (simp_all add: getRuntime_def getMasterStatefulset_def getDaemonset_def fake_client_def
      fake_lookup_def engine_key_def demo_engine_def demo_cluster_def runtime_at_def demo_runtime_def
      getMasterStatefulsetName_def getWorkerDaemonsetName_def getFuseDaemonsetName_def)

lemma demo_key: "engine_key demo_engine = (''default'', ''demo'')"
  by (simp add: engine_key_def demo_engine_def)

end
