(* ===== verification/EngineStatus.thy ===== *)
theory EngineStatus
  imports Fixtures
begin

text \<open>
  Setting up and watching the master and the workers (\<open>master.go\<close>, \<open>master_internal.go\<close>,
  \<open>worker.go\<close>, \<open>status.go\<close> and \<open>health_check.go\<close> of \<open>pkg/ddc/alluxio\<close>), and what a
  successful call leaves in the stored status of the runtime.
\<close>

section \<open>The master\<close>

definition master_replicas :: "'q AlluxioRuntime \<Rightarrow> int32" where
  "master_replicas runtime =
     (let n = comp_Replicas (spec_Master (rt_Spec runtime)) in if n = 0 then 1 else n)"

text \<open>The API gateway's status is filled in once, and only when the gateway is enabled.\<close>

definition gateway_status ::
    "('w, 'q) client \<Rightarrow> 'q AlluxioEngine \<Rightarrow> 'q AlluxioRuntime \<Rightarrow> RuntimeStatus
      \<Rightarrow> ('w \<times> captured, err option + RuntimeStatus) state" where
  "gateway_status cl e runtime st =
     (if comp_Enabled (spec_APIGateway (rt_Spec runtime)) \<and> st_APIGatewayStatus st = None then do {
        g \<leftarrow> call (GetAPIGatewayStatus cl e);
        ret (case g of
           Inl x \<Rightarrow> Inl (Some x)
         | Inr endpoint \<Rightarrow> Inr (st\<lparr>st_APIGatewayStatus := Some endpoint\<rparr>))
      } else ret (Inr st))"

definition master_ready_change ::
    "('w, 'q) client \<Rightarrow> 'q AlluxioEngine \<Rightarrow> StatefulSet \<Rightarrow> 'q AlluxioRuntime
      \<Rightarrow> ('w \<times> captured, err option + RuntimeStatus) state" where
  "master_ready_change cl e master runtime =
     (let st = (rt_Status runtime)\<lparr>st_CurrentMasterNumberScheduled := sts_ReadyReplicas master,
                 st_MasterPhase := RuntimePhaseReady\<rparr> in do {
        st \<leftarrow> put_condition cl RuntimeMasterReady ''Master is ready'' ''The master is ready.''
                ConditionTrue st;
        gateway_status cl e runtime st
      })"

text \<open>\<open>ready\<close> stays true when the update of the status fails.\<close>

definition CheckMasterReady ::
    "('w, 'q) client \<Rightarrow> 'q AlluxioEngine \<Rightarrow> ('w, bool \<times> err option) state" where
  "CheckMasterReady cl e = do {
     r \<leftarrow> getRuntime cl e;
     case r of
       Inl x \<Rightarrow> ret (False, Some x)
     | Inr runtime \<Rightarrow> do {
         m \<leftarrow> getMasterStatefulset cl (getMasterStatefulsetName e) (eng_namespace e);
         case m of
           Inl x \<Rightarrow> ret (False, Some x)
         | Inr master \<Rightarrow>
             (if master_replicas runtime = sts_ReadyReplicas master then do {
                (err, c) \<leftarrow> retrying cl (status_attempt cl e (master_ready_change cl e master));
                ret (True, err)
              } else ret (False, None))
       }
   }"

definition ShouldSetupMaster ::
    "('w, 'q) client \<Rightarrow> 'q AlluxioEngine \<Rightarrow> ('w, bool \<times> err option) state" where
  "ShouldSetupMaster cl e = do {
     r \<leftarrow> getRuntime cl e;
     ret (case r of
        Inl x \<Rightarrow> (False, Some x)
      | Inr runtime \<Rightarrow> (st_MasterPhase (rt_Status runtime) = RuntimePhaseNone, None))
   }"

text \<open>The generation of the value file is commented out.\<close>

definition generateAlluxioValueFile :: "'q AlluxioRuntime \<Rightarrow> string \<times> err option" where
  "generateAlluxioValueFile runtime = ([], None)"

definition master_chart :: string where
  "master_chart = ''/data1/wwx/Fluid-DataTable-main/charts/alluxio''"

definition setupMasterInternal ::
    "('w, 'q) services \<Rightarrow> 'q AlluxioEngine \<Rightarrow> ('w, err option) state" where
  "setupMasterInternal sv e = do {
     r \<leftarrow> getRuntime (sv_client sv) e;
     case r of
       Inl x \<Rightarrow> ret (Some x)
     | Inr runtime \<Rightarrow>
         (case generateAlluxioValueFile runtime of
            (_, Some x) \<Rightarrow> ret (Some x)
          | (valuefileName, None) \<Rightarrow> do {
              (found, err) \<leftarrow> CheckRelease (sv_os sv) (eng_name e) (eng_namespace e);
              case err of
                Some x \<Rightarrow> ret (Some x)
              | None \<Rightarrow>
                  (if found then ret None
                   else InstallRelease (sv_os sv) (eng_name e) (eng_namespace e) valuefileName
                          master_chart (om_Name (rt_meta runtime)))
            })
   }"

definition master_initialized_change ::
    "('w, 'q) services \<Rightarrow> 'q AlluxioEngine \<Rightarrow> 'q AlluxioRuntime
      \<Rightarrow> ('w \<times> captured, err option + RuntimeStatus) state" where
  "master_initialized_change sv e runtime =
     (let st = (rt_Status runtime)\<lparr>st_MasterPhase := RuntimePhaseNotReady,
                 st_Selector := getWorkerSelectors sv e,
                 st_DesiredMasterNumberScheduled := master_replicas runtime,
                 st_ValueFileConfigmap := getConfigmapName e\<rparr> in do {
        st \<leftarrow> put_condition (sv_client sv) RuntimeMasterInitialized ''Master is initialized''
                ''The master is initialized.'' ConditionTrue st;
        ret (Inr st)
      })"

text \<open>
  When the stateful set does not exist yet the release is installed and the status is left to a
  later call.
\<close>

definition SetupMaster ::
    "('w, 'q) services \<Rightarrow> 'q AlluxioEngine \<Rightarrow> ('w, err option) state" where
  "SetupMaster sv e =
     (let cl = sv_client sv in do {
        m \<leftarrow> getMasterStatefulset cl (getMasterStatefulsetName e) (eng_namespace e);
        case m of
          Inl x \<Rightarrow> (if is_not_found x then setupMasterInternal sv e else ret (Some x))
        | Inr master \<Rightarrow> do {
            (err, c) \<leftarrow> retrying cl (status_attempt cl e (master_initialized_change sv e));
            ret err
          }
      })"

section \<open>The workers\<close>

definition workers_initialized_change ::
    "('w, 'q) client \<Rightarrow> int32 \<Rightarrow> int32 \<Rightarrow> 'q AlluxioRuntime
      \<Rightarrow> ('w \<times> captured, err option + RuntimeStatus) state" where
  "workers_initialized_change cl replicas currentReplicas runtime =
     (let st = (rt_Status runtime)\<lparr>st_WorkerPhase := RuntimePhaseNotReady,
                 st_DesiredWorkerNumberScheduled := replicas,
                 st_CurrentWorkerNumberScheduled := currentReplicas\<rparr> in do {
        st \<leftarrow> put_condition cl RuntimeWorkersInitialized ''Workers are initialized''
                ''The workers are initialized.'' ConditionTrue st;
        ret (Inr st)
      })"

definition SetupWorkers ::
    "('w, 'q) services \<Rightarrow> 'q AlluxioEngine \<Rightarrow> ('w, err option \<times> 'q AlluxioEngine) state" where
  "SetupWorkers sv e =
     (let cl = sv_client sv in do {
        r \<leftarrow> getRuntime cl e;
        case r of
          Inl x \<Rightarrow> ret (Some x, e)
        | Inr runtime \<Rightarrow>
            (let replicas = Replicas runtime in do {
               ((currentReplicas, err), e) \<leftarrow> AssignNodesToCache sv e replicas;
               case err of
                 Some x \<Rightarrow> ret (Some x, e)
               | None \<Rightarrow>
                   (if currentReplicas = 0
                    then ret (Some (ErrText
                      ''the number of the current workers which can be scheduled is 0''), e)
                    else do {
                      (err, c) \<leftarrow> retrying cl
                        (status_attempt cl e (workers_initialized_change cl replicas currentReplicas));
                      ret (err, e)
                    })
             })
      })"

definition ShouldSetupWorkers ::
    "('w, 'q) client \<Rightarrow> 'q AlluxioEngine \<Rightarrow> ('w, bool \<times> err option) state" where
  "ShouldSetupWorkers cl e = do {
     r \<leftarrow> getRuntime cl e;
     ret (case r of
        Inl x \<Rightarrow> (False, Some x)
      | Inr runtime \<Rightarrow> (st_WorkerPhase (rt_Status runtime) = RuntimePhaseNone, None))
   }"

text \<open>In the partial case two conditions are made and the second is used.\<close>

definition workers_ready_change ::
    "('w, 'q) client \<Rightarrow> bool \<Rightarrow> 'q AlluxioRuntime
      \<Rightarrow> ('w \<times> captured, err option + RuntimeStatus) state" where
  "workers_ready_change cl workerPartialReady runtime =
     (let st = rt_Status runtime in do {
        cond \<leftarrow> call (NewRuntimeCondition cl RuntimeWorkersReady ''Workers are ready''
          ''The workers are ready.'' ConditionTrue);
        (cond, st) \<leftarrow> (if workerPartialReady then do {
            cond \<leftarrow> call (NewRuntimeCondition cl RuntimeWorkersReady ''Workers are ready''
              ''The workers are partially ready.'' ConditionTrue);
            ret (cond, st\<lparr>st_WorkerPhase := RuntimePhasePartialReady\<rparr>)
          } else ret (cond, st));
        ret (Inr (st\<lparr>st_Conditions := UpdateRuntimeCondition (st_Conditions st) cond\<rparr>))
      })"

definition CheckWorkersReady ::
    "('w, 'q) client \<Rightarrow> 'q AlluxioEngine \<Rightarrow> ('w, bool \<times> err option) state" where
  "CheckWorkersReady cl e = do {
     r \<leftarrow> getRuntime cl e;
     case r of
       Inl x \<Rightarrow> ret (False, Some x)
     | Inr runtime \<Rightarrow> do {
         d \<leftarrow> getDaemonset cl (getWorkerDaemonsetName e) (eng_namespace e);
         case d of
           Inl x \<Rightarrow> ret (False, Some x)
         | Inr workers \<Rightarrow>
             (let n = ds_NumberReady workers;
                  workerReady = (0 < sint n \<and> Replicas runtime = n);
                  workerPartialReady = (0 < sint n \<and> Replicas runtime \<noteq> n \<and> 1 \<le> sint n) in
              if workerReady \<or> workerPartialReady then do {
                (err, c) \<leftarrow> retrying cl (status_attempt cl e (workers_ready_change cl workerPartialReady));
                ret (True, err)
              } else ret (False, None))
       }
   }"

section \<open>The runtime's status\<close>

text \<open>
  The three results \<open>masterReady\<close>, \<open>workerReady\<close> and \<open>ready\<close> are variables of the enclosing
  function: an attempt sets them and never resets them. An empty map of cache states is replaced by
  a new one, which differs from a nil map.
\<close>

definition status_change ::
    "('w, 'q) client \<Rightarrow> StatefulSet \<Rightarrow> DaemonSet \<Rightarrow> 'q AlluxioRuntime
      \<Rightarrow> ('w \<times> captured, err option + RuntimeStatus) state" where
  "status_change cl master workers runtime =
     (let st0 = rt_Status runtime;
          st = (if (case st_CacheStates st0 of None \<Rightarrow> True | Some m \<Rightarrow> Mapping.is_empty m)
                then st0\<lparr>st_CacheStates := Some Mapping.empty\<rparr> else st0);
          st = st\<lparr>st_CurrentMasterNumberScheduled := sts_Replicas master,
                  st_MasterNumberReady := sts_ReadyReplicas master\<rparr>;
          masterOk = (sts_SpecReplicas master = sts_ReadyReplicas master);
          st = st\<lparr>st_MasterPhase := (if masterOk then RuntimePhaseReady else RuntimePhaseNotReady)\<rparr>;
          st = st\<lparr>st_WorkerNumberReady := ds_NumberReady workers,
                  st_WorkerNumberUnavailable := ds_NumberUnavailable workers,
                  st_WorkerNumberAvailable := ds_NumberAvailable workers\<rparr>;
          phase = (if Replicas runtime = ds_NumberReady workers then RuntimePhaseReady
                   else if ds_NumberAvailable workers = ds_NumberReady workers
                   then RuntimePhasePartialReady else RuntimePhaseNotReady);
          st = st\<lparr>st_WorkerPhase := phase\<rparr> in do {
        _ \<leftarrow> upd_captured (\<lambda>c. c\<lparr>cap_masterReady := cap_masterReady c \<or> masterOk\<rparr>);
        _ \<leftarrow> upd_captured (\<lambda>c. c\<lparr>cap_workerReady := cap_workerReady c \<or> phase \<noteq> RuntimePhaseNotReady\<rparr>);
        _ \<leftarrow> upd_captured (\<lambda>c. c\<lparr>cap_ready := cap_ready c \<or> cap_masterReady c \<and> cap_workerReady c\<rparr>);
        c \<leftarrow> get_captured;
        if cap_ready c \<and> st_SetupDuration st = [] then do {
          t \<leftarrow> call (Now cl);
          d \<leftarrow> call (CalculateDuration cl (om_CreationTimestamp (rt_meta runtime)) (Some t));
          ret (Inr (st\<lparr>st_SetupDuration := d\<rparr>))
        } else ret (Inr st)
      })"

definition CheckAndUpdateRuntimeStatus ::
    "('w, 'q) client \<Rightarrow> 'q AlluxioEngine \<Rightarrow> ('w, bool \<times> err option) state" where
  "CheckAndUpdateRuntimeStatus cl e = do {
     m \<leftarrow> getMasterStatefulset cl (getMasterStatefulsetName e) (eng_namespace e);
     case m of
       Inl x \<Rightarrow> ret (False, Some x)
     | Inr master \<Rightarrow> do {
         d \<leftarrow> getDaemonset cl (getWorkerDaemonsetName e) (eng_namespace e);
         case d of
           Inl x \<Rightarrow> ret (False, Some x)
         | Inr workers \<Rightarrow> do {
             (err, c) \<leftarrow> retrying cl (status_attempt cl e (status_change cl master workers));
             ret (cap_ready c, err)
           }
       }
   }"

section \<open>Health checks\<close>

text \<open>An unhealthy master: the closure returns nil before the status is written.\<close>

definition master_health_change ::
    "('w, 'q) client \<Rightarrow> StatefulSet \<Rightarrow> 'q AlluxioRuntime
      \<Rightarrow> ('w \<times> captured, err option + RuntimeStatus) state" where
  "master_health_change cl master runtime =
     (let st = rt_Status runtime in
      if sts_Replicas master \<noteq> sts_ReadyReplicas master then do {
        _ \<leftarrow> put_missing_condition cl RuntimeMasterReady ''The master is not ready.''
               (''The master '' @ om_Name (sts_meta master) @ '' in '' @
                om_Namespace (sts_meta master) @ '' is not ready.'') ConditionFalse st;
        ret (Inl None)
      } else do {
        st \<leftarrow> put_missing_condition cl RuntimeMasterReady ''The master is ready.''
               ''The master is ready.'' ConditionTrue st;
        _ \<leftarrow> upd_captured (\<lambda>c. c\<lparr>cap_healthy := True\<rparr>);
        ret (Inr (st\<lparr>st_MasterPhase := RuntimePhaseReady\<rparr>))
      })"

definition checkMasterHealthy ::
    "('w, 'q) client \<Rightarrow> 'q AlluxioEngine \<Rightarrow> ('w, err option) state" where
  "checkMasterHealthy cl e = do {
     m \<leftarrow> getMasterStatefulset cl (getMasterStatefulsetName e) (eng_namespace e);
     case m of
       Inl x \<Rightarrow> ret (Some x)
     | Inr master \<Rightarrow> do {
         (err, c) \<leftarrow> retrying cl (status_attempt cl e (master_health_change cl master));
         ret (case err of
            Some x \<Rightarrow> Some x
          | None \<Rightarrow>
              (if \<not> cap_healthy c then Some (ErrText
                 (''the master '' @ om_Name (sts_meta master) @ '' in '' @
                  om_Namespace (sts_meta master) @ '' is not ready. The expected number is '' @
                  fmt_int (sint (sts_Replicas master)) @ '', the actual number is '' @
                  fmt_int (sint (sts_ReadyReplicas master))))
               else None))
       }
   }"

definition daemonset_unhealthy :: "DaemonSet \<Rightarrow> bool" where
  "daemonset_unhealthy ds \<longleftrightarrow> 0 < sint (ds_NumberUnavailable ds) \<or>
     (0 < sint (ds_DesiredNumberScheduled ds) \<and> ds_NumberAvailable ds = 0)"

definition not_ready_text :: "DaemonSet \<Rightarrow> string \<Rightarrow> string \<Rightarrow> int32 \<Rightarrow> string" where
  "not_ready_text ds start between n =
     start @ om_Name (ds_meta ds) @ '' in '' @ om_Namespace (ds_meta ds) @ between @ fmt_int (sint n)"

definition workers_health_change ::
    "('w, 'q) client \<Rightarrow> DaemonSet \<Rightarrow> 'q AlluxioRuntime
      \<Rightarrow> ('w \<times> captured, err option + RuntimeStatus) state" where
  "workers_health_change cl workers runtime =
     (let st = rt_Status runtime in do {
        st \<leftarrow> (if daemonset_unhealthy workers then do {
            st \<leftarrow> put_missing_condition cl RuntimeWorkersReady ''The workers are not ready.''
              (not_ready_text workers ''The daemonset ''
                '' are not ready, the Unavailable number is '' (ds_NumberUnavailable workers) @
                '', please fix it.'') ConditionFalse st;
            ret (st\<lparr>st_WorkerPhase := RuntimePhaseNotReady\<rparr>)
          } else do {
            _ \<leftarrow> upd_captured (\<lambda>c. c\<lparr>cap_healthy := True\<rparr>);
            put_missing_condition cl RuntimeWorkersReady ''The workers are ready.''
              ''The workers are ready'' ConditionTrue st
          });
        ret (Inr (st\<lparr>st_WorkerNumberReady := ds_NumberReady workers,
                     st_WorkerNumberAvailable := ds_NumberAvailable workers\<rparr>))
      })"

definition checkWorkersHealthy ::
    "('w, 'q) client \<Rightarrow> 'q AlluxioEngine \<Rightarrow> ('w, err option) state" where
  "checkWorkersHealthy cl e = do {
     d \<leftarrow> getDaemonset cl (getWorkerDaemonsetName e) (eng_namespace e);
     case d of
       Inl x \<Rightarrow> ret (Some x)
     | Inr workers \<Rightarrow> do {
         (err, c) \<leftarrow> retrying cl (status_attempt cl e (workers_health_change cl workers));
         ret (case err of
            Some x \<Rightarrow> Some x
          | None \<Rightarrow>
              (if \<not> cap_healthy c then Some (ErrText (not_ready_text workers ''the daemonset ''
                 '' are not ready, the unhealthy number '' (ds_NumberUnavailable workers)))
               else None))
       }
   }"

text \<open>The condition that says the fuses are ready has the status false, as in the code.\<close>

definition fuse_health_change ::
    "('w, 'q) client \<Rightarrow> DaemonSet \<Rightarrow> 'q AlluxioRuntime
      \<Rightarrow> ('w \<times> captured, err option + RuntimeStatus) state" where
  "fuse_health_change cl fuses runtime =
     (let st = rt_Status runtime in do {
        st \<leftarrow> (if daemonset_unhealthy fuses then do {
            st \<leftarrow> put_missing_condition cl RuntimeFusesReady ''The Fuses are not ready.''
              (not_ready_text fuses ''The daemonset ''
                '' are not ready, the unhealthy number '' (ds_UpdatedNumberScheduled fuses))
              ConditionFalse st;
            ret (st\<lparr>st_FusePhase := RuntimePhaseNotReady\<rparr>)
          } else do {
            _ \<leftarrow> upd_captured (\<lambda>c. c\<lparr>cap_healthy := True\<rparr>);
            put_missing_condition cl RuntimeFusesReady ''The Fuses are ready.''
              ''The fuses are ready'' ConditionFalse (st\<lparr>st_FusePhase := RuntimePhaseReady\<rparr>)
          });
        ret (Inr (st\<lparr>st_FuseNumberReady := ds_NumberReady fuses,
                     st_FuseNumberAvailable := ds_NumberAvailable fuses\<rparr>))
      })"

definition checkFuseHealthy ::
    "('w, 'q) client \<Rightarrow> 'q AlluxioEngine \<Rightarrow> ('w, err option) state" where
  "checkFuseHealthy cl e = do {
     d \<leftarrow> getDaemonset cl (getFuseDaemonsetName e) (eng_namespace e);
     case d of
       Inl x \<Rightarrow> ret (Some x)
     | Inr fuses \<Rightarrow> do {
         (err, c) \<leftarrow> retrying cl (status_attempt cl e (fuse_health_change cl fuses));
         ret (case err of
            Some x \<Rightarrow> Some x
          | None \<Rightarrow>
              (if \<not> cap_healthy c then Some (ErrText (not_ready_text fuses ''the daemonset ''
                 '' are not ready, the unhealthy number '' (ds_UpdatedNumberScheduled fuses)))
               else None))
       }
   }"

section \<open>What the closures compute\<close>

lemma keeps_changes:
  assumes "api_contracts cl stored"
  shows "keeps stored (master_ready_change cl e master rt)"
    and "keeps stored (workers_initialized_change cl n m rt)"
    and "keeps stored (workers_ready_change cl b rt)"
    and "keeps stored (status_change cl master workers rt)"
    and "keeps stored (master_health_change cl master rt)"
    and "keeps stored (workers_health_change cl workers rt)"
    and "keeps stored (fuse_health_change cl fuses rt)"
proof -
  have q: "quiet_contract cl stored" using assms by (simp add: api_contracts_def)
  note ks = keeps_intros keeps_now [OF q] keeps_new_condition [OF q] keeps_put_condition [OF q]
    keeps_put_missing [OF q] keeps_gateway [OF q]
  show "keeps stored (master_ready_change cl e master rt)"
    unfolding master_ready_change_def gateway_status_def Let_def by (intro ks)
  show "keeps stored (workers_initialized_change cl n m rt)"
    unfolding workers_initialized_change_def Let_def by (intro ks)
  show "keeps stored (workers_ready_change cl b rt)"
    unfolding workers_ready_change_def Let_def by (intro ks)
  show "keeps stored (status_change cl master workers rt)"
    unfolding status_change_def CalculateDuration_def call_bind call_ret Let_def option.case
    by (intro ks)
  show "keeps stored (master_health_change cl master rt)"
    unfolding master_health_change_def Let_def by (intro ks)
  show "keeps stored (workers_health_change cl workers rt)"
    unfolding workers_health_change_def Let_def by (intro ks)
  show "keeps stored (fuse_health_change cl fuses rt)"
    unfolding fuse_health_change_def Let_def by (intro ks)
qed

lemma keeps_master_initialized:
  "api_contracts (sv_client sv) stored \<Longrightarrow> keeps stored (master_initialized_change sv e rt)"
  unfolding master_initialized_change_def Let_def api_contracts_def
  by (intro keeps_intros keeps_put_condition) simp

lemma run_master_ready_change:
  assumes "run_state (master_ready_change cl e master rt) (w, c) = (s, (w', c'))"
  shows "s \<noteq> Inl None \<and> (\<forall>st. s = Inr st \<longrightarrow>
    st_MasterPhase st = RuntimePhaseReady \<and>
    st_CurrentMasterNumberScheduled st = sts_ReadyReplicas master \<and>
    st_WorkerPhase st = st_WorkerPhase (rt_Status rt) \<and>
    (\<exists>cond. condition_of st RuntimeMasterReady = Some cond \<and> rc_Status cond = ConditionTrue))"
proof -
  obtain st1 w1 c1 where p: "run_state (put_condition cl RuntimeMasterReady ''Master is ready''
      ''The master is ready.'' ConditionTrue ((rt_Status rt)
        \<lparr>st_CurrentMasterNumberScheduled := sts_ReadyReplicas master,
         st_MasterPhase := RuntimePhaseReady\<rparr>)) (w, c) = (st1, (w1, c1))"
    by (metis surj_pair)
  have st1: "st_MasterPhase st1 = RuntimePhaseReady"
    "st_CurrentMasterNumberScheduled st1 = sts_ReadyReplicas master"
    "st_WorkerPhase st1 = st_WorkerPhase (rt_Status rt)"
    using run_put_condition [OF p] by auto
  show ?thesis
    using assms p st1 run_put_condition [OF p]
    by (auto simp: master_ready_change_def gateway_status_def Let_def run_simps condition_of_def
        split: prod.splits sum.splits if_splits)
qed

lemma run_workers_initialized_change:
  assumes "run_state (workers_initialized_change cl n m rt) (w, c) = (s, (w', c'))"
  shows "\<exists>st. s = Inr st \<and> st_WorkerPhase st = RuntimePhaseNotReady \<and>
    st_DesiredWorkerNumberScheduled st = n \<and> st_CurrentWorkerNumberScheduled st = m \<and>
    st_MasterPhase st = st_MasterPhase (rt_Status rt) \<and>
    (\<exists>cond. condition_of st RuntimeWorkersInitialized = Some cond \<and> rc_Status cond = ConditionTrue)"
proof -
  let ?st = "(rt_Status rt)\<lparr>st_WorkerPhase := RuntimePhaseNotReady,
    st_DesiredWorkerNumberScheduled := n, st_CurrentWorkerNumberScheduled := m\<rparr>"
  obtain st1 where p: "run_state (put_condition cl RuntimeWorkersInitialized
      ''Workers are initialized'' ''The workers are initialized.'' ConditionTrue ?st) (w, c) =
      (st1, (w', c'))" and s: "s = Inr st1"
    using assms by (auto simp: workers_initialized_change_def Let_def run_simps split: prod.splits)
  obtain cs where "st1 = ?st\<lparr>st_Conditions := cs\<rparr>"
    using run_put_condition [OF p] by blast
  then have "st_WorkerPhase st1 = RuntimePhaseNotReady \<and>
    st_DesiredWorkerNumberScheduled st1 = n \<and> st_CurrentWorkerNumberScheduled st1 = m \<and>
    st_MasterPhase st1 = st_MasterPhase (rt_Status rt)"
    by simp
  then show ?thesis using s run_put_condition [OF p] by blast
qed

lemma run_master_initialized_change:
  assumes "run_state (master_initialized_change sv e rt) (w, c) = (s, (w', c'))"
  shows "\<exists>st. s = Inr st \<and> st_MasterPhase st = RuntimePhaseNotReady \<and>
    st_DesiredMasterNumberScheduled st = master_replicas rt \<and>
    st_ValueFileConfigmap st = getConfigmapName e \<and>
    st_WorkerPhase st = st_WorkerPhase (rt_Status rt) \<and>
    (\<exists>cond. condition_of st RuntimeMasterInitialized = Some cond \<and> rc_Status cond = ConditionTrue)"
proof -
  let ?st = "(rt_Status rt)\<lparr>st_MasterPhase := RuntimePhaseNotReady,
    st_Selector := getWorkerSelectors sv e,
    st_DesiredMasterNumberScheduled := master_replicas rt,
    st_ValueFileConfigmap := getConfigmapName e\<rparr>"
  obtain st1 where p: "run_state (put_condition (sv_client sv) RuntimeMasterInitialized
      ''Master is initialized'' ''The master is initialized.'' ConditionTrue ?st) (w, c) =
      (st1, (w', c'))" and s: "s = Inr st1"
    using assms by (auto simp: master_initialized_change_def Let_def run_simps split: prod.splits)
  obtain cs where "st1 = ?st\<lparr>st_Conditions := cs\<rparr>"
    using run_put_condition [OF p] by blast
  then have "st_MasterPhase st1 = RuntimePhaseNotReady \<and>
    st_DesiredMasterNumberScheduled st1 = master_replicas rt \<and>
    st_ValueFileConfigmap st1 = getConfigmapName e \<and>
    st_WorkerPhase st1 = st_WorkerPhase (rt_Status rt)"
    by simp
  then show ?thesis using s run_put_condition [OF p] by blast
qed

lemmas run_new = run_NewRuntimeCondition [OF prod.collapse [symmetric]]

lemma run_workers_ready_change:
  assumes "run_state (workers_ready_change cl b rt) (w, c) = (s, (w', c'))"
  shows "\<exists>st. s = Inr st \<and>
    st_WorkerPhase st = (if b then RuntimePhasePartialReady else st_WorkerPhase (rt_Status rt)) \<and>
    st_MasterPhase st = st_MasterPhase (rt_Status rt) \<and>
    (\<exists>cond. condition_of st RuntimeWorkersReady = Some cond \<and> rc_Status cond = ConditionTrue)"
proof -
  let ?st = "if b then (rt_Status rt)\<lparr>st_WorkerPhase := RuntimePhasePartialReady\<rparr> else rt_Status rt"
  obtain w0 m where s: "s = Inr (?st\<lparr>st_Conditions := UpdateRuntimeCondition (st_Conditions ?st)
      (fst (run_state (NewRuntimeCondition cl RuntimeWorkersReady ''Workers are ready'' m
        ConditionTrue) w0))\<rparr>)"
    using assms by (cases b) (auto simp: workers_ready_change_def Let_def run_simps split: prod.splits)
  show ?thesis
    using updated_found [of "st_Conditions ?st" "fst (run_state (NewRuntimeCondition cl
        RuntimeWorkersReady ''Workers are ready'' m ConditionTrue) w0)"] s
    by (cases b) (auto simp: condition_of_def run_new)
qed

lemma duration_string_not_Nil: "duration_string d \<noteq> []"
  by (simp add: duration_string_def Let_def)

definition worker_phase :: "'q AlluxioRuntime \<Rightarrow> DaemonSet \<Rightarrow> RuntimePhase" where
  "worker_phase rt workers =
     (if Replicas rt = ds_NumberReady workers then RuntimePhaseReady
      else if ds_NumberAvailable workers = ds_NumberReady workers
      then RuntimePhasePartialReady else RuntimePhaseNotReady)"

lemma run_status_change:
  assumes "run_state (status_change cl master workers rt) (w, c) = (s, (w', c'))"
  shows "\<exists>st. s = Inr st \<and>
    st_MasterPhase st = (if sts_SpecReplicas master = sts_ReadyReplicas master
      then RuntimePhaseReady else RuntimePhaseNotReady) \<and>
    st_WorkerPhase st = worker_phase rt workers \<and>
    st_MasterNumberReady st = sts_ReadyReplicas master \<and>
    st_WorkerNumberReady st = ds_NumberReady workers \<and>
    st_WorkerNumberAvailable st = ds_NumberAvailable workers \<and>
    st_WorkerNumberUnavailable st = ds_NumberUnavailable workers \<and>
    st_CacheStates st \<noteq> None \<and>
    (cap_ready c' \<longrightarrow> st_SetupDuration st \<noteq> []) \<and>
    cap_masterReady c' = (cap_masterReady c \<or> sts_SpecReplicas master = sts_ReadyReplicas master) \<and>
    cap_workerReady c' = (cap_workerReady c \<or> worker_phase rt workers \<noteq> RuntimePhaseNotReady) \<and>
    cap_ready c' = (cap_ready c \<or> cap_masterReady c' \<and> cap_workerReady c')"
  using assms unfolding status_change_def worker_phase_def [symmetric] Let_def
  by (auto simp: run_simps CalculateDuration_def duration_string_not_Nil
      split: prod.splits if_splits option.splits)

lemma run_put_missing:
  assumes "run_state (put_missing_condition cl ty reason msg s st) (w, c) = (st', (w', c'))"
  shows "c' = c \<and> (\<exists>cs. st' = st\<lparr>st_Conditions := cs\<rparr>) \<and>
    (condition_of st ty = None \<longrightarrow>
       (\<exists>cond. condition_of st' ty = Some cond \<and> rc_Status cond = s \<and> rc_Reason cond = reason)) \<and>
    (condition_of st ty \<noteq> None \<longrightarrow> st' = st)"
proof -
  let ?cond = "fst (run_state (NewRuntimeCondition cl ty reason msg s) w)"
  have c: "c' = c" and st': "st' = (case GetRuntimeCondition (st_Conditions st) ty of
      None \<Rightarrow> st\<lparr>st_Conditions := UpdateRuntimeCondition (st_Conditions st) ?cond\<rparr>
    | Some (i, old) \<Rightarrow> if rc_Type old \<noteq> ty
        then st\<lparr>st_Conditions := UpdateRuntimeCondition (st_Conditions st) ?cond\<rparr> else st)"
    using assms by (auto simp: put_missing_condition_def run_simps run_new split: option.splits)
  show ?thesis
  proof (cases "GetRuntimeCondition (st_Conditions st) ty")
    case None
    then show ?thesis
      using updated_found [of "st_Conditions st" ?cond] c st' by (auto simp: condition_of_def run_new)
  next
    case (Some a)
    obtain i old where a: "a = (i, old)" by (cases a)
    then have "rc_Type old = ty" using Some GetRuntimeCondition_Some by blast
    then have "st' = st" using st' Some a by simp
    then show ?thesis using Some c by (auto simp: condition_of_def intro: exI [of _ "st_Conditions st"])
  qed
qed

lemma run_master_health_change:
  assumes "run_state (master_health_change cl master rt) (w, c) = (s, (w', c'))"
  shows "if sts_Replicas master \<noteq> sts_ReadyReplicas master then s = Inl None \<and> c' = c
    else cap_healthy c' \<and> (\<exists>st. s = Inr st \<and> st_MasterPhase st = RuntimePhaseReady)"
  using assms
  by (auto simp: master_health_change_def Let_def run_simps split: prod.splits
      dest: run_put_missing)

lemma run_workers_health_change:
  assumes "run_state (workers_health_change cl workers rt) (w, c) = (s, (w', c'))"
  shows "cap_healthy c' = (cap_healthy c \<or> \<not> daemonset_unhealthy workers) \<and> (\<exists>st. s = Inr st \<and>
    st_WorkerNumberReady st = ds_NumberReady workers \<and>
    st_WorkerNumberAvailable st = ds_NumberAvailable workers \<and>
    (daemonset_unhealthy workers \<longrightarrow> st_WorkerPhase st = RuntimePhaseNotReady) \<and>
    condition_of st RuntimeWorkersReady \<noteq> None)"
proof (cases "daemonset_unhealthy workers")
  case True
  then obtain st1 w1 c1 reason msg where
    p: "run_state (put_missing_condition cl RuntimeWorkersReady reason msg ConditionFalse
        (rt_Status rt)) (w, c) = (st1, (w1, c1))"
    and s: "s = Inr (st1\<lparr>st_WorkerPhase := RuntimePhaseNotReady,
      st_WorkerNumberReady := ds_NumberReady workers,
      st_WorkerNumberAvailable := ds_NumberAvailable workers\<rparr>)" "c' = c1"
    using assms by (auto simp: workers_health_change_def Let_def run_simps split: prod.splits)
  have "condition_of st1 RuntimeWorkersReady \<noteq> None"
    using run_put_missing [OF p] by (cases "condition_of (rt_Status rt) RuntimeWorkersReady") auto
  then show ?thesis using True s run_put_missing [OF p] by (simp add: condition_of_def)
next
  case False
  then obtain st1 w1 c1 reason msg where
    p: "run_state (put_missing_condition cl RuntimeWorkersReady reason msg ConditionTrue
        (rt_Status rt)) (w, c\<lparr>cap_healthy := True\<rparr>) = (st1, (w1, c1))"
    and s: "s = Inr (st1\<lparr>st_WorkerNumberReady := ds_NumberReady workers,
      st_WorkerNumberAvailable := ds_NumberAvailable workers\<rparr>)" "c' = c1"
    using assms by (auto simp: workers_health_change_def Let_def run_simps split: prod.splits)
  have "condition_of st1 RuntimeWorkersReady \<noteq> None"
    using run_put_missing [OF p] by (cases "condition_of (rt_Status rt) RuntimeWorkersReady") auto
  then show ?thesis using False s run_put_missing [OF p] by (simp add: condition_of_def)
qed

lemma run_fuse_health_change:
  assumes "run_state (fuse_health_change cl fuses rt) (w, c) = (s, (w', c'))"
  shows "cap_healthy c' = (cap_healthy c \<or> \<not> daemonset_unhealthy fuses) \<and> (\<exists>st. s = Inr st \<and>
    st_FuseNumberReady st = ds_NumberReady fuses \<and>
    st_FusePhase st = (if daemonset_unhealthy fuses then RuntimePhaseNotReady else RuntimePhaseReady) \<and>
    (condition_of (rt_Status rt) RuntimeFusesReady = None \<longrightarrow>
      (\<exists>cond. condition_of st RuntimeFusesReady = Some cond \<and> rc_Status cond = ConditionFalse)))"
proof (cases "daemonset_unhealthy fuses")
  case True
  then obtain st1 w1 c1 reason msg where
    p: "run_state (put_missing_condition cl RuntimeFusesReady reason msg ConditionFalse
        (rt_Status rt)) (w, c) = (st1, (w1, c1))"
    and s: "s = Inr (st1\<lparr>st_FusePhase := RuntimePhaseNotReady,
      st_FuseNumberReady := ds_NumberReady fuses,
      st_FuseNumberAvailable := ds_NumberAvailable fuses\<rparr>)" "c' = c1"
    using assms by (auto simp: fuse_health_change_def Let_def run_simps split: prod.splits)
  then show ?thesis using True run_put_missing [OF p] by (auto simp: condition_of_def)
next
  case False
  then obtain st1 w1 c1 reason msg where
    p: "run_state (put_missing_condition cl RuntimeFusesReady reason msg ConditionFalse
        ((rt_Status rt)\<lparr>st_FusePhase := RuntimePhaseReady\<rparr>)) (w, c\<lparr>cap_healthy := True\<rparr>) =
        (st1, (w1, c1))"
    and s: "s = Inr (st1\<lparr>st_FuseNumberReady := ds_NumberReady fuses,
      st_FuseNumberAvailable := ds_NumberAvailable fuses\<rparr>)" "c' = c1"
    using assms by (auto simp: fuse_health_change_def Let_def run_simps split: prod.splits)
  then show ?thesis using False run_put_missing [OF p] by (auto simp: condition_of_def)
qed

lemma status_stored:
  fixes cl :: "('w, 'q) client"
  assumes "api_contracts cl stored"
    and "run_state (getMasterStatefulset cl (getMasterStatefulsetName e) (eng_namespace e)) w =
      (Inr master, w1)"
    and "run_state (getDaemonset cl (getWorkerDaemonsetName e) (eng_namespace e)) w1 =
      (Inr workers, w2)"
    and "run_state (CheckAndUpdateRuntimeStatus cl e) w = ((ready, None), w')"
  shows "\<exists>r. stored w' (engine_key e) = Some r \<and>
    st_MasterPhase (rt_Status r) = (if sts_SpecReplicas master = sts_ReadyReplicas master
      then RuntimePhaseReady else RuntimePhaseNotReady) \<and>
    st_WorkerPhase (rt_Status r) = worker_phase r workers \<and>
    st_MasterNumberReady (rt_Status r) = sts_ReadyReplicas master \<and>
    st_WorkerNumberReady (rt_Status r) = ds_NumberReady workers \<and>
    st_CacheStates (rt_Status r) \<noteq> None \<and>
    (ready \<longrightarrow> st_MasterPhase (rt_Status r) = RuntimePhaseReady \<and>
       st_SetupDuration (rt_Status r) \<noteq> []) \<and>
    (st_MasterPhase (rt_Status r) = RuntimePhaseReady \<and>
       st_WorkerPhase (rt_Status r) \<noteq> RuntimePhaseNotReady \<longrightarrow> ready)"
proof -
  let ?ok = "sts_SpecReplicas master = sts_ReadyReplicas master"
  obtain c where r: "run_state (retrying cl (status_attempt cl e (status_change cl master workers))) w2 =
      ((None, c), w')" and ready: "ready = cap_ready c"
    using assms(2-4) by (auto simp: CheckAndUpdateRuntimeStatus_def run_simps split: prod.splits)
  let ?I = "\<lambda>c. (cap_masterReady c \<longrightarrow> ?ok) \<and> (cap_ready c \<longrightarrow> cap_masterReady c)"
  let ?Q = "\<lambda>(rt :: 'q AlluxioRuntime) st c.
    st_MasterPhase st = (if ?ok then RuntimePhaseReady else RuntimePhaseNotReady) \<and>
    st_WorkerPhase st = worker_phase rt workers \<and>
    st_MasterNumberReady st = sts_ReadyReplicas master \<and>
    st_WorkerNumberReady st = ds_NumberReady workers \<and>
    st_CacheStates st \<noteq> None \<and> (cap_ready c \<longrightarrow> st_SetupDuration st \<noteq> []) \<and>
    (?ok \<and> worker_phase rt workers \<noteq> RuntimePhaseNotReady \<longrightarrow> cap_ready c)"
  have "?I c \<and> (False \<or> (\<exists>rt r. stored w' (engine_key e) = Some r \<and> rt_Spec r = rt_Spec rt \<and>
      ?Q rt (rt_Status r) c))"
    by (rule retry_status_spec [OF assms(1) keeps_changes(4) [OF assms(1)] r, where Q = ?Q and I = ?I and
          E = "\<lambda>c. False"]) (simp add: captured0_def, drule run_status_change, auto)
  then obtain rt r where I: "?I c" and r: "stored w' (engine_key e) = Some r" "?Q rt (rt_Status r) c"
    and spec: "rt_Spec r = rt_Spec rt"
    by blast
  have "worker_phase r workers = worker_phase rt workers" by (simp add: worker_phase_def Replicas_def spec)
  with I r ready show ?thesis by (intro exI [of _ r]) auto
qed

lemma CheckAndUpdateRuntimeStatus_reads:
  assumes "run_state (CheckAndUpdateRuntimeStatus cl e) w = ((ready, None), w')"
  obtains master w1 workers w2 where
    "run_state (getMasterStatefulset cl (getMasterStatefulsetName e) (eng_namespace e)) w =
      (Inr master, w1)"
    "run_state (getDaemonset cl (getWorkerDaemonsetName e) (eng_namespace e)) w1 = (Inr workers, w2)"
  using assms
  by (auto simp: CheckAndUpdateRuntimeStatus_def run_simps split: prod.splits sum.splits)

lemma SetupWorkers_engine:
  assumes "run_state (SetupWorkers sv e) w = ((err, e'), w')"
  shows "\<exists>i. e' = e\<lparr>eng_runtimeInfo := i\<rparr>"
  using assms
  by (auto simp: SetupWorkers_def Let_def run_simps dest: AssignNodesToCache_engine
      split: prod.splits sum.splits option.splits if_splits)

section \<open>Properties\<close>

text \<open>
  C24: \<open>CheckMasterReady\<close> reports the master ready exactly when the ready replicas of the
  stateful set are those of the specification (1 when it says 0). When it reports ready without
  an error, the stored status says so: phase, number of scheduled masters and a true condition.
  When it reports not ready, it writes nothing.
\<close>

theorem CheckMasterReady_correct:
  fixes cl :: "('w, 'q) client"
  assumes "api_contracts cl stored"
    and "run_state (getRuntime cl e) w = (Inr rt, w1)"
    and "run_state (getMasterStatefulset cl (getMasterStatefulsetName e) (eng_namespace e)) w1 =
      (Inr master, w2)"
    and "run_state (CheckMasterReady cl e) w = ((ready, err), w')"
  shows "(ready \<longleftrightarrow> master_replicas rt = sts_ReadyReplicas master) \<and>
    (ready \<and> err = None \<longrightarrow> (\<exists>r. stored w' (engine_key e) = Some r \<and>
       st_MasterPhase (rt_Status r) = RuntimePhaseReady \<and>
       st_CurrentMasterNumberScheduled (rt_Status r) = sts_ReadyReplicas master \<and>
       (\<exists>cond. condition_of (rt_Status r) RuntimeMasterReady = Some cond \<and>
          rc_Status cond = ConditionTrue))) \<and>
    (\<not> ready \<longrightarrow> err = None \<and> w' = w2)"
proof (cases "master_replicas rt = sts_ReadyReplicas master")
  case True
  then obtain c where "ready"
    and r: "run_state (retrying cl (status_attempt cl e (master_ready_change cl e master))) w2 =
      ((err, c), w')"
    using assms(2-4) by (auto simp: CheckMasterReady_def run_simps split: prod.splits)
  let ?Q = "\<lambda>(rt :: 'q AlluxioRuntime) st. st_MasterPhase st = RuntimePhaseReady \<and>
    st_CurrentMasterNumberScheduled st = sts_ReadyReplicas master \<and>
    (\<exists>cond. condition_of st RuntimeMasterReady = Some cond \<and> rc_Status cond = ConditionTrue)"
  have "\<exists>rt r. stored w' (engine_key e) = Some r \<and> ?Q rt (rt_Status r)" if "err = None"
    by (rule retry_status_plain [OF assms(1) keeps_changes(1) [OF assms(1)] r [unfolded that],
          where Q = ?Q]) (drule run_master_ready_change, blast)
  then show ?thesis using True \<open>ready\<close> by blast
next
  case False
  then show ?thesis using assms(2-4) by (auto simp: CheckMasterReady_def run_simps)
qed

theorem CheckMasterReady_correct_witness:
  "\<exists>r. runtime_at (snd (run_state (CheckMasterReady fake_client demo_engine) (demo_cluster 1 2)))
     (''default'', ''demo'') = Some r \<and> st_MasterPhase (rt_Status r) = RuntimePhaseReady"
proof -
  have "fst (run_state (CheckMasterReady fake_client demo_engine) (demo_cluster 1 2)) = (True, None)"
    by code_simp
  from CheckMasterReady_correct [OF fake_api demo_reads(1,2) run_returns [OF this]] show ?thesis
    by (auto simp: demo_key)
qed

text \<open>
  \<open>CheckWorkersReady\<close> reports ready exactly when at least one worker is ready. When it reports
  ready without an error, the stored status carries a true condition for the workers; the worker
  phase is set to partially ready when the number differs from the replicas asked for, and is left as
  it was otherwise.
\<close>

theorem CheckWorkersReady_correct:
  fixes cl :: "('w, 'q) client"
  assumes "api_contracts cl stored"
    and "run_state (getRuntime cl e) w = (Inr rt, w1)"
    and "run_state (getDaemonset cl (getWorkerDaemonsetName e) (eng_namespace e)) w1 =
      (Inr workers, w2)"
    and "run_state (CheckWorkersReady cl e) w = ((ready, err), w')"
  shows "(ready \<longleftrightarrow> 0 < sint (ds_NumberReady workers)) \<and>
    (ready \<and> err = None \<longrightarrow> (\<exists>(rt' :: 'q AlluxioRuntime) r. stored w' (engine_key e) = Some r \<and>
       st_WorkerPhase (rt_Status r) = (if Replicas rt \<noteq> ds_NumberReady workers
         then RuntimePhasePartialReady else st_WorkerPhase (rt_Status rt')) \<and>
       st_MasterPhase (rt_Status r) = st_MasterPhase (rt_Status rt') \<and>
       (\<exists>cond. condition_of (rt_Status r) RuntimeWorkersReady = Some cond \<and>
          rc_Status cond = ConditionTrue))) \<and>
    (\<not> ready \<longrightarrow> err = None \<and> w' = w2)"
proof (cases "0 < sint (ds_NumberReady workers)")
  case True
  define b where "b = (Replicas rt \<noteq> ds_NumberReady workers)"
  obtain c where "ready"
    and r: "run_state (retrying cl (status_attempt cl e (workers_ready_change cl b))) w2 =
      ((err, c), w')"
    using assms(2-4) True
    by (cases b) (auto simp: CheckWorkersReady_def b_def Let_def run_simps split: prod.splits)
  let ?Q = "\<lambda>(rt :: 'q AlluxioRuntime) st.
    st_WorkerPhase st = (if b then RuntimePhasePartialReady else st_WorkerPhase (rt_Status rt)) \<and>
    st_MasterPhase st = st_MasterPhase (rt_Status rt) \<and>
    (\<exists>cond. condition_of st RuntimeWorkersReady = Some cond \<and> rc_Status cond = ConditionTrue)"
  have "\<exists>rt r. stored w' (engine_key e) = Some r \<and> ?Q rt (rt_Status r)" if "err = None"
    by (rule retry_status_plain [OF assms(1) keeps_changes(3) [OF assms(1)] r [unfolded that],
          where Q = ?Q]) (drule run_workers_ready_change, auto)
  then show ?thesis using True \<open>ready\<close> unfolding b_def by blast
next
  case False
  then show ?thesis using assms(2-4) by (auto simp: CheckWorkersReady_def Let_def run_simps)
qed

theorem CheckWorkersReady_correct_witness:
  "\<exists>r. runtime_at (snd (run_state (CheckWorkersReady fake_client demo_engine) (demo_cluster 1 1)))
     (''default'', ''demo'') = Some r \<and> st_WorkerPhase (rt_Status r) = RuntimePhasePartialReady"
proof -
  have "fst (run_state (CheckWorkersReady fake_client demo_engine) (demo_cluster 1 1)) = (True, None)"
    by code_simp
  note CheckWorkersReady_correct [OF fake_api demo_reads(1,3) run_returns [OF this]]
  moreover have "Replicas demo_runtime \<noteq> ds_NumberReady (demo_daemonset ''demo-worker'' 1 0)"
    by code_simp
  ultimately show ?thesis by (auto simp: demo_key)
qed

text \<open>
  C12: A call of \<open>CheckAndUpdateRuntimeStatus\<close> that returns no error leaves the observed numbers
  and the phases in the stored status: the master is ready when all its replicas are, the workers
  are ready, partially ready or not ready by the rule \<open>worker_phase\<close>. A ready runtime has a ready
  master and a setup duration, and a runtime with a ready master whose workers are at least partially
  ready is reported ready. (Whether the workers were ready is remembered from earlier
  attempts, so the stored worker phase of a ready runtime can be not ready when the replicas asked
  for changed in between.)
\<close>

theorem CheckAndUpdateRuntimeStatus_correct:
  fixes cl :: "('w, 'q) client"
  assumes "api_contracts cl stored"
    and "run_state (getMasterStatefulset cl (getMasterStatefulsetName e) (eng_namespace e)) w =
      (Inr master, w1)"
    and "run_state (getDaemonset cl (getWorkerDaemonsetName e) (eng_namespace e)) w1 =
      (Inr workers, w2)"
    and "run_state (CheckAndUpdateRuntimeStatus cl e) w = ((ready, None), w')"
  shows "\<exists>r. stored w' (engine_key e) = Some r \<and>
    st_MasterPhase (rt_Status r) = (if sts_SpecReplicas master = sts_ReadyReplicas master
      then RuntimePhaseReady else RuntimePhaseNotReady) \<and>
    st_WorkerPhase (rt_Status r) = worker_phase r workers \<and>
    st_MasterNumberReady (rt_Status r) = sts_ReadyReplicas master \<and>
    st_WorkerNumberReady (rt_Status r) = ds_NumberReady workers \<and>
    st_CacheStates (rt_Status r) \<noteq> None \<and>
    (ready \<longrightarrow> st_MasterPhase (rt_Status r) = RuntimePhaseReady \<and>
       st_SetupDuration (rt_Status r) \<noteq> []) \<and>
    (st_MasterPhase (rt_Status r) = RuntimePhaseReady \<and>
       st_WorkerPhase (rt_Status r) \<noteq> RuntimePhaseNotReady \<longrightarrow> ready)"
  using assms by (rule status_stored)

theorem CheckAndUpdateRuntimeStatus_correct_witness:
  "\<exists>r. runtime_at (snd (run_state (CheckAndUpdateRuntimeStatus fake_client demo_engine)
     (demo_cluster 1 2))) (''default'', ''demo'') = Some r \<and>
     st_MasterPhase (rt_Status r) = RuntimePhaseReady \<and> st_SetupDuration (rt_Status r) \<noteq> []"
proof -
  have "fst (run_state (CheckAndUpdateRuntimeStatus fake_client demo_engine) (demo_cluster 1 2)) =
      (True, None)"
    by code_simp
  from CheckAndUpdateRuntimeStatus_correct [OF fake_api demo_reads(2,3) run_returns [OF this]]
  show ?thesis
    by (auto simp: demo_key)
qed

text \<open>
  C25: A successful \<open>SetupWorkers\<close> has assigned at least one node, and the stored status records the
  replicas asked for, the nodes assigned, the phase not ready and a true condition for the initialised
  workers. When no node can be assigned the call is an error.
\<close>

theorem SetupWorkers_correct:
  fixes sv :: "('w, 'q) services"
  assumes "api_contracts (sv_client sv) stored"
    and "run_state (getRuntime (sv_client sv) e) w = (Inr rt, w1)"
    and "run_state (AssignNodesToCache sv e (Replicas rt)) w1 = (((current, None), e1), w2)"
    and "run_state (SetupWorkers sv e) w = ((err, e'), w')"
  shows "e' = e1 \<and> (current = 0 \<longrightarrow> err \<noteq> None) \<and>
    (err = None \<longrightarrow> current \<noteq> 0 \<and> (\<exists>r. stored w' (engine_key e) = Some r \<and>
       st_WorkerPhase (rt_Status r) = RuntimePhaseNotReady \<and>
       st_DesiredWorkerNumberScheduled (rt_Status r) = Replicas rt \<and>
       st_CurrentWorkerNumberScheduled (rt_Status r) = current \<and>
       (\<exists>cond. condition_of (rt_Status r) RuntimeWorkersInitialized = Some cond \<and>
          rc_Status cond = ConditionTrue)))"
proof (cases "current = 0")
  case True
  then show ?thesis using assms(2-4) by (auto simp: SetupWorkers_def Let_def run_simps)
next
  case False
  let ?cl = "sv_client sv"
  obtain c where e': "e' = e1" and r: "run_state (retrying ?cl (status_attempt ?cl e1
      (workers_initialized_change ?cl (Replicas rt) current))) w2 = ((err, c), w')"
    using assms(2-4) False by (auto simp: SetupWorkers_def Let_def run_simps split: prod.splits)
  have key: "engine_key e1 = engine_key e"
    using AssignNodesToCache_engine [OF assms(3)] by (auto simp: engine_key_def)
  let ?Q = "\<lambda>(rt' :: 'q AlluxioRuntime) st. st_WorkerPhase st = RuntimePhaseNotReady \<and>
    st_DesiredWorkerNumberScheduled st = Replicas rt \<and> st_CurrentWorkerNumberScheduled st = current \<and>
    (\<exists>cond. condition_of st RuntimeWorkersInitialized = Some cond \<and> rc_Status cond = ConditionTrue)"
  have "\<exists>rt r. stored w' (engine_key e1) = Some r \<and> ?Q rt (rt_Status r)" if "err = None"
    by (rule retry_status_plain [OF assms(1) keeps_changes(2) [OF assms(1)] r [unfolded that],
          where Q = ?Q]) (drule run_workers_initialized_change, auto)
  then show ?thesis using False e' key by auto
qed

theorem SetupWorkers_correct_witness:
  "\<exists>r. runtime_at (snd (run_state (SetupWorkers demo_services demo_engine) (demo_cluster 1 2)))
     (''default'', ''demo'') = Some r \<and> st_CurrentWorkerNumberScheduled (rt_Status r) = 2"
proof -
  let ?a = "run_state (AssignNodesToCache demo_services demo_engine (Replicas demo_runtime)) (demo_cluster 1 2)"
  let ?s = "run_state (SetupWorkers demo_services demo_engine) (demo_cluster 1 2)"
  have "fst (fst ?a) = (2, None)" "fst (fst ?s) = None" by code_simp+
  then have a: "?a = (((2, None), snd (fst ?a)), snd ?a)" and s: "?s = ((None, snd (fst ?s)), snd ?s)"
    by (simp_all add: prod_eq_iff)
  have g: "run_state (getRuntime (sv_client demo_services) demo_engine) (demo_cluster 1 2) =
      (Inr demo_runtime, demo_cluster 1 2)"
    using demo_reads(1) by (simp add: demo_services_def)
  show ?thesis using SetupWorkers_correct [OF demo_api g a s] by (auto simp: demo_key)
qed

text \<open>
  C26: \<open>checkWorkersHealthy\<close> returns nil only when the daemon set is healthy: none of its pods is
  unavailable, and some pod is available unless none is wanted. A call whose status update succeeds
  leaves the observed numbers and a condition in the store; for an unhealthy daemon set it is an error, and
  the stored phase is not ready.
\<close>

theorem checkWorkersHealthy_correct:
  fixes cl :: "('w, 'q) client"
  assumes "api_contracts cl stored"
    and "run_state (getDaemonset cl (getWorkerDaemonsetName e) (eng_namespace e)) w = (Inr workers, w1)"
    and "run_state (retrying cl (status_attempt cl e (workers_health_change cl workers))) w1 =
      ((None, c), w')"
  shows "\<exists>r err. run_state (checkWorkersHealthy cl e) w = (err, w') \<and>
    (err = None \<longleftrightarrow> \<not> daemonset_unhealthy workers) \<and> stored w' (engine_key e) = Some r \<and>
    st_WorkerNumberReady (rt_Status r) = ds_NumberReady workers \<and>
    condition_of (rt_Status r) RuntimeWorkersReady \<noteq> None \<and>
    (err \<noteq> None \<longrightarrow> st_WorkerPhase (rt_Status r) = RuntimePhaseNotReady)"
proof -
  let ?bad = "daemonset_unhealthy workers"
  let ?I = "\<lambda>c. cap_healthy c \<longrightarrow> \<not> ?bad"
  let ?Q = "\<lambda>(rt :: 'q AlluxioRuntime) st c. (\<not> ?bad \<longrightarrow> cap_healthy c) \<and>
    st_WorkerNumberReady st = ds_NumberReady workers \<and>
    condition_of st RuntimeWorkersReady \<noteq> None \<and>
    (?bad \<longrightarrow> st_WorkerPhase st = RuntimePhaseNotReady)"
  have "?I c \<and> (False \<or> (\<exists>rt r. stored w' (engine_key e) = Some r \<and> rt_Spec r = rt_Spec rt \<and>
      ?Q rt (rt_Status r) c))"
    by (rule retry_status_spec [OF assms(1) keeps_changes(6) [OF assms(1)] assms(3), where Q = ?Q and
          I = ?I and E = "\<lambda>c. False"]) (simp add: captured0_def, drule run_workers_health_change, auto)
  then obtain rt r where "?I c" and r: "stored w' (engine_key e) = Some r" "?Q rt (rt_Status r) c"
    by blast
  have "\<exists>err. run_state (checkWorkersHealthy cl e) w = (err, w') \<and> (err = None \<longleftrightarrow> cap_healthy c)"
    using assms(2,3) by (auto simp: checkWorkersHealthy_def run_simps)
  then show ?thesis using r \<open>?I c\<close> by auto
qed

theorem checkWorkersHealthy_correct_witness:
  "fst (run_state (checkWorkersHealthy fake_client demo_engine) (demo_cluster 1 2)) = None"
proof -
  let ?r = "run_state (retrying fake_client (status_attempt fake_client demo_engine
    (workers_health_change fake_client (demo_daemonset ''demo-worker'' 2 0)))) (demo_cluster 1 2)"
  have "fst (fst ?r) = None" by code_simp
  then have r: "?r = ((None, snd (fst ?r)), snd ?r)" by (simp add: prod_eq_iff)
  moreover have "\<not> daemonset_unhealthy (demo_daemonset ''demo-worker'' 2 0)" by code_simp
  ultimately show ?thesis
    using checkWorkersHealthy_correct [OF fake_api demo_reads(3) r] by auto
qed

text \<open>
  C32: An unhealthy master is reported as an error but not recorded: no attempt of
  \<open>checkMasterHealthy\<close> changes the stored runtime, although the closure computes a condition and the
  phase not ready. A healthy master is recorded.
\<close>

theorem checkMasterHealthy_does_not_record:
  fixes cl :: "('w, 'q) client"
  assumes "api_contracts cl stored"
    and "run_state (getMasterStatefulset cl (getMasterStatefulsetName e) (eng_namespace e)) w =
      (Inr master, w1)"
  shows "if sts_Replicas master \<noteq> sts_ReadyReplicas master
    then fst (run_state (checkMasterHealthy cl e) w) \<noteq> None \<and>
      (\<forall>w c. stored (fst (snd (run_state
        (status_attempt cl e (master_health_change cl master)) (w, c)))) = stored w)
    else fst (run_state (checkMasterHealthy cl e) w) = None \<longrightarrow>
      (\<exists>r. stored (snd (run_state (checkMasterHealthy cl e) w)) (engine_key e) = Some r \<and>
        st_MasterPhase (rt_Status r) = RuntimePhaseReady)"
proof -
  obtain err c w' where r: "run_state (retrying cl (status_attempt cl e (master_health_change cl master)))
      w1 = ((err, c), w')"
    by (metis surj_pair)
  have top: "snd (run_state (checkMasterHealthy cl e) w) = w'"
    "fst (run_state (checkMasterHealthy cl e) w) = None \<longleftrightarrow> err = None \<and> cap_healthy c"
    using assms(2) r by (auto simp: checkMasterHealthy_def run_simps split: option.splits)
  let ?bad = "sts_Replicas master \<noteq> sts_ReadyReplicas master"
  have post: "(cap_healthy c \<longrightarrow> \<not> ?bad) \<and> (?bad \<or> (\<exists>(rt :: 'q AlluxioRuntime) r.
      stored w' (engine_key e) = Some r \<and> st_MasterPhase (rt_Status r) = RuntimePhaseReady))"
    if "err = None"
    by (rule retry_status [OF assms(1) keeps_changes(5) [OF assms(1)] r [unfolded that], where
          Q = "\<lambda>rt st c. st_MasterPhase st = RuntimePhaseReady" and
          I = "\<lambda>c. cap_healthy c \<longrightarrow> \<not> ?bad" and E = "\<lambda>c. ?bad"])
      (simp add: captured0_def, drule run_master_health_change, auto split: if_splits)
  have quiet: "stored (fst (snd (run_state (status_attempt cl e (master_health_change cl master))
      (w, c)))) = stored w" if ?bad for w c
  proof -
    have get: "stored (snd (run_state (Get_AlluxioRuntime cl (engine_key e)) w)) = stored w"
      using assms(1) unfolding api_contracts_def quiet_contract_def by blast
    show ?thesis
    proof (cases "fst (run_state (Get_AlluxioRuntime cl (engine_key e)) w)")
      case (Inl x)
      then show ?thesis using get by (simp add: status_attempt_def getRuntime_def run_simps)
    next
      case (Inr rt)
      obtain s w2 c2 where ch: "run_state (master_health_change cl master rt)
          (snd (run_state (Get_AlluxioRuntime cl (engine_key e)) w), c) = (s, (w2, c2))"
        by (metis surj_pair)
      have "stored w2 = stored w"
        using keeps_changes(5) [OF assms(1), of master rt] ch get unfolding keeps_def
        by (metis fst_conv snd_conv)
      moreover have "s = Inl None" using run_master_health_change [OF ch] that by simp
      ultimately show ?thesis using Inr ch by (simp add: status_attempt_def getRuntime_def run_simps)
    qed
  qed
  show ?thesis using top post quiet by auto
qed

theorem checkMasterHealthy_does_not_record_witness:
  "fst (run_state (checkMasterHealthy fake_client demo_engine) (demo_cluster 0 2)) \<noteq> None"
proof -
  have "sts_Replicas (demo_master 0) \<noteq> sts_ReadyReplicas (demo_master 0)" by code_simp
  then show ?thesis
    using checkMasterHealthy_does_not_record [OF fake_api demo_reads(2), of 0 2] by simp
qed

text \<open>
  \<open>checkFuseHealthy\<close>: when the fuses are healthy the stored phase is ready, but
  a runtime that had no condition for its fuses gets one with the status false.
\<close>

theorem checkFuseHealthy_false_condition:
  fixes cl :: "('w, 'q) client"
  assumes "api_contracts cl stored"
    and "run_state (getDaemonset cl (getFuseDaemonsetName e) (eng_namespace e)) w = (Inr fuses, w1)"
    and "\<not> daemonset_unhealthy fuses"
    and "run_state (checkFuseHealthy cl e) w = (None, w')"
  shows "\<exists>(rt :: 'q AlluxioRuntime) r. stored w' (engine_key e) = Some r \<and>
    st_FusePhase (rt_Status r) = RuntimePhaseReady \<and>
    (condition_of (rt_Status rt) RuntimeFusesReady = None \<longrightarrow>
      (\<exists>cond. condition_of (rt_Status r) RuntimeFusesReady = Some cond \<and>
         rc_Status cond = ConditionFalse))"
proof -
  obtain c where r: "run_state (retrying cl (status_attempt cl e (fuse_health_change cl fuses))) w1 =
      ((None, c), w')"
    using assms(2,4)
    by (auto simp: checkFuseHealthy_def run_simps split: prod.splits option.splits if_splits)
  show ?thesis
    by (rule retry_status_plain [OF assms(1) keeps_changes(7) [OF assms(1)] r])
      (drule run_fuse_health_change, use assms(3) in auto)
qed

theorem checkFuseHealthy_false_condition_witness:
  "\<exists>r. runtime_at (snd (run_state (checkFuseHealthy fake_client demo_engine) (demo_cluster 1 2)))
     (''default'', ''demo'') = Some r \<and> st_FusePhase (rt_Status r) = RuntimePhaseReady"
proof -
  have "\<not> daemonset_unhealthy (demo_daemonset ''demo-fuse'' 2 0)" by code_simp
  moreover have "fst (run_state (checkFuseHealthy fake_client demo_engine) (demo_cluster 1 2)) = None"
    by code_simp
  ultimately show ?thesis
    using checkFuseHealthy_false_condition [OF fake_api demo_reads(4) _ run_returns]
    by (metis demo_key)
qed

end
