(* ===== verification/EngineShutdown.thy ===== *)
theory EngineShutdown
  imports EngineStatus
begin

text \<open>
  Cleaning up (\<open>cache.go\<close>, \<open>shutdown.go\<close>, \<open>report.go\<close> and the capacity report of \<open>utils.go\<close>
  in \<open>pkg/ddc/alluxio\<close>): the cache, the labels of the nodes, the release and the config maps.
  The scheduler mutex is left out: a call is one sequential program.
\<close>

section \<open>Cleaning the cache\<close>

definition invokeCleanCache ::
    "('w, 'q) services \<Rightarrow> 'q AlluxioEngine \<Rightarrow> string \<Rightarrow> ('w, err option) state" where
  "invokeCleanCache sv e path = do {
     m \<leftarrow> getMasterStatefulset (sv_client sv) (getMasterStatefulsetName e) (eng_namespace e);
     case m of
       Inl x \<Rightarrow> ret (if IgnoreNotFound (Some x) = None then None else Some x)
     | Inr master \<Rightarrow>
         (if sts_ReadyReplicas master = 0 then ret None
          else let (podName, containerName) = getMasterPodInfo e in
            CleanCache (sv_exec sv) (NewAlluxioFileUtils podName containerName (eng_namespace e)) path)
   }"

text \<open>
  The check of what remains is commented out: after a clean-up that went well the call waits and then
  returns an error.
\<close>

definition cleanupCache :: "('w, 'q) services \<Rightarrow> 'q AlluxioEngine \<Rightarrow> ('w, err option) state" where
  "cleanupCache sv e = do {
     r \<leftarrow> invokeCleanCache sv e ''/'';
     case r of
       Some x \<Rightarrow>
         ret (if contains (err_msg x) ''not found'' then None
              else if contains (err_msg x) ''does not have a host assigned'' then None
              else Some x)
     | None \<Rightarrow> do {
         _ \<leftarrow> Sleep (sv_exec sv) (10 * second);
         ret (Some (ErrText ''the remaining cached is not cleaned up, check again''))
       }
   }"

section \<open>The capacity report\<close>

text \<open>The lines after the header, two for each worker.\<close>

fun capacity_rows ::
    "(string \<Rightarrow> int64 \<times> err option) \<Rightarrow> string list \<Rightarrow> (string \<rightharpoonup> int64) \<Rightarrow> (string \<rightharpoonup> int64) outcome" where
  "capacity_rows humanSize [] m = Ret m"
| "capacity_rows humanSize [line] m = Panic"
| "capacity_rows humanSize (line # line2 # lines) m =
     (let workerInfoFields = str_fields line @ str_fields line2 in
      if length workerInfoFields < 6 then Panic
      else capacity_rows humanSize lines
        (m(hd workerInfoFields \<mapsto> fst (humanSize (workerInfoFields ! 5)))))"

definition parse_capacity ::
    "(string \<Rightarrow> int64 \<times> err option) \<Rightarrow> string \<Rightarrow> ((string \<rightharpoonup> int64) option \<times> err option) outcome" where
  "parse_capacity humanSize report =
     (case dropWhile (\<lambda>line. \<not> has_prefix line ''Worker Name'') (split_on newline report) of
        [] \<Rightarrow> Ret (None, Some (ErrText ''can't parse result form alluxio fsadmin report capacity''))
      | _ # lines \<Rightarrow>
          map_outcome_ret (\<lambda>m. (Some m, None)) (capacity_rows humanSize lines Map.empty))"

definition reportCapacity ::
    "('w, 'q) services \<Rightarrow> 'q AlluxioEngine \<Rightarrow> ('w, string \<times> err option) state" where
  "reportCapacity sv e =
     (let (podName, containerName) = getMasterPodInfo e in
      ReportCapacity (sv_exec sv) (NewAlluxioFileUtils podName containerName (eng_namespace e)))"

definition GetWorkerUsedCapacity ::
    "('w, 'q) services \<Rightarrow> 'q AlluxioEngine
      \<Rightarrow> ('w, ((string \<rightharpoonup> int64) option \<times> err option) outcome) state" where
  "GetWorkerUsedCapacity sv e = do {
     (capacityReport, err) \<leftarrow> reportCapacity sv e;
     case err of
       Some x \<Rightarrow> ret (Ret (None, Some x))
     | None \<Rightarrow> ret (parse_capacity (FromHumanSize (sv_float sv)) capacityReport)
   }"

text \<open>The last address of each kind counts.\<close>

definition address_of :: "NodeAddressType \<Rightarrow> 'q Node \<Rightarrow> string" where
  "address_of t node =
     foldl (\<lambda>a addr. if fst addr = t then snd addr else a) [] (node_Addresses node)"

definition lookUpUsedCapacity :: "'q Node \<Rightarrow> (string \<rightharpoonup> int64) \<Rightarrow> int64" where
  "lookUpUsedCapacity node usedCapacityMap =
     (let ip = address_of NodeInternalIP node; hostname = address_of NodeInternalDNS node in
      case (if ip \<noteq> [] then usedCapacityMap ip else None) of
        Some usedCapacity \<Rightarrow> usedCapacity
      | None \<Rightarrow>
          (case (if hostname \<noteq> [] then usedCapacityMap hostname else None) of
             Some usedCapacity \<Rightarrow> usedCapacity
           | None \<Rightarrow> 0))"

definition sortNodesToShutdown ::
    "('w, 'q) services \<Rightarrow> 'q AlluxioEngine \<Rightarrow> 'q Node list \<Rightarrow> bool
      \<Rightarrow> ('w, ('q Node list \<times> err option) outcome) state" where
  "sortNodesToShutdown sv e candidateNodes fuseGlobal = do {
     c \<leftarrow> (if \<not> fuseGlobal then do {
         (pvcMountNodes, err) \<leftarrow> GetPvcMountNodes (sv_client sv) (eng_name e) (eng_namespace e);
         ret (case err of
            Some x \<Rightarrow> Inl x
          | None \<Rightarrow> Inr (filter (\<lambda>node. pvcMountNodes (node_Name node) = None) candidateNodes))
       } else ret (Inr candidateNodes));
     case c of
       Inl x \<Rightarrow> ret (Ret ([], Some x))
     | Inr nodes \<Rightarrow> do {
         u \<leftarrow> GetWorkerUsedCapacity sv e;
         ret (case u of
            Panic \<Rightarrow> Panic
          | Ret (Some m, _) \<Rightarrow>
              Ret (if 2 \<le> length nodes
                   then sv_sort sv (\<lambda>node. sint (lookUpUsedCapacity node m)) nodes else nodes, None)
          | Ret (None, _) \<Rightarrow> Ret (nodes, None))
       }
   }"

section \<open>Taking nodes away\<close>

definition destroy_attempt ::
    "('w, 'q) client \<Rightarrow> 'q AlluxioEngine \<Rightarrow> 'q RuntimeInfo \<Rightarrow> string
      \<Rightarrow> ('w \<times> captured, err option) state" where
  "destroy_attempt cl e info nodeName = do {
     r \<leftarrow> call (GetNode cl nodeName);
     case r of
       Inl x \<Rightarrow> ret (Some x)
     | Inr node \<Rightarrow> do {
         c \<leftarrow> get_captured;
         let lm = foldl labels_Delete (cap_labelsToModify c)
                    [GetRuntimeLabelName info, GetLabelNameForTotal info, GetLabelNameForDisk info,
                     GetLabelNameForMemory info, GetCommonLabelName info];
             lm = (if node_Labels node GetExclusiveKey =
                        Some (GetExclusiveValue (eng_namespace e) (eng_name e))
                   then labels_Delete lm GetExclusiveKey else lm) in do {
           _ \<leftarrow> upd_captured (\<lambda>c. c\<lparr>cap_labelsToModify := lm\<rparr>);
           (modified, err) \<leftarrow> call (ChangeNodeLabelWithPatchMode cl node lm);
           ret err
         }
       }
   }"

primrec destroy_loop ::
    "('w, 'q) client \<Rightarrow> 'q AlluxioEngine \<Rightarrow> 'q RuntimeInfo \<Rightarrow> int32 \<Rightarrow> 'q Node list \<Rightarrow> int32
      \<Rightarrow> ('w, int32 \<times> err option) state" where
  "destroy_loop cl e info expected [] current = ret (current, None)"
| "destroy_loop cl e info expected (node # nodes) current =
     (if expected = current then ret (current, None)
      else if no_labels (node_Labels node) then destroy_loop cl e info expected nodes current
      else do {
        (err, c) \<leftarrow> retrying cl (destroy_attempt cl e info (node_Name node));
        case err of
          Some x \<Rightarrow> ret (current, Some x)
        | None \<Rightarrow> destroy_loop cl e info expected nodes (current - 1)
      })"

definition destroyWorkers ::
    "('w, 'q) services \<Rightarrow> 'q AlluxioEngine \<Rightarrow> int32
      \<Rightarrow> ('w, (int32 \<times> err option) outcome \<times> 'q AlluxioEngine) state" where
  "destroyWorkers sv e expectedWorkers =
     (let cl = sv_client sv in do {
        (r, e) \<leftarrow> getRuntimeInfo sv e;
        case r of
          Inl x \<Rightarrow> ret (Ret (0, Some x), e)
        | Inr info \<Rightarrow>
            (case LabelsParse cl (GetCommonLabelName info @ ''=true'') of
               Inl x \<Rightarrow> ret (Ret (0, Some x), e)
             | Inr datasetLabels \<Rightarrow> do {
                 l \<leftarrow> List_Node cl datasetLabels;
                 case l of
                   Inl x \<Rightarrow> ret (Ret (0, Some x), e)
                 | Inr items \<Rightarrow>
                     (let currentWorkers = len32 items in
                      if sint currentWorkers \<le> sint expectedWorkers
                      then ret (Ret (currentWorkers, None), e)
                      else do {
                        s \<leftarrow> (if 0 \<le> sint expectedWorkers then sortNodesToShutdown sv e items True
                               else ret (Ret (items, None)));
                        case s of
                          Panic \<Rightarrow> ret (Panic, e)
                        | Ret (_, Some x) \<Rightarrow> ret (Ret (currentWorkers, Some x), e)
                        | Ret (nodes, None) \<Rightarrow> do {
                            res \<leftarrow> destroy_loop cl e info expectedWorkers nodes currentWorkers;
                            ret (Ret res, e)
                          }
                      })
               })
      })"

section \<open>Shutting down\<close>

definition destroyMaster :: "('w, 'q) services \<Rightarrow> 'q AlluxioEngine \<Rightarrow> ('w, err option) state" where
  "destroyMaster sv e = do {
     (found, err) \<leftarrow> CheckRelease (sv_os sv) (eng_name e) (eng_namespace e);
     case err of
       Some x \<Rightarrow> ret (Some x)
     | None \<Rightarrow>
         (if found then DeleteRelease (sv_os sv) (eng_name e) (eng_namespace e) else ret None)
   }"

definition cleanAll :: "('w, 'q) client \<Rightarrow> 'q AlluxioEngine \<Rightarrow> ('w, err option) state" where
  "cleanAll cl e =
     for_each (\<lambda>cm. DeleteConfigMap cl cm (eng_namespace e))
       [eng_name e @ ''-'' @ eng_runtimeType e @ ''-values'', eng_name e @ ''-config'']"

text \<open>Closing a nil channel is avoided, closing a closed one panics.\<close>

definition close_channel :: "channel \<Rightarrow> channel outcome" where
  "close_channel ch = (case ch of
     NilChannel \<Rightarrow> Ret NilChannel | OpenChannel \<Rightarrow> Ret ClosedChannel | ClosedChannel \<Rightarrow> Panic)"

definition shutdown_rest ::
    "('w, 'q) services \<Rightarrow> 'q AlluxioEngine
      \<Rightarrow> ('w, err option outcome \<times> 'q AlluxioEngine) state" where
  "shutdown_rest sv e =
     (case close_channel (eng_MetadataSyncDoneCh e) of
        Panic \<Rightarrow> ret (Panic, e)
      | Ret ch \<Rightarrow> do {
          (r, e) \<leftarrow> destroyWorkers sv (e\<lparr>eng_MetadataSyncDoneCh := ch\<rparr>) (- 1);
          case r of
            Panic \<Rightarrow> ret (Panic, e)
          | Ret (_, Some x) \<Rightarrow> ret (Ret (Some x), e)
          | Ret (_, None) \<Rightarrow> do {
              err \<leftarrow> destroyMaster sv e;
              case err of
                Some x \<Rightarrow> ret (Ret (Some x), e)
              | None \<Rightarrow> do {
                  err \<leftarrow> cleanAll (sv_client sv) e;
                  ret (Ret err, e)
                }
            }
        })"

definition Shutdown ::
    "('w, 'q) services \<Rightarrow> 'q AlluxioEngine
      \<Rightarrow> ('w, err option outcome \<times> 'q AlluxioEngine) state" where
  "Shutdown sv e =
     (if sint (eng_retryShutdown e) < sint (eng_gracefulShutdownLimits e) then do {
        err \<leftarrow> cleanupCache sv e;
        case err of
          Some x \<Rightarrow> ret (Ret (Some x), e\<lparr>eng_retryShutdown := eng_retryShutdown e + 1\<rparr>)
        | None \<Rightarrow> shutdown_rest sv e
      } else shutdown_rest sv e)"

section \<open>Laws\<close>

text \<open>Taking a node away is unlabelling it, when the information is the engine's own.\<close>

lemma destroy_attempt_unlabels:
  "info_namespace info = eng_namespace e \<Longrightarrow> info_name info = eng_name e \<Longrightarrow>
   destroy_attempt cl e info n = unlabel_attempt cl info n"
  by (simp add: destroy_attempt_def unlabel_attempt_def GetNode_def uncache_labels_def
      cache_label_names_def DecreaseDatasetNum_def Let_def cong: sum.case_cong)

text \<open>
  The labels of the nodes in the store: no other actor changes them, a patch changes those of its node only, and
  commands in pods do not touch them.
\<close>

definition node_store_contract :: "('w, 'q) services \<Rightarrow> 'w label_store \<Rightarrow> bool" where
  "node_store_contract sv node_labels \<longleftrightarrow>
     get_node_contract (sv_client sv) node_labels \<and> patch_contract (sv_client sv) node_labels \<and>
     (\<forall>n p m. m \<noteq> n \<longrightarrow> leaves (\<lambda>w. node_labels w m) (PatchLabels_Node (sv_client sv) n p)) \<and>
     (\<forall>m. retry_quiet (sv_client sv) (\<lambda>w. node_labels w m)) \<and>
     (\<forall>p. leaves node_labels (RawExec (sv_exec sv) p)) \<and>
     (\<forall>c. leaves node_labels (TimerFires (sv_exec sv) c))"

text \<open>A node that was taken away, and one that was not.\<close>

definition taken_away :: "'w label_store \<Rightarrow> 'q RuntimeInfo \<Rightarrow> 'w \<Rightarrow> string \<Rightarrow> bool" where
  "taken_away node_labels info w n \<longleftrightarrow> (\<exists>l. node_labels w n = Some l \<and> uncached info l)"

lemma destroy_attempt_other:
  fixes sv :: "('w, 'q) services"
  assumes "node_store_contract sv node_labels" "m \<noteq> n"
  shows "leaves (\<lambda>s. node_labels (fst s) m) (destroy_attempt (sv_client sv) e info n)"
proof -
  have get: "leaves (\<lambda>w. node_labels w m) (Get_Node (sv_client sv) n)"
    using assms(1) unfolding node_store_contract_def get_node_contract_def leaves_def by (metis prod.collapse)
  have patch: "leaves (\<lambda>w. node_labels w m) (PatchLabels_Node (sv_client sv) k p)"
    if "k = n" for k p
    using assms that by (simp add: node_store_contract_def)
  show ?thesis
  proof (unfold leaves_def, intro allI)
    fix s :: "'w \<times> captured"
    obtain w c where s: "s = (w, c)" by (cases s)
    obtain r w1 where g: "run_state (Get_Node (sv_client sv) n) w = (r, w1)" by (metis surj_pair)
    have l1: "node_labels w1 m = node_labels w m" using leavesD [OF get g] .
    show "node_labels (fst (snd (run_state (destroy_attempt (sv_client sv) e info n) s))) m = node_labels (fst s) m"
    proof (cases r)
      case (Inl x)
      then show ?thesis using s g l1 by (simp add: destroy_attempt_def GetNode_def run_simps)
    next
      case (Inr node)
      have "node_Name node = n"
        using assms(1) g Inr unfolding node_store_contract_def get_node_contract_def by metis
      then have "leaves (\<lambda>w. node_labels w m) (ChangeNodeLabelWithPatchMode (sv_client sv) node lm)" for lm
        unfolding ChangeNodeLabelWithPatchMode_def by (intro leaves_intros patch)
      then show ?thesis
        using s g Inr l1 by (simp add: destroy_attempt_def GetNode_def run_simps Let_def leaves_def case_prod_beta)
    qed
  qed
qed

lemma destroy_one:
  assumes store: "node_store_contract sv node_labels" and retry: "retry_contract (sv_client sv)"
    and own: "info_namespace info = eng_namespace e" "info_name info = eng_name e"
    and run: "run_state (retrying (sv_client sv) (destroy_attempt (sv_client sv) e info n)) w = ((None, c), w')"
  shows "taken_away node_labels info w' n \<and> (\<forall>m. m \<noteq> n \<longrightarrow> node_labels w' m = node_labels w m)"
proof -
  have nodes: "get_node_contract (sv_client sv) node_labels" "patch_contract (sv_client sv) node_labels"
    using store by (simp_all add: node_store_contract_def)
  have "deletes_only (cap_labelsToModify captured0)"
    by (simp add: captured0_def deletes_only_def patch_of_def)
  then have "taken_away node_labels info w' n"
    using retrying_post [OF retry run, of "\<lambda>c. deletes_only (cap_labelsToModify c)"
        "\<lambda>e w c. e = None \<longrightarrow> taken_away node_labels info w n"]
      unlabel_attempt_post [OF nodes] unfolding destroy_attempt_unlabels [OF own] taken_away_def by blast
  moreover have "node_labels w' m = node_labels w m" if "m \<noteq> n" for m
  proof -
    have "retry_quiet (sv_client sv) (\<lambda>w. node_labels w m)" using store by (simp add: node_store_contract_def)
    from leavesD [OF retrying_leaves [OF this destroy_attempt_other [OF store that]] run] show ?thesis .
  qed
  ultimately show ?thesis by blast
qed

lemma destroy_loop_effect:
  assumes store: "node_store_contract sv node_labels" and retry: "retry_contract (sv_client sv)"
    and own: "info_namespace info = eng_namespace e" "info_name info = eng_name e"
    and "run_state (destroy_loop (sv_client sv) e info expected nodes current) w = ((n, None), w')"
    and "\<forall>node \<in> set nodes. \<not> no_labels (node_Labels node)" "distinct (map node_Name nodes)"
    and "sint current = int (length nodes)" "sint expected \<le> sint current"
  shows "sint n = max 0 (sint expected) \<and> (\<exists>gone rest. nodes = gone @ rest \<and> int (length rest) = sint n \<and>
    (\<forall>m \<in> node_Name ` set gone. taken_away node_labels info w' m) \<and>
    (\<forall>m. m \<notin> node_Name ` set gone \<longrightarrow> node_labels w' m = node_labels w m))"
  using assms(5-9)
proof (induction nodes arbitrary: current w)
  case Nil
  then show ?case by (simp add: run_simps)
next
  case (Cons node nodes)
  show ?case
  proof (cases "expected = current")
    case True
    then have "n = current" "w' = w" using Cons.prems(1) by (simp_all add: run_simps)
    then show ?thesis
      using Cons.prems(4) True by (intro conjI exI [of _ "[]"] exI [of _ "node # nodes"]) simp_all
  next
    case False
    obtain r w1 where r: "run_state (retrying (sv_client sv) (destroy_attempt (sv_client sv) e info
        (node_Name node))) w = (r, w1)" by (metis surj_pair)
    then obtain c where c: "r = (None, c)"
      and rest: "run_state (destroy_loop (sv_client sv) e info expected nodes (current - 1)) w1 = ((n, None), w')"
      using Cons.prems(1,2) False by (cases r) (auto simp: run_simps split: option.splits)
    note one = destroy_one [OF store retry own r [unfolded c]]
    have cur: "sint (current - 1) = int (length nodes)"
      using Cons.prems(4) sint32_add [of current "- 1"] sint_lt [of current] by simp
    have "sint expected \<noteq> sint current" using False by (simp add: sint_inject)
    then have le: "sint expected \<le> sint (current - 1)" using Cons.prems(4,5) cur by simp
    have "sint n = max 0 (sint expected) \<and> (\<exists>gone rest. nodes = gone @ rest \<and> int (length rest) = sint n \<and>
      (\<forall>m \<in> node_Name ` set gone. taken_away node_labels info w' m) \<and>
      (\<forall>m. m \<notin> node_Name ` set gone \<longrightarrow> node_labels w' m = node_labels w1 m))"
      using Cons.prems(2,3) by (intro Cons.IH [OF rest _ _ cur le]) simp_all
    then obtain gone left where ih: "sint n = max 0 (sint expected)" "nodes = gone @ left" "int (length left) = sint n"
      "\<forall>m \<in> node_Name ` set gone. taken_away node_labels info w' m"
      "\<forall>m. m \<notin> node_Name ` set gone \<longrightarrow> node_labels w' m = node_labels w1 m"
      by (elim conjE exE) (rule that)
    have "node_Name node \<notin> node_Name ` set gone" using Cons.prems(3) ih(2) by auto
    then have "taken_away node_labels info w' (node_Name node)"
      using one ih(5) by (simp add: taken_away_def)
    then show ?thesis
      using ih one by (intro conjI exI [of _ "node # gone"] exI [of _ left]) auto
  qed
qed

lemma sortNodesToShutdown_leaves:
  assumes "node_store_contract sv node_labels"
  shows "leaves node_labels (sortNodesToShutdown sv e items True)"
proof -
  have exec: "leaves node_labels (RawExec (sv_exec sv) p)" "leaves node_labels (TimerFires (sv_exec sv) t)" for p t
    using assms by (simp_all add: node_store_contract_def)
  have "leaves node_labels (GetWorkerUsedCapacity sv e)"
    unfolding GetWorkerUsedCapacity_def reportCapacity_def ReportCapacity_def run_out_def afu_exec_def
      execWithoutTimeout_def ExecCommandInContainer_def ExecCommandInContainerWithFullOutput_def
      ExecWithOptions_def Let_def
    by (intro leaves_intros exec)
  then show ?thesis
    unfolding sortNodesToShutdown_def by (auto intro!: leaves_intros split: outcome.split option.split)
qed

lemma sortNodesToShutdown_mset:
  assumes "sort_contract sv"
    and "run_state (sortNodesToShutdown sv e items True) w = (Ret (nodes, None), w')"
  shows "mset nodes = mset items"
  using assms by (auto simp: sortNodesToShutdown_def sort_contract_def run_simps
      split: outcome.splits prod.splits option.splits if_splits)

lemma destroyWorkers_engine:
  assumes "run_state (destroyWorkers sv e n) w = ((r, e'), w')"
  shows "\<exists>i. e' = e\<lparr>eng_runtimeInfo := i\<rparr>"
proof -
  obtain i e1 w1 where g: "run_state (getRuntimeInfo sv e) w = ((i, e1), w1)" by (metis surj_pair)
  then have "e' = e1"
    using assms
    by (auto simp: destroyWorkers_def Let_def run_simps
        split: prod.splits sum.splits option.splits outcome.splits if_splits)
  then show ?thesis using getRuntimeInfo_engine [OF g] by simp
qed

lemma shutdown_rest_engine:
  assumes "run_state (shutdown_rest sv e) w = ((r, e'), w')"
  shows "eng_retryShutdown e' = eng_retryShutdown e \<and>
    eng_gracefulShutdownLimits e' = eng_gracefulShutdownLimits e \<and>
    eng_name e' = eng_name e \<and> eng_namespace e' = eng_namespace e"
proof (cases "close_channel (eng_MetadataSyncDoneCh e)")
  case (Ret ch)
  obtain d e1 w1 where d: "run_state (destroyWorkers sv (e\<lparr>eng_MetadataSyncDoneCh := ch\<rparr>) (- 1)) w =
      ((d, e1), w1)"
    by (metis surj_pair)
  then have "e' = e1"
    using assms Ret
    by (auto simp: shutdown_rest_def run_simps split: prod.splits option.splits outcome.splits)
  then show ?thesis using destroyWorkers_engine [OF d] by auto
next
  case Panic
  then show ?thesis using assms by (simp add: shutdown_rest_def run_simps)
qed

text \<open>The deletion of a runtime never sorts nodes, so it does not read a capacity report.\<close>

lemma destroyWorkers_no_panic:
  "sint n < 0 \<Longrightarrow> run_state (destroyWorkers sv e n) w = ((r, e'), w') \<Longrightarrow> r \<noteq> Panic"
  by (auto simp: destroyWorkers_def Let_def run_simps
      split: prod.splits sum.splits option.splits outcome.splits if_splits)

text \<open>The state of an engine that the factory made and \<open>Setup\<close> and \<open>Shutdown\<close> changed.\<close>

definition engine_wf :: "'q AlluxioEngine \<Rightarrow> bool" where
  "engine_wf e \<longleftrightarrow> eng_gracefulShutdownLimits e = 5 \<and> 0 \<le> sint (eng_retryShutdown e) \<and>
     sint (eng_retryShutdown e) \<le> 5 \<and> eng_MetadataSyncDoneCh e = NilChannel"

lemma shutdown_rest_wf:
  assumes "engine_wf e" "run_state (shutdown_rest sv e) w = ((r, e'), w')"
  shows "r \<noteq> Panic \<and> engine_wf e' \<and> engine_key e' = engine_key e"
proof -
  have ch: "close_channel (eng_MetadataSyncDoneCh e) = Ret NilChannel"
    using assms(1) by (simp add: engine_wf_def close_channel_def)
  obtain d e1 w1 where d: "run_state (destroyWorkers sv (e\<lparr>eng_MetadataSyncDoneCh := NilChannel\<rparr>) (- 1)) w =
      ((d, e1), w1)"
    by (metis surj_pair)
  have "d \<noteq> Panic" using destroyWorkers_no_panic [OF _ d] by simp
  then have "r \<noteq> Panic" "e' = e1"
    using assms(2) ch d
    by (auto simp: shutdown_rest_def run_simps split: prod.splits option.splits outcome.splits)
  then show ?thesis
    using destroyWorkers_engine [OF d] assms(1) by (auto simp: engine_wf_def engine_key_def)
qed

lemma Shutdown_wf:
  assumes "engine_wf e" "run_state (Shutdown sv e) w = ((r, e'), w')"
  shows "r \<noteq> Panic \<and> engine_wf e' \<and> engine_key e' = engine_key e"
proof (cases "sint (eng_retryShutdown e) < 5 \<and> fst (run_state (cleanupCache sv e) w) \<noteq> None")
  case True
  then have "e' = e\<lparr>eng_retryShutdown := eng_retryShutdown e + 1\<rparr>" "r \<noteq> Panic"
    using assms by (auto simp: Shutdown_def engine_wf_def run_simps split: prod.splits option.splits)
  then show ?thesis
    using assms(1) True sint32_add [of "eng_retryShutdown e" 1] by (simp add: engine_wf_def engine_key_def)
next
  case False
  obtain c w0 where c: "run_state (cleanupCache sv e) w = (c, w0)" by (metis surj_pair)
  have "run_state (shutdown_rest sv e) (if sint (eng_retryShutdown e) < 5 then w0 else w) = ((r, e'), w')"
    using assms False c by (simp add: Shutdown_def engine_wf_def run_simps split: if_splits)
  then show ?thesis by (rule shutdown_rest_wf [OF assms(1)])
qed

text \<open>
  Sequences of calls of \<open>Shutdown\<close> on one engine, in any worlds; the number counts the calls
  that ended in the clean-up of the cache.
\<close>

definition cleanup_fails :: "('w, 'q) services \<Rightarrow> 'q AlluxioEngine \<Rightarrow> 'w \<Rightarrow> bool" where
  "cleanup_fails sv e w \<longleftrightarrow> sint (eng_retryShutdown e) < sint (eng_gracefulShutdownLimits e) \<and>
     fst (run_state (cleanupCache sv e) w) \<noteq> None"

inductive shutdown_calls ::
    "('w, 'q) services \<Rightarrow> 'q AlluxioEngine \<Rightarrow> nat \<Rightarrow> 'q AlluxioEngine \<Rightarrow> bool"
  for sv e where
  no_call: "shutdown_calls sv e 0 e"
| stopped_call: "shutdown_calls sv e k e1 \<Longrightarrow> cleanup_fails sv e1 w \<Longrightarrow>
    run_state (Shutdown sv e1) w = ((r, e2), w') \<Longrightarrow> shutdown_calls sv e (Suc k) e2"
| other_call: "shutdown_calls sv e k e1 \<Longrightarrow> \<not> cleanup_fails sv e1 w \<Longrightarrow>
    run_state (Shutdown sv e1) w = ((r, e2), w') \<Longrightarrow> shutdown_calls sv e k e2"

lemma Shutdown_stopped:
  assumes "cleanup_fails sv e w" "run_state (Shutdown sv e) w = ((r, e'), w')"
  shows "e' = e\<lparr>eng_retryShutdown := eng_retryShutdown e + 1\<rparr> \<and> (\<exists>x. r = Ret (Some x))"
  using assms by (auto simp: cleanup_fails_def Shutdown_def run_simps split: prod.splits option.splits)

lemma Shutdown_other:
  assumes "\<not> cleanup_fails sv e w" "run_state (Shutdown sv e) w = ((r, e'), w')"
  shows "eng_retryShutdown e' = eng_retryShutdown e \<and>
    eng_gracefulShutdownLimits e' = eng_gracefulShutdownLimits e"
  using assms
  by (auto simp: cleanup_fails_def Shutdown_def run_simps split: prod.splits option.splits if_splits
      dest: shutdown_rest_engine)

lemma shutdown_calls_counter:
  assumes "shutdown_calls sv e k e'" "eng_retryShutdown e = 0" "eng_gracefulShutdownLimits e = 5"
  shows "k \<le> 5 \<and> sint (eng_retryShutdown e') = int k \<and> eng_gracefulShutdownLimits e' = 5"
  using assms
proof (induction rule: shutdown_calls.induct)
  case no_call
  then show ?case by simp
next
  case (stopped_call k e1 w r e2 w')
  then have IH: "k \<le> 5" "sint (eng_retryShutdown e1) = int k" "eng_gracefulShutdownLimits e1 = 5"
    by auto
  have "int k < 5" using stopped_call.hyps(2) IH by (simp add: cleanup_fails_def)
  moreover have "sint (eng_retryShutdown e1 + 1) = sint (eng_retryShutdown e1) + 1"
    using sint32_add [of "eng_retryShutdown e1" 1] IH \<open>int k < 5\<close> by simp
  ultimately show ?case using Shutdown_stopped [OF stopped_call.hyps(2,3)] IH by simp
next
  case (other_call k e1 w r e2 w')
  then show ?case using Shutdown_other by metis
qed

lemma DeleteConfigMap_removes:
  assumes "configmap_contract cl cm_at"
    and "run_state (DeleteConfigMap cl name ns) w = (None, w')"
  shows "cm_at w' (ns, name) = None \<and> (\<forall>k. cm_at w k = None \<longrightarrow> cm_at w' k = None)"
proof -
  obtain r w1 where g: "run_state (Get_ConfigMap cl (ns, name)) w = (r, w1)" by (metis surj_pair)
  have keep: "cm_at w1 = cm_at w" using assms(1) g unfolding configmap_contract_def by blast
  show ?thesis
  proof (cases r)
    case (Inl x)
    then have "is_not_found x" "w' = w1"
      using assms(2) g by (auto simp: DeleteConfigMap_def run_simps split: if_splits)
    then show ?thesis using assms(1) g Inl keep unfolding configmap_contract_def by metis
  next
    case (Inr cm)
    then have "meta_key (cm_meta cm) = (ns, name)"
      using assms(1) g unfolding configmap_contract_def by blast
    moreover have "run_state (Delete_ConfigMap cl cm) w1 = (None, w')"
      using assms(2) g Inr by (simp add: DeleteConfigMap_def run_simps)
    ultimately have "cm_at w' = (cm_at w)((ns, name) := None)"
      using assms(1) keep unfolding configmap_contract_def by metis
    then show ?thesis by simp
  qed
qed

lemma cleanAll_removes:
  assumes "configmap_contract cl cm_at" "run_state (cleanAll cl e) w = (None, w')"
  shows "cm_at w' (eng_namespace e, getConfigmapName e) = None \<and>
    cm_at w' (eng_namespace e, eng_name e @ ''-config'') = None"
proof -
  obtain w1 where "run_state (DeleteConfigMap cl (getConfigmapName e) (eng_namespace e)) w = (None, w1)"
    "run_state (DeleteConfigMap cl (eng_name e @ ''-config'') (eng_namespace e)) w1 = (None, w')"
    using assms(2)
    by (auto simp: cleanAll_def getConfigmapName_def run_simps split: prod.splits option.splits)
  then show ?thesis using DeleteConfigMap_removes [OF assms(1)] by blast
qed

section \<open>Properties\<close>

text \<open>
  C11: Shutting down stops retrying. In any sequence of calls of \<open>Shutdown\<close> on an engine as
  \<open>Build\<close> makes it, at most five calls end in the clean-up of the cache, the counter of the engine is their
  number, and from the fifth on a call goes straight to the workers, the release and the
  config maps.
\<close>

theorem Shutdown_stops_retrying:
  assumes "shutdown_calls sv e k e'" "eng_retryShutdown e = 0" "eng_gracefulShutdownLimits e = 5"
  shows "k \<le> 5 \<and> sint (eng_retryShutdown e') = int k \<and>
    (k = 5 \<longrightarrow> Shutdown sv e' = shutdown_rest sv e')"
  using shutdown_calls_counter [OF assms] by (auto simp: Shutdown_def)

theorem Shutdown_stops_retrying_witness:
  "\<exists>e'. shutdown_calls demo_services demo_engine 1 e' \<and> sint (eng_retryShutdown e') = 1"
proof -
  have f: "cleanup_fails demo_services demo_engine (demo_cluster 0 2)"
    unfolding cleanup_fails_def by code_simp
  obtain r e' w' where s: "run_state (Shutdown demo_services demo_engine) (demo_cluster 0 2) = ((r, e'), w')"
    by (metis surj_pair)
  have calls: "shutdown_calls demo_services demo_engine 1 e'"
    using stopped_call [OF no_call f s] by simp
  moreover have "eng_retryShutdown demo_engine = 0" "eng_gracefulShutdownLimits demo_engine = 5"
    by (simp_all add: demo_engine_def)
  ultimately show ?thesis using Shutdown_stops_retrying [OF calls] by auto
qed

text \<open>
  C31: A clean-up that goes well makes the shutdown fail: as long as the counter is below its limit,
  a call in which the cache is cleaned (or the master is absent or not ready) without an error
  returns an error, counts it and does not touch workers, release and config maps.
\<close>

theorem Shutdown_fails_after_cleaning:
  assumes "sint (eng_retryShutdown e) < sint (eng_gracefulShutdownLimits e)"
    and "run_state (invokeCleanCache sv e ''/'') w = (None, w1)"
  shows "run_state (Shutdown sv e) w =
    ((Ret (Some (ErrText ''the remaining cached is not cleaned up, check again'')),
      e\<lparr>eng_retryShutdown := eng_retryShutdown e + 1\<rparr>),
     snd (run_state (Sleep (sv_exec sv) (10 * second)) w1))"
  using assms by (simp add: Shutdown_def cleanupCache_def run_simps split: prod.splits)

theorem Shutdown_fails_after_cleaning_witness:
  "fst (fst (run_state (Shutdown demo_services demo_engine) (demo_cluster 0 2))) =
     Ret (Some (ErrText ''the remaining cached is not cleaned up, check again''))"
proof -
  have "sint (eng_retryShutdown demo_engine) < sint (eng_gracefulShutdownLimits demo_engine)"
    by (simp add: demo_engine_def)
  moreover have "fst (run_state (invokeCleanCache demo_services demo_engine ''/'') (demo_cluster 0 2)) = None"
    by code_simp
  note run_returns [OF this]
  ultimately show ?thesis by (simp add: Shutdown_fails_after_cleaning)
qed

text \<open>
  C28: A shutdown that reports success has deleted both config maps of the runtime.
\<close>

theorem Shutdown_removes_configmaps:
  assumes "configmap_contract (sv_client sv) cm_at"
    and "run_state (Shutdown sv e) w = ((Ret None, e'), w')"
  shows "cm_at w' (eng_namespace e, getConfigmapName e) = None \<and>
    cm_at w' (eng_namespace e, eng_name e @ ''-config'') = None"
proof -
  obtain w1 where "run_state (shutdown_rest sv e) w1 = ((Ret None, e'), w')"
    using assms(2) by (auto simp: Shutdown_def run_simps split: prod.splits option.splits if_splits)
  then obtain ch r w2 w3 where
    d: "run_state (destroyWorkers sv (e\<lparr>eng_MetadataSyncDoneCh := ch\<rparr>) (- 1)) w1 = ((r, e'), w2)"
    and c: "run_state (cleanAll (sv_client sv) e') w3 = (None, w')"
    by (auto simp: shutdown_rest_def run_simps split: prod.splits option.splits outcome.splits)
  have "getConfigmapName e' = getConfigmapName e \<and> eng_name e' = eng_name e \<and>
      eng_namespace e' = eng_namespace e"
    using destroyWorkers_engine [OF d] by (auto simp: getConfigmapName_def)
  then show ?thesis using cleanAll_removes [OF assms(1) c] by simp
qed

text \<open>An engine that has used up its retries, and a cluster with the runtime's config maps.\<close>

definition demo_info :: "int64 RuntimeInfo" where
  "demo_info = \<lparr>info_name = ''demo'', info_namespace = ''default'', info_runtimeType = ''alluxio'',
     info_tieredstoreInfo = [], info_exclusive = False,
     info_fuse = \<lparr>fuse_info_Global = False, fuse_info_NodeSelector = Map.empty\<rparr>,
     info_deprecatedNodeLabel = False, info_deprecatedPVName = False\<rparr>"

definition tired_engine :: "int64 AlluxioEngine" where
  "tired_engine = demo_engine\<lparr>eng_retryShutdown := 5, eng_runtimeInfo := Some demo_info\<rparr>"

definition demo_configmaps :: "nskey \<rightharpoonup> ConfigMap" where
  "demo_configmaps = [(''default'', ''demo-config'') \<mapsto>
     \<lparr>cm_meta = named_meta ''default'' ''demo-config'', cm_Data = Map.empty\<rparr>]"

theorem Shutdown_removes_configmaps_witness:
  "configmap_at (snd (run_state (Shutdown demo_services tired_engine)
     ((demo_cluster 1 2)\<lparr>fc_configmaps := demo_configmaps\<rparr>))) (''default'', ''demo-config'') = None"
proof -
  let ?s = "run_state (Shutdown demo_services tired_engine) ((demo_cluster 1 2)\<lparr>fc_configmaps := demo_configmaps\<rparr>)"
  have "configmap_contract (sv_client demo_services) configmap_at"
    using fake_configmap by (simp add: demo_services_def)
  moreover have "fst (fst ?s) = Ret None"
    by (simp add: Shutdown_def shutdown_rest_def tired_engine_def demo_engine_def run_simps
        close_channel_def destroyWorkers_def getRuntimeInfo_def demo_services_def fake_client_def
        fake_parse_def demo_cluster_def Let_def sample_node_def destroyMaster_def CheckRelease_def
        fixed_os_def DeleteRelease_def proc_output_def cleanAll_def DeleteConfigMap_def
        fake_lookup_def fake_write_def configmap_at_def demo_configmaps_def)
  then have "?s = ((Ret None, snd (fst ?s)), snd ?s)" by (simp add: prod_eq_iff)
  ultimately show ?thesis
    using Shutdown_removes_configmaps by (fastforce simp: tired_engine_def demo_engine_def)
qed

text \<open>The workers of a runtime in the store: the nodes whose common label is true.\<close>

definition worker_nodes :: "'w label_store \<Rightarrow> 'q RuntimeInfo \<Rightarrow> 'w \<Rightarrow> string set" where
  "worker_nodes node_labels info w =
     {n. \<exists>l. node_labels w n = Some l \<and> l (GetCommonLabelName info) = Some ''true''}"

text \<open>A listing that reflects the store: exactly the nodes that the selector selects, each once.\<close>

definition reflects :: "'w label_store \<Rightarrow> selector \<Rightarrow> 'w \<Rightarrow> 'q Node list \<Rightarrow> bool" where
  "reflects node_labels sel w items \<longleftrightarrow> distinct (map node_Name items) \<and>
     (\<forall>node \<in> set items. node_labels w (node_Name node) = Some (node_Labels node)) \<and>
     node_Name ` set items = {n. \<exists>l. node_labels w n = Some l \<and> sel l}"


definition true_label :: "labels" where
  "true_label = [GetCommonLabelName demo_info \<mapsto> ''true'']"

lemma demo_node_store: "node_store_contract demo_services labels_at"
proof -
  have "labels_at (w\<lparr>fc_nodes := set_node_labels n f (fc_nodes w)\<rparr>) m = labels_at w m" if "m \<noteq> n" for w n f m
  proof -
    have "List.find (\<lambda>x. node_Name x = m) (set_node_labels n f xs) = List.find (\<lambda>x. node_Name x = m) xs" for xs
      using that by (induction xs) (auto simp: set_node_labels_def)
    then show ?thesis by (simp add: labels_at_def)
  qed
  then have "leaves (\<lambda>w. labels_at w m) (PatchLabels_Node fake_client n p)" if "m \<noteq> n" for n p m
    using that by (simp add: leaves_def fake_client_def fake_write_def)
  then show ?thesis
    using fake_get_node fake_patch
    by (simp add: fake_retry_quiet node_store_contract_def demo_services_def echo_exec_def leaves_def)
qed


end
