(* ===== verification/TemplateEngine.thy ===== *)
theory TemplateEngine
  imports EngineShutdown
begin

text \<open>
  The template engine (\<open>pkg/ddc/base/template_engine.go\<close>, \<open>syncs.go\<close>), which is written against the
  interface \<open>Implement\<close> (\<open>engine.go\<close>), and the engine factory (\<open>pkg/ddc/factory.go\<close>, \<open>Build\<close> of
  \<open>pkg/ddc/alluxio/engine.go\<close>). The interface is a record of methods; a locale states what its
  implementations promise, and the Alluxio engine is shown to keep the promise.
\<close>

section \<open>The interface\<close>

text \<open>The methods that the template engine calls; \<open>'e\<close> is the state of the implementation.\<close>

record ('w, 'e) Implement =
  impl_ShouldSetupMaster :: "'e \<Rightarrow> ('w, bool \<times> err option) state"
  impl_SetupMaster :: "'e \<Rightarrow> ('w, err option) state"
  impl_CheckMasterReady :: "'e \<Rightarrow> ('w, bool \<times> err option) state"
  impl_ShouldSetupWorkers :: "'e \<Rightarrow> ('w, bool \<times> err option) state"
  impl_SetupWorkers :: "'e \<Rightarrow> ('w, err option \<times> 'e) state"
  impl_CheckWorkersReady :: "'e \<Rightarrow> ('w, bool \<times> err option) state"
  impl_CheckAndUpdateRuntimeStatus :: "'e \<Rightarrow> ('w, bool \<times> err option) state"
  impl_CheckRuntimeHealthy :: "'e \<Rightarrow> ('w, err option) state"
  impl_SyncReplicas :: "'e \<Rightarrow> ('w, err option) state"
  impl_SyncMetadata :: "'e \<Rightarrow> ('w, err option) state"
  impl_SyncScheduleInfoToCacheNodes :: "'e \<Rightarrow> ('w, err option) state"
  impl_Shutdown :: "'e \<Rightarrow> ('w, err option outcome \<times> 'e) state"

section \<open>Setting up\<close>

text \<open>The steps of \<open>Setup\<close> after the master is known to be ready.\<close>

definition setup_workers ::
    "('w, 'e) Implement \<Rightarrow> 'e \<Rightarrow> ('w, (bool \<times> err option) \<times> 'e) state" where
  "setup_workers impl e = do {
     (shouldSetupWorkers, err) \<leftarrow> impl_ShouldSetupWorkers impl e;
     case err of
       Some x \<Rightarrow> ret ((False, Some x), e)
     | None \<Rightarrow> do {
         (err, e) \<leftarrow> (if shouldSetupWorkers then impl_SetupWorkers impl e else ret (None, e));
         case err of
           Some x \<Rightarrow> ret ((False, Some x), e)
         | None \<Rightarrow> do {
             (workersReady, err) \<leftarrow> impl_CheckWorkersReady impl e;
             if err \<noteq> None \<or> \<not> workersReady then ret ((workersReady, err), e)
             else do {
               (runtimeReady, err) \<leftarrow> impl_CheckAndUpdateRuntimeStatus impl e;
               ret ((runtimeReady, err), e)
             }
           }
       }
   }"

definition Setup ::
    "('w, 'e) Implement \<Rightarrow> 'e \<Rightarrow> ('w, (bool \<times> err option) \<times> 'e) state" where
  "Setup impl e = do {
     (shouldSetupMaster, err) \<leftarrow> impl_ShouldSetupMaster impl e;
     case err of
       Some x \<Rightarrow> ret ((False, Some x), e)
     | None \<Rightarrow> do {
         err \<leftarrow> (if shouldSetupMaster then impl_SetupMaster impl e else ret None);
         case err of
           Some x \<Rightarrow> ret ((False, Some x), e)
         | None \<Rightarrow> do {
             (masterReady, err) \<leftarrow> impl_CheckMasterReady impl e;
             case err of
               Some x \<Rightarrow> ret ((False, Some x), e)
             | None \<Rightarrow> (if \<not> masterReady then ret ((masterReady, None), e) else setup_workers impl e)
           }
       }
   }"

text \<open>\<open>Sync\<close>: the first error ends it.\<close>

definition Sync :: "('w, 'e) Implement \<Rightarrow> 'e \<Rightarrow> ('w, err option) state" where
  "Sync impl e =
     for_each (\<lambda>m. m)
       [impl_SyncMetadata impl e,
        do { (_, err) \<leftarrow> impl_CheckAndUpdateRuntimeStatus impl e; ret err },
        impl_CheckRuntimeHealthy impl e,
        impl_SyncReplicas impl e,
        do { (_, err) \<leftarrow> impl_CheckAndUpdateRuntimeStatus impl e; ret err },
        impl_SyncScheduleInfoToCacheNodes impl e]"

section \<open>The Alluxio engine as an implementation\<close>

definition alluxio_implement :: "('w, 'q) services \<Rightarrow> ('w, 'q AlluxioEngine) Implement" where
  "alluxio_implement sv = \<lparr>
     impl_ShouldSetupMaster = ShouldSetupMaster (sv_client sv),
     impl_SetupMaster = SetupMaster sv,
     impl_CheckMasterReady = CheckMasterReady (sv_client sv),
     impl_ShouldSetupWorkers = ShouldSetupWorkers (sv_client sv),
     impl_SetupWorkers = SetupWorkers sv,
     impl_CheckWorkersReady = CheckWorkersReady (sv_client sv),
     impl_CheckAndUpdateRuntimeStatus = CheckAndUpdateRuntimeStatus (sv_client sv),
     impl_CheckRuntimeHealthy = CheckRuntimeHealthy,
     impl_SyncReplicas = SyncReplicas,
     impl_SyncMetadata = SyncMetadata,
     impl_SyncScheduleInfoToCacheNodes = SyncScheduleInfoToCacheNodes,
     impl_Shutdown = Shutdown sv\<rparr>"

section \<open>Building engines\<close>

text \<open>
  The context of a request, without the logger, the recorder of events and the client. The runtime is an
  interface value in the code; the controller only puts Alluxio runtimes there.
\<close>

record 'q ReconcileRequestContext =
  ctx_Namespace :: string
  ctx_Name :: string
  ctx_RuntimeType :: string
  ctx_FinalizerName :: string
  ctx_Runtime :: "'q AlluxioRuntime option"

record 'q TemplateEngine =
  te_Implement :: "'q AlluxioEngine"
  te_Id :: string
  te_Context :: "'q ReconcileRequestContext"

definition NewTemplateEngine ::
    "'q AlluxioEngine \<Rightarrow> string \<Rightarrow> 'q ReconcileRequestContext \<Rightarrow> 'q TemplateEngine" where
  "NewTemplateEngine impl id0 ctx = \<lparr>te_Implement = impl, te_Id = id0, te_Context = ctx\<rparr>"

text \<open>
  A result \<open>Inl\<close> is a nil engine with an error; \<open>Inr\<close> is an engine, which may come with the error of
  the namespace.
\<close>

definition Build ::
    "('w, 'q) services \<Rightarrow> string \<Rightarrow> 'q ReconcileRequestContext
      \<Rightarrow> ('w, err + ('q TemplateEngine \<times> err option)) state" where
  "Build sv id0 ctx =
     (let failed = (\<lambda>what. ret (Inl (ErrText (''engine '' @ ctx_Name ctx @ what)))) in
      case ctx_Runtime ctx of
        None \<Rightarrow> failed '' is failed to parse''
      | Some runtime \<Rightarrow>
          (let engine = \<lparr>eng_runtime = Some runtime, eng_name = ctx_Name ctx,
                 eng_namespace = ctx_Namespace ctx, eng_runtimeType = ctx_RuntimeType ctx,
                 eng_gracefulShutdownLimits = 5, eng_retryShutdown = 0, eng_initImage = [],
                 eng_MetadataSyncDoneCh = NilChannel, eng_runtimeInfo = None,
                 eng_UnitTest = False\<rparr> in do {
             (r, engine) \<leftarrow> getRuntimeInfo sv engine;
             case r of
               Inl _ \<Rightarrow> failed '' failed to get runtime info''
             | Inr _ \<Rightarrow> do {
                 err \<leftarrow> EnsureNamespace (sv_client sv) (ctx_Namespace ctx);
                 ret (Inr (NewTemplateEngine engine id0 ctx, err))
               }
           }))"

definition CreateEngine ::
    "('w, 'q) services \<Rightarrow> string \<Rightarrow> 'q ReconcileRequestContext
      \<Rightarrow> ('w, err + ('q TemplateEngine \<times> err option)) state" where
  "CreateEngine sv id0 ctx =
     (if ctx_RuntimeType ctx = ''alluxio'' then Build sv id0 ctx
      else ret (Inl (ErrText (''failed to build the engine due to the type '' @
             ctx_Namespace ctx @ ''/'' @ ctx_Name ctx @ '' is not found''))))"

definition GenerateEngineID :: "string \<Rightarrow> string \<Rightarrow> string" where
  "GenerateEngineID namespace name = namespace @ ''-'' @ name"

section \<open>Laws of the construction\<close>

text \<open>A new engine is named after the request, has its runtime information and no retries.\<close>

definition fresh_engine :: "string \<Rightarrow> string \<Rightarrow> 'q AlluxioEngine \<Rightarrow> bool" where
  "fresh_engine namespace name e \<longleftrightarrow> engine_key e = (namespace, name) \<and>
     eng_retryShutdown e = 0 \<and> engine_wf e"

lemma CreateEngine_fresh:
  assumes "run_state (CreateEngine sv id0 ctx) w = (Inr (te, err), w')"
  shows "te_Id te = id0 \<and> fresh_engine (ctx_Namespace ctx) (ctx_Name ctx) (te_Implement te)"
  using assms
  by (auto simp: CreateEngine_def Build_def NewTemplateEngine_def fresh_engine_def engine_wf_def engine_key_def Let_def
      run_simps split: if_splits option.splits prod.splits sum.splits dest!: getRuntimeInfo_engine)

section \<open>The contract of an implementation\<close>

text \<open>
  \<open>ready_at e w\<close>: in the world \<open>w\<close> the runtime of \<open>e\<close> is recorded as ready. \<open>same e e'\<close>: the two
  states belong to the same runtime.
\<close>

locale implement =
  fixes impl :: "('w, 'e) Implement"
    and ready_at :: "'e \<Rightarrow> 'w \<Rightarrow> bool"
    and same :: "'e \<Rightarrow> 'e \<Rightarrow> bool"
  assumes status_recorded:
      "run_state (impl_CheckAndUpdateRuntimeStatus impl e) w = ((True, None), w') \<Longrightarrow> ready_at e w'"
    and workers_same:
      "run_state (impl_SetupWorkers impl e) w = ((err, e'), w') \<Longrightarrow> same e e'"
    and same_refl: "same e e"
    and same_ready: "same e e' \<Longrightarrow> ready_at e' w \<Longrightarrow> ready_at e w"
begin

lemma setup_workers_same:
  assumes "run_state (setup_workers impl e) w = ((r, e'), w')"
  shows "same e e'"
  using assms workers_same same_refl
  by (auto simp: setup_workers_def run_simps split: prod.splits option.splits if_splits)

lemma Setup_same:
  "run_state (Setup impl e) w = ((r, e'), w') \<Longrightarrow> same e e'"
  using setup_workers_same same_refl
  by (auto simp: Setup_def run_simps split: prod.splits option.splits if_splits)

lemma setup_workers_ready:
  assumes "run_state (setup_workers impl e) w = (((True, None), e'), w')"
  shows "ready_at e' w'"
  using assms status_recorded
  by (auto simp: setup_workers_def run_simps split: prod.splits option.splits if_splits)

lemma Setup_ready:
  assumes "run_state (Setup impl e) w = (((True, None), e'), w')"
  shows "ready_at e w'"
proof -
  have "ready_at e' w'"
    using assms setup_workers_ready
    by (auto simp: Setup_def run_simps split: prod.splits option.splits if_splits)
  then show ?thesis using same_ready Setup_same [OF assms] by blast
qed

lemma Sync_records:
  assumes "run_state (impl_SyncScheduleInfoToCacheNodes impl e) = (\<lambda>w. (None, w))"
    and "run_state (Sync impl e) w = (None, w')"
  shows "\<exists>w1 ready. run_state (impl_CheckAndUpdateRuntimeStatus impl e) w1 = ((ready, None), w')"
  using assms(2)
  by (auto simp: Sync_def run_simps assms(1) split: prod.splits option.splits)

end

section \<open>The Alluxio engine keeps the contract\<close>

text \<open>
  The runtime of the engine is stored with a ready master and a setup duration, in every store that
  the client gives access to.
\<close>

definition runtime_ready :: "('w, 'q) services \<Rightarrow> 'q AlluxioEngine \<Rightarrow> 'w \<Rightarrow> bool" where
  "runtime_ready sv e w \<longleftrightarrow> (\<forall>stored. api_contracts (sv_client sv) stored \<longrightarrow>
     (\<exists>r. stored w (engine_key e) = Some r \<and>
        st_MasterPhase (rt_Status r) = RuntimePhaseReady \<and> st_SetupDuration (rt_Status r) \<noteq> []))"

definition same_runtime :: "'q AlluxioEngine \<Rightarrow> 'q AlluxioEngine \<Rightarrow> bool" where
  "same_runtime e e' \<longleftrightarrow> engine_key e' = engine_key e \<and> (engine_wf e \<longrightarrow> engine_wf e')"

lemma status_recorded_ready:
  fixes sv :: "('w, 'q) services"
  assumes "run_state (CheckAndUpdateRuntimeStatus (sv_client sv) e) w = ((True, None), w')"
  shows "runtime_ready sv e w'"
  unfolding runtime_ready_def
proof (intro allI impI)
  fix stored :: "('w, 'q) runtime_store"
  assume api: "api_contracts (sv_client sv) stored"
  obtain master w1 workers w2 where
    "run_state (getMasterStatefulset (sv_client sv) (getMasterStatefulsetName e) (eng_namespace e)) w =
      (Inr master, w1)"
    "run_state (getDaemonset (sv_client sv) (getWorkerDaemonsetName e) (eng_namespace e)) w1 =
      (Inr workers, w2)"
    using CheckAndUpdateRuntimeStatus_reads [OF assms] by blast
  from status_stored [OF api this assms]
  show "\<exists>r. stored w' (engine_key e) = Some r \<and>
      st_MasterPhase (rt_Status r) = RuntimePhaseReady \<and> st_SetupDuration (rt_Status r) \<noteq> []"
    by blast
qed

interpretation alluxio: implement "alluxio_implement sv" "runtime_ready sv" same_runtime for sv
proof unfold_locales
  show "runtime_ready sv e w'"
    if "run_state (impl_CheckAndUpdateRuntimeStatus (alluxio_implement sv) e) w = ((True, None), w')"
    for e w w'
    using that status_recorded_ready by (simp add: alluxio_implement_def)
  show "same_runtime e e'"
    if "run_state (impl_SetupWorkers (alluxio_implement sv) e) w = ((err, e'), w')"
    for e w err e' w'
    using that SetupWorkers_engine [of sv e w err e' w']
    by (auto simp: alluxio_implement_def same_runtime_def engine_key_def engine_wf_def)
  show "same_runtime e e" for e :: "'b AlluxioEngine" by (simp add: same_runtime_def)
  show "runtime_ready sv e w" if "same_runtime e e'" "runtime_ready sv e' w" for e e' w
    using that by (simp add: runtime_ready_def same_runtime_def)
qed

section \<open>Properties\<close>

text \<open>
  C13: A setup that reports ready without an error has recorded it: the stored runtime has a ready
  master and a setup duration.
\<close>

theorem Setup_records_ready:
  assumes "api_contracts (sv_client sv) stored"
    and "run_state (Setup (alluxio_implement sv) e) w = (((True, None), e'), w')"
  shows "\<exists>r. stored w' (engine_key e) = Some r \<and>
    st_MasterPhase (rt_Status r) = RuntimePhaseReady \<and> st_SetupDuration (rt_Status r) \<noteq> []"
  using alluxio.Setup_ready [OF assms(2)] assms(1) unfolding runtime_ready_def by blast

theorem Setup_records_ready_witness:
  "\<exists>r. runtime_at (snd (run_state (Setup (alluxio_implement demo_services) demo_engine)
     (demo_cluster 1 2))) (''default'', ''demo'') = Some r \<and>
     st_MasterPhase (rt_Status r) = RuntimePhaseReady"
proof -
  let ?s = "run_state (Setup (alluxio_implement demo_services) demo_engine) (demo_cluster 1 2)"
  have "fst (fst ?s) = (True, None)" by code_simp
  then obtain e' w' where s: "?s = (((True, None), e'), w')" by (metis prod.collapse)
  from Setup_records_ready [OF demo_api s] show ?thesis by (auto simp: demo_key s)
qed

text \<open>
  The order of the setup. When the master is not ready (and no step failed), \<open>Setup\<close> reports not
  ready and ends in the world that the check of the master left: no node is labelled and the status
  of the workers is not touched.
\<close>

theorem Setup_waits_for_master:
  assumes "run_state (ShouldSetupMaster (sv_client sv) e) w = ((should, None), w1)"
    and "run_state (if should then SetupMaster sv e else ret None) w1 = (None, w2)"
    and "run_state (CheckMasterReady (sv_client sv) e) w2 = ((False, None), w3)"
  shows "run_state (Setup (alluxio_implement sv) e) w = (((False, None), e), w3)"
  using assms by (cases should) (simp_all add: Setup_def alluxio_implement_def run_simps)

theorem Setup_waits_for_master_witness:
  "fst (fst (run_state (Setup (alluxio_implement demo_services) demo_engine) (demo_cluster 0 2))) =
     (False, None)"
proof -
  let ?w = "demo_cluster 0 2"
  obtain w1 where s: "run_state (ShouldSetupMaster (sv_client demo_services) demo_engine) ?w =
      ((True, None), w1)"
  proof -
    have "fst (run_state (ShouldSetupMaster (sv_client demo_services) demo_engine) ?w) = (True, None)"
      by code_simp
    then show thesis using that by (metis prod.collapse)
  qed
  have w1: "w1 = snd (run_state (ShouldSetupMaster (sv_client demo_services) demo_engine) ?w)"
    using s by simp
  have "fst (run_state (SetupMaster demo_services demo_engine) (snd (run_state
      (ShouldSetupMaster (sv_client demo_services) demo_engine) ?w))) = None"
    by code_simp
  then obtain w2 where m: "run_state (if True then SetupMaster demo_services demo_engine else ret None) w1 =
      (None, w2)"
    using w1 by (metis prod.collapse)
  have "fst (run_state (CheckMasterReady (sv_client demo_services) demo_engine)
      (snd (run_state (SetupMaster demo_services demo_engine) (snd (run_state
        (ShouldSetupMaster (sv_client demo_services) demo_engine) ?w))))) = (False, None)"
    by code_simp
  then obtain w3 where "run_state (CheckMasterReady (sv_client demo_services) demo_engine) w2 =
      ((False, None), w3)"
    using m w1 by (metis prod.collapse snd_conv)
  then show ?thesis using Setup_waits_for_master [OF s m] by simp
qed

end
