(* ===== verification/RuntimeController.thy ===== *)
theory RuntimeController
  imports TemplateEngine
begin

text \<open>
  The controller of Alluxio runtimes (\<open>pkg/controllers/runtime_controller.go\<close> and
  \<open>pkg/controllers/v1alpha1/alluxio\<close>): the map of engines, finalizers, setting up and deleting.
  Events are not recorded and the mutex of the map is left out: a request is one sequential program.
\<close>

section \<open>The map of engines\<close>

record 'q RuntimeReconciler =
  rr_engines :: "string \<rightharpoonup> 'q TemplateEngine"

definition runtimeType :: string where
  "runtimeType = ''alluxio''"

definition runtimeResourceFinalizerName :: string where
  "runtimeResourceFinalizerName = ''alluxio-runtime-controller-finalizer''"

definition engine_id :: "'q ReconcileRequestContext \<Rightarrow> string" where
  "engine_id ctx = GenerateEngineID (ctx_Namespace ctx) (ctx_Name ctx)"

definition GetOrCreateEngine ::
    "('w, 'q) services \<Rightarrow> 'q RuntimeReconciler \<Rightarrow> 'q ReconcileRequestContext
      \<Rightarrow> ('w, (err + 'q TemplateEngine) \<times> 'q RuntimeReconciler) state" where
  "GetOrCreateEngine sv r ctx =
     (case rr_engines r (engine_id ctx) of
        Some engine \<Rightarrow> ret (Inr engine, r)
      | None \<Rightarrow> do {
          c \<leftarrow> CreateEngine sv (engine_id ctx) ctx;
          ret (case c of
             Inl x \<Rightarrow> (Inl x, r)
           | Inr (engine, Some x) \<Rightarrow> (Inl x, r)
           | Inr (engine, None) \<Rightarrow>
               (Inr engine, r\<lparr>rr_engines := (rr_engines r)(engine_id ctx \<mapsto> engine)\<rparr>))
        })"

definition RemoveEngine ::
    "'q RuntimeReconciler \<Rightarrow> 'q ReconcileRequestContext \<Rightarrow> 'q RuntimeReconciler" where
  "RemoveEngine r ctx = r\<lparr>rr_engines := (rr_engines r)(engine_id ctx := None)\<rparr>"

text \<open>
  The map holds pointers: what a method does to its engine is seen by later requests. This puts the
  changed engine back.
\<close>

definition put_engine ::
    "'q RuntimeReconciler \<Rightarrow> 'q ReconcileRequestContext \<Rightarrow> 'q TemplateEngine \<Rightarrow> 'q RuntimeReconciler" where
  "put_engine r ctx engine = r\<lparr>rr_engines := (rr_engines r)(engine_id ctx \<mapsto> engine)\<rparr>"

section \<open>Requests\<close>

definition GetRuntimeObjectMeta :: "'q ReconcileRequestContext \<Rightarrow> err + 'q AlluxioRuntime" where
  "GetRuntimeObjectMeta ctx =
     (case ctx_Runtime ctx of
        None \<Rightarrow> Inl (ErrText ''object is not ObjectMetaAccessor'')
      | Some runtime \<Rightarrow> Inr runtime)"

definition set_finalizers :: "'q AlluxioRuntime \<Rightarrow> string list \<Rightarrow> 'q AlluxioRuntime" where
  "set_finalizers runtime fs = runtime\<lparr>rt_meta := (rt_meta runtime)\<lparr>om_Finalizers := fs\<rparr>\<rparr>"

definition ReconcileRuntimeDeletion ::
    "('w, 'q) services \<Rightarrow> 'q TemplateEngine \<Rightarrow> 'q ReconcileRequestContext
      \<Rightarrow> ('w, reconcile_result outcome \<times> 'q TemplateEngine) state" where
  "ReconcileRuntimeDeletion sv engine ctx = do {
     (s, impl) \<leftarrow> impl_Shutdown (alluxio_implement sv) (te_Implement engine);
     let engine = engine\<lparr>te_Implement := impl\<rparr> in
     case s of
       Panic \<Rightarrow> ret (Panic, engine)
     | Ret (Some x) \<Rightarrow> ret (Ret (RequeueAfterInterval (20 * second)), engine)
     | Ret None \<Rightarrow>
         (case GetRuntimeObjectMeta ctx of
            Inl x \<Rightarrow> ret (Ret (RequeueIfError (Some x)), engine)
          | Inr runtime \<Rightarrow>
              (if HasDeletionTimestamp (rt_meta runtime) then do {
                 u \<leftarrow> Update_AlluxioRuntime (sv_client sv)
                   (set_finalizers runtime
                     (RemoveString (om_Finalizers (rt_meta runtime)) (ctx_FinalizerName ctx)));
                 ret (Ret (case u of Inl x \<Rightarrow> RequeueIfError (Some x) | Inr _ \<Rightarrow> NoRequeue), engine)
               } else ret (Ret NoRequeue, engine)))
   }"

definition is_setup :: "RuntimeStatus \<Rightarrow> bool" where
  "is_setup st \<longleftrightarrow> st_MasterPhase st = RuntimePhaseReady \<and>
     (st_WorkerPhase st = RuntimePhaseReady \<or> st_WorkerPhase st = RuntimePhasePartialReady)"

text \<open>
  When the runtime cannot be read, its status has the zero value and the engine is set up. Errors of
  the setup are only logged.
\<close>

definition ReconcileRuntime ::
    "('w, 'q) services \<Rightarrow> 'q TemplateEngine \<Rightarrow> 'q ReconcileRequestContext
      \<Rightarrow> ('w, reconcile_result \<times> 'q TemplateEngine) state" where
  "ReconcileRuntime sv engine ctx = do {
     r \<leftarrow> Get_AlluxioRuntime (sv_client sv) (ctx_Namespace ctx, ctx_Name ctx);
     if \<not> (case r of Inl _ \<Rightarrow> False | Inr runtime \<Rightarrow> is_setup (rt_Status runtime)) then do {
       ((ready, err), impl) \<leftarrow> Setup (alluxio_implement sv) (te_Implement engine);
       let engine = engine\<lparr>te_Implement := impl\<rparr> in
       if \<not> ready then ret (RequeueAfterInterval (20 * second), engine)
       else ret (RequeueAfterInterval (20 * second), engine)
     } else ret (RequeueAfterInterval (20 * second), engine)
   }"

definition AddFinalizerAndRequeue ::
    "('w, 'q) services \<Rightarrow> 'q ReconcileRequestContext \<Rightarrow> string \<Rightarrow> ('w, reconcile_result) state" where
  "AddFinalizerAndRequeue sv ctx finalizerName =
     (case GetRuntimeObjectMeta ctx of
        Inl x \<Rightarrow> ret (RequeueIfError (Some x))
      | Inr runtime \<Rightarrow> do {
          let prevGeneration = om_Generation (rt_meta runtime) in do {
            u \<leftarrow> Update_AlluxioRuntime (sv_client sv)
              (set_finalizers runtime (om_Finalizers (rt_meta runtime) @ [finalizerName]));
            ret (case u of
               Inl x \<Rightarrow> RequeueIfError (Some x)
             | Inr updated \<Rightarrow>
                 RequeueImmediatelyUnlessGenerationChanged prevGeneration
                   (om_Generation (rt_meta updated)))
          }
        })"

definition ReconcileInternal ::
    "('w, 'q) services \<Rightarrow> 'q RuntimeReconciler \<Rightarrow> 'q ReconcileRequestContext
      \<Rightarrow> ('w, reconcile_result outcome \<times> 'q RuntimeReconciler) state" where
  "ReconcileInternal sv r ctx =
     (if ctx_Runtime ctx = None
      then ret (Ret (RequeueIfError (Some (ErrText ''failed to find the runtime''))), r)
      else do {
        (g, r) \<leftarrow> GetOrCreateEngine sv r ctx;
        case g of
          Inl x \<Rightarrow>
            ret (Ret (RequeueIfError (Some (ErrText (''Failed to create: '' @ err_msg x)))), r)
        | Inr engine \<Rightarrow>
            (case GetRuntimeObjectMeta ctx of
               Inl x \<Rightarrow> ret (Ret (RequeueIfError (Some x)), r)
             | Inr runtime \<Rightarrow>
                 (if HasDeletionTimestamp (rt_meta runtime) then do {
                    (d, engine) \<leftarrow> ReconcileRuntimeDeletion sv engine ctx;
                    case d of
                      Panic \<Rightarrow> ret (Panic, put_engine r ctx engine)
                    | Ret (result, err) \<Rightarrow>
                        ret (Ret (result, err),
                          if err \<noteq> None then RemoveEngine r ctx else put_engine r ctx engine)
                  }
                  else if \<not> ContainsString (om_Finalizers (rt_meta runtime)) (ctx_FinalizerName ctx)
                  then do {
                    res \<leftarrow> AddFinalizerAndRequeue sv ctx (ctx_FinalizerName ctx);
                    ret (Ret res, r)
                  } else do {
                    (res, engine) \<leftarrow> ReconcileRuntime sv engine ctx;
                    ret (Ret res, put_engine r ctx engine)
                  }))
      })"

definition Reconcile ::
    "('w, 'q) services \<Rightarrow> 'q RuntimeReconciler \<Rightarrow> nskey
      \<Rightarrow> ('w, reconcile_result outcome \<times> 'q RuntimeReconciler) state" where
  "Reconcile sv r req = do {
     g \<leftarrow> Get_AlluxioRuntime (sv_client sv) req;
     case g of
       Inl x \<Rightarrow>
         ret (Ret (if IgnoreNotFound (Some x) = None then NoRequeue
                   else RequeueIfError (Some (ErrText (''Unable to get ddc runtime: '' @ err_msg x)))), r)
     | Inr runtime \<Rightarrow>
         ReconcileInternal sv r \<lparr>ctx_Namespace = fst req, ctx_Name = snd req,
           ctx_RuntimeType = runtimeType, ctx_FinalizerName = runtimeResourceFinalizerName,
           ctx_Runtime = Some runtime\<rparr>
   }"

section \<open>Invariant of the controller\<close>

text \<open>
  Every engine in the map stands under its own identifier and is well formed.
\<close>

definition reconciler_inv :: "'q RuntimeReconciler \<Rightarrow> bool" where
  "reconciler_inv r \<longleftrightarrow> (\<forall>i te. rr_engines r i = Some te \<longrightarrow> te_Id te = i \<and>
     engine_wf (te_Implement te) \<and>
     GenerateEngineID (eng_namespace (te_Implement te)) (eng_name (te_Implement te)) = i)"

definition holds_engine :: "'q ReconcileRequestContext \<Rightarrow> 'q TemplateEngine \<Rightarrow> bool" where
  "holds_engine ctx te \<longleftrightarrow> te_Id te = engine_id ctx \<and> engine_wf (te_Implement te) \<and>
     GenerateEngineID (eng_namespace (te_Implement te)) (eng_name (te_Implement te)) = engine_id ctx"

lemma reconciler_inv_put:
  "reconciler_inv r \<Longrightarrow> holds_engine ctx te \<Longrightarrow> reconciler_inv (put_engine r ctx te)"
  by (auto simp: reconciler_inv_def put_engine_def holds_engine_def)

lemma reconciler_inv_remove: "reconciler_inv r \<Longrightarrow> reconciler_inv (RemoveEngine r ctx)"
  by (auto simp: reconciler_inv_def RemoveEngine_def)

lemma GetOrCreateEngine_inv:
  assumes "reconciler_inv r" "run_state (GetOrCreateEngine sv r ctx) w = ((g, r'), w')"
  shows "reconciler_inv r' \<and> (\<forall>te. g = Inr te \<longrightarrow> holds_engine ctx te \<and>
    rr_engines r' (engine_id ctx) = Some te)"
proof (cases "rr_engines r (engine_id ctx)")
  case (Some te)
  then show ?thesis
    using assms by (auto simp: GetOrCreateEngine_def reconciler_inv_def holds_engine_def run_simps)
next
  case None
  obtain c w1 where c: "run_state (CreateEngine sv (engine_id ctx) ctx) w = (c, w1)" by (metis surj_pair)
  show ?thesis
  proof (cases "\<exists>te. c = Inr (te, None)")
    case True
    then obtain te where te: "c = Inr (te, None)" by blast
    have "holds_engine ctx te"
      using CreateEngine_fresh [OF c [unfolded te]]
      by (auto simp: holds_engine_def fresh_engine_def engine_key_def engine_id_def)
    then show ?thesis
      using assms None c te
      by (auto simp: GetOrCreateEngine_def reconciler_inv_def holds_engine_def run_simps split: if_splits)
  next
    case False
    then show ?thesis
      using assms None c
      by (auto simp: GetOrCreateEngine_def run_simps split: sum.splits prod.splits option.splits)
  qed
qed

lemma holds_engine_step:
  "holds_engine ctx te \<Longrightarrow> engine_key e = engine_key (te_Implement te) \<Longrightarrow> engine_wf e \<Longrightarrow>
   holds_engine ctx (te\<lparr>te_Implement := e\<rparr>)"
  by (simp add: holds_engine_def engine_key_def)

lemma ReconcileRuntime_inv:
  assumes "holds_engine ctx te" "run_state (ReconcileRuntime sv te ctx) w = ((res, te'), w')"
  shows "holds_engine ctx te'"
proof -
  obtain e where e: "same_runtime (te_Implement te) e" "te' = te\<lparr>te_Implement := e\<rparr>"
    using assms(2) alluxio.Setup_same alluxio.same_refl
    by (fastforce simp: ReconcileRuntime_def run_simps Let_def split: prod.splits if_splits)
  have "engine_wf (te_Implement te)" using assms(1) by (simp add: holds_engine_def)
  then show ?thesis
    using holds_engine_step [OF assms(1), of e] e by (simp add: same_runtime_def)
qed

lemma ReconcileRuntimeDeletion_inv:
  assumes "holds_engine ctx te" "run_state (ReconcileRuntimeDeletion sv te ctx) w = ((d, te'), w')"
  shows "d \<noteq> Panic \<and> holds_engine ctx te'"
proof -
  obtain s e w1 where s: "run_state (Shutdown sv (te_Implement te)) w = ((s, e), w1)"
    by (metis surj_pair)
  have wf: "s \<noteq> Panic \<and> engine_wf e \<and> engine_key e = engine_key (te_Implement te)"
    using Shutdown_wf [OF _ s] assms(1) by (simp add: holds_engine_def)
  have "d \<noteq> Panic" "te' = te\<lparr>te_Implement := e\<rparr>"
    using assms(2) s wf
    by (auto simp: ReconcileRuntimeDeletion_def alluxio_implement_def run_simps Let_def
        split: prod.splits sum.splits option.splits outcome.splits if_splits)
  then show ?thesis using holds_engine_step [OF assms(1), of e] wf by simp
qed

lemma ReconcileInternal_inv:
  assumes "reconciler_inv r" "run_state (ReconcileInternal sv r ctx) w = ((res, r'), w')"
  shows "res \<noteq> Panic \<and> reconciler_inv r'"
proof -
  obtain g r1 w1 where g: "run_state (GetOrCreateEngine sv r ctx) w = ((g, r1), w1)"
    by (metis surj_pair)
  note inv = GetOrCreateEngine_inv [OF assms(1) g]
  show ?thesis
  proof (cases g)
    case (Inl x)
    then show ?thesis
      using assms g inv by (auto simp: ReconcileInternal_def run_simps split: if_splits)
  next
    case (Inr te)
    then have h: "holds_engine ctx te" and i: "reconciler_inv r1" using inv by auto
    show ?thesis
    proof (cases "ctx_Runtime ctx")
      case None
      then show ?thesis using assms by (auto simp: ReconcileInternal_def run_simps)
    next
      case (Some runtime)
      then consider (deletion) d te' w2 where
          "run_state (ReconcileRuntimeDeletion sv te ctx) w1 = ((d, te'), w2)" "res = d"
          "r' = put_engine r1 ctx te' \<or> r' = RemoveEngine r1 ctx"
        | (finalizer) x where "r' = r1" "res = Ret x"
        | (running) x te' w2 where "run_state (ReconcileRuntime sv te ctx) w1 = ((x, te'), w2)"
          "res = Ret x" "r' = put_engine r1 ctx te'"
        using assms(2) g Inr
        by (cases "HasDeletionTimestamp (rt_meta runtime)";
            cases "ContainsString (om_Finalizers (rt_meta runtime)) (ctx_FinalizerName ctx)")
          (auto simp: ReconcileInternal_def GetRuntimeObjectMeta_def run_simps
            split: prod.splits outcome.splits if_splits)
      then show ?thesis
      proof cases
        case deletion
        then show ?thesis
          using ReconcileRuntimeDeletion_inv [OF h deletion(1)] i
            reconciler_inv_put reconciler_inv_remove by blast
      next
        case finalizer
        then show ?thesis using i by simp
      next
        case running
        then show ?thesis using ReconcileRuntime_inv [OF h running(1)] i reconciler_inv_put by blast
      qed
    qed
  qed
qed

lemma Reconcile_inv:
  assumes "reconciler_inv r" "run_state (Reconcile sv r req) w = ((res, r'), w')"
  shows "res \<noteq> Panic \<and> reconciler_inv r'"
proof (cases "run_state (Get_AlluxioRuntime (sv_client sv) req) w")
  case (Pair g w1)
  show ?thesis
  proof (cases g)
    case (Inl x)
    then show ?thesis using assms Pair by (auto simp: Reconcile_def run_simps)
  next
    case (Inr runtime)
    then show ?thesis
      using assms(2) Pair ReconcileInternal_inv [OF assms(1)] by (simp add: Reconcile_def run_simps)
  qed
qed

text \<open>The states of the controller that sequences of requests reach, in any worlds.\<close>

inductive reachable :: "('w, 'q) services \<Rightarrow> 'q RuntimeReconciler \<Rightarrow> bool"
  for sv where
  new_controller: "reachable sv \<lparr>rr_engines = Map.empty\<rparr>"
| request: "reachable sv r \<Longrightarrow> run_state (Reconcile sv r req) w = ((res, r'), w') \<Longrightarrow> reachable sv r'"

lemma reachable_inv: "reachable sv r \<Longrightarrow> reconciler_inv r"
proof (induction rule: reachable.induct)
  case new_controller
  then show ?case by (simp add: reconciler_inv_def)
next
  case (request r req w res r' w')
  then show ?case using Reconcile_inv [OF request.IH request.hyps(2)] by simp
qed

section \<open>Properties\<close>

text \<open>
  C7: In every state that the controller can reach, every engine in the map stands under its own
  identifier, has a retry counter between 0 and 5 and no open channel; and no request panics, whatever the
  cluster answers.
\<close>

theorem Reconcile_never_panics:
  assumes "reachable sv r"
  shows "reconciler_inv r \<and> fst (fst (run_state (Reconcile sv r req) w)) \<noteq> Panic"
proof -
  obtain res r' w' where run: "run_state (Reconcile sv r req) w = ((res, r'), w')" by (metis surj_pair)
  then show ?thesis
    using Reconcile_inv [OF reachable_inv [OF assms] run] reachable_inv [OF assms] by simp
qed

theorem Reconcile_never_panics_witness:
  "fst (fst (run_state (Reconcile demo_services \<lparr>rr_engines = Map.empty\<rparr> (''default'', ''demo''))
     (demo_cluster 1 2))) \<noteq> Panic"
  using Reconcile_never_panics [OF new_controller, of demo_services "(''default'', ''demo'')"
      "demo_cluster 1 2"] by blast

text \<open>
  C9: The finalizer goes last. Unless the engine was shut down with success, the deletion writes nothing
  after the shutdown and the request is repeated after 20 seconds; after a successful shutdown, a
  deletion that returns no error has stored the runtime without the finalizer of the controller.
\<close>

theorem finalizer_removed_after_shutdown:
  assumes "update_runtime_contract (sv_client sv) stored"
    and "ctx_Runtime ctx = Some rt" "HasDeletionTimestamp (rt_meta rt)"
    and "run_state (Shutdown sv (te_Implement te)) w = ((s, e), w1)"
    and "run_state (ReconcileRuntimeDeletion sv te ctx) w = ((d, te'), w')"
  shows "te_Implement te' = e \<and>
    (s \<noteq> Ret None \<longrightarrow> w' = w1 \<and> (d = Panic \<or> d = Ret (RequeueAfterInterval (20 * second)))) \<and>
    (s = Ret None \<and> (\<exists>res. d = Ret (res, None)) \<longrightarrow>
       (\<exists>r. stored w' (meta_key (rt_meta rt)) = Some r \<and>
          ctx_FinalizerName ctx \<notin> set (om_Finalizers (rt_meta r))))"
proof (cases "s = Ret None")
  case True
  let ?rt = "set_finalizers rt (RemoveString (om_Finalizers (rt_meta rt)) (ctx_FinalizerName ctx))"
  obtain u w2 where u: "run_state (Update_AlluxioRuntime (sv_client sv) ?rt) w1 = (u, w2)"
    by (metis surj_pair)
  have run: "te_Implement te' = e" "w' = w2"
    "d = Ret (case u of Inl x \<Rightarrow> RequeueIfError (Some x) | Inr _ \<Rightarrow> NoRequeue)"
    using assms(2-5) True u
    by (auto simp: ReconcileRuntimeDeletion_def alluxio_implement_def GetRuntimeObjectMeta_def
        run_simps)
  have key: "meta_key (rt_meta ?rt) = meta_key (rt_meta rt)"
    by (simp add: set_finalizers_def meta_key_def)
  have "ctx_FinalizerName ctx \<notin> set (om_Finalizers (rt_meta ?rt))"
    by (simp add: set_finalizers_def RemoveString_filter)
  moreover have "\<exists>r. stored w2 (meta_key (rt_meta rt)) = Some r \<and>
      om_Finalizers (rt_meta r) = om_Finalizers (rt_meta ?rt)" if "u = Inr v" for v
    using assms(1) u that key unfolding update_runtime_contract_def by metis
  ultimately show ?thesis
    using run True by (cases u) (auto simp: RequeueIfError_def NoRequeue_def)
next
  case False
  then show ?thesis
    using assms(4,5)
    by (cases s) (auto simp: ReconcileRuntimeDeletion_def alluxio_implement_def run_simps)
qed

text \<open>The runtime under deletion, and the request for it.\<close>

definition dying_runtime :: "int64 AlluxioRuntime" where
  "dying_runtime = demo_runtime\<lparr>rt_meta := (named_meta ''default'' ''demo'')
     \<lparr>om_DeletionTimestamp := Some 7, om_Finalizers := [runtimeResourceFinalizerName]\<rparr>\<rparr>"

definition demo_ctx :: "int64 ReconcileRequestContext" where
  "demo_ctx = \<lparr>ctx_Namespace = ''default'', ctx_Name = ''demo'', ctx_RuntimeType = runtimeType,
     ctx_FinalizerName = runtimeResourceFinalizerName, ctx_Runtime = Some dying_runtime\<rparr>"

definition tired_template :: "int64 TemplateEngine" where
  "tired_template = \<lparr>te_Implement = tired_engine, te_Id = ''default-demo'', te_Context = demo_ctx\<rparr>"

lemma dying: "ctx_Runtime demo_ctx = Some dying_runtime" "HasDeletionTimestamp (rt_meta dying_runtime)"
  by (simp_all add: demo_ctx_def dying_runtime_def HasDeletionTimestamp_def)

theorem finalizer_removed_after_shutdown_witness:
  "\<exists>w1. run_state (ReconcileRuntimeDeletion demo_services
       \<lparr>te_Implement = demo_engine, te_Id = ''default-demo'', te_Context = demo_ctx\<rparr> demo_ctx)
       (demo_cluster 0 2) =
     ((Ret (RequeueAfterInterval (20 * second)),
       \<lparr>te_Implement = demo_engine\<lparr>eng_retryShutdown := 1\<rparr>, te_Id = ''default-demo'',
        te_Context = demo_ctx\<rparr>), w1)"
proof -
  let ?te = "\<lparr>te_Implement = demo_engine, te_Id = ''default-demo'', te_Context = demo_ctx\<rparr>"
  let ?w = "demo_cluster 0 2"
  obtain s e w1 where s: "run_state (Shutdown demo_services (te_Implement ?te)) ?w = ((s, e), w1)"
    by (metis surj_pair)
  obtain d te' w' where d: "run_state (ReconcileRuntimeDeletion demo_services ?te demo_ctx) ?w = ((d, te'), w')"
    by (metis surj_pair)
  have "cleanup_fails demo_services demo_engine ?w" unfolding cleanup_fails_def by code_simp
  then have e: "e = demo_engine\<lparr>eng_retryShutdown := 1\<rparr>" "\<exists>x. s = Ret (Some x)"
    using Shutdown_stopped s by (fastforce simp: demo_engine_def)+
  have "update_runtime_contract (sv_client demo_services) runtime_at"
    using fake_update_runtime by (simp add: demo_services_def)
  from finalizer_removed_after_shutdown [OF this dying s d] e
  have "te_Implement te' = demo_engine\<lparr>eng_retryShutdown := 1\<rparr>"
    "d = Panic \<or> d = Ret (RequeueAfterInterval (20 * second))"
    by auto
  moreover have "d \<noteq> Panic" "te_Id te' = ''default-demo''" "te_Context te' = demo_ctx"
    using d s e by (auto simp: ReconcileRuntimeDeletion_def alluxio_implement_def run_simps)
  ultimately show ?thesis using d by (cases te') auto
qed

text \<open>
  C29: The engine of a deleted runtime stays. A deletion that returns no error leaves the engine, with its cached
  runtime information and its retry counter, in the map, and a later request under the same
  identifier gets that engine; only a deletion that returns an error removes it.
\<close>

theorem deleted_runtime_keeps_engine:
  assumes "ctx_Runtime ctx = Some rt" "HasDeletionTimestamp (rt_meta rt)"
    and "rr_engines r (engine_id ctx) = Some te"
    and "run_state (ReconcileRuntimeDeletion sv te ctx) w = ((Ret (res, err), te'), w')"
    and "engine_id ctx2 = engine_id ctx"
  shows "\<exists>r'. run_state (ReconcileInternal sv r ctx) w = ((Ret (res, err), r'), w') \<and>
    (if err = None then run_state (GetOrCreateEngine sv r' ctx2) w2 = ((Inr te', r'), w2)
     else rr_engines r' (engine_id ctx2) = None)"
  using assms
  by (auto simp: ReconcileInternal_def GetOrCreateEngine_def GetRuntimeObjectMeta_def put_engine_def
      RemoveEngine_def run_simps)

theorem deleted_runtime_keeps_engine_witness:
  "\<exists>r' w' te. run_state (ReconcileInternal demo_services
       \<lparr>rr_engines = [''default-demo'' \<mapsto> tired_template]\<rparr> demo_ctx)
       ((demo_cluster 1 2)\<lparr>fc_runtimes := [(''default'', ''demo'') \<mapsto> dying_runtime]\<rparr>) =
       ((Ret NoRequeue, r'), w') \<and>
     run_state (GetOrCreateEngine demo_services r' demo_ctx) cluster0 = ((Inr te, r'), cluster0)"
proof -
  let ?w = "(demo_cluster 1 2)\<lparr>fc_runtimes := [(''default'', ''demo'') \<mapsto> dying_runtime]\<rparr>"
  let ?r = "\<lparr>rr_engines = [''default-demo'' \<mapsto> tired_template]\<rparr>"
  have "fst (fst (run_state (Shutdown demo_services tired_engine) ?w)) = Ret None"
    by (simp add: Shutdown_def shutdown_rest_def tired_engine_def demo_engine_def run_simps
        close_channel_def destroyWorkers_def getRuntimeInfo_def demo_services_def fake_client_def
        fake_parse_def demo_cluster_def cluster0_def Let_def sample_node_def destroyMaster_def
        CheckRelease_def fixed_os_def DeleteRelease_def proc_output_def cleanAll_def
        DeleteConfigMap_def fake_lookup_def configmap_at_def)
  moreover have "snd (run_state (Shutdown demo_services tired_engine) ?w) = ?w"
    by (simp add: Shutdown_def shutdown_rest_def tired_engine_def demo_engine_def run_simps
        close_channel_def destroyWorkers_def getRuntimeInfo_def demo_services_def fake_client_def
        fake_parse_def demo_cluster_def cluster0_def Let_def sample_node_def destroyMaster_def
        CheckRelease_def fixed_os_def DeleteRelease_def proc_output_def cleanAll_def
        DeleteConfigMap_def fake_lookup_def configmap_at_def)
  ultimately obtain e where s: "run_state (Shutdown demo_services tired_engine) ?w = ((Ret None, e), ?w)"
    by (metis prod.collapse)
  obtain te' w' where
    d: "run_state (ReconcileRuntimeDeletion demo_services tired_template demo_ctx) ?w =
      ((Ret NoRequeue, te'), w')"
    using s dying
    by (auto simp: ReconcileRuntimeDeletion_def alluxio_implement_def tired_template_def run_simps
        GetRuntimeObjectMeta_def demo_services_def fake_client_def runtime_at_def set_finalizers_def
        dying_runtime_def named_meta_def meta_key_def)
  have i: "rr_engines ?r (engine_id demo_ctx) = Some tired_template"
    by (simp add: engine_id_def GenerateEngineID_def demo_ctx_def)
  have n: "NoRequeue = (\<lparr>res_Requeue = False, res_RequeueAfter = 0\<rparr>, None)"
    by (simp add: NoRequeue_def RequeueIfError_def)
  show ?thesis
    using deleted_runtime_keeps_engine [OF dying i d [unfolded n] refl, of cluster0] unfolding n by auto
qed

text \<open>
  C30: Identifiers of engines. They tell requests apart as long as the namespaces contain no
  hyphen; in general they do not: whenever a hyphen can be moved from the namespace into the name, the two
  requests have one identifier, and the second one gets the engine of the first, which works on the first one's
  objects.
\<close>

theorem engine_identifiers:
  shows "(CHR ''-'' \<notin> set ns \<and> CHR ''-'' \<notin> set ns' \<and>
      GenerateEngineID ns n = GenerateEngineID ns' n' \<longrightarrow> ns = ns' \<and> n = n') \<and>
    GenerateEngineID (a @ ''-'' @ b) c = GenerateEngineID a (b @ ''-'' @ c) \<and>
    (ctx_Namespace ctx = a @ ''-'' @ b \<longrightarrow> ctx_Name ctx = c \<longrightarrow>
     ctx_Namespace ctx2 = a \<longrightarrow> ctx_Name ctx2 = b @ ''-'' @ c \<longrightarrow>
     run_state (CreateEngine sv (engine_id ctx) ctx) w = (Inr (te, None), w1) \<longrightarrow>
     rr_engines r (engine_id ctx) = None \<longrightarrow>
     (\<exists>r1. run_state (GetOrCreateEngine sv r ctx) w = ((Inr te, r1), w1) \<and>
       run_state (GetOrCreateEngine sv r1 ctx2) w2 = ((Inr te, r1), w2) \<and>
       engine_key (te_Implement te) = (a @ ''-'' @ b, c)))"
proof -
  have "ns = ns' \<and> n = n'"
    if "CHR ''-'' \<notin> set ns" "CHR ''-'' \<notin> set ns'" "GenerateEngineID ns n = GenerateEngineID ns' n'"
  proof -
    have "takeWhile (\<lambda>c. c \<noteq> CHR ''-'') (m @ ''-'' @ k) = m" if "CHR ''-'' \<notin> set m" for m k
      using that by (subst takeWhile_append2) auto
    then have "ns = ns'" using that by (metis GenerateEngineID_def)
    then show ?thesis using that(3) by (simp add: GenerateEngineID_def)
  qed
  moreover have shift: "GenerateEngineID (a @ ''-'' @ b) c = GenerateEngineID a (b @ ''-'' @ c)"
    by (simp add: GenerateEngineID_def)
  moreover have "engine_id ctx2 = engine_id ctx"
    if "ctx_Namespace ctx = a @ ''-'' @ b" "ctx_Name ctx = c" "ctx_Namespace ctx2 = a"
      "ctx_Name ctx2 = b @ ''-'' @ c"
    using that shift by (simp add: engine_id_def)
  ultimately show ?thesis
    using CreateEngine_fresh [of sv "engine_id ctx" ctx w te None w1]
    by (auto simp: GetOrCreateEngine_def run_simps fresh_engine_def)
qed

definition request_for :: "string \<Rightarrow> string \<Rightarrow> int64 ReconcileRequestContext" where
  "request_for namespace name = demo_ctx\<lparr>ctx_Namespace := namespace, ctx_Name := name\<rparr>"

definition hyphen_cluster :: cluster where
  "hyphen_cluster = cluster0\<lparr>fc_runtimes :=
     [(''a-b'', ''c'') \<mapsto> demo_runtime\<lparr>rt_meta := named_meta ''a-b'' ''c''\<rparr>]\<rparr>"

theorem engine_identifiers_witness:
  "\<exists>te r1 w1. run_state (GetOrCreateEngine demo_services \<lparr>rr_engines = Map.empty\<rparr>
       (request_for ''a-b'' ''c'')) hyphen_cluster = ((Inr te, r1), w1) \<and>
     run_state (GetOrCreateEngine demo_services r1 (request_for ''a'' ''b-c'')) w1 = ((Inr te, r1), w1) \<and>
     engine_key (te_Implement te) = (''a-b'', ''c'')"
proof -
  let ?ctx = "request_for ''a-b'' ''c''"
  let ?c = "run_state (CreateEngine demo_services (engine_id ?ctx) ?ctx) hyphen_cluster"
  have "case fst ?c of Inr (te, err) \<Rightarrow> err = None | Inl _ \<Rightarrow> False" by code_simp
  then obtain te w1 where c: "?c = (Inr (te, None), w1)"
    by (cases ?c) (auto split: sum.splits)
  have names: "ctx_Namespace ?ctx = ''a'' @ ''-'' @ ''b''" "ctx_Name ?ctx = ''c''"
    "ctx_Namespace (request_for ''a'' ''b-c'') = ''a''"
    "ctx_Name (request_for ''a'' ''b-c'') = ''b'' @ ''-'' @ ''c''"
    by (simp_all add: request_for_def)
  have fresh: "rr_engines \<lparr>rr_engines = Map.empty\<rparr> (engine_id ?ctx) = None" by simp
  obtain r1 where
    "run_state (GetOrCreateEngine demo_services \<lparr>rr_engines = Map.empty\<rparr> ?ctx) hyphen_cluster =
      ((Inr te, r1), w1)"
    "run_state (GetOrCreateEngine demo_services r1 (request_for ''a'' ''b-c'')) w1 = ((Inr te, r1), w1)"
    "engine_key (te_Implement te) = (''a'' @ ''-'' @ ''b'', ''c'')"
    using engine_identifiers [THEN conjunct2, THEN conjunct2, rule_format, OF names c fresh] by blast
  then show ?thesis by (intro exI conjI) simp_all
qed

end
