(* ===== verification/Deletion.thy ===== *)
theory Deletion
  imports RuntimeController
begin

text \<open>
  Repeated requests for a runtime under deletion: with the shutdown of \<open>EngineShutdown\<close> and the
  controller of \<open>RuntimeController\<close> together, a deletion goes through within six requests when the steps
  after the clean-up of the cache succeed, whatever becomes of the clean-up.
\<close>

section \<open>Sequences of requests\<close>

text \<open>The work queue hands the same request to the controller again; the map of engines stays.\<close>

primrec repeat_request ::
    "('w, 'q) services \<Rightarrow> 'q ReconcileRequestContext \<Rightarrow> nat \<Rightarrow> 'q RuntimeReconciler
      \<Rightarrow> ('w, reconcile_result outcome list \<times> 'q RuntimeReconciler) state" where
  "repeat_request sv ctx 0 r = ret ([], r)"
| "repeat_request sv ctx (Suc n) r = do {
     (res, r) \<leftarrow> ReconcileInternal sv r ctx;
     (more, r) \<leftarrow> repeat_request sv ctx n r;
     ret (res # more, r)
   }"

text \<open>
  Worlds in which the clean-up may do what it likes but the later steps succeed: the steps after
  the clean-up, for the given engine with any retry counter, and the update that removes the finalizer.
\<close>

definition deletable ::
    "('w, 'q) services \<Rightarrow> 'q AlluxioEngine \<Rightarrow> 'q AlluxioRuntime \<Rightarrow> ('w \<Rightarrow> bool) \<Rightarrow> bool" where
  "deletable sv e0 bare I \<longleftrightarrow>
     (\<forall>c w. I w \<longrightarrow> (let e = e0\<lparr>eng_retryShutdown := c\<rparr> in
        I (snd (run_state (cleanupCache sv e) w)) \<and>
        fst (fst (run_state (shutdown_rest sv e) w)) = Ret None \<and>
        I (snd (run_state (shutdown_rest sv e) w)))) \<and>
     (\<forall>w. I w \<longrightarrow> (\<exists>r. fst (run_state (Update_AlluxioRuntime (sv_client sv) bare) w) = Inr r))"

text \<open>One shutdown: a failed clean-up counts, otherwise it succeeds.\<close>

lemma Shutdown_deletable:
  assumes del: "deletable sv e0 bare I" and "I w" "engine_wf e" "e = e0\<lparr>eng_retryShutdown := c\<rparr>"
    and run: "run_state (Shutdown sv e) w = ((s, e'), w')"
  shows "I w' \<and> (s = Ret None \<or>
    (\<exists>x. s = Ret (Some x)) \<and> sint (eng_retryShutdown e) < 5 \<and> e' = e\<lparr>eng_retryShutdown := eng_retryShutdown e + 1\<rparr>)"
proof -
  have c: "I (snd (run_state (cleanupCache sv e) w))"
    and rest: "\<And>w. I w \<Longrightarrow> fst (fst (run_state (shutdown_rest sv e) w)) = Ret None \<and>
      I (snd (run_state (shutdown_rest sv e) w))"
    using del assms(2,4) unfolding deletable_def Let_def by blast+
  obtain r w1 where cl: "run_state (cleanupCache sv e) w = (r, w1)" by (metis surj_pair)
  have "eng_gracefulShutdownLimits e = 5" using assms(3) by (simp add: engine_wf_def)
  then show ?thesis
    using run cl c rest [of w] rest [of w1] assms(2)
    by (cases r) (auto simp: Shutdown_def run_simps split: if_splits)
qed

definition without_finalizer :: "'q ReconcileRequestContext \<Rightarrow> 'q AlluxioRuntime \<Rightarrow> 'q AlluxioRuntime" where
  "without_finalizer ctx rt =
     set_finalizers rt (RemoveString (om_Finalizers (rt_meta rt)) (ctx_FinalizerName ctx))"

text \<open>The engine in the map is the given one, with the given counter.\<close>

definition holds ::
    "'q RuntimeReconciler \<Rightarrow> 'q ReconcileRequestContext \<Rightarrow> 'q AlluxioEngine \<Rightarrow> nat \<Rightarrow> bool" where
  "holds r ctx e0 k \<longleftrightarrow> (\<exists>te c. rr_engines r (engine_id ctx) = Some te \<and> engine_wf (te_Implement te) \<and>
     te_Implement te = e0\<lparr>eng_retryShutdown := c\<rparr> \<and> sint (eng_retryShutdown (te_Implement te)) = int k)"

lemma deletion_request:
  assumes del: "deletable sv e0 (without_finalizer ctx rt) I" and "I w"
    and rt: "ctx_Runtime ctx = Some rt" "HasDeletionTimestamp (rt_meta rt)"
    and h: "holds r ctx e0 k"
    and upd: "update_runtime_contract (sv_client sv) stored"
  obtains (again) r' w' where "k < 5" "holds r' ctx e0 (Suc k)" "I w'"
      "run_state (ReconcileInternal sv r ctx) w = ((Ret (RequeueAfterInterval (20 * second)), r'), w')"
  | (gone) r' w' d where "run_state (ReconcileInternal sv r ctx) w = ((Ret NoRequeue, r'), w')"
      "stored w' (meta_key (rt_meta rt)) = Some d" "ctx_FinalizerName ctx \<notin> set (om_Finalizers (rt_meta d))"
proof -
  let ?bare = "without_finalizer ctx rt"
  obtain te c where te: "rr_engines r (engine_id ctx) = Some te" "engine_wf (te_Implement te)"
    "te_Implement te = e0\<lparr>eng_retryShutdown := c\<rparr>" "sint (eng_retryShutdown (te_Implement te)) = int k"
    using h unfolding holds_def by blast
  obtain s e w1 where s: "run_state (Shutdown sv (te_Implement te)) w = ((s, e), w1)" by (metis surj_pair)
  note step = Shutdown_deletable [OF del assms(2) te(2,3) s]
  have wf: "engine_wf e" using Shutdown_wf [OF te(2) s] by auto
  show thesis
  proof (cases "s = Ret None")
    case False
    then obtain x where x: "s = Ret (Some x)" "k < 5" "I w1"
      and e: "e = (te_Implement te)\<lparr>eng_retryShutdown := eng_retryShutdown (te_Implement te) + 1\<rparr>"
      using step te(4) by auto
    have "sint (eng_retryShutdown e) = int (Suc k)"
      using sint32_add [of "eng_retryShutdown (te_Implement te)" 1] te(4) x(2) e by simp
    then have "holds (put_engine r ctx (te\<lparr>te_Implement := e\<rparr>)) ctx e0 (Suc k)"
      using wf e te(3) by (auto simp: holds_def put_engine_def intro!: exI [of _ "c + 1"])
    then show thesis
      using again x s te(1) rt
      by (auto simp: ReconcileInternal_def GetOrCreateEngine_def GetRuntimeObjectMeta_def
          ReconcileRuntimeDeletion_def alluxio_implement_def run_simps RequeueAfterInterval_def)
  next
    case True
    then have "I w1" using step by blast
    then obtain d w2 where u: "run_state (Update_AlluxioRuntime (sv_client sv) ?bare) w1 = (Inr d, w2)"
      using del unfolding deletable_def by (metis prod.collapse)
    have "stored w2 (meta_key (rt_meta ?bare)) = Some d"
      "om_Finalizers (rt_meta d) = om_Finalizers (rt_meta ?bare)"
      using upd u unfolding update_runtime_contract_def by blast+
    then have d: "stored w2 (meta_key (rt_meta rt)) = Some d"
      "ctx_FinalizerName ctx \<notin> set (om_Finalizers (rt_meta d))"
      by (simp_all add: without_finalizer_def set_finalizers_def meta_key_def RemoveString_filter)
    have "run_state (ReconcileInternal sv r ctx) w =
        ((Ret NoRequeue, put_engine r ctx (te\<lparr>te_Implement := e\<rparr>)), w2)"
      using True s te(1) rt u unfolding without_finalizer_def
      by (simp add: ReconcileInternal_def GetOrCreateEngine_def GetRuntimeObjectMeta_def
          ReconcileRuntimeDeletion_def alluxio_implement_def run_simps NoRequeue_def RequeueIfError_def)
    then show thesis using gone d by blast
  qed
qed

lemma deletion_requests:
  assumes del: "deletable sv e0 (without_finalizer ctx rt) I"
    and rt: "ctx_Runtime ctx = Some rt" "HasDeletionTimestamp (rt_meta rt)"
    and upd: "update_runtime_contract (sv_client sv) stored"
    and "I w" "holds r ctx e0 k" "k + m = 5"
  shows "\<exists>n r' w' d. n \<le> m \<and> run_state (repeat_request sv ctx (Suc n) r) w =
      ((replicate n (Ret (RequeueAfterInterval (20 * second))) @ [Ret NoRequeue], r'), w') \<and>
    stored w' (meta_key (rt_meta rt)) = Some d \<and> ctx_FinalizerName ctx \<notin> set (om_Finalizers (rt_meta d))"
  using assms(5-7)
proof (induction m arbitrary: k r w)
  case (0 k r w)
  consider (again) r1 w1 where "k < 5" "holds r1 ctx e0 (Suc k)" "I w1"
      "run_state (ReconcileInternal sv r ctx) w = ((Ret (RequeueAfterInterval (20 * second)), r1), w1)"
    | (gone) r1 w1 d where "run_state (ReconcileInternal sv r ctx) w = ((Ret NoRequeue, r1), w1)"
      "stored w1 (meta_key (rt_meta rt)) = Some d" "ctx_FinalizerName ctx \<notin> set (om_Finalizers (rt_meta d))"
    by (rule deletion_request [OF del 0(1) rt 0(2) upd])
  then show ?case
  proof cases
    case again
    then show ?thesis using 0(3) by simp
  next
    case gone
    then show ?thesis by (intro exI [of _ 0]) (auto simp: run_simps)
  qed
next
  case (Suc m k r w)
  consider (again) r1 w1 where "k < 5" "holds r1 ctx e0 (Suc k)" "I w1"
      "run_state (ReconcileInternal sv r ctx) w = ((Ret (RequeueAfterInterval (20 * second)), r1), w1)"
    | (gone) r1 w1 d where "run_state (ReconcileInternal sv r ctx) w = ((Ret NoRequeue, r1), w1)"
      "stored w1 (meta_key (rt_meta rt)) = Some d" "ctx_FinalizerName ctx \<notin> set (om_Finalizers (rt_meta d))"
    by (rule deletion_request [OF del Suc.prems(1) rt Suc.prems(2) upd])
  then show ?case
  proof cases
    case again
    have "Suc k + m = 5" using Suc.prems(3) by simp
    from Suc.IH [OF again(3,2) this] obtain n r' w' d where
      n: "n \<le> m" "run_state (repeat_request sv ctx (Suc n) r1) w1 =
        ((replicate n (Ret (RequeueAfterInterval (20 * second))) @ [Ret NoRequeue], r'), w')"
      "stored w' (meta_key (rt_meta rt)) = Some d" "ctx_FinalizerName ctx \<notin> set (om_Finalizers (rt_meta d))"
      by blast
    have "run_state (repeat_request sv ctx (Suc (Suc n)) r) w =
        ((replicate (Suc n) (Ret (RequeueAfterInterval (20 * second))) @ [Ret NoRequeue], r'), w')"
      unfolding repeat_request.simps(2) [of sv ctx "Suc n"]
      using again(4) n(2) by (simp add: run_simps del: repeat_request.simps)
    then show ?thesis using n by (intro exI [of _ "Suc n"]) auto
  next
    case gone
    then show ?thesis by (intro exI [of _ 0]) (auto simp: run_simps)
  qed
qed

section \<open>Property\<close>

text \<open>
  C10: A deletion goes through. When the steps after the clean-up of the cache succeed in the worlds that the
  requests visit, then the requests for a runtime under deletion end after at most five that ask to be
  repeated in one that removes the finalizer: however often the clean-up fails, and also when
  it always reports failure as it does after a successful one.
\<close>

theorem deletion_completes:
  assumes "reconciler_inv r" "rr_engines r (engine_id ctx) = Some te"
    and "ctx_Runtime ctx = Some rt" "HasDeletionTimestamp (rt_meta rt)"
    and "update_runtime_contract (sv_client sv) stored"
    and "deletable sv (te_Implement te) (without_finalizer ctx rt) I" "I w"
  shows "\<exists>n r' w' d. n \<le> 5 \<and> run_state (repeat_request sv ctx (Suc n) r) w =
      ((replicate n (Ret (RequeueAfterInterval (20 * second))) @ [Ret NoRequeue], r'), w') \<and>
    stored w' (meta_key (rt_meta rt)) = Some d \<and> ctx_FinalizerName ctx \<notin> set (om_Finalizers (rt_meta d))"
proof -
  have wf: "engine_wf (te_Implement te)"
    using assms(1,2) by (simp add: reconciler_inv_def)
  obtain k where k: "sint (eng_retryShutdown (te_Implement te)) = int k" "k \<le> 5"
    using wf by (metis engine_wf_def int_nat_eq nat_le_iff of_nat_numeral)
  moreover have "te_Implement te = (te_Implement te)\<lparr>eng_retryShutdown := eng_retryShutdown (te_Implement te)\<rparr>"
    by simp
  ultimately have "holds r ctx (te_Implement te) k"
    using wf assms(2) unfolding holds_def by blast
  moreover have "k + (5 - k) = 5" using k(2) by simp
  ultimately obtain n r' w' d where "n \<le> 5 - k"
    "run_state (repeat_request sv ctx (Suc n) r) w =
      ((replicate n (Ret (RequeueAfterInterval (20 * second))) @ [Ret NoRequeue], r'), w')"
    "stored w' (meta_key (rt_meta rt)) = Some d" "ctx_FinalizerName ctx \<notin> set (om_Finalizers (rt_meta d))"
    using deletion_requests [OF assms(6,3,4,5,7)] by blast
  then show ?thesis using diff_le_self le_trans by blast
qed

definition dying_cluster :: cluster where
  "dying_cluster = (demo_cluster 1 2)\<lparr>fc_runtimes := [(''default'', ''demo'') \<mapsto> dying_runtime]\<rparr>"

definition fresh_template :: "int64 TemplateEngine" where
  "fresh_template = tired_template\<lparr>te_Implement := tired_engine\<lparr>eng_retryShutdown := 0\<rparr>\<rparr>"

lemma dying_cleanup: "snd (run_state (cleanupCache demo_services e) w) = w"
proof -
  have prim: "leaves (\<lambda>w. w) (Get_StatefulSet (sv_client demo_services) k)"
    "leaves (\<lambda>w. w) (RawExec (sv_exec demo_services) p)"
    "leaves (\<lambda>w. w) (TimerFires (sv_exec demo_services) t)"
    "leaves (\<lambda>w. w) (Sleep (sv_exec demo_services) d)" for k p t d
    by (simp_all add: demo_services_def fake_client_def fake_lookup_def leaves_def echo_exec_def)
  have "leaves (\<lambda>w. w) (cleanupCache demo_services e)"
    unfolding cleanupCache_def invokeCleanCache_def getMasterStatefulset_def CleanCache_def run_out_def run_only_def
      afu_exec_def execWithoutTimeout_def ExecCommandInContainer_def ExecCommandInContainerWithFullOutput_def
      ExecWithOptions_def
    by (intro leaves_intros prim)
  then show ?thesis by (simp add: leaves_def)
qed

lemma dying_rest:
  "fst (fst (run_state (shutdown_rest demo_services (tired_engine\<lparr>eng_retryShutdown := c\<rparr>)) dying_cluster)) = Ret None \<and>
   snd (run_state (shutdown_rest demo_services (tired_engine\<lparr>eng_retryShutdown := c\<rparr>)) dying_cluster) = dying_cluster"
  by (simp add: shutdown_rest_def tired_engine_def demo_engine_def run_simps
      close_channel_def destroyWorkers_def getRuntimeInfo_def demo_services_def fake_client_def dying_cluster_def
      fake_parse_def demo_cluster_def cluster0_def Let_def sample_node_def destroyMaster_def
      CheckRelease_def fixed_os_def DeleteRelease_def proc_output_def cleanAll_def
      DeleteConfigMap_def fake_lookup_def configmap_at_def)

theorem deletion_completes_witness:
  "\<exists>n r' w' d. n \<le> 5 \<and> run_state (repeat_request demo_services demo_ctx (Suc n)
       \<lparr>rr_engines = [''default-demo'' \<mapsto> fresh_template]\<rparr>) dying_cluster =
      ((replicate n (Ret (RequeueAfterInterval (20 * second))) @ [Ret NoRequeue], r'), w') \<and>
    runtime_at w' (''default'', ''demo'') = Some d \<and>
    runtimeResourceFinalizerName \<notin> set (om_Finalizers (rt_meta d))"
proof -
  let ?r = "\<lparr>rr_engines = [''default-demo'' \<mapsto> fresh_template]\<rparr>"
  have inv: "reconciler_inv ?r"
    by (simp add: reconciler_inv_def fresh_template_def tired_template_def tired_engine_def demo_engine_def
        engine_wf_def GenerateEngineID_def)
  have at: "rr_engines ?r (engine_id demo_ctx) = Some fresh_template"
    by (simp add: engine_id_def demo_ctx_def GenerateEngineID_def)
  have upd: "update_runtime_contract (sv_client demo_services) runtime_at"
    using fake_update_runtime by (simp add: demo_services_def)
  have "deletable demo_services (te_Implement fresh_template) (without_finalizer demo_ctx dying_runtime)
      (\<lambda>w. w = dying_cluster)"
    by (simp add: deletable_def fresh_template_def dying_cleanup dying_rest)
      (simp add: demo_services_def fake_client_def dying_cluster_def runtime_at_def without_finalizer_def
        set_finalizers_def dying_runtime_def meta_key_def named_meta_def)
  from deletion_completes [OF inv at dying upd this refl]
  show ?thesis by (simp add: dying_runtime_def demo_ctx_def meta_key_def named_meta_def)
qed

end
