(* ===== verification/CachedInfo.thy ===== *)
theory CachedInfo
  imports RuntimeController
begin

text \<open>
  The runtime information that an engine caches, along everything a controller does: it always belongs to
  the engine that holds it and its tiered store is well formed. The contract of an implementation
  (\<open>implement\<close>) is instantiated a second time for it. Scaling in relies on this: it takes away
  from a node what the scheduler's unlabelling takes away.
\<close>

section \<open>Well-formed information\<close>

text \<open>A level has at least one path; a path has no comma and no slash at its end.\<close>

definition level_typed :: "'q Level \<Rightarrow> bool" where
  "level_typed l \<longleftrightarrow> level_CachePaths l \<noteq> [] \<and>
     (\<forall>p \<in> set (level_CachePaths l). CHR '','' \<notin> set (cp_Path p) \<and> \<not> has_suffix (cp_Path p) ''/'')"

definition info_of :: "'q AlluxioEngine \<Rightarrow> 'q RuntimeInfo \<Rightarrow> bool" where
  "info_of e info \<longleftrightarrow> info_name info = eng_name e \<and> info_namespace info = eng_namespace e \<and>
     info_runtimeType info = eng_runtimeType e \<and> \<not> info_exclusive info \<and>
     (\<forall>l \<in> set (info_tieredstoreInfo info). level_typed l)"

definition info_typed :: "'q AlluxioEngine \<Rightarrow> bool" where
  "info_typed e \<longleftrightarrow> (\<forall>info. eng_runtimeInfo e = Some info \<longrightarrow> info_of e info)"

definition keeps_typed :: "'q AlluxioEngine \<Rightarrow> 'q AlluxioEngine \<Rightarrow> bool" where
  "keeps_typed e e' \<longleftrightarrow> (info_typed e \<longrightarrow> info_typed e')"

section \<open>Building it\<close>

lemma take_dropWhile: "take (Suc 0) (dropWhile (\<lambda>c. c = x) xs) \<noteq> [x]"
  by (induction xs) auto

lemma trim_slashes_end: "\<not> has_suffix (trim_slashes p) ''/''"
  by (simp add: trim_slashes_def trim_right_by_def has_suffix_def has_prefix_def take_dropWhile)

lemma trim_slashes_subset: "set (trim_slashes p) \<subseteq> set p"
  by (auto simp: trim_slashes_def trim_right_by_def dest: set_dropWhileD)

lemma convert_level_typed:
  assumes "convert_level q level = Inr l"
  shows "level_typed l"
proof -
  have paths: "map cp_Path (level_CachePaths l) = map trim_slashes (split_on CHR '','' (lvl_Path level))"
    using convert_level_shape [OF assms] by simp
  then have "level_CachePaths l \<noteq> []" by (metis list.map_disc_iff split_on_not_Nil)
  moreover have "CHR '','' \<notin> set (cp_Path p) \<and> \<not> has_suffix (cp_Path p) ''/''"
    if "p \<in> set (level_CachePaths l)" for p
  proof -
    from that paths obtain s where "s \<in> set (split_on CHR '','' (lvl_Path level))" "cp_Path p = trim_slashes s"
      by (metis (no_types, lifting) image_iff list.set_map)
    then show ?thesis using split_on_pieces trim_slashes_subset trim_slashes_end by (metis subsetD)
  qed
  ultimately show ?thesis by (simp add: level_typed_def)
qed

lemma convert_typed:
  "convertToTieredstoreInfo q ts = Inr info \<Longrightarrow> \<forall>l \<in> set info. level_typed l"
  by (induction ts arbitrary: info) (auto split: sum.splits dest: convert_level_typed)

lemma BuildRuntimeInfo_typed:
  "BuildRuntimeInfo q (eng_name e) (eng_namespace e) (eng_runtimeType e) ts = Inr info \<Longrightarrow> info_of e info"
  by (auto simp: BuildRuntimeInfo_def info_of_def split: sum.splits dest: convert_typed)

lemma info_of_deprecated [simp]: "info_of e (SetDeprecatedNodeLabel info b) = info_of e info"
  by (simp add: info_of_def SetDeprecatedNodeLabel_def)

lemma info_of_engine [simp]:
  "info_of (e\<lparr>eng_runtimeInfo := i\<rparr>) info = info_of e info"
  "info_of (e\<lparr>eng_MetadataSyncDoneCh := ch\<rparr>) info = info_of e info"
  "info_of (e\<lparr>eng_retryShutdown := n\<rparr>) info = info_of e info"
  by (simp_all add: info_of_def)

lemma info_typed_engine [simp]:
  "info_typed (e\<lparr>eng_runtimeInfo := Some info\<rparr>) = info_of e info"
  "info_typed (e\<lparr>eng_MetadataSyncDoneCh := ch\<rparr>) = info_typed e"
  "info_typed (e\<lparr>eng_retryShutdown := n\<rparr>) = info_typed e"
  by (simp_all add: info_typed_def)

section \<open>The operations of the engine\<close>

named_theorems typed_steps \<open>operations of the engine that keep the information well formed\<close>

lemma keeps_typed_refl [simp]: "keeps_typed e e"
  by (simp add: keeps_typed_def)

lemma getRuntimeInfo_typed [typed_steps]:
  "run_state (getRuntimeInfo sv e) w = ((r, e'), w') \<Longrightarrow> keeps_typed e e'"
  by (auto simp: getRuntimeInfo_def keeps_typed_def run_simps Let_def
      split: prod.splits sum.splits option.splits if_splits
      dest: BuildRuntimeInfo_typed BuildRuntimeInfo_typed [OF sym])

lemma AssignNodesToCache_typed [typed_steps]:
  "run_state (AssignNodesToCache sv e n) w = ((r, e'), w') \<Longrightarrow> keeps_typed e e'"
  by (auto simp: AssignNodesToCache_def run_simps split: prod.splits sum.splits dest: getRuntimeInfo_typed)

lemma SetupWorkers_typed [typed_steps]:
  "run_state (SetupWorkers sv e) w = ((err, e'), w') \<Longrightarrow> keeps_typed e e'"
  by (auto simp: SetupWorkers_def Let_def run_simps dest: AssignNodesToCache_typed
      split: prod.splits sum.splits option.splits if_splits)

lemma destroyWorkers_typed [typed_steps]:
  assumes "run_state (destroyWorkers sv e n) w = ((r, e'), w')"
  shows "keeps_typed e e'"
proof -
  obtain i e1 w1 where g: "run_state (getRuntimeInfo sv e) w = ((i, e1), w1)" by (metis surj_pair)
  then have "e' = e1"
    using assms
    by (auto simp: destroyWorkers_def Let_def run_simps
        split: prod.splits sum.splits option.splits outcome.splits if_splits)
  then show ?thesis using getRuntimeInfo_typed [OF g] by simp
qed

lemma shutdown_rest_typed [typed_steps]:
  assumes "run_state (shutdown_rest sv e) w = ((r, e'), w')"
  shows "keeps_typed e e'"
proof (cases "close_channel (eng_MetadataSyncDoneCh e)")
  case (Ret ch)
  obtain d e1 w1 where d: "run_state (destroyWorkers sv (e\<lparr>eng_MetadataSyncDoneCh := ch\<rparr>) (- 1)) w =
      ((d, e1), w1)"
    by (metis surj_pair)
  then have "e' = e1"
    using assms Ret
    by (auto simp: shutdown_rest_def run_simps split: prod.splits option.splits outcome.splits)
  then show ?thesis using destroyWorkers_typed [OF d] by (simp add: keeps_typed_def)
next
  case Panic
  then show ?thesis using assms by (simp add: shutdown_rest_def run_simps)
qed

lemma Shutdown_typed [typed_steps]:
  assumes "run_state (Shutdown sv e) w = ((r, e'), w')"
  shows "keeps_typed e e'"
proof -
  have "e' = e\<lparr>eng_retryShutdown := eng_retryShutdown e + 1\<rparr> \<or>
      (\<exists>w1. run_state (shutdown_rest sv e) w1 = ((r, e'), w'))"
    using assms by (auto simp: Shutdown_def run_simps split: if_splits option.splits prod.splits)
  then show ?thesis
  proof
    assume "\<exists>w1. run_state (shutdown_rest sv e) w1 = ((r, e'), w')"
    then obtain w1 where "run_state (shutdown_rest sv e) w1 = ((r, e'), w')" ..
    then show ?thesis by (rule shutdown_rest_typed)
  qed (simp add: keeps_typed_def)
qed

lemma CreateEngine_typed [typed_steps]:
  assumes "run_state (CreateEngine sv id0 ctx) w = (Inr (te, err), w')"
  shows "info_typed (te_Implement te)"
  using assms
  by (auto simp: CreateEngine_def Build_def NewTemplateEngine_def Let_def run_simps keeps_typed_def info_typed_def
      split: if_splits option.splits prod.splits sum.splits dest!: getRuntimeInfo_typed)

interpretation typed: implement "alluxio_implement sv" "\<lambda>e w. True" keeps_typed for sv
proof unfold_locales
  show "keeps_typed e e'"
    if "run_state (impl_SetupWorkers (alluxio_implement sv) e) w = ((err, e'), w')"
    for e w err e' w'
    using that SetupWorkers_typed by (simp add: alluxio_implement_def)
qed auto

section \<open>The controller\<close>

definition all_typed :: "'q RuntimeReconciler \<Rightarrow> bool" where
  "all_typed r \<longleftrightarrow> (\<forall>i te. rr_engines r i = Some te \<longrightarrow> info_typed (te_Implement te))"

lemma all_typed_put:
  "all_typed r \<Longrightarrow> info_typed (te_Implement te) \<Longrightarrow> all_typed (put_engine r ctx te)"
  by (auto simp: all_typed_def put_engine_def)

lemma all_typed_remove: "all_typed r \<Longrightarrow> all_typed (RemoveEngine r ctx)"
  by (auto simp: all_typed_def RemoveEngine_def)

lemma GetOrCreateEngine_typed:
  assumes "all_typed r" "run_state (GetOrCreateEngine sv r ctx) w = ((g, r'), w')"
  shows "all_typed r' \<and> (\<forall>te. g = Inr te \<longrightarrow> info_typed (te_Implement te))"
proof (cases "rr_engines r (engine_id ctx)")
  case (Some te)
  then show ?thesis using assms by (auto simp: GetOrCreateEngine_def all_typed_def run_simps)
next
  case None
  obtain c w1 where c: "run_state (CreateEngine sv (engine_id ctx) ctx) w = (c, w1)" by (metis surj_pair)
  then have "info_typed (te_Implement te)" if "c = Inr (te, err)" for te err
    using CreateEngine_typed [of sv "engine_id ctx" ctx w te err w1] c that by simp
  with None c show ?thesis
    using assms
    by (auto simp: GetOrCreateEngine_def all_typed_def run_simps
        split: sum.splits prod.splits option.splits if_splits)
qed

lemma ReconcileRuntime_typed:
  assumes "run_state (ReconcileRuntime sv te ctx) w = ((res, te'), w')"
  shows "keeps_typed (te_Implement te) (te_Implement te')"
  using assms typed.Setup_same
  by (fastforce simp: ReconcileRuntime_def run_simps Let_def split: prod.splits if_splits)

lemma ReconcileRuntimeDeletion_typed:
  assumes "run_state (ReconcileRuntimeDeletion sv te ctx) w = ((d, te'), w')"
  shows "keeps_typed (te_Implement te) (te_Implement te')"
proof -
  obtain s e w1 where s: "run_state (Shutdown sv (te_Implement te)) w = ((s, e), w1)"
    by (metis surj_pair)
  have "te_Implement te' = e"
    using assms s
    by (auto simp: ReconcileRuntimeDeletion_def alluxio_implement_def run_simps Let_def
        split: prod.splits sum.splits option.splits outcome.splits if_splits)
  then show ?thesis using Shutdown_typed [OF s] by simp
qed

lemma ReconcileInternal_typed:
  assumes "all_typed r" "run_state (ReconcileInternal sv r ctx) w = ((res, r'), w')"
  shows "all_typed r'"
proof -
  obtain g r1 w1 where g: "run_state (GetOrCreateEngine sv r ctx) w = ((g, r1), w1)"
    by (metis surj_pair)
  note inv = GetOrCreateEngine_typed [OF assms(1) g]
  have put: "all_typed (put_engine r1 ctx te')"
    if "g = Inr te" "keeps_typed (te_Implement te) (te_Implement te')" for te te'
    using inv that all_typed_put by (auto simp: keeps_typed_def)
  show ?thesis
    using assms g inv put all_typed_remove [of r1 ctx]
      ReconcileRuntime_typed ReconcileRuntimeDeletion_typed
    by (fastforce simp: ReconcileInternal_def run_simps
        split: sum.splits option.splits prod.splits outcome.splits if_splits)
qed

lemma reachable_typed: "reachable sv r \<Longrightarrow> all_typed r"
proof (induction rule: reachable.induct)
  case new_controller
  then show ?case by (simp add: all_typed_def)
next
  case (request r req w res r' w')
  from request.hyps(2) consider "r' = r"
    | ctx w1 where "run_state (ReconcileInternal sv r ctx) w1 = ((res, r'), w')"
    by (auto simp: Reconcile_def run_simps split: sum.splits prod.splits)
  then show ?case using request.IH ReconcileInternal_typed by cases blast+
qed

section \<open>Properties\<close>

text \<open>
  C8: Types of the cached information. In every state that the controller can reach, the runtime
  information that an engine caches carries the name, the namespace and the type of the engine, is not
  exclusive, and each level of its tiered store has at least one path and only paths without a
  comma and without a slash at the end.
\<close>

theorem reachable_info_typed:
  assumes "reachable sv r" and "rr_engines r i = Some te"
  shows "info_typed (te_Implement te)"
  using reachable_typed [OF assms(1)] assms(2) by (simp add: all_typed_def)

text \<open>After a first request the controller has the engine, with its information.\<close>

theorem reachable_info_typed_witness:
  "\<exists>te. rr_engines (snd (fst (run_state (Reconcile demo_services \<lparr>rr_engines = Map.empty\<rparr>
       (''default'', ''demo'')) (demo_cluster 1 2)))) ''default-demo'' = Some te \<and>
     eng_runtimeInfo (te_Implement te) \<noteq> None \<and> info_typed (te_Implement te)"
proof -
  let ?s = "run_state (Reconcile demo_services \<lparr>rr_engines = Map.empty\<rparr> (''default'', ''demo'')) (demo_cluster 1 2)"
  obtain res r w where s: "?s = ((res, r), w)" by (metis surj_pair)
  have "case rr_engines (snd (fst ?s)) ''default-demo'' of
      None \<Rightarrow> False | Some te \<Rightarrow> eng_runtimeInfo (te_Implement te) \<noteq> None"
    by code_simp
  then obtain te where te: "rr_engines r ''default-demo'' = Some te" "eng_runtimeInfo (te_Implement te) \<noteq> None"
    by (auto simp: s split: option.splits)
  have "reachable demo_services r" using s by (rule request [OF new_controller])
  from reachable_info_typed [OF this te(1)] te show ?thesis by (simp add: s)
qed

text \<open>
  Taking a node away at scale-in removes from its labels what the scheduler's unlabelling removes, for
  every engine of a controller.
\<close>

lemma scale_in_unlabels:
  assumes "reachable sv r" and "rr_engines r i = Some te"
    and "eng_runtimeInfo (te_Implement te) = Some info"
  shows "destroy_attempt cl (te_Implement te) info n = unlabel_attempt cl info n"
  using reachable_typed [OF assms(1)] assms(2,3)
  by (intro destroy_attempt_unlabels) (auto simp: all_typed_def info_typed_def info_of_def)

end
