(* ===== verification/DatatableLabel.thy ===== *)
theory DatatableLabel
  imports Utils
begin

text \<open>
  The labels that tie a data table to its cached Hive tables (\<open>pkg/utils/datatable\<close>): building
  the label of a table or of a partition, and reading the names back from a label. The names
  survive the round trip when they contain no dash (and a partition no dot); a name with a dash does
  not, and two different tables can share one label.
\<close>

section \<open>Labels\<close>

definition DATATABLEPRE :: string where
  "DATATABLEPRE = ''datatable''"

definition GetDatatableCommonLabel :: "string \<Rightarrow> string \<Rightarrow> string" where
  "GetDatatableCommonLabel schemaName tableName = DATATABLEPRE @ ''-'' @ schemaName @ ''-'' @ tableName"

definition GetPartitionDatatableCommonLabel :: "string \<Rightarrow> string \<Rightarrow> string \<Rightarrow> string" where
  "GetPartitionDatatableCommonLabel schemaName tableName partitionName =
     (let partitionName = (if contains partitionName ''=''
            then replace_all partitionName CHR ''='' CHR ''.'' else partitionName)
      in GetDatatableCommonLabel schemaName tableName @ ''-'' @ partitionName)"

text \<open>A label with fewer than three parts makes the function panic.\<close>

definition GetTableInfoFromLabel :: "string \<Rightarrow> (string \<times> string \<times> string) outcome" where
  "GetTableInfoFromLabel label =
     (let infos = split_on CHR ''-'' label in
      if length infos = 4
      then Ret (infos ! 1, infos ! 2, replace_all (infos ! 3) CHR ''.'' CHR ''='')
      else if length infos < 3 then Panic
      else Ret (infos ! 1, infos ! 2, []))"

definition GetDatatable :: "('w, 'q) client \<Rightarrow> string \<Rightarrow> string \<Rightarrow> ('w, err + DataTable) state" where
  "GetDatatable cl name namespace = Get_DataTable cl (namespace, name)"

section \<open>Laws\<close>

lemma dash_free_pre: "CHR ''-'' \<notin> set DATATABLEPRE"
  by (simp add: DATATABLEPRE_def)

lemma split_common_label:
  "CHR ''-'' \<notin> set s \<Longrightarrow> CHR ''-'' \<notin> set t \<Longrightarrow>
   split_on CHR ''-'' (GetDatatableCommonLabel s t) = [DATATABLEPRE, s, t]"
  using dash_free_pre by (simp add: GetDatatableCommonLabel_def split_on_append_sep)

lemma replace_noop: "\<not> contains s [old] \<Longrightarrow> replace_all s old new = s"
  unfolding replace_all_def contains_iff
  by (intro map_idI) (metis append_Cons append_Nil in_set_conv_decomp)

lemma partition_label_eq:
  "GetPartitionDatatableCommonLabel s t p =
     GetDatatableCommonLabel s t @ ''-'' @ replace_all p CHR ''='' CHR ''.''"
  by (simp add: GetPartitionDatatableCommonLabel_def Let_def replace_noop)

lemma split_partition_label:
  assumes "CHR ''-'' \<notin> set s" "CHR ''-'' \<notin> set t" "CHR ''-'' \<notin> set p"
  shows "split_on CHR ''-'' (GetPartitionDatatableCommonLabel s t p) =
    [DATATABLEPRE, s, t, replace_all p CHR ''='' CHR ''.'']"
proof -
  have "CHR ''-'' \<notin> set (replace_all p CHR ''='' CHR ''.'')"
    using assms(3) by (auto simp: replace_all_def)
  then show ?thesis
    using assms(1,2) split_common_label [of s t]
    by (simp add: partition_label_eq split_on_append)
qed

text \<open>
  Labels of names without dashes are read back (the facts behind the round trip), and a label of a schema with a dash is
  read as one of a partition of another schema.
\<close>

lemma common_label_info:
  "CHR ''-'' \<notin> set s \<Longrightarrow> CHR ''-'' \<notin> set t \<Longrightarrow>
   GetTableInfoFromLabel (GetDatatableCommonLabel s t) = Ret (s, t, [])"
  by (simp add: GetTableInfoFromLabel_def split_common_label Let_def)

lemma partition_label_info:
  "CHR ''-'' \<notin> set s \<Longrightarrow> CHR ''-'' \<notin> set t \<Longrightarrow> CHR ''-'' \<notin> set p \<Longrightarrow> CHR ''.'' \<notin> set p \<Longrightarrow>
   GetTableInfoFromLabel (GetPartitionDatatableCommonLabel s t p) = Ret (s, t, p)"
  by (simp add: GetTableInfoFromLabel_def split_partition_label Let_def replace_all_inverse)

theorem dashed_schema_reads_as_partition:
  assumes "CHR ''-'' \<notin> set a" "CHR ''-'' \<notin> set b" "CHR ''-'' \<notin> set c"
  shows "GetTableInfoFromLabel (GetDatatableCommonLabel (a @ ''-'' @ b) c) =
    Ret (a, b, replace_all c CHR ''.'' CHR ''='')"
proof -
  have "GetDatatableCommonLabel (a @ ''-'' @ b) c = DATATABLEPRE @ ''-'' @ a @ ''-'' @ b @ ''-'' @ c"
    by (simp add: GetDatatableCommonLabel_def)
  then have "split_on CHR ''-'' (GetDatatableCommonLabel (a @ ''-'' @ b) c) = [DATATABLEPRE, a, b, c]"
    using assms dash_free_pre by (simp add: split_on_append_sep)
  then show ?thesis by (simp add: GetTableInfoFromLabel_def Let_def)
qed

theorem dashed_schema_reads_as_partition_witness:
  "GetTableInfoFromLabel (GetDatatableCommonLabel ''a-b'' ''c'') = Ret (''a'', ''b'', ''c'')"
  using dashed_schema_reads_as_partition [of "''a''" "''b''" "''c''"] by (simp add: replace_all_def)

section \<open>Properties\<close>

text \<open>
  C20: Round trip of the labels. The schema, table and partition names written into a label are read
  back by \<open>GetTableInfoFromLabel\<close>, provided that they contain no dash and the partition contains
  no dot (its equal signs are written as dots and read back as equal signs); a label without a partition
  reads back the empty partition.
\<close>

theorem label_round_trip:
  assumes "CHR ''-'' \<notin> set s" "CHR ''-'' \<notin> set t" "CHR ''-'' \<notin> set p" "CHR ''.'' \<notin> set p"
  shows "GetTableInfoFromLabel (GetDatatableCommonLabel s t) = Ret (s, t, []) \<and>
    GetTableInfoFromLabel (GetPartitionDatatableCommonLabel s t p) = Ret (s, t, p)"
  using assms
  by (simp add: GetTableInfoFromLabel_def split_common_label split_partition_label Let_def
      replace_all_inverse)

theorem label_round_trip_witness:
  "GetTableInfoFromLabel (GetPartitionDatatableCommonLabel ''sales'' ''orders'' ''day=7'') =
     Ret (''sales'', ''orders'', ''day=7'')"
  using label_round_trip [of "''sales''" "''orders''" "''day=7''"] by simp

text \<open>
  C21: Which tables and partitions share a label. Without a dash in their names, tables have different labels,
  partitions share a label exactly when they belong to one table and differ only in dots and equal signs,
  and no table shares a label with a partition. With dashes they do collide: a dash moves freely between
  the schema and the table, and a table whose name ends in the text of a partition has the
  label of that partition.
\<close>

theorem label_injectivity:
  "(\<forall>s t p s' t' p'. CHR ''-'' \<notin> set (s @ t @ p @ s' @ t' @ p') \<longrightarrow>
      (GetDatatableCommonLabel s t = GetDatatableCommonLabel s' t' \<longleftrightarrow> s = s' \<and> t = t') \<and>
      (GetPartitionDatatableCommonLabel s t p = GetPartitionDatatableCommonLabel s' t' p' \<longleftrightarrow>
         s = s' \<and> t = t' \<and> map (\<lambda>c. if c = CHR ''='' then CHR ''.'' else c) p =
           map (\<lambda>c. if c = CHR ''='' then CHR ''.'' else c) p') \<and>
      GetDatatableCommonLabel s t \<noteq> GetPartitionDatatableCommonLabel s' t' p') \<and>
   (\<forall>s m t. GetDatatableCommonLabel (s @ ''-'' @ m) t = GetDatatableCommonLabel s (m @ ''-'' @ t)) \<and>
   (\<forall>s t p. CHR ''='' \<notin> set p \<longrightarrow>
      GetPartitionDatatableCommonLabel s t p = GetDatatableCommonLabel s (t @ ''-'' @ p))"
proof (intro conjI allI impI)
  fix s t p s' t' p' :: string
  assume "CHR ''-'' \<notin> set (s @ t @ p @ s' @ t' @ p')"
  then have "split_on CHR ''-'' (GetDatatableCommonLabel s t) = [DATATABLEPRE, s, t]"
    "split_on CHR ''-'' (GetDatatableCommonLabel s' t') = [DATATABLEPRE, s', t']"
    "split_on CHR ''-'' (GetPartitionDatatableCommonLabel s t p) =
      [DATATABLEPRE, s, t, replace_all p CHR ''='' CHR ''.'']"
    "split_on CHR ''-'' (GetPartitionDatatableCommonLabel s' t' p') =
      [DATATABLEPRE, s', t', replace_all p' CHR ''='' CHR ''.'']"
    by (simp_all add: split_common_label split_partition_label)
  note pieces = this
  show "GetDatatableCommonLabel s t = GetDatatableCommonLabel s' t' \<longleftrightarrow> s = s' \<and> t = t'"
    using pieces(1,2) by (metis list.inject)
  show "GetDatatableCommonLabel s t \<noteq> GetPartitionDatatableCommonLabel s' t' p'"
    using pieces(1,4) by (metis list.distinct(1) list.inject)
  show "GetPartitionDatatableCommonLabel s t p = GetPartitionDatatableCommonLabel s' t' p' \<longleftrightarrow>
      s = s' \<and> t = t' \<and> map (\<lambda>c. if c = CHR ''='' then CHR ''.'' else c) p =
        map (\<lambda>c. if c = CHR ''='' then CHR ''.'' else c) p'"
    unfolding replace_all_def [symmetric]
  proof
    assume "GetPartitionDatatableCommonLabel s t p = GetPartitionDatatableCommonLabel s' t' p'"
    then have "[DATATABLEPRE, s, t, replace_all p CHR ''='' CHR ''.''] =
        [DATATABLEPRE, s', t', replace_all p' CHR ''='' CHR ''.'']"
      by (metis pieces(3,4))
    then show "s = s' \<and> t = t' \<and> replace_all p CHR ''='' CHR ''.'' = replace_all p' CHR ''='' CHR ''.''"
      by simp
  next
    assume "s = s' \<and> t = t' \<and> replace_all p CHR ''='' CHR ''.'' = replace_all p' CHR ''='' CHR ''.''"
    then show "GetPartitionDatatableCommonLabel s t p = GetPartitionDatatableCommonLabel s' t' p'"
      unfolding partition_label_eq by (elim conjE) (simp only:)
  qed
next
  fix s m t :: string
  show "GetDatatableCommonLabel (s @ ''-'' @ m) t = GetDatatableCommonLabel s (m @ ''-'' @ t)"
    by (simp add: GetDatatableCommonLabel_def)
next
  fix s t p :: string
  assume "CHR ''='' \<notin> set p"
  then have "replace_all p CHR ''='' CHR ''.'' = p"
    unfolding replace_all_def by (intro map_idI) auto
  then show "GetPartitionDatatableCommonLabel s t p = GetDatatableCommonLabel s (t @ ''-'' @ p)"
    by (simp add: partition_label_eq) (simp add: GetDatatableCommonLabel_def)
qed

text \<open>Two partitions of different days, and two that share a label.\<close>

theorem label_injectivity_witness:
  "GetPartitionDatatableCommonLabel ''a'' ''b'' ''day=1'' \<noteq> GetPartitionDatatableCommonLabel ''a'' ''b'' ''day=2'' \<and>
   GetPartitionDatatableCommonLabel ''a'' ''b'' ''day=1.5'' = GetPartitionDatatableCommonLabel ''a'' ''b'' ''day=1=5'' \<and>
   GetPartitionDatatableCommonLabel ''a'' ''b'' ''today'' = GetDatatableCommonLabel ''a'' ''b-today''"
proof -
  note same = conjunct1 [OF label_injectivity, rule_format, THEN conjunct2, THEN conjunct1]
  have dashes: "CHR ''-'' \<notin> set (''a'' @ ''b'' @ ''day=1'' @ ''a'' @ ''b'' @ ''day=2'')"
    "CHR ''-'' \<notin> set (''a'' @ ''b'' @ ''day=1.5'' @ ''a'' @ ''b'' @ ''day=1=5'')"
    by code_simp+
  have 1: "GetPartitionDatatableCommonLabel ''a'' ''b'' ''day=1'' \<noteq> GetPartitionDatatableCommonLabel ''a'' ''b'' ''day=2''"
    unfolding same [OF dashes(1)] by simp
  have 2: "GetPartitionDatatableCommonLabel ''a'' ''b'' ''day=1.5'' = GetPartitionDatatableCommonLabel ''a'' ''b'' ''day=1=5''"
    unfolding same [OF dashes(2)] by simp
  have "CHR ''='' \<notin> set ''today''" by simp
  with conjunct2 [OF conjunct2 [OF label_injectivity], rule_format, of "''today''" "''a''" "''b''"]
  have "GetPartitionDatatableCommonLabel ''a'' ''b'' ''today'' = GetDatatableCommonLabel ''a'' (''b'' @ ''-'' @ ''today'')" .
  then have 3: "GetPartitionDatatableCommonLabel ''a'' ''b'' ''today'' = GetDatatableCommonLabel ''a'' ''b-today''"
    by simp
  show ?thesis using 1 2 3 by (intro conjI)
qed

end
