(* ===== verification/Redis.thy ===== *)
theory Redis
  imports Utils
begin

text \<open>
  The bookkeeping of cached tables in Redis (\<open>pkg/utils/redisUtil/redisClient.go\<close>): a sorted set
  \<open>tableScore\<close> of the tables that were queried, and one key per cached table with the size of the
  table. The Redis client library is a parameter: a record of the commands the code sends.
\<close>

section \<open>The client\<close>

text \<open>A client is known by the options it was made with; making one sends nothing.\<close>

record redis_client =
  ro_Addr :: string
  ro_Password :: string
  ro_DB :: int

record 'w redis =
  ZRank :: "redis_client \<Rightarrow> string \<Rightarrow> string \<Rightarrow> ('w, int64 \<times> err option) state"
  ZRange :: "redis_client \<Rightarrow> string \<Rightarrow> int64 \<Rightarrow> int64 \<Rightarrow> ('w, string list \<times> err option) state"
  RedisExists :: "redis_client \<Rightarrow> string \<Rightarrow> ('w, int64 \<times> err option) state"
  RedisGet :: "redis_client \<Rightarrow> string \<Rightarrow> ('w, string \<times> err option) state"
  RedisSet :: "redis_client \<Rightarrow> string \<Rightarrow> string \<Rightarrow> int \<Rightarrow> ('w, err option) state"
  RedisDel :: "redis_client \<Rightarrow> string \<Rightarrow> ('w, err option) state"

section \<open>Operations\<close>

definition zSetKey :: string where
  "zSetKey = ''tableScore''"

definition ConnectRedis :: redis_client where
  "ConnectRedis = \<lparr>ro_Addr = ''210.28.132.16:6379'', ro_Password = [], ro_DB = 0\<rparr>"

definition IsinZset :: "'w redis \<Rightarrow> redis_client \<Rightarrow> string \<Rightarrow> ('w, bool) state" where
  "IsinZset rd cli member = do {
     (_, err) \<leftarrow> ZRank rd cli zSetKey member;
     ret (err = None)
   }"

text \<open>The tables by ascending score.\<close>

definition GetValue :: "'w redis \<Rightarrow> redis_client \<Rightarrow> ('w, string list) state" where
  "GetValue rd cli = do {
     (re, _) \<leftarrow> ZRange rd cli zSetKey 0 (- 1);
     ret re
   }"

definition IsExistInALluxio :: "'w redis \<Rightarrow> redis_client \<Rightarrow> string \<Rightarrow> ('w, bool) state" where
  "IsExistInALluxio rd cli tableName = do {
     (re, _) \<leftarrow> RedisExists rd cli tableName;
     ret (re = 1)
   }"

text \<open>A size that cannot be read or parsed is what \<open>ParseInt\<close> returns beside its error.\<close>

definition GetSize :: "'w redis \<Rightarrow> redis_client \<Rightarrow> string \<Rightarrow> ('w, int64) state" where
  "GetSize rd cli tableName = do {
     (re, _) \<leftarrow> RedisGet rd cli tableName;
     ret (fst (ParseInt64 re))
   }"

definition AddKV :: "'w redis \<Rightarrow> redis_client \<Rightarrow> string \<Rightarrow> string \<Rightarrow> ('w, err option) state" where
  "AddKV rd cli key v = RedisSet rd cli key v 0"

definition RemoveKV :: "'w redis \<Rightarrow> redis_client \<Rightarrow> string \<Rightarrow> ('w, err option) state" where
  "RemoveKV rd cli key = RedisDel rd cli key"

section \<open>Contract\<close>

text \<open>
  A successful \<open>SET\<close> stores the value under the key, a successful \<open>DEL\<close> removes it, a \<open>GET\<close>
  returns the stored value; \<open>kv\<close> reads the store. A command that fails leaves the store alone, and no command but
  these two changes it.
\<close>

definition redis_contract :: "'w redis \<Rightarrow> ('w \<Rightarrow> string \<rightharpoonup> string) \<Rightarrow> bool" where
  "redis_contract rd kv \<longleftrightarrow>
     (\<forall>c k v t w r w'. run_state (RedisSet rd c k v t) w = (r, w') \<longrightarrow>
        kv w' = (if r = None then (kv w)(k \<mapsto> v) else kv w)) \<and>
     (\<forall>c k w r w'. run_state (RedisDel rd c k) w = (r, w') \<longrightarrow>
        kv w' = (if r = None then (kv w)(k := None) else kv w)) \<and>
     (\<forall>c k w. run_state (RedisGet rd c k) w =
        (case kv w k of None \<Rightarrow> ([], Some (ErrText ''redis: nil'')) | Some v \<Rightarrow> (v, None), w))"

lemma redis_set:
  "redis_contract rd kv \<Longrightarrow> run_state (AddKV rd c k v) w = (r, w') \<Longrightarrow>
   kv w' = (if r = None then (kv w)(k \<mapsto> v) else kv w)"
  unfolding redis_contract_def AddKV_def by blast

lemma redis_del:
  "redis_contract rd kv \<Longrightarrow> run_state (RemoveKV rd c k) w = (r, w') \<Longrightarrow>
   kv w' = (if r = None then (kv w)(k := None) else kv w)"
  unfolding redis_contract_def RemoveKV_def by blast

text \<open>The size of a cached table is read back as it was written.\<close>

lemma size_round_trip:
  assumes "redis_contract rd kv"
    and "run_state (AddKV rd c k (FormatInt64 n)) w = (None, w')"
  shows "run_state (GetSize rd c' k) w' = (n, w')"
proof -
  have "kv w' k = Some (FormatInt64 n)" using redis_set [OF assms] by simp
  then show ?thesis
    using assms(1) by (simp add: redis_contract_def GetSize_def run_simps)
qed

end
