(* ===== verification/Hive.thy ===== *)
theory Hive
  imports DatatableLabel PodExec Redis
begin

text \<open>
  The Hive metastore as the data table controller uses it (\<open>pkg/utils/hive/hiveClient.go\<close>): moving the
  location of a table or a partition between HDFS and Alluxio, mounting it in Alluxio and keeping
  the size of a cached table in Redis. The Hive driver is a parameter. The variables of the packages \<open>hive\<close>,
  \<open>exec\<close> and \<open>datatable\<close> are the record \<open>globals\<close>, part of the state of a program. The mutex of
  \<open>ChangeSchemaURLForRecover\<close> is left out: a request is one sequential program.
\<close>

section \<open>The driver\<close>

text \<open>
  A connection is a pointer, \<open>None\<close> when it is nil. A query returns a row set (an interface, \<open>None\<close> when it
  is nil) and an error; a row set is given by what \<open>Scan\<close> reports for its successive rows: an error
  and the value it assigned, if it assigned one.
\<close>

type_synonym connection = "nat option"
type_synonym row = "err option \<times> string option"

record 'w hive =
  HiveConnect :: "string \<Rightarrow> ('w, connection \<times> err option) state"
  HiveClose :: "connection \<Rightarrow> ('w, err option outcome) state"
  HiveQuery :: "connection \<Rightarrow> string \<Rightarrow> ('w, (row list option \<times> err option) outcome) state"

definition scan_row :: "row \<Rightarrow> string \<Rightarrow> string" where
  "scan_row r resultLine = (case snd r of None \<Rightarrow> resultLine | Some v \<Rightarrow> v)"

text \<open>
  The services of the data table controller; \<open>ts_order\<close> is the order in which the runtime iterates over
  a map of labels.
\<close>

record ('w, 'q) table_services =
  ts_client :: "('w, 'q) client"
  ts_exec :: "'w podexec"
  ts_hive :: "'w hive"
  ts_redis :: "'w redis"
  ts_order :: "labels \<Rightarrow> string list"

section \<open>Programs\<close>

record globals =
  g_exec :: exec_vars
  g_hive_redis :: "redis_client option"
  g_datatable_redis :: "redis_client option"

definition globals0 :: globals where
  "globals0 = \<lparr>g_exec = exec_vars0, g_hive_redis = None, g_datatable_redis = None\<rparr>"

text \<open>A program over the world alone, and one that reads and writes the variables of \<open>exec\<close>.\<close>

definition world :: "('w, 'a) state \<Rightarrow> ('w \<times> globals, 'a) state" where
  "world m = State (\<lambda>(w, g). case run_state m w of (x, w') \<Rightarrow> (x, (w', g)))"

definition with_exec :: "(exec_vars \<Rightarrow> ('w, 'a \<times> exec_vars) state) \<Rightarrow> ('w \<times> globals, 'a) state" where
  "with_exec f = State (\<lambda>(w, g). case run_state (f (g_exec g)) w of
     ((x, ev), w') \<Rightarrow> (x, (w', g\<lparr>g_exec := ev\<rparr>)))"

definition upd_globals :: "(globals \<Rightarrow> globals) \<Rightarrow> ('w \<times> globals, unit) state" where
  "upd_globals f = State (\<lambda>(w, g). ((), (w, f g)))"

definition get_globals :: "('w \<times> globals, globals) state" where
  "get_globals = State (\<lambda>(w, g). (g, (w, g)))"

text \<open>Sequencing: a panic ends the program.\<close>

definition and_then ::
    "('s, 'a outcome) state \<Rightarrow> ('a \<Rightarrow> ('s, 'b outcome) state) \<Rightarrow> ('s, 'b outcome) state" where
  "and_then m f = do { r \<leftarrow> m; case r of Panic \<Rightarrow> ret Panic | Ret x \<Rightarrow> f x }"

lemma run_world [run_simps]:
  "run_state (world m) (w, g) = (fst (run_state m w), (snd (run_state m w), g))"
  by (simp add: world_def split: prod.split)

lemma run_with_exec [run_simps]:
  "run_state (with_exec f) (w, g) = (case run_state (f (g_exec g)) w of
     ((x, ev), w') \<Rightarrow> (x, (w', g\<lparr>g_exec := ev\<rparr>)))"
  by (simp add: with_exec_def)

lemma run_upd_globals [run_simps]: "run_state (upd_globals f) (w, g) = ((), (w, f g))"
  by (simp add: upd_globals_def)

lemma run_get_globals [run_simps]: "run_state get_globals (w, g) = (g, (w, g))"
  by (simp add: get_globals_def)

lemma run_and_then [run_simps]:
  "run_state (and_then m f) s = (case run_state m s of
     (Panic, s') \<Rightarrow> (Panic, s') | (Ret x, s') \<Rightarrow> run_state (f x) s')"
  by (simp add: and_then_def run_simps split: prod.split outcome.split)

section \<open>Connections and queries\<close>

definition ConnectHiveMetaStore :: "'w hive \<Rightarrow> string \<Rightarrow> ('w, connection \<times> err option) state" where
  "ConnectHiveMetaStore hv hostPort = HiveConnect hv hostPort"

definition CloseHiveMetasStore :: "'w hive \<Rightarrow> connection \<Rightarrow> ('w, err option outcome) state" where
  "CloseHiveMetasStore hv conn = HiveClose hv conn"

definition use_schema :: "string \<Rightarrow> string" where
  "use_schema schemaName = ''use '' @ schemaName"

text \<open>\<open>GetTableSize\<close> reads the description of the table but never a size out of it.\<close>

primrec size_rows :: "row list \<Rightarrow> err option \<Rightarrow> int64 \<times> err option" where
  "size_rows [] err = (- 1, err)"
| "size_rows (r # rs) err =
     (case fst r of Some e \<Rightarrow> (- 1, Some e) | None \<Rightarrow> size_rows rs None)"

definition GetTableSize ::
    "'w hive \<Rightarrow> connection \<Rightarrow> string \<Rightarrow> string \<Rightarrow> ('w, (int64 \<times> err option) outcome) state" where
  "GetTableSize hv conn schemaName tableName =
     and_then (HiveQuery hv conn (use_schema schemaName)) (\<lambda>(_, err).
       case err of
         Some e \<Rightarrow> ret (Ret (- 1, Some e))
       | None \<Rightarrow> and_then (HiveQuery hv conn (''desc formatted '' @ tableName)) (\<lambda>(rs, err).
           ret (case rs of None \<Rightarrow> Panic | Some rows \<Rightarrow> Ret (size_rows rows err))))"

definition table_named :: "string \<Rightarrow> Table" where
  "table_named name = \<lparr>tbl_TableName = name, tbl_PreUrl = [], tbl_ColumnName = [],
     tbl_PartitionColumn = []\<rparr>"

primrec table_rows :: "row list \<Rightarrow> string \<Rightarrow> Table list" where
  "table_rows [] resultLine = []"
| "table_rows (r # rs) resultLine =
     (let resultLine = scan_row r resultLine in table_named resultLine # table_rows rs resultLine)"

definition GetTablesFromSchema ::
    "'w hive \<Rightarrow> connection \<Rightarrow> string \<Rightarrow> ('w, (Table list \<times> err option) outcome) state" where
  "GetTablesFromSchema hv conn schemaName =
     and_then (HiveQuery hv conn (use_schema schemaName)) (\<lambda>(_, err).
       case err of
         Some e \<Rightarrow> ret (Ret ([], Some e))
       | None \<Rightarrow> and_then (HiveQuery hv conn ''show tables'') (\<lambda>(rs, err).
           ret (case rs of None \<Rightarrow> Panic | Some rows \<Rightarrow> Ret (table_rows rows [], None))))"

text \<open>
  The body of the loop over the wanted partitions ends with \<open>break\<close>: only the first map counts. The
  iteration over that map stops at the first pair that the line does not contain.
\<close>

definition suitable :: "(string, string) mapping list \<Rightarrow> string \<Rightarrow> bool" where
  "suitable partitionNameArr resultLine \<longleftrightarrow>
     (case partitionNameArr of
        [] \<Rightarrow> False
      | partitionName # _ \<Rightarrow>
          (\<forall>kv \<in> Mapping.entries partitionName. contains resultLine (fst kv @ ''='' @ snd kv)))"

primrec partition_rows ::
    "(string, string) mapping list \<Rightarrow> row list \<Rightarrow> string \<Rightarrow> string list" where
  "partition_rows arr [] resultLine = []"
| "partition_rows arr (r # rs) resultLine =
     (let resultLine = trim_space (scan_row r resultLine) in
      (if suitable arr resultLine then [resultLine] else []) @ partition_rows arr rs resultLine)"

definition GetSuitablePartition ::
    "'w hive \<Rightarrow> connection \<Rightarrow> string \<Rightarrow> string \<Rightarrow> (string, string) mapping list
      \<Rightarrow> ('w, (string list \<times> err option) outcome) state" where
  "GetSuitablePartition hv conn schemaName tableName partitionNameArr =
     and_then (HiveQuery hv conn (use_schema schemaName)) (\<lambda>(_, err).
       case err of
         Some e \<Rightarrow> ret (Ret ([], Some e))
       | None \<Rightarrow> and_then (HiveQuery hv conn (''show partitions '' @ tableName)) (\<lambda>(rs, err).
           case err of
             Some e \<Rightarrow> ret (Ret ([], Some e))
           | None \<Rightarrow> ret (case rs of None \<Rightarrow> Panic
               | Some rows \<Rightarrow> Ret (partition_rows partitionNameArr rows [], None))))"

text \<open>
  \<open>TableLocationNotChange\<close> splits the line at the text \<open>\s+\<close>, which it means as a regular
  expression; a line without that text panics.
\<close>

fun after_sep :: "string \<Rightarrow> string \<Rightarrow> string option" where
  "after_sep sep [] = None"
| "after_sep sep (x # xs) =
     (if has_prefix (x # xs) sep then Some (drop (length sep) (x # xs)) else after_sep sep xs)"

primrec location_rows :: "row list \<Rightarrow> string \<Rightarrow> (bool \<times> string \<times> err option) outcome" where
  "location_rows [] resultLine = Ret (True, [], Some (ErrText ''fail to get the location''))"
| "location_rows (r # rs) resultLine =
     (let resultLine = scan_row r resultLine in
      if contains resultLine ''Location:''
      then (case after_sep [CHR 0x5C, CHR ''s'', CHR ''+''] resultLine of
              None \<Rightarrow> Panic
            | Some datatableLocation \<Rightarrow>
                (if contains datatableLocation ''hdfs'' then Ret (False, datatableLocation, None)
                 else Ret (True, [], None)))
      else location_rows rs resultLine)"

definition TableLocationNotChange ::
    "'w hive \<Rightarrow> connection \<Rightarrow> string \<Rightarrow> ('w, (bool \<times> string \<times> err option) outcome) state" where
  "TableLocationNotChange hv conn tableName =
     and_then (HiveQuery hv conn (''desc formatted '' @ tableName)) (\<lambda>(rs, err).
       ret (case rs of None \<Rightarrow> Panic | Some rows \<Rightarrow> location_rows rows []))"

section \<open>Locations\<close>

definition alluxio_master_pod_ip :: string where
  "alluxio_master_pod_ip = ''210.28.132.18''"

definition hive_hdfs_master_ip :: string where
  "hive_hdfs_master_ip = ''210.28.132.15''"

definition table_url :: "bool \<Rightarrow> string \<Rightarrow> string" where
  "table_url toCache path =
     (if toCache then ''alluxio://'' @ alluxio_master_pod_ip @ '':19998'' @ warehouse @ path
      else ''hdfs://'' @ hive_hdfs_master_ip @ '':9000'' @ warehouse @ path)"

definition set_location :: "string \<Rightarrow> string \<Rightarrow> string" where
  "set_location target url =
     ''alter table '' @ target @ '' set location '' @ '' '' @ [CHR 0x22] @ url @ [CHR 0x22]"

text \<open>
  \<open>ChangeTableURL\<close>: to the cache it mounts the table, records its size and then moves the location;
  back it unmounts (the result is ignored), removes the record and moves the location.
\<close>

definition table_key :: "string \<Rightarrow> string \<Rightarrow> string" where
  "table_key schemaName tableName = schemaName @ ''_'' @ tableName"

definition cache_table ::
    "('w, 'q) table_services \<Rightarrow> redis_client \<Rightarrow> string \<Rightarrow> string
      \<Rightarrow> ('w \<times> globals, err option outcome) state" where
  "cache_table ts cli schemaName tableName = do {
     err \<leftarrow> with_exec (\<lambda>ev. ExecAlluxioTablemount (ts_client ts) (ts_exec ts) ev schemaName tableName);
     case err of
       Some e \<Rightarrow> ret (Ret (Some e))
     | None \<Rightarrow>
         and_then (with_exec (\<lambda>ev. ExecTableSize (ts_client ts) (ts_exec ts) ev schemaName tableName))
           (\<lambda>(tableSize, err). case err of
              Some e \<Rightarrow> ret (Ret (Some e))
            | None \<Rightarrow> do {
                err \<leftarrow> world (AddKV (ts_redis ts) cli (table_key schemaName tableName) (FormatInt64 tableSize));
                ret (Ret err)
              })
   }"

definition uncache_table ::
    "('w, 'q) table_services \<Rightarrow> redis_client \<Rightarrow> string \<Rightarrow> string
      \<Rightarrow> ('w \<times> globals, err option outcome) state" where
  "uncache_table ts cli schemaName tableName = do {
     _ \<leftarrow> with_exec (\<lambda>ev. do {
       (res, err, ev) \<leftarrow> ExecAlluxioTableUnmountWithoutInfos (ts_exec ts) ev schemaName tableName;
       ret ((), ev)
     });
     err \<leftarrow> world (RemoveKV (ts_redis ts) cli (table_key schemaName tableName));
     ret (Ret err)
   }"

definition ChangeTableURL ::
    "('w, 'q) table_services \<Rightarrow> connection \<Rightarrow> string \<Rightarrow> string \<Rightarrow> bool
      \<Rightarrow> ('w \<times> globals, err option outcome) state" where
  "ChangeTableURL ts conn schemaName tableName toCache = do {
     g \<leftarrow> get_globals;
     let cli = (case g_hive_redis g of None \<Rightarrow> ConnectRedis | Some c \<Rightarrow> c) in do {
     _ \<leftarrow> upd_globals (\<lambda>g. g\<lparr>g_hive_redis := Some cli\<rparr>);
     and_then (world (HiveQuery (ts_hive ts) conn (use_schema schemaName))) (\<lambda>(_, err).
       case err of
         Some e \<Rightarrow> ret (Ret (Some e))
       | None \<Rightarrow>
           (let url = table_url toCache (schema_dir schemaName @ tableName);
                sql = set_location tableName url;
                changeLocationSQL = (if toCache then trim_space sql else sql) in
            and_then (if toCache then cache_table ts cli schemaName tableName
                      else uncache_table ts cli schemaName tableName) (\<lambda>err.
              case err of
                Some e \<Rightarrow> ret (Ret (Some e))
              | None \<Rightarrow> and_then (world (HiveQuery (ts_hive ts) conn changeLocationSQL)) (\<lambda>(_, err).
                  ret (Ret err)))))
     }
   }"

text \<open>
  \<open>ChangePartitionTableURL\<close>: a partition is given as \<open>k1=v1/k2=v2\<close>; a part without an equal sign
  panics. The location is moved first, and what mounting or unmounting returns is ignored.
\<close>

primrec partition_items :: "string list \<Rightarrow> string list outcome" where
  "partition_items [] = Ret []"
| "partition_items (p # ps) =
     (case split_on CHR ''='' p of
        k # v # _ \<Rightarrow> map_outcome_ret ((#) (k @ ''='' @ [CHR 0x27] @ v @ [CHR 0x27])) (partition_items ps)
      | _ \<Rightarrow> Panic)"

definition partition_filter :: "string \<Rightarrow> string outcome" where
  "partition_filter partitionName =
     map_outcome_ret (\<lambda>items. ''partition('' @ join '','' items @ '')'')
       (partition_items (split_on CHR ''/'' partitionName))"

definition ChangePartitionTableURL ::
    "('w, 'q) table_services \<Rightarrow> connection \<Rightarrow> string \<Rightarrow> string \<Rightarrow> string \<Rightarrow> bool
      \<Rightarrow> ('w \<times> globals, err option outcome) state" where
  "ChangePartitionTableURL ts conn schemaName tableName partitionName toCache =
     and_then (world (HiveQuery (ts_hive ts) conn (use_schema schemaName))) (\<lambda>(_, err).
       case err of
         Some e \<Rightarrow> ret (Ret (Some e))
       | None \<Rightarrow> (case partition_filter partitionName of
           Panic \<Rightarrow> ret Panic
         | Ret partitionFilter \<Rightarrow>
             (let url = table_url toCache (schema_dir schemaName @ tableName @ ''/'' @ partitionName);
                  changeLocationSQL = set_location (tableName @ '' '' @ partitionFilter) url in
              and_then (world (HiveQuery (ts_hive ts) conn changeLocationSQL)) (\<lambda>(_, err).
                case err of
                  Some e \<Rightarrow> ret (Ret (Some e))
                | None \<Rightarrow> do {
                    _ \<leftarrow> (if toCache
                      then with_exec (\<lambda>ev. ExecAlluxioPartitionTablemount (ts_client ts) (ts_exec ts) ev
                        schemaName tableName partitionName)
                      else with_exec (\<lambda>ev. do {
                        (res, err) \<leftarrow> ExecAlluxioPartitionTableUnmount (ts_exec ts) ev
                          schemaName tableName partitionName;
                        ret (err, ev)
                      }));
                    ret (Ret None)
                  }))))"

section \<open>Caching a schema\<close>

text \<open>
  The loop over the suitable partitions keeps only the error of the last one.
\<close>

primrec partition_loop ::
    "('w, 'q) table_services \<Rightarrow> connection \<Rightarrow> string \<Rightarrow> string \<Rightarrow> string list \<Rightarrow> err option \<Rightarrow> string list
      \<Rightarrow> ('w \<times> globals, (err option \<times> string list) outcome) state" where
  "partition_loop ts conn schemaName tableName [] err labels = ret (Ret (err, labels))"
| "partition_loop ts conn schemaName tableName (url # urls) err labels =
     and_then (ChangePartitionTableURL ts conn schemaName tableName url True) (\<lambda>err.
       partition_loop ts conn schemaName tableName urls err
         (labels @ [GetPartitionDatatableCommonLabel schemaName tableName url]))"

primrec tables_loop ::
    "('w, 'q) table_services \<Rightarrow> connection \<Rightarrow> string \<Rightarrow> Table list \<Rightarrow> string list \<Rightarrow> err option
      \<Rightarrow> ('w \<times> globals, (string list \<times> err option) outcome) state" where
  "tables_loop ts conn schemaName [] labels err = ret (Ret (labels, err))"
| "tables_loop ts conn schemaName (table # tables) labels err =
     (if tbl_ColumnName table = [] \<and> tbl_PartitionColumn table = []
      then and_then (ChangeTableURL ts conn schemaName (tbl_TableName table) True) (\<lambda>err.
        case err of
          Some e \<Rightarrow> ret (Ret ([], Some e))
        | None \<Rightarrow> tables_loop ts conn schemaName tables
            (labels @ [GetDatatableCommonLabel schemaName (tbl_TableName table)]) None)
      else if tbl_ColumnName table = [] \<and> tbl_PartitionColumn table \<noteq> []
      then and_then (world (GetSuitablePartition (ts_hive ts) conn schemaName (tbl_TableName table)
          (tbl_PartitionColumn table))) (\<lambda>(urls, err').
        case err' of
          Some e \<Rightarrow> ret (Ret ([], Some e))
        | None \<Rightarrow> and_then (partition_loop ts conn schemaName (tbl_TableName table) urls None labels)
            (\<lambda>(err', labels). case err' of
               Some e \<Rightarrow> ret (Ret ([], Some e))
             | None \<Rightarrow> tables_loop ts conn schemaName tables labels err))
      else tables_loop ts conn schemaName tables labels err)"

text \<open>A schema without tables stands for all its tables; an error of listing them is logged only.\<close>

definition ChangeSchemaURLForCache ::
    "('w, 'q) table_services \<Rightarrow> connection \<Rightarrow> Schema
      \<Rightarrow> ('w \<times> globals, (string list \<times> err option) outcome) state" where
  "ChangeSchemaURLForCache ts conn schema =
     and_then (world (HiveQuery (ts_hive ts) conn (use_schema (sch_SchemaName schema)))) (\<lambda>(_, err).
       case err of
         Some e \<Rightarrow> ret (Ret ([], Some e))
       | None \<Rightarrow>
           (if sch_Tables schema = []
            then and_then (world (GetTablesFromSchema (ts_hive ts) conn (sch_SchemaName schema)))
              (\<lambda>(tables, err). tables_loop ts conn (sch_SchemaName schema) tables [] err)
            else tables_loop ts conn (sch_SchemaName schema) (sch_Tables schema) [] None))"

section \<open>Recovering\<close>

text \<open>
  For every label with the value true, when at most one data table has that label: move the table or
  partition back. A listing that fails counts as an empty one.
\<close>

primrec recover_loop ::
    "('w, 'q) table_services \<Rightarrow> connection \<Rightarrow> labels \<Rightarrow> string list
      \<Rightarrow> ('w \<times> globals, err option outcome) state" where
  "recover_loop ts conn datatableLabels [] = ret (Ret None)"
| "recover_loop ts conn datatableLabels (key # keys) =
     (if datatableLabels key \<noteq> Some ''true''
      then recover_loop ts conn datatableLabels keys
      else (case LabelsParse (ts_client ts) (key @ ''=true'') of
          Inl e \<Rightarrow> ret (Ret (Some e))
        | Inr sel \<Rightarrow> do {
            l \<leftarrow> world (List_DataTable (ts_client ts) sel);
            let items = (case l of Inl _ \<Rightarrow> [] | Inr items \<Rightarrow> items) in
            if length items \<le> 1
            then (case GetTableInfoFromLabel key of
                Panic \<Rightarrow> ret Panic
              | Ret (schemaName, tableName, partitionName) \<Rightarrow>
                  and_then
                    (if partitionName = [] then ChangeTableURL ts conn schemaName tableName False
                     else ChangePartitionTableURL ts conn schemaName tableName partitionName False)
                    (\<lambda>err. case err of
                       Some e \<Rightarrow> ret (Ret (Some e))
                     | None \<Rightarrow> recover_loop ts conn datatableLabels keys))
            else recover_loop ts conn datatableLabels keys
          }))"

text \<open>
  The closure that sets the labels to false. Without the data table, or when it has no labels left,
  writing a label is a nil dereference; a data table without labels to set is returned with the
  error of the \<open>Get\<close>.
\<close>

definition set_labels :: "DataTable \<Rightarrow> labels \<Rightarrow> DataTable" where
  "set_labels dt l = dt\<lparr>dt_meta := (dt_meta dt)\<lparr>om_Labels := l\<rparr>\<rparr>"

definition recover_attempt ::
    "('w, 'q) client \<Rightarrow> string \<Rightarrow> string \<Rightarrow> string list \<Rightarrow> ('w \<times> captured, err option) state" where
  "recover_attempt cl name namespace keys = do {
     g \<leftarrow> call (GetDatatable cl name namespace);
     case g of
       Inl e \<Rightarrow>
         (if keys = [] then ret (Some e)
          else do { _ \<leftarrow> upd_captured (\<lambda>c. c\<lparr>cap_panicked := True\<rparr>); ret None })
     | Inr dt \<Rightarrow>
         (if keys = [] then ret None
          else if no_labels (om_Labels (dt_meta dt))
          then do { _ \<leftarrow> upd_captured (\<lambda>c. c\<lparr>cap_panicked := True\<rparr>); ret None }
          else if list_all (\<lambda>k. om_Labels (dt_meta dt) k = Some ''false'') keys then ret None
          else do {
            u \<leftarrow> call (Update_DataTable cl (set_labels dt
              (\<lambda>k. if k \<in> set keys then Some ''false'' else om_Labels (dt_meta dt) k)));
            ret (case u of Inl e \<Rightarrow> Some e | Inr _ \<Rightarrow> None)
          })
   }"

definition ChangeSchemaURLForRecover ::
    "('w, 'q) table_services \<Rightarrow> DataTable \<Rightarrow> connection \<Rightarrow> ('w \<times> globals, err option outcome) state" where
  "ChangeSchemaURLForRecover ts datatable conn =
     (let datatableLabels = om_Labels (dt_meta datatable);
          keys = ts_order ts datatableLabels in
      and_then (recover_loop ts conn datatableLabels keys) (\<lambda>err.
        case err of
          Some e \<Rightarrow> ret (Ret (Some e))
        | None \<Rightarrow> do {
            (err, c) \<leftarrow> world (retrying (ts_client ts) (recover_attempt (ts_client ts)
              (om_Name (dt_meta datatable)) (om_Namespace (dt_meta datatable)) keys));
            ret (if cap_panicked c then Panic else Ret None)
          }))"

end
