(* ===== verification/Catalog.thy ===== *)
theory Catalog
  imports Hive
begin

text \<open>
  Where the tables are: the contracts of the Hive metastore and of Redis, what \<open>ChangeTableURL\<close> does to
  both, and an in-memory metastore that satisfies the contracts. The catalog of Hive is read by two functions on the world, the current schema and the location of a target
  (a table, or a table with a partition clause), and Redis by a third one. The contracts say how
  the statements the code sends change them.
\<close>

section \<open>Contracts\<close>

type_synonym 'w catalog = "'w \<Rightarrow> string \<times> string \<Rightarrow> string"

text \<open>Text that does not end a quoted string.\<close>

definition plain :: "string \<Rightarrow> bool" where
  "plain s \<longleftrightarrow> CHR 0x22 \<notin> set s"

lemma plain_simps [simp]:
  "plain []" "plain (x # xs) \<longleftrightarrow> x \<noteq> CHR 0x22 \<and> plain xs" "plain (xs @ ys) \<longleftrightarrow> plain xs \<and> plain ys"
  by (auto simp: plain_def)

text \<open>
  \<open>use\<close> selects the schema; a statement that sets the location of a target of the current schema does so
  when it succeeds and nothing when it fails; the other statements of the code change no
  location.
\<close>

definition catalog_contract :: "'w hive \<Rightarrow> ('w \<Rightarrow> string) \<Rightarrow> 'w catalog \<Rightarrow> bool" where
  "catalog_contract hv cur loc \<longleftrightarrow>
     (\<forall>c s. leaves loc (HiveQuery hv c (use_schema s))) \<and>
     (\<forall>c t. leaves loc (HiveQuery hv c (''desc formatted '' @ t))) \<and>
     (\<forall>c. leaves loc (HiveQuery hv c ''show tables'')) \<and>
     (\<forall>c t. leaves loc (HiveQuery hv c (''show partitions '' @ t))) \<and>
     (\<forall>c s w rs w'. run_state (HiveQuery hv c (use_schema s)) w = (Ret (rs, None), w') \<longrightarrow> cur w' = s) \<and>
     (\<forall>c t u w r w'. plain t \<longrightarrow> plain u \<longrightarrow>
        run_state (HiveQuery hv c (set_location t u)) w = (r, w') \<longrightarrow>
        loc w' = (case r of Ret (_, None) \<Rightarrow> (loc w)((cur w, t) := u) | _ \<Rightarrow> loc w))"

text \<open>
  The three services are separate: commands in pods, the API server and Redis do not touch the catalog, and
  only Redis touches the sizes.
\<close>

definition site_contract ::
    "('w, 'q) table_services \<Rightarrow> ('w \<Rightarrow> string) \<Rightarrow> 'w catalog \<Rightarrow> ('w \<Rightarrow> string \<rightharpoonup> string) \<Rightarrow> bool" where
  "site_contract ts cur loc kv \<longleftrightarrow>
     catalog_contract (ts_hive ts) cur loc \<and> redis_contract (ts_redis ts) kv \<and>
     (\<forall>c q. leaves kv (HiveQuery (ts_hive ts) c q)) \<and>
     (\<forall>c. leaves loc (HiveClose (ts_hive ts) c)) \<and>
     (\<forall>p. leaves loc (HiveConnect (ts_hive ts) p)) \<and>
     (\<forall>p. leaves (\<lambda>w. (cur w, loc w, kv w)) (RawExec (ts_exec ts) p)) \<and>
     leaves (\<lambda>w. (cur w, loc w, kv w)) (List_AlluxioRuntime (ts_client ts)) \<and>
     (\<forall>c k v t. leaves (\<lambda>w. (cur w, loc w)) (RedisSet (ts_redis ts) c k v t)) \<and>
     (\<forall>c k. leaves (\<lambda>w. (cur w, loc w)) (RedisDel (ts_redis ts) c k)) \<and>
     (\<forall>c k m. leaves loc (ZRank (ts_redis ts) c k m)) \<and>
     (\<forall>c k a b. leaves loc (ZRange (ts_redis ts) c k a b)) \<and>
     (\<forall>c k. leaves loc (RedisExists (ts_redis ts) c k)) \<and>
     (\<forall>k. leaves loc (Get_DataTable (ts_client ts) k)) \<and>
     (\<forall>d. leaves loc (Update_DataTable (ts_client ts) d)) \<and>
     (\<forall>sel. leaves loc (List_DataTable (ts_client ts) sel))"

lemma site_catalog: "site_contract ts cur loc kv \<Longrightarrow> catalog_contract (ts_hive ts) cur loc"
  and site_redis: "site_contract ts cur loc kv \<Longrightarrow> redis_contract (ts_redis ts) kv"
  and site_hive_kv: "site_contract ts cur loc kv \<Longrightarrow> leaves kv (HiveQuery (ts_hive ts) c q)"
  and site_exec: "site_contract ts cur loc kv \<Longrightarrow>
    leaves (\<lambda>w. (cur w, loc w, kv w)) (RawExec (ts_exec ts) p)"
  and site_runtimes: "site_contract ts cur loc kv \<Longrightarrow>
    leaves (\<lambda>w. (cur w, loc w, kv w)) (List_AlluxioRuntime (ts_client ts))"
  and site_get: "site_contract ts cur loc kv \<Longrightarrow> leaves loc (Get_DataTable (ts_client ts) k)"
  and site_update: "site_contract ts cur loc kv \<Longrightarrow> leaves loc (Update_DataTable (ts_client ts) d)"
  and site_list: "site_contract ts cur loc kv \<Longrightarrow> leaves loc (List_DataTable (ts_client ts) sel)"
  and site_connect: "site_contract ts cur loc kv \<Longrightarrow> leaves loc (HiveConnect (ts_hive ts) url)"
  and site_close: "site_contract ts cur loc kv \<Longrightarrow> leaves loc (HiveClose (ts_hive ts) c)"
  by (simp_all add: site_contract_def del: split_paired_All)

section \<open>Commands in pods leave the catalog alone\<close>

lemma exec_leaves:
  assumes "\<And>p. leaves v (RawExec px p)"
  shows "leaves v (exec_cmd px cmd ev)"
  unfolding exec_cmd_def ExecCommandInContainer_def ExecCommandInContainerWithFullOutput_def
    ExecWithOptions_def
  by (intro leaves_intros assms)

lemma initVal_leaves:
  assumes "leaves v (List_AlluxioRuntime cl)"
  shows "leaves v (initVal cl ev)"
  unfolding initVal_def by (intro leaves_intros assms)

lemma pod_leaves:
  assumes "\<And>p. leaves v (RawExec px p)"
  shows "leaves v (ExecAlluxioTableUnmount px a b c s t)"
    and "leaves v (ExecAlluxioTableUnmountWithoutInfos px ev s t)"
    and "leaves v (ExecAlluxioPartitionTableUnmount px ev s t p)"
    and "leaves v (ExecAlluxioFreeSize px a b c)"
  unfolding ExecAlluxioTableUnmountWithoutInfos_def ExecAlluxioTableUnmount_def
    ExecAlluxioPartitionTableUnmount_def ExecAlluxioFreeSize_def
  by (intro leaves_intros exec_leaves assms)+

lemma mount_leaves:
  assumes "\<And>p. leaves v (RawExec px p)" "leaves v (List_AlluxioRuntime cl)"
  shows "leaves v (ExecAlluxioTablemount cl px ev s t)"
    and "leaves v (ExecTableSize cl px ev s t)"
    and "leaves v (ExecAlluxioPartitionTablemount cl px ev s t p)"
  unfolding ExecAlluxioTablemount_def ExecTableSize_def ExecAlluxioPartitionTablemount_def mount_path_def
  by (intro leaves_intros exec_leaves initVal_leaves assms)+

lemma leaves_world [leaves_intros]: "leaves v m \<Longrightarrow> leaves (\<lambda>x. v (fst x)) (world m)"
  by (auto simp: leaves_def run_simps)

lemma leaves_with_exec [leaves_intros]:
  "(\<And>ev. leaves v (f ev)) \<Longrightarrow> leaves (\<lambda>x. v (fst x)) (with_exec f)"
  by (auto simp: leaves_def run_simps split: prod.splits) (metis snd_conv)

lemma leaves_globals [leaves_intros]:
  "leaves (\<lambda>x. v (fst x)) get_globals" "leaves (\<lambda>x. v (fst x)) (upd_globals f)"
  by (auto simp: leaves_def run_simps)

lemma leaves_and_then [leaves_intros]:
  "leaves v m \<Longrightarrow> (\<And>x. leaves v (f x)) \<Longrightarrow> leaves v (and_then m f)"
  unfolding and_then_def by (intro leaves_intros)

section \<open>Moving one table\<close>

lemma redis_write_leaves:
  assumes "site_contract ts cur loc kv"
  shows "leaves (\<lambda>w. (cur w, loc w)) (AddKV (ts_redis ts) c k x)"
    and "leaves (\<lambda>w. (cur w, loc w)) (RemoveKV (ts_redis ts) c k)"
  using assms by (simp_all add: site_contract_def AddKV_def RemoveKV_def)

lemma cache_table_effect:
  assumes site: "site_contract ts cur loc kv"
    and run: "run_state (cache_table ts cli s t) (w, g) = (r, (w', g'))"
  shows "cur w' = cur w \<and> loc w' = loc w \<and>
    (if r = Ret None then \<exists>size. kv w' = (kv w)(table_key s t \<mapsto> FormatInt64 size) else kv w' = kv w)"
proof -
  let ?v = "\<lambda>w. (cur w, loc w, kv w)"
  note quiet = mount_leaves [OF site_exec [OF site] site_runtimes [OF site]]
  obtain e1 ev1 w1 where m: "run_state (ExecAlluxioTablemount (ts_client ts) (ts_exec ts) (g_exec g) s t) w =
      ((e1, ev1), w1)" by (metis surj_pair)
  have v1: "?v w1 = ?v w" using leavesD [OF quiet(1) m] .
  show ?thesis
  proof (cases e1)
    case (Some e)
    then show ?thesis using run m v1 by (auto simp: cache_table_def run_simps)
  next
    case None
    obtain sz ev2 w2 where z: "run_state (ExecTableSize (ts_client ts) (ts_exec ts) ev1 s t) w1 =
        ((sz, ev2), w2)" by (metis surj_pair)
    have v2: "?v w2 = ?v w" using leavesD [OF quiet(2) z] v1 by simp
    show ?thesis
    proof (cases "\<exists>n. sz = Ret (n, None)")
      case False
      then show ?thesis using run m z None v2
        by (cases sz) (auto simp: cache_table_def run_simps split: option.splits)
    next
      case True
      then obtain n where n: "sz = Ret (n, None)" by blast
      obtain e3 w3 where a: "run_state (AddKV (ts_redis ts) cli (table_key s t) (FormatInt64 n)) w2 = (e3, w3)"
        by (metis surj_pair)
      have "cur w3 = cur w2" "loc w3 = loc w2"
        using leavesD [OF redis_write_leaves(1) [OF site] a] by simp_all
      moreover have "kv w3 = (if e3 = None then (kv w2)(table_key s t \<mapsto> FormatInt64 n) else kv w2)"
        using redis_set [OF site_redis [OF site] a] .
      moreover have "r = Ret e3" "w' = w3"
        using run m z None n a by (auto simp: cache_table_def run_simps)
      ultimately show ?thesis using v2 by auto
    qed
  qed
qed

lemma uncache_table_effect:
  assumes site: "site_contract ts cur loc kv"
    and run: "run_state (uncache_table ts cli s t) (w, g) = (r, (w', g'))"
  shows "cur w' = cur w \<and> loc w' = loc w \<and>
    kv w' = (if r = Ret None then (kv w)(table_key s t := None) else kv w)"
proof -
  note quiet = pod_leaves [OF site_exec [OF site]]
  obtain x w1 where u: "run_state (ExecAlluxioTableUnmountWithoutInfos (ts_exec ts) (g_exec g) s t) w =
      (x, w1)" by (metis surj_pair)
  obtain e2 w2 where d: "run_state (RemoveKV (ts_redis ts) cli (table_key s t)) w1 = (e2, w2)"
    by (metis surj_pair)
  have "r = Ret e2" "w' = w2"
    using run u d by (auto simp: uncache_table_def run_simps split: prod.splits)
  then show ?thesis
    using leavesD [OF quiet(2) u] leavesD [OF redis_write_leaves(2) [OF site] d]
      redis_del [OF site_redis [OF site] d] by auto
qed

lemma trim_set_location:
  "(if c then trim_space (set_location t u) else set_location t u) = set_location t u"
  by (simp add: trim_space_def trim_left_by_def trim_right_by_def set_location_def is_space_def)

lemma table_url_plain: "plain p \<Longrightarrow> plain (table_url c p)"
  by (simp add: table_url_def alluxio_master_pod_ip_def hive_hdfs_master_ip_def warehouse_def)

lemma schema_dir_plain: "plain s \<Longrightarrow> plain (schema_dir s)"
  by (simp add: schema_dir_def)

text \<open>What a move does to the sizes: caching records a size, moving back removes it.\<close>

definition sizes_after :: "bool \<Rightarrow> string \<Rightarrow> (string \<rightharpoonup> string) \<Rightarrow> (string \<rightharpoonup> string) \<Rightarrow> bool" where
  "sizes_after toCache key k k' \<longleftrightarrow>
     (if toCache then \<exists>size. k' = k(key \<mapsto> FormatInt64 size) else k' = k(key := None))"

lemma move_bookkeeping:
  assumes "site_contract ts cur loc kv"
    and "run_state (if c then cache_table ts cli s t else uncache_table ts cli s t) (w, g) = (r, (w', g'))"
  shows "cur w' = cur w \<and> loc w' = loc w \<and>
    (if r = Ret None then sizes_after c (table_key s t) (kv w) (kv w') else kv w' = kv w)"
proof (cases c)
  case True
  then show ?thesis using cache_table_effect [OF assms(1), of cli s t w g r w' g'] assms(2)
    by (simp add: sizes_after_def)
next
  case False
  then show ?thesis using uncache_table_effect [OF assms(1), of cli s t w g r w' g'] assms(2)
    by (simp add: sizes_after_def)
qed

lemma ChangeTableURL_effect:
  assumes site: "site_contract ts cur loc kv" and pl: "plain s" "plain t"
    and run: "run_state (ChangeTableURL ts conn s t c) (w, g) = (r, (w', g'))"
  shows "if r = Ret None
    then loc w' = (loc w)((s, t) := table_url c (schema_dir s @ t)) \<and>
      sizes_after c (table_key s t) (kv w) (kv w')
    else loc w' = loc w"
proof -
  have cat: "leaves loc (HiveQuery (ts_hive ts) conn (use_schema s))"
    "\<And>w rs w'. run_state (HiveQuery (ts_hive ts) conn (use_schema s)) w = (Ret (rs, None), w') \<Longrightarrow> cur w' = s"
    "\<And>u w r w'. plain u \<Longrightarrow> run_state (HiveQuery (ts_hive ts) conn (set_location t u)) w = (r, w') \<Longrightarrow>
      loc w' = (case r of Ret (_, None) \<Rightarrow> (loc w)((cur w, t) := u) | _ \<Rightarrow> loc w)"
    using site_catalog [OF site] pl(2) unfolding catalog_contract_def by blast+
  let ?cli = "case g_hive_redis g of None \<Rightarrow> ConnectRedis | Some c \<Rightarrow> c"
  let ?g = "g\<lparr>g_hive_redis := Some ?cli\<rparr>"
  let ?u = "table_url c (schema_dir s @ t)"
  obtain q1 w1 where q: "run_state (HiveQuery (ts_hive ts) conn (use_schema s)) w = (q1, w1)"
    by (metis surj_pair)
  have l1: "loc w1 = loc w" and k1: "kv w1 = kv w"
    using leavesD [OF cat(1) q] leavesD [OF site_hive_kv [OF site] q] by auto
  show ?thesis
  proof (cases "\<exists>rs. q1 = Ret (rs, None)")
    case False
    then show ?thesis using run q l1
      by (cases q1) (auto simp: ChangeTableURL_def run_simps Let_def split: option.splits)
  next
    case True
    then have cur: "cur w1 = s" using cat(2) q by blast
    obtain b w2 g2 where b: "run_state (if c then cache_table ts ?cli s t else uncache_table ts ?cli s t)
        (w1, ?g) = (b, (w2, g2))" by (metis surj_pair)
    note book = move_bookkeeping [OF site b]
    show ?thesis
    proof (cases "b = Ret None")
      case False
      then show ?thesis using run q True b book l1
        by (cases b) (auto simp: ChangeTableURL_def run_simps Let_def split: option.splits)
    next
      case bN: True
      obtain q3 w3 where q3: "run_state (HiveQuery (ts_hive ts) conn (set_location t ?u)) w2 = (q3, w3)"
        by (metis surj_pair)
      have "plain ?u" using pl by (simp add: table_url_plain schema_dir_plain)
      then have l3: "loc w3 = (case q3 of Ret (_, None) \<Rightarrow> (loc w2)((cur w2, t) := ?u) | _ \<Rightarrow> loc w2)"
        using cat(3) q3 by blast
      have k3: "kv w3 = kv w2" using leavesD [OF site_hive_kv [OF site] q3] .
      have "w' = w3" "r = (case q3 of Panic \<Rightarrow> Panic | Ret (_, err) \<Rightarrow> Ret err)"
        using run q True b bN q3
        by (cases q3; auto simp: ChangeTableURL_def run_simps Let_def trim_set_location)+
      then show ?thesis
        using l3 k3 book bN l1 k1 cur by (auto split: outcome.splits prod.splits option.splits)
    qed
  qed
qed

section \<open>An in-memory metastore\<close>

definition fake_query :: "string \<Rightarrow> (cluster, (row list option \<times> err option) outcome) state" where
  "fake_query q = State (\<lambda>w. (Ret (Some [], None),
     if has_prefix q ''use '' then w\<lparr>fc_schema := drop 4 q\<rparr>
     else if has_prefix q ''alter table '' then
       (let body = drop 12 q;
            front = takeWhile (\<lambda>c. c \<noteq> CHR 0x22) body;
            url = takeWhile (\<lambda>c. c \<noteq> CHR 0x22) (drop (Suc (length front)) body) in
        w\<lparr>fc_locations := (fc_locations w)((fc_schema w, take (length front - 15) front) \<mapsto> url)\<rparr>)
     else w))"

definition fake_hive :: "cluster hive" where
  "fake_hive = \<lparr>HiveConnect = (\<lambda>_. ret (Some 1, None)), HiveClose = (\<lambda>_. ret (Ret None)),
     HiveQuery = (\<lambda>_. fake_query)\<rparr>"

definition fake_redis :: "cluster redis" where
  "fake_redis = \<lparr>
     ZRank = (\<lambda>_ _ m. State (\<lambda>w. (if m \<in> set (fc_scores w) then (0, None)
       else (0, Some (ErrText ''redis: nil'')), w))),
     ZRange = (\<lambda>_ _ _ _. State (\<lambda>w. ((fc_scores w, None), w))),
     RedisExists = (\<lambda>_ k. State (\<lambda>w. ((if fc_redis w k = None then 0 else 1, None), w))),
     RedisGet = (\<lambda>_ k. State (\<lambda>w. (case fc_redis w k of None \<Rightarrow> ([], Some (ErrText ''redis: nil''))
       | Some v \<Rightarrow> (v, None), w))),
     RedisSet = (\<lambda>_ k v _. State (\<lambda>w. (None, w\<lparr>fc_redis := (fc_redis w)(k \<mapsto> v)\<rparr>))),
     RedisDel = (\<lambda>_ k. State (\<lambda>w. (None, w\<lparr>fc_redis := (fc_redis w)(k := None)\<rparr>)))\<rparr>"

definition location_at :: "cluster catalog" where
  "location_at w k = (case fc_locations w k of None \<Rightarrow> [] | Some u \<Rightarrow> u)"

text \<open>The order of the labels of the examples is a parameter.\<close>

definition fake_site :: "string \<Rightarrow> (labels \<Rightarrow> string list) \<Rightarrow> (cluster, int64) table_services" where
  "fake_site out order = \<lparr>ts_client = fake_client, ts_exec = echo_exec out, ts_hive = fake_hive,
     ts_redis = fake_redis, ts_order = order\<rparr>"

lemma fake_query_use:
  "run_state (fake_query (use_schema s)) w = (Ret (Some [], None), w\<lparr>fc_schema := s\<rparr>)"
  by (simp add: fake_query_def use_schema_def has_prefix_def)

lemma fake_query_desc:
  "run_state (fake_query (''desc formatted '' @ t)) w = (Ret (Some [], None), w)"
  by (simp add: fake_query_def has_prefix_def)

lemma fake_query_show:
  "run_state (fake_query ''show tables'') w = (Ret (Some [], None), w)"
  "run_state (fake_query (''show partitions '' @ t)) w = (Ret (Some [], None), w)"
  by (simp_all add: fake_query_def has_prefix_def)

lemma fake_query_location:
  assumes "plain t" "plain u"
  shows "run_state (fake_query (set_location t u)) w =
    (Ret (Some [], None), w\<lparr>fc_locations := (fc_locations w)((fc_schema w, t) \<mapsto> u)\<rparr>)"
proof -
  have "CHR 0x22 \<notin> set (t @ '' set location  '')" "CHR 0x22 \<notin> set u"
    using assms by (auto simp: plain_def)
  note front = takeWhile_upto [OF this(1), of "u @ [CHR 0x22]"] and url = takeWhile_upto [OF this(2), of "[]"]
  show ?thesis
    using front url by (simp add: fake_query_def set_location_def has_prefix_def Let_def)
qed

lemma fake_site_contract: "site_contract (fake_site out order) fc_schema location_at fc_redis"
proof -
  have "catalog_contract fake_hive fc_schema location_at"
    by (auto simp: catalog_contract_def fake_hive_def fake_query_use fake_query_desc [simplified] fake_query_location
        fake_query_show [simplified] leaves_def location_at_def [abs_def] fun_eq_iff)
  moreover have "redis_contract fake_redis fc_redis"
    by (auto simp: redis_contract_def fake_redis_def)
  moreover have "leaves fc_redis (fake_query q)" for q
    by (simp add: leaves_def fake_query_def Let_def)
  ultimately show ?thesis
    by (simp add: site_contract_def fake_site_def fake_hive_def fake_redis_def leaves_def echo_exec_def
        fake_client_def fake_lookup_def location_at_def [abs_def] split: option.splits)
qed

end
