(* ===== verification/DatatableController.thy ===== *)
theory DatatableController
  imports Hive
begin

text \<open>
  The controller of data tables (\<open>pkg/controllers/v1alpha1/datatable/datatable_controller.go\<close>): finalizers,
  the decision which tables are cached, moving the tables of a data table to the cache and back.
  Logging is left out.
\<close>

section \<open>Requests\<close>

record reconcileRequestContext =
  dctx_Datatable :: DataTable
  dctx_Namespace :: string
  dctx_Name :: string
  dctx_FinalizerName :: string

definition DataTableFinalizerName :: string where
  "DataTableFinalizerName = ''datatable-controller-finalizer''"

definition dt_set_finalizers :: "DataTable \<Rightarrow> string list \<Rightarrow> DataTable" where
  "dt_set_finalizers dt fs = dt\<lparr>dt_meta := (dt_meta dt)\<lparr>om_Finalizers := fs\<rparr>\<rparr>"

section \<open>Making room in the cache\<close>

text \<open>The pod, container and namespace of the master.\<close>

type_synonym master_pod = "string \<times> string \<times> string"

text \<open>
  The tables to evict, by ascending score, until the new table fits; none when the new table itself
  comes first. The sizes are added with wrap-around.
\<close>

primrec free_loop ::
    "'w redis \<Rightarrow> redis_client \<Rightarrow> string \<Rightarrow> int64 \<Rightarrow> string list \<Rightarrow> int64 \<Rightarrow> string list
      \<Rightarrow> ('w, string list) state" where
  "free_loop rd cli schemaTableName tableSize [] freeSize freeTableCollection = ret freeTableCollection"
| "free_loop rd cli schemaTableName tableSize (tableTmp # tables) freeSize freeTableCollection =
     (if tableTmp = schemaTableName then ret []
      else do {
        cached \<leftarrow> IsExistInALluxio rd cli tableTmp;
        if cached then do {
          tSize \<leftarrow> GetSize rd cli tableTmp;
          if sint (freeSize + tSize) < sint tableSize
          then free_loop rd cli schemaTableName tableSize tables (freeSize + tSize)
            (freeTableCollection @ [tableTmp])
          else ret (freeTableCollection @ [tableTmp])
        } else free_loop rd cli schemaTableName tableSize tables freeSize freeTableCollection
      })"

text \<open>A name without an underscore panics; of more than two parts the first two are used.\<close>

primrec unmount_loop ::
    "('w, 'q) table_services \<Rightarrow> master_pod \<Rightarrow> string list \<Rightarrow> ('w \<times> globals, unit outcome) state" where
  "unmount_loop ts pod [] = ret (Ret ())"
| "unmount_loop ts pod (stName # names) =
     (case split_on CHR ''_'' stName of
        schemaName # tableName # _ \<Rightarrow> do {
          _ \<leftarrow> with_exec (\<lambda>_. do {
            (res, err, ev) \<leftarrow> ExecAlluxioTableUnmount (ts_exec ts) (fst pod) (fst (snd pod)) (snd (snd pod))
              schemaName tableName;
            ret ((), ev)
          });
          unmount_loop ts pod names
        }
      | _ \<Rightarrow> ret Panic)"

text \<open>Errors of reading the sizes are ignored; the values beside them are used.\<close>

definition make_room ::
    "('w, 'q) table_services \<Rightarrow> redis_client \<Rightarrow> master_pod \<Rightarrow> connection \<Rightarrow> string \<Rightarrow> string
      \<Rightarrow> ('w \<times> globals, unit outcome) state" where
  "make_room ts cli pod conn schemaName tableName =
     (let schemaTableName = schemaName @ ''_'' @ tableName in do {
        inZset \<leftarrow> world (IsinZset (ts_redis ts) cli schemaTableName);
        if \<not> inZset then ret (Ret ())
        else do {
          cached \<leftarrow> world (IsExistInALluxio (ts_redis ts) cli schemaTableName);
          if cached then ret (Ret ())
          else and_then (world (GetTableSize (ts_hive ts) conn schemaName tableName)) (\<lambda>(tableSize, err). do {
            (freeSize, err) \<leftarrow> with_exec (\<lambda>_. do {
              (n, err, ev) \<leftarrow> ExecAlluxioFreeSize (ts_exec ts) (fst pod) (fst (snd pod)) (snd (snd pod));
              ret ((n, err), ev)
            });
            if sint tableSize < sint freeSize then ret (Ret ())
            else do {
              tableCollections \<leftarrow> world (GetValue (ts_redis ts) cli);
              freeTableCollection \<leftarrow> world (free_loop (ts_redis ts) cli schemaTableName tableSize
                tableCollections freeSize []);
              unmount_loop ts pod freeTableCollection
            }
          })
        }
      })"

primrec make_room_tables ::
    "('w, 'q) table_services \<Rightarrow> redis_client \<Rightarrow> master_pod \<Rightarrow> connection \<Rightarrow> string \<Rightarrow> Table list
      \<Rightarrow> ('w \<times> globals, unit outcome) state" where
  "make_room_tables ts cli pod conn schemaName [] = ret (Ret ())"
| "make_room_tables ts cli pod conn schemaName (table # tables) =
     and_then (make_room ts cli pod conn schemaName (tbl_TableName table)) (\<lambda>_.
       make_room_tables ts cli pod conn schemaName tables)"

primrec make_room_schemas ::
    "('w, 'q) table_services \<Rightarrow> redis_client \<Rightarrow> master_pod \<Rightarrow> connection \<Rightarrow> Schema list
      \<Rightarrow> ('w \<times> globals, unit outcome) state" where
  "make_room_schemas ts cli pod conn [] = ret (Ret ())"
| "make_room_schemas ts cli pod conn (schema # schemas) =
     and_then (make_room_tables ts cli pod conn (sch_SchemaName schema) (sch_Tables schema)) (\<lambda>_.
       make_room_schemas ts cli pod conn schemas)"

definition intelligent_cache ::
    "('w, 'q) table_services \<Rightarrow> master_pod \<Rightarrow> connection \<Rightarrow> DataTable
      \<Rightarrow> ('w \<times> globals, unit outcome) state" where
  "intelligent_cache ts pod conn datatable =
     (if \<not> dts_IntelligentCache (dt_Spec datatable) then ret (Ret ())
      else do {
        g \<leftarrow> get_globals;
        let cli = (case g_datatable_redis g of None \<Rightarrow> ConnectRedis | Some c \<Rightarrow> c) in do {
        _ \<leftarrow> upd_globals (\<lambda>g. g\<lparr>g_datatable_redis := Some cli\<rparr>);
        make_room_schemas ts cli pod conn (dts_Schemas (dt_Spec datatable))
        }
      })"

section \<open>Finalizers and deletion\<close>

definition AddFinalizerAndRequeue_DataTable ::
    "('w, 'q) client \<Rightarrow> reconcileRequestContext \<Rightarrow> ('w, reconcile_result) state" where
  "AddFinalizerAndRequeue_DataTable cl ctx =
     (let dt = dctx_Datatable ctx; prevGeneration = om_Generation (dt_meta dt) in do {
        u \<leftarrow> Update_DataTable cl
          (dt_set_finalizers dt (om_Finalizers (dt_meta dt) @ [dctx_FinalizerName ctx]));
        ret (case u of
           Inl e \<Rightarrow> RequeueIfError (Some e)
         | Inr updated \<Rightarrow>
             RequeueImmediatelyUnlessGenerationChanged prevGeneration (om_Generation (dt_meta updated)))
      })"

definition ReconcileDatatableDeletion ::
    "('w, 'q) table_services \<Rightarrow> reconcileRequestContext \<Rightarrow> connection
      \<Rightarrow> ('w \<times> globals, reconcile_result outcome) state" where
  "ReconcileDatatableDeletion ts ctx conn =
     (let dt = dctx_Datatable ctx in
      and_then (ChangeSchemaURLForRecover ts dt conn) (\<lambda>err.
        case err of
          Some e \<Rightarrow> ret (Ret (RequeueIfError (Some e)))
        | None \<Rightarrow>
            (if HasDeletionTimestamp (dt_meta dt) then do {
               u \<leftarrow> world (Update_DataTable (ts_client ts) (dt_set_finalizers dt
                 (RemoveString (om_Finalizers (dt_meta dt)) (dctx_FinalizerName ctx))));
               ret (Ret (case u of Inl e \<Rightarrow> RequeueIfError (Some e) | Inr _ \<Rightarrow> NoRequeue))
             } else ret (Ret NoRequeue))))"

section \<open>Caching the tables of a data table\<close>

primrec cache_schemas ::
    "('w, 'q) table_services \<Rightarrow> connection \<Rightarrow> Schema list \<Rightarrow> string list
      \<Rightarrow> ('w \<times> globals, (err + string list) outcome) state" where
  "cache_schemas ts conn [] allLabels = ret (Ret (Inr allLabels))"
| "cache_schemas ts conn (schema # schemas) allLabels =
     and_then (ChangeSchemaURLForCache ts conn schema) (\<lambda>(labels, err).
       case err of
         Some e \<Rightarrow> and_then (world (HiveClose (ts_hive ts) conn)) (\<lambda>_. ret (Ret (Inl e)))
       | None \<Rightarrow> cache_schemas ts conn schemas (allLabels @ labels))"

text \<open>
  The closure that records the labels. A map of labels that comes from the server without entries
  is nil and the new one is not, so that an empty one is never equal to it.
\<close>

definition labels_of :: "string list \<Rightarrow> labels" where
  "labels_of ls k = (if k \<in> set ls then Some ''true'' else None)"

definition same_labels :: "labels \<Rightarrow> labels \<Rightarrow> bool" where
  "same_labels l l' \<longleftrightarrow> \<not> no_labels l \<and> l = l'"

declare same_labels_def [code del]

definition recorded :: "DataTable \<Rightarrow> string list \<Rightarrow> bool" where
  "recorded dt ls \<longleftrightarrow> dtst_Schemas (dt_Status dt) = dts_Schemas (dt_Spec dt) \<and>
     same_labels (om_Labels (dt_meta dt)) (labels_of ls)"

definition label_attempt_DataTable ::
    "('w, 'q) client \<Rightarrow> string \<Rightarrow> string \<Rightarrow> string list \<Rightarrow> ('w \<times> captured, err option) state" where
  "label_attempt_DataTable cl name namespace allLabels = do {
     g \<leftarrow> call (GetDatatable cl name namespace);
     case g of
       Inl e \<Rightarrow> ret (Some e)
     | Inr dt \<Rightarrow>
         (if recorded dt allLabels then ret None
          else do {
            u \<leftarrow> call (Update_DataTable cl (set_labels
              (dt\<lparr>dt_Status := (dt_Status dt)\<lparr>dtst_Schemas := dts_Schemas (dt_Spec dt)\<rparr>\<rparr>)
              (labels_of allLabels)));
            ret (case u of Inl e \<Rightarrow> Some e | Inr _ \<Rightarrow> None)
          })
   }"

definition record_labels ::
    "('w, 'q) table_services \<Rightarrow> reconcileRequestContext \<Rightarrow> string list \<Rightarrow> ('w, err option) state" where
  "record_labels ts ctx allLabels =
     (if dtst_Schemas (dt_Status (dctx_Datatable ctx)) = [] then do {
        (err, _) \<leftarrow> retrying (ts_client ts) (label_attempt_DataTable (ts_client ts)
          (dctx_Name ctx) (dctx_Namespace ctx) allLabels);
        ret err
      } else ret None)"

definition cache_datatable ::
    "('w, 'q) table_services \<Rightarrow> reconcileRequestContext \<Rightarrow> connection
      \<Rightarrow> ('w \<times> globals, reconcile_result outcome) state" where
  "cache_datatable ts ctx conn =
     and_then (cache_schemas ts conn (dts_Schemas (dt_Spec (dctx_Datatable ctx))) []) (\<lambda>r.
       case r of
         Inl e \<Rightarrow> ret (Ret (RequeueIfError (Some e)))
       | Inr allLabels \<Rightarrow> do {
           err \<leftarrow> world (record_labels ts ctx allLabels);
           case err of
             Some e \<Rightarrow> ret (Ret (RequeueIfError (Some e)))
           | None \<Rightarrow> and_then (world (HiveClose (ts_hive ts) conn)) (\<lambda>_. ret (Ret NoRequeue))
         })"

section \<open>Reconciling\<close>

definition reconcileDataTable ::
    "('w, 'q) table_services \<Rightarrow> reconcileRequestContext
      \<Rightarrow> ('w \<times> globals, reconcile_result outcome) state" where
  "reconcileDataTable ts ctx =
     (let datatable = dctx_Datatable ctx in do {
        l \<leftarrow> world (List_AlluxioRuntime (ts_client ts));
        case l of
          Inl e \<Rightarrow> ret (Ret (RequeueIfError (Some e)))
        | Inr [] \<Rightarrow> ret (Ret (RequeueIfError (Some (ErrText ''fail to get the alluxio runtime''))))
        | Inr (runtime # _) \<Rightarrow>
            (let pod = (om_Name (rt_meta runtime) @ ''-master-0'', ''alluxio-master'',
                   om_Namespace (rt_meta runtime)) in do {
               (conn, err) \<leftarrow> world (ConnectHiveMetaStore (ts_hive ts) (dts_Url (dt_Spec datatable)));
               case err of
                 Some e \<Rightarrow> and_then (world (HiveClose (ts_hive ts) conn)) (\<lambda>_.
                     ret (Ret (RequeueIfError (Some e))))
               | None \<Rightarrow> and_then (intelligent_cache ts pod conn datatable) (\<lambda>_.
                   if HasDeletionTimestamp (dt_meta datatable)
                   then ReconcileDatatableDeletion ts ctx conn
                   else if \<not> ContainsString (om_Finalizers (dt_meta datatable)) (dctx_FinalizerName ctx)
                   then do {
                     r \<leftarrow> world (AddFinalizerAndRequeue_DataTable (ts_client ts) ctx);
                     ret (Ret r)
                   }
                   else cache_datatable ts ctx conn)
             })
      })"

definition Reconcile_DataTable ::
    "('w, 'q) table_services \<Rightarrow> nskey \<Rightarrow> ('w \<times> globals, reconcile_result outcome) state" where
  "Reconcile_DataTable ts req = do {
     g \<leftarrow> world (Get_DataTable (ts_client ts) req);
     case g of
       Inl e \<Rightarrow> ret (Ret (RequeueIfError (IgnoreNotFound (Some e))))
     | Inr dt \<Rightarrow> reconcileDataTable ts \<lparr>dctx_Datatable = dt, dctx_Namespace = fst req,
         dctx_Name = snd req, dctx_FinalizerName = DataTableFinalizerName\<rparr>
   }"

end
