(* ===== verification/Placement.thy ===== *)
theory Placement
  imports Catalog DatatableController Fixtures
begin

text \<open>
  Where the tables of a data table are after a request: moving one table, caching a
  schema, moving back when the data table is deleted, and the labels that record what is cached.
\<close>

section \<open>Locations\<close>

definition cached_url :: "string \<Rightarrow> string \<Rightarrow> string" where
  "cached_url s t = table_url True (schema_dir s @ t)"

definition home_url :: "string \<Rightarrow> string \<Rightarrow> string" where
  "home_url s t = table_url False (schema_dir s @ t)"

section \<open>Recording the labels\<close>

text \<open>Recording the labels: every attempt that ends without an error leaves them in the store.\<close>

definition records :: "DataTable option \<Rightarrow> string list \<Rightarrow> bool" where
  "records stored ls \<longleftrightarrow> (\<exists>d. stored = Some d \<and> om_Labels (dt_meta d) = labels_of ls \<and>
     dtst_Schemas (dt_Status d) = dts_Schemas (dt_Spec d))"

lemma label_attempt_records:
  assumes contract: "datatable_contract cl at"
    and run: "run_state (label_attempt_DataTable cl name namespace ls) (w, c) = (None, (w', c'))"
  shows "records (at w' (namespace, name)) ls"
proof -
  have get: "\<And>k w w' dt. run_state (Get_DataTable cl k) w = (Inr dt, w') \<Longrightarrow>
      at w' k = Some dt \<and> meta_key (dt_meta dt) = k"
    and upd: "\<And>dt w w' d. run_state (Update_DataTable cl dt) w = (Inr d, w') \<Longrightarrow>
      at w' (meta_key (dt_meta dt)) = Some d \<and> om_Labels (dt_meta d) = om_Labels (dt_meta dt) \<and>
      dt_Spec d = dt_Spec dt \<and> dt_Status d = dt_Status dt"
    using contract unfolding datatable_contract_def by blast+
  obtain dt w1 where g: "run_state (Get_DataTable cl (namespace, name)) w = (Inr dt, w1)"
    using run by (cases "run_state (Get_DataTable cl (namespace, name)) w")
      (auto simp: label_attempt_DataTable_def GetDatatable_def run_simps split: sum.splits)
  show ?thesis
  proof (cases "recorded dt ls")
    case True
    then have "w' = w1"
      using run g by (simp add: label_attempt_DataTable_def GetDatatable_def run_simps)
    then show ?thesis using get [OF g] True by (simp add: records_def recorded_def same_labels_def)
  next
    case False
    let ?new = "set_labels (dt\<lparr>dt_Status := (dt_Status dt)\<lparr>dtst_Schemas := dts_Schemas (dt_Spec dt)\<rparr>\<rparr>)
      (labels_of ls)"
    obtain d where u: "run_state (Update_DataTable cl ?new) w1 = (Inr d, w')"
      using run g False by (cases "run_state (Update_DataTable cl ?new) w1")
        (auto simp: label_attempt_DataTable_def GetDatatable_def run_simps split: sum.splits)
    have "meta_key (dt_meta ?new) = meta_key (dt_meta dt)" by (simp add: set_labels_def meta_key_def)
    then show ?thesis
      using upd [OF u] get [OF g] by (auto simp: records_def set_labels_def)
  qed
qed

lemma record_labels_records:
  assumes "retry_contract (ts_client ts)" "datatable_contract (ts_client ts) at"
    and "dtst_Schemas (dt_Status (dctx_Datatable ctx)) = []"
    and "run_state (record_labels ts ctx ls) w = (None, w')"
  shows "records (at w' (dctx_Namespace ctx, dctx_Name ctx)) ls"
proof -
  obtain c where r: "run_state (retrying (ts_client ts) (label_attempt_DataTable (ts_client ts)
      (dctx_Name ctx) (dctx_Namespace ctx) ls)) w = ((None, c), w')"
    using assms(3,4) by (auto simp: record_labels_def run_simps split: prod.splits)
  let ?Q = "\<lambda>(e :: err option) w' (_ :: captured).
    e = None \<longrightarrow> records (at w' (dctx_Namespace ctx, dctx_Name ctx)) ls"
  have "?Q None w' c \<and> True"
    using retrying_post [OF assms(1) r, of "\<lambda>_. True" ?Q] label_attempt_records [OF assms(2)] by blast
  then show ?thesis by simp
qed

lemma record_labels_leaves:
  assumes "site_contract ts cur loc kv" "retry_quiet (ts_client ts) loc"
  shows "leaves loc (record_labels ts ctx ls)"
  unfolding record_labels_def label_attempt_DataTable_def GetDatatable_def
  by (intro leaves_intros retrying_leaves [OF assms(2)] site_get [OF assms(1)] site_update [OF assms(1)])

section \<open>Requests that succeed\<close>

text \<open>What a request does once it has its connection.\<close>

definition decided ::
    "('w, 'q) table_services \<Rightarrow> reconcileRequestContext \<Rightarrow> connection
      \<Rightarrow> ('w \<times> globals, reconcile_result outcome) state" where
  "decided ts ctx conn =
     (if HasDeletionTimestamp (dt_meta (dctx_Datatable ctx)) then ReconcileDatatableDeletion ts ctx conn
      else if \<not> ContainsString (om_Finalizers (dt_meta (dctx_Datatable ctx))) (dctx_FinalizerName ctx)
      then do { r \<leftarrow> world (AddFinalizerAndRequeue_DataTable (ts_client ts) ctx); ret (Ret r) }
      else cache_datatable ts ctx conn)"

lemma reconcileDataTable_success:
  assumes run: "run_state (reconcileDataTable ts ctx) (w, g) = (Ret (res, None), s')"
  obtains rts w1 conn w2 pod w3 g3 where
    "run_state (List_AlluxioRuntime (ts_client ts)) w = (Inr rts, w1)"
    "run_state (HiveConnect (ts_hive ts) (dts_Url (dt_Spec (dctx_Datatable ctx)))) w1 = ((conn, None), w2)"
    "run_state (intelligent_cache ts pod conn (dctx_Datatable ctx)) (w2, g) = (Ret (), (w3, g3))"
    "run_state (decided ts ctx conn) (w3, g3) = (Ret (res, None), s')"
proof -
  obtain l w1 where l: "run_state (List_AlluxioRuntime (ts_client ts)) w = (l, w1)" by (metis surj_pair)
  then obtain rt rts where rt: "l = Inr (rt # rts)"
    using run by (cases l)
      (auto simp: reconcileDataTable_def Let_def run_simps RequeueIfError_def split: list.splits)
  let ?pod = "(om_Name (rt_meta rt) @ ''-master-0'', ''alluxio-master'', om_Namespace (rt_meta rt))"
  obtain conn e w2 where c: "run_state (HiveConnect (ts_hive ts) (dts_Url (dt_Spec (dctx_Datatable ctx)))) w1 =
      ((conn, e), w2)" by (metis surj_pair)
  then have e: "e = None"
    using run l rt by (cases e) (auto simp: reconcileDataTable_def Let_def ConnectHiveMetaStore_def run_simps
        RequeueIfError_def split: prod.splits outcome.splits)
  obtain i w3 g3 where i: "run_state (intelligent_cache ts ?pod conn (dctx_Datatable ctx)) (w2, g) = (i, (w3, g3))"
    by (metis surj_pair)
  have "i = Ret ()" "run_state (decided ts ctx conn) (w3, g3) = (Ret (res, None), s')"
    using run l rt c e i by (cases i;
      auto simp: reconcileDataTable_def decided_def Let_def ConnectHiveMetaStore_def run_simps)+
  then show thesis using that l rt c e i by blast
qed

section \<open>Making room leaves the locations alone\<close>

lemma free_loop_leaves:
  assumes "\<And>c k. leaves v (RedisExists rd c k)" "\<And>c k. leaves v (RedisGet rd c k)"
  shows "leaves v (free_loop rd cli st n tables free coll)"
  by (induction tables arbitrary: free coll)
    (auto simp: IsExistInALluxio_def GetSize_def intro!: leaves_intros assms)

lemma unmount_loop_leaves:
  assumes "\<And>p. leaves v (RawExec (ts_exec ts) p)"
  shows "leaves (\<lambda>x. v (fst x)) (unmount_loop ts pod names)"
  by (induction names)
    (auto intro!: leaves_intros pod_leaves assms split: list.split)

lemma make_room_leaves:
  assumes site: "site_contract ts cur loc kv"
  shows "leaves (\<lambda>x. loc (fst x)) (make_room ts cli pod conn s t)"
proof -
  have redis: "leaves loc (RedisExists (ts_redis ts) c k)" "leaves loc (ZRank (ts_redis ts) c k m)"
    "leaves loc (ZRange (ts_redis ts) c k a b)" for c k m a b
    using site by (simp_all add: site_contract_def)
  have reads: "leaves loc (RedisGet (ts_redis ts) c k)" for c k
    using site_redis [OF site] by (simp add: redis_contract_def leaves_def)
  have hive: "leaves loc (HiveQuery (ts_hive ts) c (use_schema x))"
    "leaves loc (HiveQuery (ts_hive ts) c (''desc formatted '' @ x))" for c x
    using site_catalog [OF site] unfolding catalog_contract_def by blast+
  have exec: "leaves loc (RawExec (ts_exec ts) p)" for p
    using site_exec [OF site] by (auto simp: leaves_def)
  show ?thesis
    unfolding make_room_def GetTableSize_def IsinZset_def IsExistInALluxio_def GetValue_def
    by (intro leaves_intros unmount_loop_leaves free_loop_leaves pod_leaves redis reads hive exec)
qed

lemma intelligent_cache_leaves:
  assumes site: "site_contract ts cur loc kv"
  shows "leaves (\<lambda>x. loc (fst x)) (intelligent_cache ts pod conn dt)"
proof -
  have tables: "leaves (\<lambda>x. loc (fst x)) (make_room_tables ts cli pod conn s tables)" for cli s tables
    by (induction tables) (auto intro!: leaves_intros make_room_leaves [OF site])
  have "leaves (\<lambda>x. loc (fst x)) (make_room_schemas ts cli pod conn schemas)" for cli schemas
    by (induction schemas) (auto intro!: leaves_intros tables)
  then show ?thesis unfolding intelligent_cache_def by (intro leaves_intros)
qed

section \<open>Moving back\<close>

text \<open>
  The API server and the other services are separate; \<open>dts\<close> reads the stored data tables. A listing changes nothing and
  either fails or returns the data tables the selector selects.
\<close>

definition tables_contract ::
    "('w, 'q) table_services \<Rightarrow> 'w catalog \<Rightarrow> ('w \<Rightarrow> DataTable list) \<Rightarrow> bool" where
  "tables_contract ts loc dts \<longleftrightarrow>
     (\<forall>c q. leaves dts (HiveQuery (ts_hive ts) c q)) \<and>
     (\<forall>p. leaves dts (RawExec (ts_exec ts) p)) \<and>
     leaves dts (List_AlluxioRuntime (ts_client ts)) \<and>
     (\<forall>c k v t. leaves dts (RedisSet (ts_redis ts) c k v t)) \<and>
     (\<forall>c k. leaves dts (RedisDel (ts_redis ts) c k)) \<and>
     (\<forall>sel. leaves (\<lambda>w. (loc w, dts w)) (List_DataTable (ts_client ts) sel)) \<and>
     (\<forall>sel w ds. fst (run_state (List_DataTable (ts_client ts) sel) w) = Inr ds \<longrightarrow>
        ds = filter (\<lambda>d. sel (om_Labels (dt_meta d))) (dts w))"

text \<open>The label of some listing that may fail.\<close>

definition listing_may_fail :: "('w, 'q) table_services \<Rightarrow> string \<Rightarrow> bool" where
  "listing_may_fail ts key \<longleftrightarrow> (\<exists>sel w e. LabelsParse (ts_client ts) (key @ ''=true'') = Inr sel \<and>
     fst (run_state (List_DataTable (ts_client ts) sel) w) = Inl e)"

text \<open>How many data tables use what the label stands for.\<close>

definition users :: "DataTable list \<Rightarrow> string \<Rightarrow> nat" where
  "users ds key = length (filter (\<lambda>d. om_Labels (dt_meta d) key = Some ''true'') ds)"

lemma moves_leave:
  assumes "tables_contract ts loc dts"
  shows "leaves (\<lambda>x. dts (fst x)) (ChangeTableURL ts conn s t c)"
    and "leaves (\<lambda>x. dts (fst x)) (ChangePartitionTableURL ts conn s t p c)"
proof -
  have prim: "leaves dts (HiveQuery (ts_hive ts) a q)" "leaves dts (RawExec (ts_exec ts) e)"
    "leaves dts (List_AlluxioRuntime (ts_client ts))" "leaves dts (RedisSet (ts_redis ts) a' k v d)"
    "leaves dts (RedisDel (ts_redis ts) a' k)" for a q e a' k v d
    using assms by (simp_all add: tables_contract_def)
  show "leaves (\<lambda>x. dts (fst x)) (ChangeTableURL ts conn s t c)"
    unfolding ChangeTableURL_def cache_table_def uncache_table_def AddKV_def RemoveKV_def
    by (intro leaves_intros pod_leaves mount_leaves prim)
  show "leaves (\<lambda>x. dts (fst x)) (ChangePartitionTableURL ts conn s t p c)"
    unfolding ChangePartitionTableURL_def
    by (intro leaves_intros pod_leaves mount_leaves prim)
qed

lemma partition_items_plain:
  "partition_items ps = Ret items \<Longrightarrow> \<forall>p \<in> set ps. plain p \<Longrightarrow> \<forall>i \<in> set items. plain i"
proof (induction ps arbitrary: items)
  case Nil
  then show ?case by simp
next
  case (Cons p ps)
  then obtain k v rest where kv: "split_on CHR ''='' p = k # v # rest"
    by (auto split: list.splits)
  moreover obtain rs where "partition_items ps = Ret rs" "items = (k @ ''='' @ [CHR 0x27] @ v @ [CHR 0x27]) # rs"
    using Cons.prems kv by (cases "partition_items ps") auto
  moreover have "plain k" "plain v"
    using split_on_subset [of _ "CHR ''=''" p] kv Cons.prems(2) by (auto simp: plain_def)
  ultimately show ?case using Cons.IH [of rs] Cons.prems by auto
qed

lemma partition_filter_plain:
  assumes "partition_filter p = Ret f" "plain p"
  shows "plain f"
proof -
  obtain items where i: "partition_items (split_on CHR ''/'' p) = Ret items"
    and f: "f = ''partition('' @ join '','' items @ '')''"
    using assms(1) by (cases "partition_items (split_on CHR ''/'' p)") (auto simp: partition_filter_def)
  have "\<forall>q \<in> set (split_on CHR ''/'' p). plain q"
    using assms(2) split_on_subset [of _ "CHR ''/''" p] by (auto simp: plain_def)
  then have "\<forall>q \<in> set items. plain q" by (rule partition_items_plain [OF i])
  then have "plain (join '','' items)"
    using set_join [of "'',''" items] by (auto simp: plain_def)
  then show ?thesis using f by simp
qed

text \<open>
  Moving a partition sets the location of this partition or nothing, however it ends. Its target has a
  space, the name of a table has none: no table is moved.
\<close>

lemma ChangePartitionTableURL_effect:
  assumes site: "site_contract ts cur loc kv" and pl: "plain s" "plain t" "plain p"
    and run: "run_state (ChangePartitionTableURL ts conn s t p c) (w, g) = (r, (w', g'))"
  shows "loc w' = loc w \<and> r \<noteq> Ret None \<or> (\<exists>f. partition_filter p = Ret f \<and>
    loc w' = (loc w)((s, t @ '' '' @ f) := table_url c (schema_dir s @ t @ ''/'' @ p)))"
proof -
  have cat: "leaves loc (HiveQuery (ts_hive ts) conn (use_schema s))"
    "\<And>w rs w'. run_state (HiveQuery (ts_hive ts) conn (use_schema s)) w = (Ret (rs, None), w') \<Longrightarrow> cur w' = s"
    "\<And>t u w r w'. plain t \<Longrightarrow> plain u \<Longrightarrow>
      run_state (HiveQuery (ts_hive ts) conn (set_location t u)) w = (r, w') \<Longrightarrow>
      loc w' = (case r of Ret (_, None) \<Rightarrow> (loc w)((cur w, t) := u) | _ \<Rightarrow> loc w)"
    using site_catalog [OF site] unfolding catalog_contract_def by blast+
  have exec: "leaves loc (RawExec (ts_exec ts) e)" "leaves loc (List_AlluxioRuntime (ts_client ts))" for e
    using site_exec [OF site] site_runtimes [OF site] by (auto simp: leaves_def)
  obtain q1 w1 where q: "run_state (HiveQuery (ts_hive ts) conn (use_schema s)) w = (q1, w1)"
    by (metis surj_pair)
  have l1: "loc w1 = loc w" using leavesD [OF cat(1) q] .
  show ?thesis
  proof (cases "\<exists>rs f. q1 = Ret (rs, None) \<and> partition_filter p = Ret f")
    case False
    then have "w' = w1 \<and> r \<noteq> Ret None" using run q
      by (cases q1; cases "partition_filter p")
        (auto simp: ChangePartitionTableURL_def run_simps split: option.splits)
    then show ?thesis using l1 by simp
  next
    case True
    then obtain f where f: "partition_filter p = Ret f" and cur: "cur w1 = s" using cat(2) q by blast
    let ?t = "t @ '' '' @ f" and ?u = "table_url c (schema_dir s @ t @ ''/'' @ p)"
    obtain q2 w2 where q2: "run_state (HiveQuery (ts_hive ts) conn (set_location ?t ?u)) w1 = (q2, w2)"
      by (metis surj_pair)
    have "plain ?t" "plain ?u"
      using pl partition_filter_plain [OF f] by (simp_all add: table_url_plain schema_dir_plain)
    then have l2: "loc w2 = (case q2 of Ret (_, None) \<Rightarrow> (loc w)((s, ?t) := ?u) | _ \<Rightarrow> loc w)"
      using cat(3) [OF _ _ q2] unfolding cur l1 by blast
    let ?rest = "if c
      then with_exec (\<lambda>ev. ExecAlluxioPartitionTablemount (ts_client ts) (ts_exec ts) ev s t p)
      else with_exec (\<lambda>ev. do {
        (res, err) \<leftarrow> ExecAlluxioPartitionTableUnmount (ts_exec ts) ev s t p; ret (err, ev) })"
    have "leaves (\<lambda>x. loc (fst x)) ?rest"
      by (intro leaves_intros pod_leaves mount_leaves exec)
    then have "loc (fst (snd (run_state ?rest (w2, g)))) = loc w2"
      unfolding leaves_def by simp
    moreover have "if \<exists>rs. q2 = Ret (rs, None) then w' = fst (snd (run_state ?rest (w2, g))) else w' = w2 \<and> r \<noteq> Ret None"
      using run q True f q2
      by (cases q2) (auto simp: ChangePartitionTableURL_def run_simps Let_def
          split: option.splits prod.splits)
    ultimately show ?thesis
      using l2 f by (cases "\<exists>rs. q2 = Ret (rs, None)") (auto split: outcome.splits option.splits prod.splits)
  qed
qed

lemma ChangePartitionTableURL_other:
  assumes "site_contract ts cur loc kv" "plain s" "plain t" "plain p"
    and "run_state (ChangePartitionTableURL ts conn s t p c) (w, g) = (r, (w', g'))"
    and "CHR '' '' \<notin> set (snd k)"
  shows "loc w' k = loc w k"
  using ChangePartitionTableURL_effect [OF assms(1-5)] assms(6) by auto

lemma label_info_plain:
  assumes "GetTableInfoFromLabel key = Ret (s, t, p)" "plain key"
  shows "plain s \<and> plain t \<and> plain p"
proof -
  have "plain (split_on CHR ''-'' key ! i)" if "i < length (split_on CHR ''-'' key)" for i
    using that assms(2) split_on_subset [of "split_on CHR ''-'' key ! i" "CHR ''-''" key]
    by (auto simp: plain_def)
  moreover have "plain x \<Longrightarrow> plain (replace_all x CHR ''.'' CHR ''='')" for x
    by (auto simp: plain_def replace_all_def)
  ultimately show ?thesis
    using assms(1) by (auto simp: GetTableInfoFromLabel_def Let_def split: if_splits)
qed

text \<open>
  A run of the loop that succeeds has moved back each table whose label is true and used by at most one
  data table; a table that has been moved has such a label, or one whose listing failed.
\<close>

lemma recover_loop_effect:
  assumes site: "site_contract ts cur loc kv" and tables: "tables_contract ts loc dts"
    and parse: "parse_contract (ts_client ts)"
    and "\<forall>k \<in> set keys. label_key k"
    and "run_state (recover_loop ts conn labels keys) (w, g) = (Ret None, (w', g'))"
    and t: "CHR '' '' \<notin> set t"
  shows "((\<exists>k \<in> set keys. labels k = Some ''true'' \<and> users (dts w) k \<le> 1 \<and> GetTableInfoFromLabel k = Ret (s, t, [])) \<longrightarrow>
      loc w' (s, t) = home_url s t) \<and>
    (loc w' (s, t) = loc w (s, t) \<or> loc w' (s, t) = home_url s t \<and>
      (\<exists>k \<in> set keys. labels k = Some ''true'' \<and> GetTableInfoFromLabel k = Ret (s, t, []) \<and>
        (users (dts w) k \<le> 1 \<or> listing_may_fail ts k)))"
  using assms(4,5)
proof (induction keys arbitrary: w g)
  case Nil
  then show ?case by (simp add: run_simps)
next
  case (Cons key keys)
  show ?case
  proof (cases "labels key = Some ''true''")
    case False
    then have "run_state (recover_loop ts conn labels keys) (w, g) = (Ret None, (w', g'))"
      using Cons.prems(2) by simp
    from Cons.IH [OF _ this] show ?thesis using Cons.prems(1) False by auto
  next
    case true: True
    then obtain sel where sel: "LabelsParse (ts_client ts) (key @ ''=true'') = Inr sel"
      using Cons.prems by (cases "LabelsParse (ts_client ts) (key @ ''=true'')") (auto simp: run_simps)
    have "label_key key" using Cons.prems(1) by simp
    then have selects: "sel l \<longleftrightarrow> l key = Some ''true''" for l
      using parse sel unfolding parse_contract_def by blast
    obtain l w1 where l: "run_state (List_DataTable (ts_client ts) sel) w = (l, w1)" by (metis surj_pair)
    have same: "loc w1 = loc w" "dts w1 = dts w"
    proof -
      have "leaves (\<lambda>w. (loc w, dts w)) (List_DataTable (ts_client ts) sel)"
        using tables by (simp add: tables_contract_def)
      from leavesD [OF this l] show "loc w1 = loc w" "dts w1 = dts w" by simp_all
    qed
    have listed: "length ds = users (dts w) key" if "l = Inr ds" for ds
    proof -
      have "fst (run_state (List_DataTable (ts_client ts) sel) w) = Inr ds" using l that by simp
      then have "ds = filter (\<lambda>d. sel (om_Labels (dt_meta d))) (dts w)"
        using tables unfolding tables_contract_def by blast
      then show ?thesis by (simp add: users_def selects)
    qed
    have fails: "listing_may_fail ts key" if "l = Inl e" for e
      unfolding listing_may_fail_def using sel l that by (metis fst_conv)
    let ?items = "case l of Inl _ \<Rightarrow> [] | Inr items \<Rightarrow> items"
    show ?thesis
    proof (cases "length ?items \<le> 1")
      case False
      then have rest: "run_state (recover_loop ts conn labels keys) (w1, g) = (Ret None, (w', g'))"
        using Cons.prems(2) true sel l by (simp add: run_simps)
      have "\<not> users (dts w) key \<le> 1" using False listed by (cases l) auto
      then show ?thesis using Cons.IH [OF _ rest] Cons.prems(1) same by auto
    next
      case lone: True
      then have reason: "users (dts w) key \<le> 1 \<or> listing_may_fail ts key"
        using listed fails by (cases l) auto
      obtain s1 t1 p1 where info: "GetTableInfoFromLabel key = Ret (s1, t1, p1)"
        using Cons.prems(2) true sel l lone by (cases "GetTableInfoFromLabel key") (auto simp: run_simps)
      then have pl: "plain s1" "plain t1" "plain p1"
        using label_info_plain [OF info] \<open>label_key key\<close> by (auto simp: label_key_def plain_def)
      let ?move = "if p1 = [] then ChangeTableURL ts conn s1 t1 False
        else ChangePartitionTableURL ts conn s1 t1 p1 False"
      obtain r w2 g2 where m: "run_state ?move (w1, g) = (r, (w2, g2))" by (metis surj_pair)
      have r: "r = Ret None" and rest: "run_state (recover_loop ts conn labels keys) (w2, g2) = (Ret None, (w', g'))"
        using Cons.prems(2) true sel l lone info m
        by (auto simp: run_simps split: outcome.splits option.splits if_splits)
      have "leaves (\<lambda>x. dts (fst x)) ?move" by (intro leaves_if moves_leave [OF tables])
      then have dts2: "dts w2 = dts w1" using leavesD [OF _ m] by fastforce
      have "loc w2 (s, t) = (if p1 = [] \<and> s1 = s \<and> t1 = t then home_url s t else loc w1 (s, t))"
        using ChangeTableURL_effect [OF site pl(1,2)] ChangePartitionTableURL_other [OF site pl] m r t
        by (cases "p1 = []") (auto simp: home_url_def)
      with Cons.IH [OF _ rest] Cons.prems(1) show ?thesis
        unfolding same dts2 using info true reason by (cases "p1 = [] \<and> s1 = s \<and> t1 = t") auto
    qed
  qed
qed

section \<open>Properties\<close>

text \<open>
  C3: Moving a table. A call of \<open>ChangeTableURL\<close> that returns nil has set the location of exactly this table, to
  Alluxio or back to HDFS, and has recorded the size of the cached table in Redis or removed
  it. A call that returns an error has moved no table: the location changes last.
\<close>

theorem ChangeTableURL_moves:
  assumes "site_contract ts cur loc kv" "plain s" "plain t"
    and "run_state (ChangeTableURL ts conn s t toCache) (w, g) = (Ret err, (w', g'))"
  shows "if err = None
    then loc w' = (loc w)((s, t) := if toCache then cached_url s t else home_url s t) \<and>
      sizes_after toCache (table_key s t) (kv w) (kv w')
    else loc w' = loc w"
  using ChangeTableURL_effect [OF assms] by (simp add: cached_url_def home_url_def)

text \<open>No label is iterated over; every command prints one line.\<close>

definition demo_site :: "(cluster, int64) table_services" where
  "demo_site = fake_site ''present'' (\<lambda>_. [''datatable-sales-orders''])"

theorem ChangeTableURL_moves_witness:
  "\<exists>w' g'. run_state (ChangeTableURL demo_site (Some 1) ''sales'' ''orders'' True) (cluster0, globals0) =
      (Ret None, (w', g')) \<and>
    location_at w' (''sales'', ''orders'') =
      ''alluxio://210.28.132.18:19998/user/hive/warehouse/sales.db/orders''"
proof -
  let ?r = "run_state (ChangeTableURL demo_site (Some 1) ''sales'' ''orders'' True) (cluster0, globals0)"
  have "fst ?r = Ret None" by code_simp
  then obtain w' g' where r: "?r = (Ret None, (w', g'))" by (cases ?r) auto
  have "plain ''sales''" "plain ''orders''" by simp_all
  from ChangeTableURL_moves [OF fake_site_contract this, folded demo_site_def, OF r [unfolded demo_site_def]]
  have "location_at w' (''sales'', ''orders'') = cached_url ''sales'' ''orders''" by simp
  moreover have "cached_url ''sales'' ''orders'' =
      ''alluxio://210.28.132.18:19998/user/hive/warehouse/sales.db/orders''" by code_simp
  ultimately show ?thesis using r by auto
qed

text \<open>A data table with one schema and one table.\<close>

definition orders :: DataTable where
  "orders = \<lparr>dt_meta = (named_meta ''default'' ''orders'')\<lparr>om_Finalizers := [DataTableFinalizerName]\<rparr>,
     dt_Spec = \<lparr>dts_Url = ''hive:10000'',
       dts_Schemas = [\<lparr>sch_SchemaName = ''sales'', sch_Tables = [table_named ''orders'']\<rparr>],
       dts_IntelligentCache = False\<rparr>,
     dt_Status = \<lparr>dtst_Schemas = [], dtst_UfsTotal = [], dtst_Phase = None, dtst_Conditions = [],
       dtst_CacheStates = None\<rparr>\<rparr>"

definition orders_cluster :: "DataTable \<Rightarrow> cluster" where
  "orders_cluster dt = cluster0\<lparr>fc_rt_list := [demo_runtime], fc_datatables := [(''default'', ''orders'') \<mapsto> dt],
     fc_dt_list := [dt]\<rparr>"

definition orders_ctx :: "DataTable \<Rightarrow> reconcileRequestContext" where
  "orders_ctx dt = \<lparr>dctx_Datatable = dt, dctx_Namespace = ''default'', dctx_Name = ''orders'',
     dctx_FinalizerName = DataTableFinalizerName\<rparr>"

text \<open>
  The labels of a data table are canonical when each one that is true was made from names without dashes (and a
  partition without dots), as the code makes them.
\<close>

definition canonical_labels :: "labels \<Rightarrow> bool" where
  "canonical_labels labels \<longleftrightarrow> (\<forall>key. labels key = Some ''true'' \<longrightarrow>
     (\<exists>s t p. CHR ''-'' \<notin> set (s @ t @ p) \<and> CHR ''.'' \<notin> set p \<and>
        key = (if p = [] then GetDatatableCommonLabel s t else GetPartitionDatatableCommonLabel s t p)))"

lemma canonical_info:
  assumes "canonical_labels labels" "labels key = Some ''true''" "GetTableInfoFromLabel key = Ret (s, t, p)"
  shows "CHR ''-'' \<notin> set (s @ t @ p) \<and> CHR ''.'' \<notin> set p \<and>
    key = (if p = [] then GetDatatableCommonLabel s t else GetPartitionDatatableCommonLabel s t p)"
proof -
  obtain s1 t1 p1 where c: "CHR ''-'' \<notin> set (s1 @ t1 @ p1)" "CHR ''.'' \<notin> set p1"
    "key = (if p1 = [] then GetDatatableCommonLabel s1 t1 else GetPartitionDatatableCommonLabel s1 t1 p1)"
    using assms(1,2) unfolding canonical_labels_def by blast
  have "GetTableInfoFromLabel key = Ret (s1, t1, p1)"
    using c common_label_info [of s1 t1] partition_label_info [of s1 t1 p1] by (cases "p1 = []") simp_all
  then show ?thesis using assms(3) c by simp
qed


definition deleted_orders :: DataTable where
  "deleted_orders = orders\<lparr>dt_meta := (dt_meta orders)\<lparr>om_DeletionTimestamp := Some 5,
     om_Labels := [''datatable-sales-orders'' \<mapsto> ''true'']\<rparr>\<rparr>"

lemma fake_tables: "tables_contract (fake_site out order) location_at fc_dt_list"
proof -
  have "leaves fc_dt_list (fake_query q)" for q by (simp add: leaves_def fake_query_def Let_def)
  then show ?thesis
    by (simp add: tables_contract_def fake_site_def fake_hive_def fake_redis_def fake_client_def
        echo_exec_def leaves_def)
qed

lemma some_label: "no_labels (\<lambda>x. if x = k then Some v else l x) = False"
  by (auto simp: no_labels_def fun_eq_iff)

lemma deleted_orders_run:
  "map_outcome_ret snd (fst (run_state (ReconcileDatatableDeletion demo_site (orders_ctx deleted_orders) (Some 1))
     (orders_cluster deleted_orders, globals0))) = Ret None"
  by code_simp (simp add: some_label, code_simp)


text \<open>
  The failed listing matters: a second data table uses the same table, the API server cannot list, and the
  table is moved back all the same.
\<close>

definition blind_site :: "(cluster, int64) table_services" where
  "blind_site = demo_site\<lparr>ts_client := fake_client\<lparr>List_DataTable := (\<lambda>_. ret (Inl (ErrText ''unavailable'')))\<rparr>\<rparr>"

definition shared_cluster :: cluster where
  "shared_cluster = (orders_cluster deleted_orders)\<lparr>fc_dt_list := [deleted_orders,
     deleted_orders\<lparr>dt_meta := (named_meta ''default'' ''other'')\<lparr>om_Labels :=
       [''datatable-sales-orders'' \<mapsto> ''true'']\<rparr>\<rparr>],
     fc_locations := [(''sales'', ''orders'') \<mapsto> cached_url ''sales'' ''orders'']\<rparr>"

theorem failed_listing_moves_shared_table:
  "users (fc_dt_list shared_cluster) ''datatable-sales-orders'' = 2 \<and>
   location_at shared_cluster (''sales'', ''orders'') = cached_url ''sales'' ''orders'' \<and>
   location_at (fst (snd (run_state (ReconcileDatatableDeletion blind_site (orders_ctx deleted_orders) (Some 1))
     (shared_cluster, globals0)))) (''sales'', ''orders'') = home_url ''sales'' ''orders''"
proof (intro conjI)
  show "users (fc_dt_list shared_cluster) ''datatable-sales-orders'' = 2"
    "location_at shared_cluster (''sales'', ''orders'') = cached_url ''sales'' ''orders''"
    by code_simp+
  show "location_at (fst (snd (run_state (ReconcileDatatableDeletion blind_site (orders_ctx deleted_orders) (Some 1))
     (shared_cluster, globals0)))) (''sales'', ''orders'') = home_url ''sales'' ''orders''"
    by code_simp (simp add: some_label, code_simp)
qed

text \<open>
  C4: The finalizer comes first. A request for a data table that is not being deleted and has no finalizer moves no
  table, whatever it returns. When it ends without an error, the stored data table has the
  finalizer, so that a later deletion finds its way to moving the tables back.
\<close>

theorem finalizer_before_caching:
  assumes site: "site_contract ts cur loc kv" and "datatable_contract (ts_client ts) at"
    and alive: "\<not> HasDeletionTimestamp (dt_meta (dctx_Datatable ctx))"
      "\<not> ContainsString (om_Finalizers (dt_meta (dctx_Datatable ctx))) (dctx_FinalizerName ctx)"
    and run: "run_state (reconcileDataTable ts ctx) (w, g) = (r, (w', g'))"
  shows "loc w' = loc w \<and> (\<forall>res. r = Ret (res, None) \<longrightarrow>
    (\<exists>d. at w' (meta_key (dt_meta (dctx_Datatable ctx))) = Some d \<and>
      dctx_FinalizerName ctx \<in> set (om_Finalizers (dt_meta d))))"
proof -
  have prim: "leaves loc (List_AlluxioRuntime (ts_client ts))" "leaves loc (HiveConnect (ts_hive ts) p)"
    "leaves loc (HiveClose (ts_hive ts) c)" "leaves loc (Update_DataTable (ts_client ts) d)" for p c d
    using site_runtimes [OF site] site by (auto simp: site_contract_def leaves_def)
  have "leaves (\<lambda>x. loc (fst x)) (reconcileDataTable ts ctx)"
    unfolding reconcileDataTable_def ConnectHiveMetaStore_def AddFinalizerAndRequeue_DataTable_def
      Let_def if_not_P [OF alive(1)] if_P [OF alive(2)]
    by (intro leaves_intros intelligent_cache_leaves [OF site] prim)
  then have "loc w' = loc w" using leavesD [OF _ run] by fastforce
  moreover have "\<exists>d. at w' (meta_key (dt_meta (dctx_Datatable ctx))) = Some d \<and>
      dctx_FinalizerName ctx \<in> set (om_Finalizers (dt_meta d))" if "r = Ret (res, None)" for res
  proof -
    let ?new = "dt_set_finalizers (dctx_Datatable ctx)
      (om_Finalizers (dt_meta (dctx_Datatable ctx)) @ [dctx_FinalizerName ctx])"
    have "run_state (reconcileDataTable ts ctx) (w, g) = (Ret (res, None), (w', g'))"
      using run that by simp
    then obtain conn w3 g3 where "run_state (decided ts ctx conn) (w3, g3) = (Ret (res, None), (w', g'))"
      by (rule reconcileDataTable_success) (rule that)
    then obtain d where "run_state (Update_DataTable (ts_client ts) ?new) w3 = (Inr d, w')"
      using alive by (cases "run_state (Update_DataTable (ts_client ts) ?new) w3")
        (auto simp: decided_def AddFinalizerAndRequeue_DataTable_def Let_def run_simps RequeueIfError_def
          split: sum.splits)
    then show ?thesis
      using assms(2) unfolding datatable_contract_def
      by (fastforce simp: dt_set_finalizers_def meta_key_def)
  qed
  ultimately show ?thesis by blast
qed

definition new_orders :: DataTable where
  "new_orders = orders\<lparr>dt_meta := named_meta ''default'' ''orders''\<rparr>"

theorem finalizer_before_caching_witness:
  "\<exists>w' g' r d. run_state (reconcileDataTable demo_site (orders_ctx new_orders))
      (orders_cluster new_orders, globals0) = (Ret (r, None), (w', g')) \<and>
    location_at w' = location_at (orders_cluster new_orders) \<and>
    datatable_at w' (''default'', ''orders'') = Some d \<and>
    DataTableFinalizerName \<in> set (om_Finalizers (dt_meta d))"
proof -
  let ?r = "run_state (reconcileDataTable demo_site (orders_ctx new_orders)) (orders_cluster new_orders, globals0)"
  have "map_outcome_ret snd (fst ?r) = Ret None" by code_simp
  then obtain res w' g' where r: "?r = (Ret (res, None), (w', g'))"
    by (cases "fst ?r"; cases ?r) auto
  have dt: "datatable_contract (ts_client demo_site) datatable_at"
    using fake_datatable by (simp add: demo_site_def fake_site_def)
  have ctx: "dctx_Datatable (orders_ctx new_orders) = new_orders"
    "dctx_FinalizerName (orders_ctx new_orders) = DataTableFinalizerName"
    "meta_key (dt_meta new_orders) = (''default'', ''orders'')"
    by (simp_all add: orders_ctx_def new_orders_def)
  have "\<not> HasDeletionTimestamp (dt_meta new_orders)"
    "\<not> ContainsString (om_Finalizers (dt_meta new_orders)) DataTableFinalizerName"
    by (simp_all add: new_orders_def HasDeletionTimestamp_def named_meta_def ContainsString_def)
  then show ?thesis
    using finalizer_before_caching [OF fake_site_contract [of "''present''"
        "\<lambda>_. [''datatable-sales-orders'']", folded demo_site_def] dt _ _ r, unfolded ctx] r by auto
qed

text \<open>
  C33: Nothing is evicted. \<open>GetTableSize\<close> never learns a size, it returns -1; so for a table that was
  queried and is not cached, and a cache that is not overcommitted, the search for room ends
  after the measurement of the free space: no table is unmounted, whatever its size and whatever the scores.
\<close>

theorem make_room_evicts_nothing:
  assumes "run_state (IsinZset (ts_redis ts) cli (s @ ''_'' @ t)) w = (True, w1)"
    and "run_state (IsExistInALluxio (ts_redis ts) cli (s @ ''_'' @ t)) w1 = (False, w2)"
    and "run_state (GetTableSize (ts_hive ts) conn s t) w2 = (Ret (n, err), w3)"
    and "run_state (ExecAlluxioFreeSize (ts_exec ts) (fst pod) (fst (snd pod)) (snd (snd pod))) w3 =
      ((free, err', ev), w4)"
    and "0 \<le> sint free"
  shows "n = - 1 \<and> run_state (make_room ts cli pod conn s t) (w, g) = (Ret (), (w4, g\<lparr>g_exec := ev\<rparr>))"
proof -
  have "fst (size_rows rows e) = - 1" for rows e
    by (induction rows arbitrary: e) (auto split: option.splits)
  then have n: "n = - 1"
    using assms(3) by (auto simp: GetTableSize_def run_simps
        split: prod.splits outcome.splits option.splits) (metis fst_conv)
  then show ?thesis using assms by (simp add: make_room_def Let_def run_simps)
qed

text \<open>A table that was queried, in a cluster whose commands print 0: no capacity is left.\<close>

theorem make_room_evicts_nothing_witness:
  "\<exists>ev. run_state (make_room (fake_site ''0'' (\<lambda>_. [])) ConnectRedis (''demo-master-0'', ''alluxio-master'', ''default'')
      (Some 1) ''sales'' ''orders'') (cluster0\<lparr>fc_scores := [''sales_orders'']\<rparr>, globals0) =
    (Ret (), (cluster0\<lparr>fc_scores := [''sales_orders''], fc_schema := ''sales''\<rparr>, globals0\<lparr>g_exec := ev\<rparr>))"
proof -
  let ?ts = "fake_site ''0'' (\<lambda>_. [])" and ?w = "cluster0\<lparr>fc_scores := [''sales_orders'']\<rparr>"
  let ?w' = "?w\<lparr>fc_schema := ''sales''\<rparr>"
  let ?pod = "(''demo-master-0'', ''alluxio-master'', ''default'')"
  have z: "ParseInt64 ''0'' = (0, None)"
  proof -
    have "FormatInt64 0 = ''0''" by code_simp
    then show ?thesis using ParseInt64_FormatInt64 [of 0] by simp
  qed
  have s: "trim_space ''0'' = ''0''" by code_simp
  have 1: "run_state (IsinZset (ts_redis ?ts) ConnectRedis (''sales'' @ ''_'' @ ''orders'')) ?w = (True, ?w)"
    and 2: "run_state (IsExistInALluxio (ts_redis ?ts) ConnectRedis (''sales'' @ ''_'' @ ''orders'')) ?w = (False, ?w)"
    by (simp_all add: IsinZset_def IsExistInALluxio_def fake_site_def fake_redis_def cluster0_def run_simps)
  have 3: "run_state (GetTableSize (ts_hive ?ts) (Some 1) ''sales'' ''orders'') ?w = (Ret (- 1, None), ?w')"
    by (simp add: GetTableSize_def fake_site_def fake_hive_def fake_query_use fake_query_desc [simplified] run_simps)
  have 4: "\<exists>ev. run_state (ExecAlluxioFreeSize (ts_exec ?ts) (fst ?pod) (fst (snd ?pod)) (snd (snd ?pod))) ?w' =
      ((0, None, ev), ?w')"
    by (simp add: ExecAlluxioFreeSize_def exec_cmd_def ExecCommandInContainer_def
        ExecCommandInContainerWithFullOutput_def ExecWithOptions_def fake_site_def echo_exec_def run_simps z s Let_def)
  then obtain ev where "run_state (ExecAlluxioFreeSize (ts_exec ?ts) (fst ?pod) (fst (snd ?pod)) (snd (snd ?pod))) ?w' =
      ((0, None, ev), ?w')" ..
  from make_room_evicts_nothing [OF 1 2 3 this] show ?thesis by auto
qed

text \<open>
  C34: Which partitions are cached. The partitions reported for a table are selected by the first of the wanted
  ones only, in the order of the metastore: those lines that contain, for each of its
  keys, the string \<open>key=value\<close> anywhere. A longer value that starts with the wanted one is therefore selected too.
\<close>

theorem GetSuitablePartition_first_only:
  assumes "run_state (HiveQuery hv conn (use_schema s)) w = (Ret (rs, None), w1)"
    and "run_state (HiveQuery hv conn (''show partitions '' @ t)) w1 =
      (Ret (Some (map (\<lambda>l. (None, Some l)) ls), None), w2)"
  shows "run_state (GetSuitablePartition hv conn s t (wanted # others)) w =
    (Ret (filter (\<lambda>l. \<forall>(k, v) \<in> Mapping.entries wanted. contains l (k @ ''='' @ v)) (map trim_space ls), None), w2)"
proof -
  have "partition_rows (wanted # others) (map (\<lambda>l. (None, Some l)) ls) line =
    filter (\<lambda>l. \<forall>(k, v) \<in> Mapping.entries wanted. contains l (k @ ''='' @ v)) (map trim_space ls)" for line
    by (induction ls arbitrary: line)
      (auto simp: suitable_def scan_row_def Let_def case_prod_beta simp del: contains.simps)
  then show ?thesis using assms by (simp add: GetSuitablePartition_def run_simps)
qed

definition listing_hive :: "string list \<Rightarrow> unit hive" where
  "listing_hive ls = \<lparr>HiveConnect = (\<lambda>_. ret (Some 1, None)), HiveClose = (\<lambda>_. ret (Ret None)),
     HiveQuery = (\<lambda>_ _. ret (Ret (Some (map (\<lambda>l. (None, Some l)) ls), None)))\<rparr>"

theorem GetSuitablePartition_first_only_witness:
  "run_state (GetSuitablePartition (listing_hive [''day=1'', ''day=12'', ''day=2'']) (Some 1) ''sales'' ''orders''
      [Mapping.update ''day'' ''1'' Mapping.empty, Mapping.update ''day'' ''2'' Mapping.empty]) () =
    (Ret ([''day=1'', ''day=12''], None), ())"
proof -
  let ?ls = "[''day=1'', ''day=12'', ''day=2'']"
  let ?wanted = "Mapping.update ''day'' ''1'' Mapping.empty"
  have e: "Mapping.entries ?wanted = {(''day'', ''1'')}"
    by (auto simp: entries_lookup Map.graph_def lookup_update' split: if_splits)
  have q: "run_state (HiveQuery (listing_hive ?ls) (Some 1) q) () =
      (Ret (Some (map (\<lambda>l. (None, Some l)) ?ls), None), ())" for q
    by (simp add: listing_hive_def run_simps)
  have "filter (\<lambda>l. \<forall>(k, v) \<in> {(''day'', ''1'')}. contains l (k @ ''='' @ v)) (map trim_space ?ls) =
      [''day=1'', ''day=12'']" by code_simp
  then show ?thesis
    using GetSuitablePartition_first_only [OF q q, of _ _ ?wanted] unfolding e by simp
qed

end
