(* ===== verification/Moves.thy ===== *)
theory Moves
  imports Placement
begin

text \<open>
  Which locations a request for a data table may change, however it ends: with success, with an error
  or with a panic. The rules of \<open>allowance\<close> bound what a program may change construct by construct, for any
  reflexive and transitive relation between what it finds and what it leaves; the relation
  \<open>moved\<close> between two catalogs is one.
\<close>

section \<open>What a program may change\<close>

text \<open>What \<open>v\<close> reads before and after a run of the program is always related by \<open>R\<close>.\<close>

definition changes :: "('v \<Rightarrow> 'v \<Rightarrow> bool) \<Rightarrow> ('s \<Rightarrow> 'v) \<Rightarrow> ('s, 'a) state \<Rightarrow> bool" where
  "changes R v m \<longleftrightarrow> (\<forall>s. R (v s) (v (snd (run_state m s))))"

definition returns :: "('s, 'a) state \<Rightarrow> 'a \<Rightarrow> bool" where
  "returns m x \<longleftrightarrow> (\<exists>s. fst (run_state m s) = x)"

lemma returnsE: "returns m x \<Longrightarrow> (\<And>s s'. run_state m s = (x, s') \<Longrightarrow> P) \<Longrightarrow> P"
  unfolding returns_def by (metis prod.collapse)

lemma changesI:
  "(\<And>s x s'. run_state m s = (x, s') \<Longrightarrow> R (v s) (v s')) \<Longrightarrow> changes R v m"
  unfolding changes_def by (metis prod.collapse)

lemma changesD: "changes R v m \<Longrightarrow> run_state m s = (x, s') \<Longrightarrow> R (v s) (v s')"
  unfolding changes_def by (metis snd_conv)

locale allowance =
  fixes R :: "'v \<Rightarrow> 'v \<Rightarrow> bool"
  assumes same: "R x x"
    and both: "R x y \<Longrightarrow> R y z \<Longrightarrow> R x z"
begin

lemma unchanged: "leaves v m \<Longrightarrow> changes R v m"
  by (simp add: changes_def leaves_def same)

lemma in_sequence:
  assumes "changes R v m" "\<And>x. returns m x \<Longrightarrow> changes R v (f x)"
  shows "changes R v (m \<bind> f)"
proof (rule changesI)
  fix s y s' assume "run_state (m \<bind> f) s = (y, s')"
  then obtain x s1 where m: "run_state m s = (x, s1)" and f: "run_state (f x) s1 = (y, s')"
    by (rule run_bindE)
  have "returns m x" using m by (auto simp: returns_def intro: exI [of _ s])
  then show "R (v s) (v s')"
    using both changesD [OF assms(1) m] changesD [OF assms(2) f] by blast
qed

lemma until_panic:
  assumes "changes R v m" "\<And>x. returns m (Ret x) \<Longrightarrow> changes R v (f x)"
  shows "changes R v (and_then m f)"
  unfolding and_then_def
proof (rule in_sequence [OF assms(1)])
  fix r assume "returns m r"
  then show "changes R v (case r of Panic \<Rightarrow> ret Panic | Ret x \<Rightarrow> f x)"
    using assms(2) by (cases r) (simp_all add: unchanged leaves_ret)
qed

end

text \<open>Rules for branching need no law.\<close>

lemma changes_if: "(b \<Longrightarrow> changes R v m) \<Longrightarrow> (\<not> b \<Longrightarrow> changes R v n) \<Longrightarrow> changes R v (if b then m else n)"
  by simp

lemma changes_case_prod:
  "(\<And>a b. p = (a, b) \<Longrightarrow> changes R v (f a b)) \<Longrightarrow> changes R v (case p of (a, b) \<Rightarrow> f a b)"
  by (cases p) simp

lemma changes_case_option:
  "(p = None \<Longrightarrow> changes R v m) \<Longrightarrow> (\<And>x. p = Some x \<Longrightarrow> changes R v (f x)) \<Longrightarrow>
   changes R v (case p of None \<Rightarrow> m | Some x \<Rightarrow> f x)"
  by (cases p) simp_all

lemma changes_case_sum:
  "(\<And>x. p = Inl x \<Longrightarrow> changes R v (f x)) \<Longrightarrow> (\<And>x. p = Inr x \<Longrightarrow> changes R v (g x)) \<Longrightarrow>
   changes R v (case p of Inl x \<Rightarrow> f x | Inr x \<Rightarrow> g x)"
  by (cases p) simp_all

lemma changes_case_outcome:
  "(\<And>x. p = Ret x \<Longrightarrow> changes R v (f x)) \<Longrightarrow> changes R v m \<Longrightarrow>
   changes R v (case p of Ret x \<Rightarrow> f x | Panic \<Rightarrow> m)"
  by (cases p) simp_all

lemma changes_case_list:
  "(p = [] \<Longrightarrow> changes R v m) \<Longrightarrow> (\<And>x xs. p = x # xs \<Longrightarrow> changes R v (f x xs)) \<Longrightarrow>
   changes R v (case p of [] \<Rightarrow> m | x # xs \<Rightarrow> f x xs)"
  by (cases p) simp_all

lemma changes_Let: "(\<And>x. x = a \<Longrightarrow> changes R v (f x)) \<Longrightarrow> changes R v (let x = a in f x)"
  by simp

lemmas changes_branch = changes_if changes_case_prod changes_case_option changes_case_sum
  changes_case_outcome changes_case_list changes_Let

section \<open>Moves\<close>

text \<open>
  A move is a target with the location it gets: a table, or a partition, whose target is the table with the
  partition clause.
\<close>

type_synonym move = "(string \<times> string) \<times> string"

definition table_move :: "bool \<Rightarrow> string \<Rightarrow> string \<Rightarrow> move" where
  "table_move c s t = ((s, t), table_url c (schema_dir s @ t))"

definition partition_moves :: "bool \<Rightarrow> string \<Rightarrow> string \<Rightarrow> string \<Rightarrow> move set" where
  "partition_moves c s t p = {((s, t @ '' '' @ f), table_url c (schema_dir s @ t @ ''/'' @ p)) | f.
     partition_filter p = Ret f}"

text \<open>Every location is as before, or changed by one of the moves \<open>T\<close>.\<close>

definition moved :: "move set \<Rightarrow> (string \<times> string \<Rightarrow> string) \<Rightarrow> (string \<times> string \<Rightarrow> string) \<Rightarrow> bool" where
  "moved T before after \<longleftrightarrow> (\<forall>k. after k = before k \<or> (k, after k) \<in> T)"

interpretation mv: allowance "moved T" for T
  by unfold_locales (simp add: moved_def, unfold moved_def, metis)

lemma moved_mono: "moved T before after \<Longrightarrow> T \<subseteq> T' \<Longrightarrow> moved T' before after"
  unfolding moved_def by blast

text \<open>What a move has reached, later moves of the same set do not undo.\<close>

lemma moved_stays: "moved T before after \<Longrightarrow> (k, before k) \<in> T \<Longrightarrow> (k, after k) \<in> T"
  unfolding moved_def by metis

text \<open>A program over the world and the variables of the packages.\<close>

abbreviation moves :: "'w catalog \<Rightarrow> move set \<Rightarrow> ('w \<times> globals, 'a) state \<Rightarrow> bool" where
  "moves loc T \<equiv> changes (moved T) (\<lambda>x. loc (fst x))"

lemma moves_nothing: "leaves loc m \<Longrightarrow> moves loc T (world m)"
  by (rule mv.unchanged) (rule leaves_world)

lemma moves_ret: "moves loc T (ret x)"
  by (rule mv.unchanged) (rule leaves_ret)

lemma moves_mono: "moves loc T m \<Longrightarrow> T \<subseteq> T' \<Longrightarrow> moves loc T' m"
  unfolding changes_def using moved_mono by blast

section \<open>Moving tables and partitions\<close>

lemma ChangeTableURL_moved:
  assumes "site_contract ts cur loc kv" "plain s" "plain t" "table_move c s t \<in> T"
  shows "moves loc T (ChangeTableURL ts conn s t c)"
proof (rule changesI)
  fix x r x' assume "run_state (ChangeTableURL ts conn s t c) x = (r, x')"
  then show "moved T (loc (fst x)) (loc (fst x'))"
    using ChangeTableURL_effect [OF assms(1-3), where w = "fst x" and g = "snd x" and w' = "fst x'"
        and g' = "snd x'"] assms(4)
    by (cases "r = Ret None") (simp_all add: moved_def table_move_def)
qed

lemma ChangePartitionTableURL_run:
  assumes "site_contract ts cur loc kv" "plain s" "plain t" "plain p"
    and "run_state (ChangePartitionTableURL ts conn s t p c) x = (r, x')"
  shows "loc (fst x') = loc (fst x) \<and> r \<noteq> Ret None \<or> (\<exists>f. partition_filter p = Ret f \<and>
      loc (fst x') = (loc (fst x))((s, t @ '' '' @ f) := table_url c (schema_dir s @ t @ ''/'' @ p)))"
  using ChangePartitionTableURL_effect [OF assms(1-4), where w = "fst x" and g = "snd x"
      and w' = "fst x'" and g' = "snd x'"] assms(5) by simp

lemma ChangePartitionTableURL_moved:
  assumes "site_contract ts cur loc kv" "plain s" "plain t" "plain p" "partition_moves c s t p \<subseteq> T"
  shows "moves loc T (ChangePartitionTableURL ts conn s t p c)"
proof (rule changesI)
  fix x r x' assume run: "run_state (ChangePartitionTableURL ts conn s t p c) x = (r, x')"
  have "((s, t @ '' '' @ f), table_url c (schema_dir s @ t @ ''/'' @ p)) \<in> T" if "partition_filter p = Ret f" for f
    using that assms(5) unfolding partition_moves_def by blast
  then show "moved T (loc (fst x)) (loc (fst x'))"
    using ChangePartitionTableURL_run [OF assms(1-4) run]
    by (elim disjE exE conjE) (simp_all add: moved_def del: append_Cons append_assoc)
qed

section \<open>Caching a schema\<close>

text \<open>
  The metastore lists tables and partitions by names without quotes: it escapes the quotes in the value of
  a partition.
\<close>

definition plain_rows :: "row list \<Rightarrow> bool" where
  "plain_rows rows \<longleftrightarrow> (\<forall>row \<in> set rows. \<forall>v. snd row = Some v \<longrightarrow> plain v)"

definition listing_contract :: "'w hive \<Rightarrow> bool" where
  "listing_contract hv \<longleftrightarrow>
     (\<forall>c w rows err w'. run_state (HiveQuery hv c ''show tables'') w = (Ret (Some rows, err), w') \<longrightarrow>
        plain_rows rows) \<and>
     (\<forall>c t w rows err w'. run_state (HiveQuery hv c (''show partitions '' @ t)) w = (Ret (Some rows, err), w') \<longrightarrow>
        plain_rows rows)"

lemma plain_subset: "set s \<subseteq> set t \<Longrightarrow> plain t \<Longrightarrow> plain s"
  by (auto simp: plain_def)

lemma trim_space_plain: "plain s \<Longrightarrow> plain (trim_space s)"
  by (rule plain_subset [of _ s])
    (auto simp: trim_space_def trim_left_by_def trim_right_by_def dest!: set_dropWhileD)

lemma scan_row_plain: "\<forall>v. snd r = Some v \<longrightarrow> plain v \<Longrightarrow> plain line \<Longrightarrow> plain (scan_row r line)"
  by (auto simp: scan_row_def split: option.split)

lemma table_rows_plain:
  "plain_rows rows \<Longrightarrow> plain line \<Longrightarrow>
   \<forall>t \<in> set (table_rows rows line). plain (tbl_TableName t)"
proof (induction rows arbitrary: line)
  case (Cons r rows)
  have "\<forall>v. snd r = Some v \<longrightarrow> plain v" and rows: "plain_rows rows"
    using Cons.prems(1) by (simp_all add: plain_rows_def)
  then have "plain (scan_row r line)"
    using Cons.prems(2) by (intro scan_row_plain)
  then show ?case using Cons.IH [OF rows] by (simp add: Let_def table_named_def)
qed simp

lemma partition_rows_plain:
  "plain_rows rows \<Longrightarrow> plain line \<Longrightarrow>
   \<forall>p \<in> set (partition_rows arr rows line). plain p"
proof (induction rows arbitrary: line)
  case (Cons r rows)
  have "\<forall>v. snd r = Some v \<longrightarrow> plain v" and rows: "plain_rows rows"
    using Cons.prems(1) by (simp_all add: plain_rows_def)
  then have "plain (trim_space (scan_row r line))"
    using Cons.prems(2) by (intro trim_space_plain scan_row_plain)
  from Cons.IH [OF rows this] this show ?case by (auto simp: Let_def)
qed simp

lemma listing_tables:
  assumes "listing_contract hv" "run_state (HiveQuery hv c ''show tables'') w = (Ret (Some rows, err), w')"
  shows "plain_rows rows"
  by (rule assms(1) [unfolded listing_contract_def, THEN conjunct1, THEN spec, THEN spec, THEN spec,
        THEN spec, THEN spec, THEN mp, OF assms(2)])

lemma listing_partitions:
  assumes "listing_contract hv"
    and "run_state (HiveQuery hv c (''show partitions '' @ t)) w = (Ret (Some rows, err), w')"
  shows "plain_rows rows"
  by (rule assms(1) [unfolded listing_contract_def, THEN conjunct2, THEN spec, THEN spec, THEN spec,
        THEN spec, THEN spec, THEN spec, THEN mp, OF assms(2)])

lemma GetTablesFromSchema_plain:
  assumes "listing_contract hv" "returns (GetTablesFromSchema hv conn s) (Ret (tables, err))"
  shows "\<forall>t \<in> set tables. plain (tbl_TableName t)"
proof (cases "tables = []")
  case False
  obtain w where w: "fst (run_state (GetTablesFromSchema hv conn s) w) = Ret (tables, err)"
    using assms(2) by (auto simp: returns_def)
  obtain q w1 where q: "run_state (HiveQuery hv conn (use_schema s)) w = (q, w1)" by (metis surj_pair)
  then obtain rs where ok: "q = Ret (rs, None)"
    using w False by (cases q) (auto simp: GetTablesFromSchema_def run_simps split: option.splits)
  obtain l w2 where l: "run_state (HiveQuery hv conn ''show tables'') w1 = (l, w2)" by (metis surj_pair)
  then obtain rows e where r: "l = Ret (Some rows, e)" "tables = table_rows rows []"
    using w q ok by (cases l) (auto simp: GetTablesFromSchema_def run_simps split: option.splits)
  show ?thesis
    using table_rows_plain [of rows "[]"] listing_tables [OF assms(1) l [unfolded r(1)]] r(2) by simp
qed simp

lemma GetSuitablePartition_plain:
  assumes "listing_contract hv" "returns (GetSuitablePartition hv conn s t arr) (Ret (urls, err))"
  shows "\<forall>p \<in> set urls. plain p"
proof (cases "urls = []")
  case False
  obtain w where w: "fst (run_state (GetSuitablePartition hv conn s t arr) w) = Ret (urls, err)"
    using assms(2) by (auto simp: returns_def)
  obtain q w1 where q: "run_state (HiveQuery hv conn (use_schema s)) w = (q, w1)" by (metis surj_pair)
  then obtain rs where ok: "q = Ret (rs, None)"
    using w False by (cases q) (auto simp: GetSuitablePartition_def run_simps split: option.splits)
  obtain l w2 where l: "run_state (HiveQuery hv conn (''show partitions '' @ t)) w1 = (l, w2)"
    by (metis surj_pair)
  then obtain rows where r: "l = Ret (Some rows, None)" "urls = partition_rows arr rows []"
    using w q ok False
    by (cases l) (auto simp: GetSuitablePartition_def run_simps split: option.splits)
  show ?thesis
    using partition_rows_plain [of rows "[]" arr] listing_partitions [OF assms(1) l [unfolded r(1)]] r(2) by simp
qed simp

text \<open>What a listing returns besides: whole tables, and the suitable partitions only.\<close>

lemma GetTablesFromSchema_rows:
  assumes "run_state (GetTablesFromSchema hv conn s) w = (Ret (tables, err), w')"
  shows "tables = [] \<or> (\<exists>rows. tables = table_rows rows [])"
proof -
  obtain q w1 where q: "run_state (HiveQuery hv conn (use_schema s)) w = (q, w1)" by (metis surj_pair)
  obtain l w2 where l: "run_state (HiveQuery hv conn ''show tables'') w1 = (l, w2)" by (metis surj_pair)
  show ?thesis
    using assms q l by (cases q; cases l) (auto simp: GetTablesFromSchema_def run_simps split: option.splits)
qed

lemma GetTablesFromSchema_named:
  assumes "returns (GetTablesFromSchema hv conn s) (Ret (tables, err))" "t \<in> set tables"
  shows "\<exists>name. t = table_named name"
proof -
  have "\<forall>t \<in> set (table_rows rows line). \<exists>name. t = table_named name" for rows line
    by (induction rows arbitrary: line) (auto simp: Let_def)
  moreover obtain w w' where "run_state (GetTablesFromSchema hv conn s) w = (Ret (tables, err), w')"
    using assms(1) by (rule returnsE)
  ultimately show ?thesis using GetTablesFromSchema_rows [of hv conn s w tables err w'] assms(2) by auto
qed

lemma GetSuitablePartition_rows:
  assumes "run_state (GetSuitablePartition hv conn s t arr) w = (Ret (urls, err), w')"
  shows "urls = [] \<or> (\<exists>rows. urls = partition_rows arr rows [])"
proof -
  obtain q w1 where q: "run_state (HiveQuery hv conn (use_schema s)) w = (q, w1)" by (metis surj_pair)
  obtain l w2 where l: "run_state (HiveQuery hv conn (''show partitions '' @ t)) w1 = (l, w2)" by (metis surj_pair)
  show ?thesis
    using assms q l by (cases q; cases l) (auto simp: GetSuitablePartition_def run_simps split: option.splits)
qed

lemma GetSuitablePartition_suitable:
  assumes "returns (GetSuitablePartition hv conn s t arr) (Ret (urls, err))" "p \<in> set urls"
  shows "suitable arr p"
proof -
  have "\<forall>p \<in> set (partition_rows arr rows line). suitable arr p" for rows line
    by (induction rows arbitrary: line) (auto simp: Let_def)
  moreover obtain w w' where "run_state (GetSuitablePartition hv conn s t arr) w = (Ret (urls, err), w')"
    using assms(1) by (rule returnsE)
  ultimately show ?thesis using GetSuitablePartition_rows [of hv conn s t arr w urls err w'] assms(2) by auto
qed

lemma listing_leaves:
  assumes "site_contract ts cur loc kv"
  shows "leaves loc (HiveQuery (ts_hive ts) conn (use_schema s))"
    and "leaves loc (GetTablesFromSchema (ts_hive ts) conn s)"
    and "leaves loc (GetSuitablePartition (ts_hive ts) conn s t arr)"
proof -
  have hive: "leaves loc (HiveQuery (ts_hive ts) conn (use_schema s))"
    "leaves loc (HiveQuery (ts_hive ts) conn ''show tables'')"
    "leaves loc (HiveQuery (ts_hive ts) conn (''show partitions '' @ t))" for t
    using site_catalog [OF assms] unfolding catalog_contract_def by blast+
  show "leaves loc (HiveQuery (ts_hive ts) conn (use_schema s))"
    "leaves loc (GetTablesFromSchema (ts_hive ts) conn s)"
    "leaves loc (GetSuitablePartition (ts_hive ts) conn s t arr)"
    unfolding GetTablesFromSchema_def GetSuitablePartition_def by (intro leaves_intros hive)+
qed

lemma partition_loop_moved:
  assumes "site_contract ts cur loc kv" "plain s" "plain t"
    and "\<forall>p \<in> set urls. plain p \<and> partition_moves True s t p \<subseteq> T"
  shows "moves loc T (partition_loop ts conn s t urls err labels)"
  using assms(4)
proof (induction urls arbitrary: err labels)
  case Nil
  then show ?case by (simp add: moves_ret)
next
  case (Cons url urls)
  have "moves loc T (partition_loop ts conn s t urls err labels)" for err labels
    using Cons by simp
  then show ?case
    using Cons.prems assms(1-3) by (simp add: mv.until_panic ChangePartitionTableURL_moved)
qed

text \<open>The moves \<open>T\<close> cover a table: the table itself when it is cached as a whole, or the partitions found.\<close>

definition covers :: "('w, 'q) table_services \<Rightarrow> connection \<Rightarrow> move set \<Rightarrow> string \<Rightarrow> Table \<Rightarrow> bool" where
  "covers ts conn T s table \<longleftrightarrow> plain (tbl_TableName table) \<and>
     (tbl_ColumnName table = [] \<longrightarrow> tbl_PartitionColumn table = [] \<longrightarrow> table_move True s (tbl_TableName table) \<in> T) \<and>
     (tbl_ColumnName table = [] \<longrightarrow> tbl_PartitionColumn table \<noteq> [] \<longrightarrow> (\<forall>urls err.
        returns (GetSuitablePartition (ts_hive ts) conn s (tbl_TableName table) (tbl_PartitionColumn table))
          (Ret (urls, err)) \<longrightarrow>
        (\<forall>p \<in> set urls. plain p \<and> partition_moves True s (tbl_TableName table) p \<subseteq> T)))"

lemma tables_loop_moved:
  assumes site: "site_contract ts cur loc kv" and s: "plain s" and "\<forall>t \<in> set tables. covers ts conn T s t"
  shows "moves loc T (tables_loop ts conn s tables labels err)"
  using assms(3)
proof (induction tables arbitrary: labels err)
  case Nil
  then show ?case by (simp add: moves_ret)
next
  case (Cons table tables)
  have rest: "moves loc T (tables_loop ts conn s tables labels err)" for labels err
    using Cons by simp
  have cov: "covers ts conn T s table" using Cons.prems by simp
  then have t: "plain (tbl_TableName table)" by (simp add: covers_def)
  have whole: "moves loc T (ChangeTableURL ts conn s (tbl_TableName table) True)"
    if "tbl_ColumnName table = [] \<and> tbl_PartitionColumn table = []"
    using cov that by (intro ChangeTableURL_moved [OF site s t]) (simp add: covers_def)
  have partitions: "moves loc T (partition_loop ts conn s (tbl_TableName table) urls err labels)"
    if "tbl_ColumnName table = [] \<and> tbl_PartitionColumn table \<noteq> []"
      "returns (world (GetSuitablePartition (ts_hive ts) conn s (tbl_TableName table)
        (tbl_PartitionColumn table))) (Ret (urls, e))" for urls e err labels
  proof (rule partition_loop_moved [OF site s t])
    have "returns (GetSuitablePartition (ts_hive ts) conn s (tbl_TableName table)
        (tbl_PartitionColumn table)) (Ret (urls, e))"
      using that(2) by (auto simp: returns_def run_simps)
    then show "\<forall>p \<in> set urls. plain p \<and> partition_moves True s (tbl_TableName table) p \<subseteq> T"
      using cov that(1) unfolding covers_def by blast
  qed
  show ?case
    unfolding tables_loop.simps
    by (intro changes_if)
      (use whole partitions in \<open>auto intro!: mv.until_panic changes_branch moves_ret rest moves_nothing
         listing_leaves [OF site]\<close>)
qed

lemma ChangeSchemaURLForCache_moved:
  assumes site: "site_contract ts cur loc kv" and s: "plain (sch_SchemaName schema)"
    and tables: "\<forall>t \<in> set (sch_Tables schema). covers ts conn T (sch_SchemaName schema) t"
    and listed: "\<And>tables e. sch_Tables schema = [] \<Longrightarrow>
      returns (GetTablesFromSchema (ts_hive ts) conn (sch_SchemaName schema)) (Ret (tables, e)) \<Longrightarrow>
      \<forall>t \<in> set tables. covers ts conn T (sch_SchemaName schema) t"
  shows "moves loc T (ChangeSchemaURLForCache ts conn schema)"
proof -
  have all: "moves loc T (tables_loop ts conn (sch_SchemaName schema) tables [] err)"
    if "sch_Tables schema = []"
      "returns (world (GetTablesFromSchema (ts_hive ts) conn (sch_SchemaName schema))) (Ret (tables, e))"
    for tables e err
  proof (rule tables_loop_moved [OF site s], rule listed [OF that(1)])
    show "returns (GetTablesFromSchema (ts_hive ts) conn (sch_SchemaName schema)) (Ret (tables, e))"
      using that(2) by (auto simp: returns_def run_simps)
  qed
  show ?thesis
    unfolding ChangeSchemaURLForCache_def
    by (intro mv.until_panic changes_branch moves_ret moves_nothing listing_leaves [OF site] all
        tables_loop_moved [OF site s tables]) auto
qed

section \<open>Whole requests\<close>

text \<open>
  The names that statements are built of have no quotes: those of the specification, and the labels that
  record what is cached (the API server admits no label with a quote).
\<close>

definition plain_names :: "DataTable \<Rightarrow> bool" where
  "plain_names dt \<longleftrightarrow>
     (\<forall>schema \<in> set (dts_Schemas (dt_Spec dt)). plain (sch_SchemaName schema) \<and>
        (\<forall>t \<in> set (sch_Tables schema). plain (tbl_TableName t))) \<and>
     (\<forall>key. om_Labels (dt_meta dt) key = Some ''true'' \<longrightarrow> plain key)"

text \<open>
  What a specification asks for: the tables of a schema listed without tables, the tables listed
  as a whole, and the partitions that name the first wanted one of a table.
\<close>

inductive_set asked_moves :: "Schema list \<Rightarrow> move set" for schemas where
  asked_schema: "schema \<in> set schemas \<Longrightarrow> sch_Tables schema = [] \<Longrightarrow>
    table_move True (sch_SchemaName schema) t \<in> asked_moves schemas"
| asked_table: "schema \<in> set schemas \<Longrightarrow> table \<in> set (sch_Tables schema) \<Longrightarrow>
    tbl_ColumnName table = [] \<Longrightarrow> tbl_PartitionColumn table = [] \<Longrightarrow>
    table_move True (sch_SchemaName schema) (tbl_TableName table) \<in> asked_moves schemas"
| asked_partition: "schema \<in> set schemas \<Longrightarrow> table \<in> set (sch_Tables schema) \<Longrightarrow>
    tbl_ColumnName table = [] \<Longrightarrow> tbl_PartitionColumn table = wanted # others \<Longrightarrow>
    \<forall>(k, v) \<in> Mapping.entries wanted. contains p (k @ ''='' @ v) \<Longrightarrow>
    m \<in> partition_moves True (sch_SchemaName schema) (tbl_TableName table) p \<Longrightarrow> m \<in> asked_moves schemas"

text \<open>Moving back tables (those without a partition) and partitions.\<close>

definition home_moves :: "(string \<times> string \<times> string) set \<Rightarrow> move set" where
  "home_moves names = {m. \<exists>(s, t, p) \<in> names.
     if p = [] then m = table_move False s t else m \<in> partition_moves False s t p}"

lemma home_moves_mono: "names \<subseteq> names' \<Longrightarrow> home_moves names \<subseteq> home_moves names'"
  unfolding home_moves_def by blast

lemma listed_covered:
  assumes "listing_contract (ts_hive ts)" "schema \<in> set schemas" "sch_Tables schema = []"
    and "returns (GetTablesFromSchema (ts_hive ts) conn (sch_SchemaName schema)) (Ret (tables, e))"
    and "asked_moves schemas \<subseteq> T" "table \<in> set tables"
  shows "covers ts conn T (sch_SchemaName schema) table"
proof -
  have "tbl_ColumnName table = [] \<and> tbl_PartitionColumn table = []"
    using GetTablesFromSchema_named [OF assms(4,6)] by (auto simp: table_named_def)
  then show ?thesis
    using GetTablesFromSchema_plain [OF assms(1,4)] assms(2,3,5,6) asked_moves.asked_schema
    unfolding covers_def by blast
qed

lemma asked_covered:
  assumes "listing_contract (ts_hive ts)" "schema \<in> set schemas" "table \<in> set (sch_Tables schema)"
    and "plain (tbl_TableName table)" "asked_moves schemas \<subseteq> T"
  shows "covers ts conn T (sch_SchemaName schema) table"
proof -
  have "plain p \<and> partition_moves True (sch_SchemaName schema) (tbl_TableName table) p \<subseteq> T"
    if cols: "tbl_ColumnName table = []" "tbl_PartitionColumn table \<noteq> []" and p: "p \<in> set urls"
      and urls: "returns (GetSuitablePartition (ts_hive ts) conn (sch_SchemaName schema) (tbl_TableName table)
        (tbl_PartitionColumn table)) (Ret (urls, err))" for urls err p
  proof -
    obtain wanted others where w: "tbl_PartitionColumn table = wanted # others"
      using cols(2) by (cases "tbl_PartitionColumn table") auto
    have "suitable (tbl_PartitionColumn table) p"
      using GetSuitablePartition_suitable [OF urls p] .
    then have "\<forall>(k, v) \<in> Mapping.entries wanted. contains p (k @ ''='' @ v)"
      by (auto simp: suitable_def w)
    then show ?thesis
      using asked_moves.asked_partition [OF assms(2,3) cols(1) w] assms(5) p
        GetSuitablePartition_plain [OF assms(1) urls] by blast
  qed
  then show ?thesis
    using assms asked_moves.asked_table unfolding covers_def by blast
qed

lemma cache_schemas_moved:
  assumes site: "site_contract ts cur loc kv" and listing: "listing_contract (ts_hive ts)"
    and "\<forall>schema \<in> set schemas. plain (sch_SchemaName schema) \<and>
      (\<forall>t \<in> set (sch_Tables schema). plain (tbl_TableName t)) \<and> asked_moves [schema] \<subseteq> T"
  shows "moves loc T (cache_schemas ts conn schemas labels)"
  using assms(3)
proof (induction schemas arbitrary: labels)
  case Nil
  then show ?case by (simp add: moves_ret)
next
  case (Cons schema schemas)
  have "moves loc T (cache_schemas ts conn schemas labels)" for labels using Cons by simp
  moreover have "moves loc T (ChangeSchemaURLForCache ts conn schema)"
    using Cons.prems
    by (intro ChangeSchemaURLForCache_moved [OF site] ballI asked_covered [OF listing, of _ "[schema]"]
        listed_covered [OF listing, of _ "[schema]"]) auto
  ultimately show ?case
    unfolding cache_schemas.simps
    by (intro mv.until_panic changes_branch moves_ret moves_nothing site_close [OF site])
qed

lemma asked_moves_mono:
  assumes "set schemas \<subseteq> set schemas'"
  shows "asked_moves schemas \<subseteq> asked_moves schemas'"
proof (rule subsetI)
  fix m assume "m \<in> asked_moves schemas"
  then show "m \<in> asked_moves schemas'"
  proof cases
    case (asked_schema schema t)
    then show ?thesis using assms asked_moves.asked_schema by blast
  next
    case (asked_table schema table)
    then show ?thesis using assms asked_moves.asked_table by blast
  next
    case (asked_partition schema table wanted others p)
    then show ?thesis using assms asked_moves.asked_partition [OF _ asked_partition(2-6)] by blast
  qed
qed

lemma cache_datatable_moved:
  assumes site: "site_contract ts cur loc kv" and listing: "listing_contract (ts_hive ts)"
    and quiet: "retry_quiet (ts_client ts) loc" and names: "plain_names (dctx_Datatable ctx)"
    and T: "asked_moves (dts_Schemas (dt_Spec (dctx_Datatable ctx))) \<subseteq> T"
  shows "moves loc T (cache_datatable ts ctx conn)"
proof -
  let ?schemas = "dts_Schemas (dt_Spec (dctx_Datatable ctx))"
  have "asked_moves [schema] \<subseteq> T" if "schema \<in> set ?schemas" for schema
    using asked_moves_mono [of "[schema]" ?schemas] T that by simp
  then have "\<forall>schema \<in> set ?schemas. plain (sch_SchemaName schema) \<and>
      (\<forall>t \<in> set (sch_Tables schema). plain (tbl_TableName t)) \<and> asked_moves [schema] \<subseteq> T"
    using names by (simp add: plain_names_def)
  then show ?thesis
    unfolding cache_datatable_def
    by (intro mv.until_panic mv.in_sequence changes_branch moves_ret moves_nothing site_close [OF site]
        cache_schemas_moved [OF site listing] record_labels_leaves [OF site quiet])
qed

text \<open>The moves \<open>T\<close> allow the request: they contain those asked for, or those that its labels are read as.\<close>

definition allows :: "move set \<Rightarrow> DataTable \<Rightarrow> bool" where
  "allows T dt \<longleftrightarrow>
     (if HasDeletionTimestamp (dt_meta dt)
      then \<forall>key s t p. om_Labels (dt_meta dt) key = Some ''true'' \<longrightarrow> GetTableInfoFromLabel key = Ret (s, t, p) \<longrightarrow>
        home_moves {(s, t, p)} \<subseteq> T
      else asked_moves (dts_Schemas (dt_Spec dt)) \<subseteq> T)"

lemma recover_loop_moved:
  assumes site: "site_contract ts cur loc kv"
    and plain: "\<And>key. labels key = Some ''true'' \<Longrightarrow> plain key"
    and T: "\<And>key s t p. labels key = Some ''true'' \<Longrightarrow> GetTableInfoFromLabel key = Ret (s, t, p) \<Longrightarrow>
      home_moves {(s, t, p)} \<subseteq> T"
  shows "moves loc T (recover_loop ts conn labels keys)"
proof (induction keys)
  case Nil
  then show ?case by (simp add: moves_ret)
next
  case (Cons key keys)
  have move: "moves loc T (if p = [] then ChangeTableURL ts conn s t False
      else ChangePartitionTableURL ts conn s t p False)"
    if "\<not> labels key \<noteq> Some ''true''" "GetTableInfoFromLabel key = Ret (s, t, p)" for s t p
  proof -
    have "plain s" "plain t" "plain p"
      using label_info_plain [OF that(2)] plain that(1) by auto
    moreover have "home_moves {(s, t, p)} \<subseteq> T" using T that by blast
    ultimately show ?thesis
      by (intro changes_if ChangeTableURL_moved [OF site] ChangePartitionTableURL_moved [OF site])
        (auto simp: home_moves_def)
  qed
  have info: "moves loc T (case q of (s, t, p) \<Rightarrow> and_then
      (if p = [] then ChangeTableURL ts conn s t False else ChangePartitionTableURL ts conn s t p False)
      (\<lambda>err. case err of Some e \<Rightarrow> ret (Ret (Some e)) | None \<Rightarrow> recover_loop ts conn labels keys))"
    if "\<not> labels key \<noteq> Some ''true''" "GetTableInfoFromLabel key = Ret q" for q
    by (intro changes_branch mv.until_panic moves_ret Cons.IH move [OF that(1)]) (use that in auto)
  show ?case
    unfolding recover_loop.simps
    by (intro changes_branch mv.in_sequence Cons.IH moves_ret moves_nothing site_list [OF site] info)
qed

lemma ChangeSchemaURLForRecover_moved:
  assumes site: "site_contract ts cur loc kv" and quiet: "retry_quiet (ts_client ts) loc"
    and names: "plain_names dt" and T: "allows T dt" "HasDeletionTimestamp (dt_meta dt)"
  shows "moves loc T (ChangeSchemaURLForRecover ts dt conn)"
proof -
  have "leaves loc (retrying (ts_client ts) (recover_attempt (ts_client ts) name ns keys))" for name ns keys
    unfolding recover_attempt_def GetDatatable_def
    by (intro retrying_leaves [OF quiet] leaves_intros site_get [OF site] site_update [OF site])
  then show ?thesis
    unfolding ChangeSchemaURLForRecover_def Let_def
    by (intro changes_branch mv.until_panic mv.in_sequence moves_ret moves_nothing
        recover_loop_moved [OF site]) (use names T in \<open>auto simp: plain_names_def allows_def\<close>)
qed

lemma reconcileDataTable_moved:
  assumes site: "site_contract ts cur loc kv" and listing: "listing_contract (ts_hive ts)"
    and quiet: "retry_quiet (ts_client ts) loc" and names: "plain_names (dctx_Datatable ctx)"
    and T: "allows T (dctx_Datatable ctx)"
  shows "moves loc T (reconcileDataTable ts ctx)"
proof -
  have runtimes: "leaves loc (List_AlluxioRuntime (ts_client ts))"
    using site_runtimes [OF site] by (auto simp: leaves_def)
  have finalizer: "leaves loc (AddFinalizerAndRequeue_DataTable (ts_client ts) ctx)"
    unfolding AddFinalizerAndRequeue_DataTable_def by (intro leaves_intros site_update [OF site])
  have delete: "moves loc T (ReconcileDatatableDeletion ts ctx conn)"
    if "HasDeletionTimestamp (dt_meta (dctx_Datatable ctx))" for conn
    unfolding ReconcileDatatableDeletion_def Let_def
    by (intro changes_branch mv.until_panic mv.in_sequence moves_ret moves_nothing site_update [OF site]
        ChangeSchemaURLForRecover_moved [OF site quiet names T that])
  have decided: "moves loc T
      (if HasDeletionTimestamp (dt_meta (dctx_Datatable ctx)) then ReconcileDatatableDeletion ts ctx conn
       else if \<not> ContainsString (om_Finalizers (dt_meta (dctx_Datatable ctx))) (dctx_FinalizerName ctx)
       then do { r \<leftarrow> world (AddFinalizerAndRequeue_DataTable (ts_client ts) ctx); ret (Ret r) }
       else cache_datatable ts ctx conn)" for conn
    using T by (intro changes_if delete mv.in_sequence moves_nothing finalizer moves_ret
        cache_datatable_moved [OF site listing quiet names]) (simp_all add: allows_def)
  show ?thesis
    unfolding reconcileDataTable_def ConnectHiveMetaStore_def Let_def
    by (intro decided changes_branch mv.until_panic mv.in_sequence moves_ret moves_nothing runtimes
        site_connect [OF site] site_close [OF site]
        mv.unchanged [OF intelligent_cache_leaves [OF site]])
qed

section \<open>Sequences of requests\<close>

text \<open>
  What the controller may have done since the state \<open>x0\<close>: it served requests for data tables with plain names,
  with any outcome (a panic that ends the process included), it was restarted, and other actors
  changed the world but not the catalog.
\<close>

inductive served ::
    "('w, 'q) table_services \<Rightarrow> 'w catalog \<Rightarrow> 'w \<times> globals \<Rightarrow> 'w \<times> globals \<Rightarrow> bool"
  for ts loc x0 where
  served_start: "served ts loc x0 x0"
| served_request: "served ts loc x0 (w, g) \<Longrightarrow>
    (\<And>dt. fst (run_state (Get_DataTable (ts_client ts) req) w) = Inr dt \<Longrightarrow> plain_names dt) \<Longrightarrow>
    run_state (Reconcile_DataTable ts req) (w, g) = (r, x') \<Longrightarrow> served ts loc x0 x'"
| served_restart: "served ts loc x0 (w, g) \<Longrightarrow> served ts loc x0 (w, globals0)"
| served_others: "served ts loc x0 (w, g) \<Longrightarrow> loc w' = loc w \<Longrightarrow> served ts loc x0 (w', g)"

text \<open>
  The own locations of a target, in the cache or in HDFS: that of the table, or for a partition that of the
  partition in the directory of its table.
\<close>

definition own_url :: "bool \<Rightarrow> string \<Rightarrow> string \<Rightarrow> string \<Rightarrow> bool" where
  "own_url c s target u \<longleftrightarrow> u = table_url c (schema_dir s @ target) \<or>
     (\<exists>t p f. partition_filter p = Ret f \<and> target = t @ '' '' @ f \<and>
        u = table_url c (schema_dir s @ t @ ''/'' @ p))"

text \<open>Every location is as before or an own one of its target.\<close>

definition own_locations :: "(string \<times> string \<Rightarrow> string) \<Rightarrow> (string \<times> string \<Rightarrow> string) \<Rightarrow> bool" where
  "own_locations before after \<longleftrightarrow> (\<forall>s target. after (s, target) = before (s, target) \<or>
     own_url True s target (after (s, target)) \<or> own_url False s target (after (s, target)))"

interpretation own: allowance own_locations
  by unfold_locales (simp add: own_locations_def, unfold own_locations_def, metis)

definition own_moves :: "move set" where
  "own_moves = {((s, target), u). own_url True s target u \<or> own_url False s target u}"

lemma moved_own: "moved own_moves before after \<Longrightarrow> own_locations before after"
  by (auto simp: moved_def own_locations_def own_moves_def)

lemma table_move_own: "table_move c s t \<in> own_moves"
  by (cases c) (simp_all add: own_moves_def table_move_def own_url_def)

lemma partition_moves_own: "partition_moves c s t p \<subseteq> own_moves"
proof (rule subsetI)
  fix m assume "m \<in> partition_moves c s t p"
  then obtain f where f: "partition_filter p = Ret f"
    and m: "m = ((s, t @ '' '' @ f), table_url c (schema_dir s @ t @ ''/'' @ p))"
    unfolding partition_moves_def by blast
  have "own_url c s (t @ '' '' @ f) (table_url c (schema_dir s @ t @ ''/'' @ p))"
    unfolding own_url_def using f by blast
  then show "m \<in> own_moves" unfolding own_moves_def m by (cases c) simp_all
qed

lemma own_allowed: "allows own_moves dt"
proof -
  have "asked_moves schemas \<subseteq> own_moves" for schemas
  proof (rule subsetI)
    fix m assume "m \<in> asked_moves schemas"
    then show "m \<in> own_moves"
      by cases (use table_move_own partition_moves_own in blast)+
  qed
  moreover have "home_moves {(s, t, p)} \<subseteq> own_moves" for s t p
    using table_move_own subsetD [OF partition_moves_own] by (cases "p = []") (auto simp: home_moves_def)
  ultimately show ?thesis by (simp add: allows_def)
qed

lemma Reconcile_DataTable_unread:
  assumes "site_contract ts cur loc kv"
    and "fst (run_state (Get_DataTable (ts_client ts) req) w) = Inl e"
    and "run_state (Reconcile_DataTable ts req) (w, g) = (r, (w', g'))"
  shows "loc w' = loc w"
proof -
  obtain w1 where q: "run_state (Get_DataTable (ts_client ts) req) w = (Inl e, w1)"
    using assms(2) by (metis prod.collapse)
  then have "w' = w1" using assms(3) by (simp add: Reconcile_DataTable_def run_simps)
  then show ?thesis using leavesD [OF site_get [OF assms(1)] q] by simp
qed

lemma Reconcile_DataTable_moved:
  assumes site: "site_contract ts cur loc kv" and listing: "listing_contract (ts_hive ts)"
    and quiet: "retry_quiet (ts_client ts) loc"
    and get: "fst (run_state (Get_DataTable (ts_client ts) req) w) = Inr dt" and names: "plain_names dt"
    and T: "allows T dt"
    and run: "run_state (Reconcile_DataTable ts req) (w, g) = (r, (w', g'))"
  shows "moved T (loc w) (loc w')"
proof -
  let ?ctx = "\<lparr>dctx_Datatable = dt, dctx_Namespace = fst req, dctx_Name = snd req,
    dctx_FinalizerName = DataTableFinalizerName\<rparr>"
  obtain w1 where q: "run_state (Get_DataTable (ts_client ts) req) w = (Inr dt, w1)"
    using get by (metis prod.collapse)
  have "run_state (reconcileDataTable ts ?ctx) (w1, g) = (r, (w', g'))"
    using run q by (simp add: Reconcile_DataTable_def run_simps)
  then show ?thesis
    using changesD [OF reconcileDataTable_moved [OF site listing quiet, of ?ctx]] names T
      leavesD [OF site_get [OF site] q] by fastforce
qed

section \<open>Properties\<close>

text \<open>
  The tables and partitions whose labels a data table carries, as the labels are written: the names have no dash
  (and the partitions no dot), so that a label stands for one of them.
\<close>

definition labelled_names :: "labels \<Rightarrow> (string \<times> string \<times> string) set" where
  "labelled_names labels = {(s, t, p). CHR ''-'' \<notin> set (s @ t @ p) \<and> CHR ''.'' \<notin> set p \<and>
     labels (if p = [] then GetDatatableCommonLabel s t else GetPartitionDatatableCommonLabel s t p) = Some ''true''}"

lemma labelled_allowed:
  assumes "canonical_labels (om_Labels (dt_meta dt))" "HasDeletionTimestamp (dt_meta dt)"
  shows "allows (home_moves (labelled_names (om_Labels (dt_meta dt)))) dt"
proof -
  have "(s, t, p) \<in> labelled_names (om_Labels (dt_meta dt))"
    if "om_Labels (dt_meta dt) key = Some ''true''" "GetTableInfoFromLabel key = Ret (s, t, p)" for key s t p
    using canonical_info [OF assms(1) that] that(1) unfolding labelled_names_def by auto
  then have "home_moves {(s, t, p)} \<subseteq> home_moves (labelled_names (om_Labels (dt_meta dt)))"
    if "om_Labels (dt_meta dt) key = Some ''true''" "GetTableInfoFromLabel key = Ret (s, t, p)" for key s t p
    using that by (intro home_moves_mono) blast
  then show ?thesis using assms(2) by (simp add: allows_def)
qed


text \<open>A data table that is being deleted, with the labels of a table and of a partition of another one.\<close>

definition logs_orders :: DataTable where
  "logs_orders = deleted_orders\<lparr>dt_meta := (dt_meta deleted_orders)\<lparr>om_Labels :=
     [''datatable-sales-orders'' \<mapsto> ''true'', ''datatable-sales-logs-day.7'' \<mapsto> ''true'']\<rparr>\<rparr>"

definition logs_site :: "(cluster, int64) table_services" where
  "logs_site = fake_site ''present'' (\<lambda>_. [''datatable-sales-orders'', ''datatable-sales-logs-day.7''])"

lemma fake_listing: "listing_contract fake_hive"
  by (auto simp: listing_contract_def fake_hive_def fake_query_def plain_rows_def)

lemma fake_contracts:
  "site_contract (fake_site out order) fc_schema location_at fc_redis"
  "listing_contract (ts_hive (fake_site out order))"
  "retry_quiet (ts_client (fake_site out order)) location_at"
  by (rule fake_site_contract, simp add: fake_site_def fake_listing, simp add: fake_site_def fake_retry_quiet)

lemma fake_get:
  assumes "om_Name (dt_meta dt) = ''orders''" "om_Namespace (dt_meta dt) = ''default''"
  shows "fst (run_state (Get_DataTable (ts_client (fake_site out order)) (''default'', ''orders''))
    (orders_cluster dt)) = Inr dt"
  using assms by (simp add: fake_site_def fake_client_def fake_lookup_def datatable_at_def orders_cluster_def
      meta_key_def)


text \<open>
  C6: The catalog over the life of the controller. After any sequence of requests for data tables with plain names
  (whatever their outcomes), restarts of the controller and changes by others that leave the catalog
  alone, every table and every partition is where it was in the beginning or at one of its two own
  locations, in Alluxio or in HDFS: no location is ever that of another table, or a mixture.
\<close>

theorem served_own_locations:
  assumes site: "site_contract ts cur loc kv" "listing_contract (ts_hive ts)" "retry_quiet (ts_client ts) loc"
    and "served ts loc x0 x"
  shows "own_locations (loc (fst x0)) (loc (fst x))"
  using assms(4)
proof (induction rule: served.induct)
  case served_start
  show ?case by (rule own.same)
next
  case (served_request w g req r x')
  have run: "run_state (Reconcile_DataTable ts req) (w, g) = (r, (fst x', snd x'))"
    using served_request.hyps by simp
  have "own_locations (loc w) (loc (fst x'))"
  proof (cases "fst (run_state (Get_DataTable (ts_client ts) req) w)")
    case (Inl e)
    then show ?thesis using Reconcile_DataTable_unread [OF site(1) _ run] own.same by simp
  next
    case (Inr dt)
    then show ?thesis
      using moved_own [OF Reconcile_DataTable_moved [OF site Inr _ own_allowed run]] served_request.hyps(2) by blast
  qed
  then show ?case using own.both [OF served_request.IH] by simp
next
  case (served_restart w g)
  then show ?case by simp
next
  case (served_others w g w')
  then show ?case by simp
qed

text \<open>
  A data table that is being deleted, with a label of a table and one that names none: the second one ends
  the request with a panic, and a restart follows.
\<close>

definition broken_orders :: DataTable where
  "broken_orders = deleted_orders\<lparr>dt_meta := (dt_meta deleted_orders)\<lparr>om_Labels :=
     [''datatable-sales-orders'' \<mapsto> ''true'', ''broken'' \<mapsto> ''true'']\<rparr>\<rparr>"

definition broken_site :: "(cluster, int64) table_services" where
  "broken_site = fake_site ''present'' (\<lambda>_. [''datatable-sales-orders'', ''broken''])"

theorem served_own_locations_witness:
  "\<exists>w g. run_state (Reconcile_DataTable broken_site (''default'', ''orders''))
      (orders_cluster broken_orders, globals0) = (Panic, (w, g)) \<and>
    location_at w (''sales'', ''orders'') = home_url ''sales'' ''orders'' \<and>
    own_locations (location_at (orders_cluster broken_orders)) (location_at w)"
proof -
  let ?r = "run_state (Reconcile_DataTable broken_site (''default'', ''orders'')) (orders_cluster broken_orders, globals0)"
  have "fst ?r = Panic" by code_simp
  then obtain w g where r: "?r = (Panic, (w, g))" by (cases ?r) auto
  have "location_at (fst (snd ?r)) (''sales'', ''orders'') = home_url ''sales'' ''orders''" by code_simp
  then have home: "location_at w (''sales'', ''orders'') = home_url ''sales'' ''orders''" using r by simp
  have get: "fst (run_state (Get_DataTable (ts_client broken_site) (''default'', ''orders''))
      (orders_cluster broken_orders)) = Inr broken_orders"
    unfolding broken_site_def
    by (rule fake_get) (simp_all add: broken_orders_def deleted_orders_def orders_def named_meta_def)
  have "plain_names broken_orders"
    by (simp add: plain_names_def broken_orders_def deleted_orders_def orders_def table_named_def)
  then have "served broken_site location_at (orders_cluster broken_orders, globals0) (w, g)"
    by (intro served_request [OF served_start _ r]) (simp add: get)
  then have "served broken_site location_at (orders_cluster broken_orders, globals0) (w, globals0)"
    by (rule served_restart)
  from served_own_locations [OF fake_contracts [of "''present''" "\<lambda>_. [''datatable-sales-orders'', ''broken'']",
        folded broken_site_def] this] show ?thesis using r home by simp
qed

end
