(* ===== verification/Caching.thy ===== *)
theory Caching
  imports Moves
begin

text \<open>
  What a successful request caches: the targets a specification stands for, given what the metastore lists
  (whole tables, all the tables of a schema, partitions), and how far the loops over them get.
\<close>

section \<open>What the metastore lists\<close>

text \<open>
  The tables of a schema and the partitions of a table; nobody creates or drops one meanwhile. A row set that
  the metastore returns lists exactly these.
\<close>

definition listing_of ::
    "'w hive \<Rightarrow> ('w \<Rightarrow> string) \<Rightarrow> (string \<Rightarrow> string list) \<Rightarrow> (string \<Rightarrow> string \<Rightarrow> string list) \<Rightarrow> bool" where
  "listing_of hv cur tabs parts \<longleftrightarrow>
     (\<forall>c w rows err w'. run_state (HiveQuery hv c ''show tables'') w = (Ret (Some rows, err), w') \<longrightarrow>
        rows = map (\<lambda>t. (None, Some t)) (tabs (cur w))) \<and>
     (\<forall>c t w rows err w'. run_state (HiveQuery hv c (''show partitions '' @ t)) w = (Ret (Some rows, err), w') \<longrightarrow>
        rows = map (\<lambda>p. (None, Some p)) (parts (cur w) t)) \<and>
     (\<forall>s. list_all plain (tabs s)) \<and> (\<forall>s t. list_all plain (parts s t))"

lemma listed_tables:
  "listing_of hv cur tabs parts \<Longrightarrow> run_state (HiveQuery hv c ''show tables'') w = (Ret (Some rows, err), w') \<Longrightarrow>
   rows = map (\<lambda>t. (None, Some t)) (tabs (cur w))"
  unfolding listing_of_def by blast

lemma listed_partitions:
  assumes "listing_of hv cur tabs parts"
    and "run_state (HiveQuery hv c (''show partitions '' @ t)) w = (Ret (Some rows, err), w')"
  shows "rows = map (\<lambda>p. (None, Some p)) (parts (cur w) t)"
  by (rule assms(1) [unfolded listing_of_def, THEN conjunct2, THEN conjunct1, THEN spec, THEN spec, THEN spec,
        THEN spec, THEN spec, THEN spec, THEN mp, OF assms(2)])

section \<open>Targets\<close>

text \<open>
  A target is a table as a whole or one of its partitions. Its key is what the metastore knows it by; its
  label records that it is cached.
\<close>

type_synonym target = "string \<times> string \<times> string option"

fun target_key :: "target \<Rightarrow> (string \<times> string) outcome" where
  "target_key (s, t, None) = Ret (s, t)"
| "target_key (s, t, Some p) = map_outcome_ret (\<lambda>f. (s, t @ '' '' @ f)) (partition_filter p)"

fun target_url :: "target \<Rightarrow> string" where
  "target_url (s, t, None) = table_url True (schema_dir s @ t)"
| "target_url (s, t, Some p) = table_url True (schema_dir s @ t @ ''/'' @ p)"

fun target_label :: "target \<Rightarrow> string" where
  "target_label (s, t, None) = GetDatatableCommonLabel s t"
| "target_label (s, t, Some p) = GetPartitionDatatableCommonLabel s t p"

definition target_moves :: "target set \<Rightarrow> move set" where
  "target_moves X = {(k, target_url x) | k x. x \<in> X \<and> target_key x = Ret k}"

lemma table_target_move: "(s, t, None) \<in> X \<Longrightarrow> table_move True s t \<in> target_moves X"
  unfolding target_moves_def table_move_def by force

lemma partition_target_moves: "(s, t, Some p) \<in> X \<Longrightarrow> partition_moves True s t p \<subseteq> target_moves X"
  unfolding target_moves_def partition_moves_def by force

text \<open>
  The targets of a table (none when columns are asked for), of a schema and of a specification, in the order in which they
  are cached.
\<close>

definition selected :: "(string, string) mapping \<Rightarrow> string list \<Rightarrow> string list" where
  "selected wanted ps = filter (\<lambda>p. \<forall>(k, v) \<in> Mapping.entries wanted. contains p (k @ ''='' @ v)) (map trim_space ps)"

definition table_targets :: "(string \<Rightarrow> string \<Rightarrow> string list) \<Rightarrow> string \<Rightarrow> Table \<Rightarrow> target list" where
  "table_targets parts s table =
     (if tbl_ColumnName table \<noteq> [] then []
      else case tbl_PartitionColumn table of
        [] \<Rightarrow> [(s, tbl_TableName table, None)]
      | wanted # _ \<Rightarrow> map (\<lambda>p. (s, tbl_TableName table, Some p)) (selected wanted (parts s (tbl_TableName table))))"

definition schema_tables :: "(string \<Rightarrow> string list) \<Rightarrow> Schema \<Rightarrow> Table list" where
  "schema_tables tabs schema =
     (if sch_Tables schema = [] then map table_named (tabs (sch_SchemaName schema)) else sch_Tables schema)"

definition schema_targets ::
    "(string \<Rightarrow> string list) \<Rightarrow> (string \<Rightarrow> string \<Rightarrow> string list) \<Rightarrow> Schema \<Rightarrow> target list" where
  "schema_targets tabs parts schema =
     concat (map (table_targets parts (sch_SchemaName schema)) (schema_tables tabs schema))"

definition targets ::
    "(string \<Rightarrow> string list) \<Rightarrow> (string \<Rightarrow> string \<Rightarrow> string list) \<Rightarrow> Schema list \<Rightarrow> target list" where
  "targets tabs parts schemas = concat (map (schema_targets tabs parts) schemas)"

text \<open>
  The targets that success guarantees: every whole table, but of the partitions of a table only the last one,
  because the loop over them drops the errors of the others.
\<close>

definition table_certain :: "(string \<Rightarrow> string \<Rightarrow> string list) \<Rightarrow> string \<Rightarrow> Table \<Rightarrow> target set" where
  "table_certain parts s table =
     (if table_targets parts s table = [] then {} else {last (table_targets parts s table)})"

definition certain ::
    "(string \<Rightarrow> string list) \<Rightarrow> (string \<Rightarrow> string \<Rightarrow> string list) \<Rightarrow> Schema list \<Rightarrow> target set" where
  "certain tabs parts schemas =
     (\<Union>schema \<in> set schemas. \<Union>table \<in> set (schema_tables tabs schema). table_certain parts (sch_SchemaName schema) table)"

lemma certain_targets: "certain tabs parts schemas \<subseteq> set (targets tabs parts schemas)"
proof -
  have "table_certain parts s table \<subseteq> set (table_targets parts s table)" for s table
    by (simp add: table_certain_def)
  then show ?thesis unfolding certain_def targets_def schema_targets_def by fastforce
qed

text \<open>A target has been reached when it is at a location of \<open>T\<close>; further moves of \<open>T\<close> keep it so.\<close>

definition reached :: "move set \<Rightarrow> (string \<times> string \<Rightarrow> string) \<Rightarrow> target \<Rightarrow> bool" where
  "reached T L x \<longleftrightarrow> (\<exists>k. target_key x = Ret k \<and> (k, L k) \<in> T)"

lemma reached_stays: "moved T before after \<Longrightarrow> reached T before x \<Longrightarrow> reached T after x"
  unfolding reached_def using moved_stays by blast

lemma reached_url:
  assumes "reached (target_moves X) L x" "inj_on target_key X" "x \<in> X"
  shows "\<exists>k. target_key x = Ret k \<and> L k = target_url x"
proof -
  obtain k y where "target_key x = Ret k" "L k = target_url y" "y \<in> X" "target_key y = Ret k"
    using assms(1) unfolding reached_def target_moves_def by auto
  moreover from this have "y = x" using assms(2,3) by (metis inj_onD)
  ultimately show ?thesis by blast
qed

section \<open>The loops\<close>

lemma GetTablesFromSchema_listed:
  assumes "site_contract ts cur loc kv" "listing_of (ts_hive ts) cur tabs parts"
    and run: "run_state (GetTablesFromSchema (ts_hive ts) conn s) w = (Ret (tables, err), w')"
  shows "tables = (if err = None then map table_named (tabs s) else [])"
proof -
  have rows: "table_rows (map (\<lambda>t. (None, Some t)) ts) line = map table_named ts" for ts line
    by (induction ts arbitrary: line) (auto simp: Let_def scan_row_def)
  obtain q w1 where q: "run_state (HiveQuery (ts_hive ts) conn (use_schema s)) w = (q, w1)" by (metis surj_pair)
  obtain l w2 where l: "run_state (HiveQuery (ts_hive ts) conn ''show tables'') w1 = (l, w2)" by (metis surj_pair)
  show ?thesis
  proof (cases "\<exists>rs. q = Ret (rs, None)")
    case False
    then show ?thesis using run q by (cases q) (auto simp: GetTablesFromSchema_def run_simps split: option.splits)
  next
    case True
    then have "cur w1 = s" using site_catalog [OF assms(1)] q unfolding catalog_contract_def by blast
    moreover obtain rs e where r: "l = Ret (Some rs, e)" "tables = table_rows rs []" "err = None"
      using run q l True by (cases l) (auto simp: GetTablesFromSchema_def run_simps split: option.splits)
    ultimately show ?thesis using listed_tables [OF assms(2) l [unfolded r(1)]] rows by simp
  qed
qed

lemma GetSuitablePartition_listed:
  assumes "site_contract ts cur loc kv" "listing_of (ts_hive ts) cur tabs parts"
    and run: "run_state (GetSuitablePartition (ts_hive ts) conn s t (wanted # others)) w = (Ret (urls, err), w')"
  shows "urls = (if err = None then selected wanted (parts s t) else [])"
proof -
  have rows: "partition_rows (wanted # others) (map (\<lambda>l. (None, Some l)) ls) line = selected wanted ls" for ls line
    by (induction ls arbitrary: line)
      (auto simp: selected_def suitable_def scan_row_def Let_def case_prod_beta simp del: contains.simps)
  obtain q w1 where q: "run_state (HiveQuery (ts_hive ts) conn (use_schema s)) w = (q, w1)" by (metis surj_pair)
  obtain l w2 where l: "run_state (HiveQuery (ts_hive ts) conn (''show partitions '' @ t)) w1 = (l, w2)"
    by (metis surj_pair)
  show ?thesis
  proof (cases "\<exists>rs rows. q = Ret (rs, None) \<and> l = Ret (Some rows, None)")
    case False
    then show ?thesis
      using run q l by (cases q; cases l) (auto simp: GetSuitablePartition_def run_simps split: option.splits)
  next
    case True
    then obtain rows rs where r: "l = Ret (Some rows, None)" and ok: "q = Ret (rs, None)" by blast
    have "cur w1 = s" using site_catalog [OF assms(1)] q ok unfolding catalog_contract_def by blast
    then have "rows = map (\<lambda>p. (None, Some p)) (parts s t)"
      using listed_partitions [OF assms(2) l [unfolded r]] by simp
    then show ?thesis using run q l ok r by (simp add: GetSuitablePartition_def run_simps rows)
  qed
qed

text \<open>The loop over partitions: its labels are those of all of them, its last move is the one it answers for.\<close>

lemma partition_loop_effect:
  assumes "site_contract ts cur loc kv" "plain s" "plain t"
    and "\<forall>p \<in> set urls. plain p \<and> (s, t, Some p) \<in> X"
    and "run_state (partition_loop ts conn s t urls err labels) x = (Ret (e, ls), x')"
  shows "ls = labels @ map (\<lambda>p. target_label (s, t, Some p)) urls \<and>
    (urls \<noteq> [] \<longrightarrow> e = None \<longrightarrow> reached (target_moves X) (loc (fst x')) (s, t, Some (last urls)))"
  using assms(4,5)
proof (induction urls arbitrary: err labels x)
  case Nil
  then show ?case by (simp add: run_simps)
next
  case (Cons url urls)
  obtain r x1 where m: "run_state (ChangePartitionTableURL ts conn s t url True) x = (r, x1)" by (metis surj_pair)
  then obtain e1 where r: "r = Ret e1" and rest: "run_state (partition_loop ts conn s t urls e1
      (labels @ [GetPartitionDatatableCommonLabel s t url])) x1 = (Ret (e, ls), x')"
    using Cons.prems(2) by (cases r; cases x; cases x1) (auto simp: and_then_def run_simps)
  have "plain url" "(s, t, Some url) \<in> X" using Cons.prems(1) by simp_all
  then have "e1 = None \<Longrightarrow> reached (target_moves X) (loc (fst x1)) (s, t, Some url)"
    using ChangePartitionTableURL_run [OF assms(1-3) _ m] r
    unfolding reached_def target_moves_def by force
  moreover have "e = e1" "x' = x1" if "urls = []" using rest that by (simp_all add: run_simps)
  ultimately show ?case using Cons.IH [OF _ rest] Cons.prems(1) by auto
qed

text \<open>One table of the loop, when the loop goes on after it.\<close>

lemma tables_loop_step:
  assumes site: "site_contract ts cur loc kv" and listing: "listing_of (ts_hive ts) cur tabs parts"
    and s: "plain s" and t: "plain (tbl_TableName table)" and X: "set (table_targets parts s table) \<subseteq> X"
    and run: "run_state (tables_loop ts conn s (table # tables) labels err) x = (Ret (ls, None), x')"
  shows "\<exists>err1 x1.
    run_state (tables_loop ts conn s tables (labels @ map target_label (table_targets parts s table)) err1) x1 =
      (Ret (ls, None), x') \<and>
    moved (target_moves X) (loc (fst x)) (loc (fst x1)) \<and>
    (\<forall>y \<in> table_certain parts s table. reached (target_moves X) (loc (fst x1)) y)"
proof (cases "tbl_ColumnName table = []")
  case False
  then have "table_targets parts s table = []" by (simp add: table_targets_def)
  then show ?thesis
    using run False by (intro exI [of _ err] exI [of _ x]) (simp add: table_certain_def mv.same)
next
  case col: True
  let ?t = "tbl_TableName table"
  show ?thesis
  proof (cases "tbl_PartitionColumn table")
    case Nil
    then have target: "table_targets parts s table = [(s, ?t, None)]" by (simp add: table_targets_def col)
    obtain r x1 where m: "run_state (ChangeTableURL ts conn s ?t True) x = (r, x1)" by (metis surj_pair)
    then have r: "r = Ret None" and rest: "run_state (tables_loop ts conn s tables
        (labels @ [GetDatatableCommonLabel s ?t]) None) x1 = (Ret (ls, None), x')"
      using run col Nil by (cases r; auto simp: and_then_def run_simps split: option.splits)+
    have "loc (fst x1) = (loc (fst x))((s, ?t) := table_url True (schema_dir s @ ?t))"
      using ChangeTableURL_effect [OF site s t, where w = "fst x" and g = "snd x" and w' = "fst x1" and g' = "snd x1"]
        m r by simp
    moreover have "((s, ?t), table_url True (schema_dir s @ ?t)) \<in> target_moves X"
      using table_target_move [of s ?t X] X target by (simp add: table_move_def)
    ultimately show ?thesis
      using rest target by (intro exI [of _ None] exI [of _ x1]) (auto simp: table_certain_def reached_def moved_def)
  next
    case (Cons wanted others)
    let ?ps = "selected wanted (parts s ?t)"
    have target: "table_targets parts s table = map (\<lambda>p. (s, ?t, Some p)) ?ps"
      by (simp add: table_targets_def col Cons)
    obtain q w1 where q: "run_state (GetSuitablePartition (ts_hive ts) conn s ?t (wanted # others)) (fst x) = (q, w1)"
      by (metis surj_pair)
    then have "run_state (world (GetSuitablePartition (ts_hive ts) conn s ?t (wanted # others))) x = (q, (w1, snd x))"
      by (cases x) (simp add: run_simps)
    moreover obtain urls where "q = Ret (urls, None)"
      using run col Cons calculation by (cases q) (auto simp: and_then_def run_simps split: option.splits)
    moreover have urls: "urls = ?ps" if "q = Ret (urls, None)" for urls
      using GetSuitablePartition_listed [OF site listing q [unfolded that]] by simp
    ultimately obtain r x1 where loop: "run_state (partition_loop ts conn s ?t ?ps None labels) (w1, snd x) = (r, x1)"
      and r: "\<exists>ls1. r = Ret (None, ls1) \<and> run_state (tables_loop ts conn s tables ls1 err) x1 = (Ret (ls, None), x')"
      using run col Cons
      by (cases "run_state (partition_loop ts conn s ?t ?ps None labels) (w1, snd x)")
        (auto simp: and_then_def run_simps split: option.splits outcome.splits)
    then obtain ls1 where ls1: "r = Ret (None, ls1)" "run_state (tables_loop ts conn s tables ls1 err) x1 = (Ret (ls, None), x')"
      by blast
    have "plain p" if "p \<in> set ?ps" for p
      using that listing trim_space_plain by (auto simp: selected_def listing_of_def list_all_iff)
    then have ps: "\<forall>p \<in> set ?ps. plain p \<and> (s, ?t, Some p) \<in> X" using X target by auto
    note effect = partition_loop_effect [OF site s t ps loop [unfolded ls1(1)]]
    have "loc w1 = loc (fst x)" using leavesD [OF listing_leaves(3) [OF site] q] .
    moreover have "moves loc (target_moves X) (partition_loop ts conn s ?t ?ps None labels)"
      using ps partition_target_moves by (intro partition_loop_moved [OF site s t]) blast
    ultimately have "moved (target_moves X) (loc (fst x)) (loc (fst x1))"
      using changesD [OF _ loop] by fastforce
    moreover have "ls1 = labels @ map target_label (table_targets parts s table)"
      using effect by (simp add: target comp_def)
    moreover have "reached (target_moves X) (loc (fst x1)) y" if "y \<in> table_certain parts s table" for y
      using that effect by (auto simp: table_certain_def target last_map split: if_splits)
    ultimately show ?thesis using ls1(2) by blast
  qed
qed

lemma tables_loop_effect:
  assumes site: "site_contract ts cur loc kv" and listing: "listing_of (ts_hive ts) cur tabs parts"
    and s: "plain s"
    and "\<forall>table \<in> set tables. plain (tbl_TableName table) \<and> set (table_targets parts s table) \<subseteq> X"
    and "run_state (tables_loop ts conn s tables labels err) x = (Ret (ls, None), x')"
  shows "ls = labels @ map target_label (concat (map (table_targets parts s) tables)) \<and>
    moved (target_moves X) (loc (fst x)) (loc (fst x')) \<and>
    (\<forall>table \<in> set tables. \<forall>y \<in> table_certain parts s table. reached (target_moves X) (loc (fst x')) y)"
  using assms(4,5)
proof (induction tables arbitrary: err labels x)
  case Nil
  then show ?case by (simp add: run_simps mv.same)
next
  case (Cons table tables)
  let ?T = "target_moves X" and ?t = "tbl_TableName table"
  have t: "plain ?t" and X: "set (table_targets parts s table) \<subseteq> X" using Cons.prems(1) by simp_all
  obtain err1 x1 where rest: "run_state (tables_loop ts conn s tables
      (labels @ map target_label (table_targets parts s table)) err1) x1 = (Ret (ls, None), x')"
    and moved1: "moved ?T (loc (fst x)) (loc (fst x1))"
    and here: "\<forall>y \<in> table_certain parts s table. reached ?T (loc (fst x1)) y"
    using tables_loop_step [OF site listing s t X Cons.prems(2)] by blast
  from Cons.IH [OF _ rest] Cons.prems(1)
  have IH: "ls = (labels @ map target_label (table_targets parts s table)) @
      map target_label (concat (map (table_targets parts s) tables))"
    "moved ?T (loc (fst x1)) (loc (fst x'))"
    "\<forall>table \<in> set tables. \<forall>y \<in> table_certain parts s table. reached ?T (loc (fst x')) y"
    by simp_all
  then show ?case
    using mv.both [OF moved1 IH(2)] here reached_stays [OF IH(2)] by auto
qed

lemma schema_tables_plain:
  assumes "listing_of hv cur tabs parts" "\<forall>t \<in> set (sch_Tables schema). plain (tbl_TableName t)"
    and "table \<in> set (schema_tables tabs schema)"
  shows "plain (tbl_TableName table)"
  using assms by (auto simp: schema_tables_def listing_of_def list_all_iff table_named_def split: if_splits)

lemma ChangeSchemaURLForCache_effect:
  assumes site: "site_contract ts cur loc kv" and listing: "listing_of (ts_hive ts) cur tabs parts"
    and names: "plain (sch_SchemaName schema)" "\<forall>t \<in> set (sch_Tables schema). plain (tbl_TableName t)"
    and X: "set (schema_targets tabs parts schema) \<subseteq> X"
    and run: "run_state (ChangeSchemaURLForCache ts conn schema) x = (Ret (ls, None), x')"
  shows "ls = map target_label (schema_targets tabs parts schema) \<and>
    moved (target_moves X) (loc (fst x)) (loc (fst x')) \<and>
    (\<forall>y \<in> certain tabs parts [schema]. reached (target_moves X) (loc (fst x')) y)"
proof -
  let ?s = "sch_SchemaName schema"
  obtain q w1 where q: "run_state (HiveQuery (ts_hive ts) conn (use_schema ?s)) (fst x) = (q, w1)" by (metis surj_pair)
  obtain tables err x2 where loop: "run_state (tables_loop ts conn ?s tables [] err) x2 = (Ret (ls, None), x')"
    and l2: "loc (fst x2) = loc (fst x)" and tables: "tables = schema_tables tabs schema"
  proof (cases "sch_Tables schema = []")
    case False
    then have "run_state (tables_loop ts conn ?s (sch_Tables schema) [] None) (w1, snd x) = (Ret (ls, None), x')"
      using run q by (cases q; cases x) (auto simp: ChangeSchemaURLForCache_def and_then_def run_simps split: option.splits)
    moreover have "loc w1 = loc (fst x)" using leavesD [OF listing_leaves(1) [OF site] q] .
    ultimately show thesis using that False by (simp add: schema_tables_def)
  next
    case True
    obtain r w2 where r: "run_state (GetTablesFromSchema (ts_hive ts) conn ?s) w1 = (r, w2)" by (metis surj_pair)
    then obtain tables err where ok: "r = Ret (tables, err)"
      and loop: "run_state (tables_loop ts conn ?s tables [] err) (w2, snd x) = (Ret (ls, None), x')"
      using run q True
      by (cases q; cases r; cases x) (auto simp: ChangeSchemaURLForCache_def and_then_def run_simps split: option.splits)
    have listed: "tables = (if err = None then map table_named (tabs ?s) else [])"
      using GetTablesFromSchema_listed [OF site listing r [unfolded ok]] .
    have "err = None"
      using loop listed by (cases err) (simp_all add: run_simps)
    moreover have "loc w2 = loc (fst x)"
      using leavesD [OF listing_leaves(1) [OF site] q] leavesD [OF listing_leaves(2) [OF site] r] by simp
    ultimately show thesis using that loop listed True by (simp add: schema_tables_def)
  qed
  have "plain (tbl_TableName table) \<and> set (table_targets parts ?s table) \<subseteq> X" if "table \<in> set tables" for table
    using schema_tables_plain [OF listing names(2)] that X unfolding schema_targets_def tables by auto
  then have "\<forall>table \<in> set tables. plain (tbl_TableName table) \<and> set (table_targets parts ?s table) \<subseteq> X" by blast
  from tables_loop_effect [OF site listing names(1) this loop] show ?thesis
    unfolding l2 tables by (simp add: schema_targets_def certain_def)
qed

lemma cache_schemas_effect:
  assumes site: "site_contract ts cur loc kv" and listing: "listing_of (ts_hive ts) cur tabs parts"
    and "\<forall>schema \<in> set schemas. plain (sch_SchemaName schema) \<and>
      (\<forall>t \<in> set (sch_Tables schema). plain (tbl_TableName t)) \<and> set (schema_targets tabs parts schema) \<subseteq> X"
    and "run_state (cache_schemas ts conn schemas labels) x = (Ret (Inr ls), x')"
  shows "ls = labels @ map target_label (targets tabs parts schemas) \<and>
    moved (target_moves X) (loc (fst x)) (loc (fst x')) \<and>
    (\<forall>y \<in> certain tabs parts schemas. reached (target_moves X) (loc (fst x')) y)"
  using assms(3,4)
proof (induction schemas arbitrary: labels x)
  case Nil
  then show ?case by (simp add: run_simps mv.same targets_def certain_def)
next
  case (Cons schema schemas)
  obtain r x1 where m: "run_state (ChangeSchemaURLForCache ts conn schema) x = (r, x1)" by (metis surj_pair)
  then obtain ls1 where r: "r = Ret (ls1, None)"
    and rest: "run_state (cache_schemas ts conn schemas (labels @ ls1)) x1 = (Ret (Inr ls), x')"
    using Cons.prems(2) by (cases r; cases x1) (auto simp: and_then_def run_simps split: option.splits prod.splits outcome.splits)
  have first: "ls1 = map target_label (schema_targets tabs parts schema)"
    "moved (target_moves X) (loc (fst x)) (loc (fst x1))"
    "\<forall>y \<in> certain tabs parts [schema]. reached (target_moves X) (loc (fst x1)) y"
    using ChangeSchemaURLForCache_effect [OF site listing _ _ _ m [unfolded r], of X] Cons.prems(1) by simp_all
  have IH: "ls = (labels @ ls1) @ map target_label (targets tabs parts schemas)"
    "moved (target_moves X) (loc (fst x1)) (loc (fst x'))"
    "\<forall>y \<in> certain tabs parts schemas. reached (target_moves X) (loc (fst x')) y"
    using Cons.IH [OF _ rest] Cons.prems(1) by simp_all
  have "certain tabs parts (schema # schemas) = certain tabs parts [schema] \<union> certain tabs parts schemas"
    by (auto simp: certain_def)
  then show ?case
    using first(1,3) IH(1,3) mv.both [OF first(2) IH(2)] reached_stays [OF IH(2)] by (auto simp: targets_def)
qed

section \<open>Properties\<close>

lemma cache_datatable_effect:
  assumes site: "site_contract ts cur loc kv" and quiet: "retry_quiet (ts_client ts) loc"
    and api: "retry_contract (ts_client ts)" "datatable_contract (ts_client ts) at"
    and close: "\<And>c. leaves at (HiveClose (ts_hive ts) c)"
    and listing: "listing_of (ts_hive ts) cur tabs parts" and names: "plain_names (dctx_Datatable ctx)"
    and fresh: "dtst_Schemas (dt_Status (dctx_Datatable ctx)) = []"
    and schemas: "dts_Schemas (dt_Spec (dctx_Datatable ctx)) = schemas"
    and run: "run_state (cache_datatable ts ctx conn) x = (Ret (res, None), x')"
  shows "moved (target_moves (set (targets tabs parts schemas))) (loc (fst x)) (loc (fst x')) \<and>
    (\<forall>y \<in> certain tabs parts schemas.
      reached (target_moves (set (targets tabs parts schemas))) (loc (fst x')) y) \<and>
    records (at (fst x') (dctx_Namespace ctx, dctx_Name ctx)) (map target_label (targets tabs parts schemas))"
proof -
  obtain r x1 where c: "run_state (cache_schemas ts conn schemas []) x = (r, x1)" by (metis surj_pair)
  obtain ls where r: "r = Ret (Inr ls)"
    using run c unfolding cache_datatable_def schemas
    by (cases r; cases x1) (auto simp: and_then_def run_simps RequeueIfError_def split: sum.splits outcome.splits prod.splits)
  obtain e w2 where l: "run_state (record_labels ts ctx ls) (fst x1) = (e, w2)" by (metis surj_pair)
  obtain q w3 where h: "run_state (HiveClose (ts_hive ts) conn) w2 = (q, w3)" by (metis surj_pair)
  have e: "e = None" and x': "fst x' = w3"
    using run c r l h unfolding cache_datatable_def schemas
    by (cases e; cases q; cases x1; auto simp: and_then_def run_simps RequeueIfError_def)+
  have "\<forall>schema \<in> set schemas. plain (sch_SchemaName schema) \<and>
      (\<forall>t \<in> set (sch_Tables schema). plain (tbl_TableName t)) \<and>
      set (schema_targets tabs parts schema) \<subseteq> set (targets tabs parts schemas)"
    using names by (auto simp: plain_names_def schemas targets_def)
  note cached = cache_schemas_effect [OF site listing this c [unfolded r]]
  have "records (at w2 (dctx_Namespace ctx, dctx_Name ctx)) ls"
    using record_labels_records [OF api fresh l [unfolded e]] .
  moreover have "loc w3 = loc (fst x1)" "at w3 = at w2"
    using leavesD [OF site_close [OF site] h] leavesD [OF record_labels_leaves [OF site quiet] l]
      leavesD [OF close h] by simp_all
  ultimately show ?thesis using cached unfolding x' by simp
qed

text \<open>
  C1: Caching. A request for a new data table (with its finalizer, not yet cached, not being deleted) that ends without an
  error, when nobody else moves, creates or drops tables meanwhile: its targets are the tables listed as a whole, all the tables
  of the schemas listed without tables, and the partitions that match the first wanted one of a table.
  Only targets have been moved, each to its own location in the cache. Every whole table and the last
  partition of each table are there; for the other partitions success does not tell, because their errors are dropped. The stored data table
  carries exactly the labels of all targets, and its status the schemas.
\<close>

theorem reconcileDataTable_caches:
  assumes site: "site_contract ts cur loc kv" and quiet: "retry_quiet (ts_client ts) loc"
    and api: "retry_contract (ts_client ts)" "datatable_contract (ts_client ts) at"
    and close: "\<And>c. leaves at (HiveClose (ts_hive ts) c)"
    and listing: "listing_of (ts_hive ts) cur tabs parts" and names: "plain_names (dctx_Datatable ctx)"
    and fresh: "dtst_Schemas (dt_Status (dctx_Datatable ctx)) = []"
      "\<not> HasDeletionTimestamp (dt_meta (dctx_Datatable ctx))"
      "ContainsString (om_Finalizers (dt_meta (dctx_Datatable ctx))) (dctx_FinalizerName ctx)"
    and schemas: "dts_Schemas (dt_Spec (dctx_Datatable ctx)) = schemas"
    and keys: "inj_on target_key (set (targets tabs parts schemas))"
    and run: "run_state (reconcileDataTable ts ctx) (w, g) = (Ret (res, None), (w', g'))"
  shows "moved (target_moves (set (targets tabs parts schemas))) (loc w) (loc w') \<and>
    (\<forall>x \<in> certain tabs parts schemas. \<exists>k. target_key x = Ret k \<and> loc w' k = target_url x) \<and>
    records (at w' (dctx_Namespace ctx, dctx_Name ctx)) (map target_label (targets tabs parts schemas))"
proof -
  obtain rts w1 conn w2 pod w3 g3 where
    l: "run_state (List_AlluxioRuntime (ts_client ts)) w = (Inr rts, w1)"
    and c: "run_state (HiveConnect (ts_hive ts) (dts_Url (dt_Spec (dctx_Datatable ctx)))) w1 = ((conn, None), w2)"
    and i: "run_state (intelligent_cache ts pod conn (dctx_Datatable ctx)) (w2, g) = (Ret (), (w3, g3))"
    and "run_state (decided ts ctx conn) (w3, g3) = (Ret (res, None), (w', g'))"
    by (rule reconcileDataTable_success [OF run])
  then have cached: "run_state (cache_datatable ts ctx conn) (w3, g3) = (Ret (res, None), (w', g'))"
    using fresh by (simp add: decided_def)
  have "loc w1 = loc w" "loc w2 = loc w1"
    using leavesD [OF site_runtimes [OF site] l] leavesD [OF site_connect [OF site] c] by simp_all
  then have l3: "loc w3 = loc w"
    using leavesD [OF intelligent_cache_leaves [OF site] i] by simp
  note effect = cache_datatable_effect [OF site quiet api close listing names fresh(1) schemas cached,
      unfolded fst_conv l3]
  then have "\<exists>k. target_key x = Ret k \<and> loc w' k = target_url x" if "x \<in> certain tabs parts schemas" for x
    using reached_url [OF _ keys] certain_targets that by blast
  then show ?thesis using effect by blast
qed

text \<open>
  A metastore with two tables in each schema, and a table with three partitions; it refuses one statement.
\<close>

definition sales_tabs :: "string \<Rightarrow> string list" where
  "sales_tabs s = [''orders'', ''users'']"

definition sales_parts :: "string \<Rightarrow> string \<Rightarrow> string list" where
  "sales_parts s t = (if t = ''logs'' then [''day=1'', ''day=2'', ''day=12''] else [])"

definition sales_query :: "string \<Rightarrow> string \<Rightarrow> (cluster, (row list option \<times> err option) outcome) state" where
  "sales_query refused q =
     (if q = ''show tables''
      then State (\<lambda>w. (Ret (Some (map (\<lambda>t. (None, Some t)) (sales_tabs (fc_schema w))), None), w))
      else if has_prefix q ''show partitions ''
      then State (\<lambda>w. (Ret (Some (map (\<lambda>p. (None, Some p)) (sales_parts (fc_schema w) (drop 16 q))), None), w))
      else if q = refused then ret (Ret (None, Some (ErrText ''refused'')))
      else fake_query q)"

definition sales_site :: "string \<Rightarrow> (cluster, int64) table_services" where
  "sales_site refused = demo_site\<lparr>ts_hive := fake_hive\<lparr>HiveQuery := (\<lambda>_. sales_query refused)\<rparr>\<rparr>"

lemma sales_listing: "listing_of (ts_hive (sales_site refused)) fc_schema sales_tabs sales_parts"
  by (auto simp: listing_of_def sales_site_def sales_query_def has_prefix_def sales_tabs_def sales_parts_def)

lemma sales_quiet: "leaves v (fake_query q) \<Longrightarrow> leaves v (sales_query refused q)"
  by (simp add: sales_query_def leaves_def run_simps)

lemma sales_contract: "site_contract (sales_site refused) fc_schema location_at fc_redis"
proof -
  have site: "site_contract demo_site fc_schema location_at fc_redis"
    unfolding demo_site_def by (rule fake_site_contract)
  have hive: "ts_hive demo_site = fake_hive" "HiveQuery fake_hive = (\<lambda>_. fake_query)"
    by (simp_all add: demo_site_def fake_site_def fake_hive_def)
  have quiet: "leaves location_at (fake_query (use_schema s))" "leaves location_at (fake_query (''desc formatted '' @ t))"
    "leaves location_at (fake_query ''show tables'')" "leaves location_at (fake_query (''show partitions '' @ t))" for s t
    using site_catalog [OF site] unfolding catalog_contract_def hive by blast+
  have "catalog_contract (ts_hive (sales_site refused)) fc_schema location_at"
    unfolding catalog_contract_def
  proof (intro conjI allI impI)
    fix c s t :: "string" and c' :: connection
    show "leaves location_at (HiveQuery (ts_hive (sales_site refused)) c' (use_schema s))"
      "leaves location_at (HiveQuery (ts_hive (sales_site refused)) c' (''desc formatted '' @ t))"
      "leaves location_at (HiveQuery (ts_hive (sales_site refused)) c' ''show tables'')"
      "leaves location_at (HiveQuery (ts_hive (sales_site refused)) c' (''show partitions '' @ t))"
      using quiet by (simp_all add: sales_site_def sales_quiet)
  next
    fix c s w rs w'
    assume "run_state (HiveQuery (ts_hive (sales_site refused)) c (use_schema s)) w = (Ret (rs, None), w')"
    then show "fc_schema w' = s"
      using fake_query_use [of s w]
      by (auto simp: sales_site_def sales_query_def run_simps use_schema_def has_prefix_def split: if_splits)
  next
    fix c t u w r w'
    assume "plain t" "plain u"
      and "run_state (HiveQuery (ts_hive (sales_site refused)) c (set_location t u)) w = (r, w')"
    then show "location_at w' = (case r of Ret (_, None) \<Rightarrow> (location_at w)((fc_schema w, t) := u) | _ \<Rightarrow> location_at w)"
      using fake_query_location [of t u w]
      by (auto simp: sales_site_def sales_query_def run_simps set_location_def has_prefix_def location_at_def [abs_def]
          split: if_splits)
  qed
  moreover have "leaves fc_redis (sales_query refused q)" for q
    using site_hive_kv [OF site] unfolding hive by (intro sales_quiet) simp
  ultimately show ?thesis
    using site by (simp add: site_contract_def sales_site_def fake_hive_def hive)
qed

text \<open>A data table with a whole schema, and a table of which the partitions of one day are wanted.\<close>

definition sales_schemas :: "Schema list" where
  "sales_schemas = [\<lparr>sch_SchemaName = ''hr'', sch_Tables = []\<rparr>,
     \<lparr>sch_SchemaName = ''sales'', sch_Tables = [(table_named ''logs'')\<lparr>tbl_PartitionColumn :=
       [Mapping.update ''day'' ''1'' Mapping.empty]\<rparr>]\<rparr>]"

definition sales_orders :: DataTable where
  "sales_orders = orders\<lparr>dt_Spec := (dt_Spec orders)\<lparr>dts_Schemas := sales_schemas\<rparr>\<rparr>"

definition sales_targets :: "target list" where
  "sales_targets = [(''hr'', ''orders'', None), (''hr'', ''users'', None), (''sales'', ''logs'', Some ''day=1''),
     (''sales'', ''logs'', Some ''day=12'')]"

definition logs_partition :: "string \<Rightarrow> string \<times> string" where
  "logs_partition v = (''sales'', ''logs partition(day='' @ [CHR 0x27] @ v @ [CHR 0x27] @ '')'')"

lemma sales_selected:
  "targets sales_tabs sales_parts sales_schemas = sales_targets"
  "certain sales_tabs sales_parts sales_schemas =
    {(''hr'', ''orders'', None), (''hr'', ''users'', None), (''sales'', ''logs'', Some ''day=12'')}"
proof -
  have e: "Mapping.entries (Mapping.update ''day'' ''1'' Mapping.empty) = {(''day'', ''1'')}"
    by (auto simp: entries_lookup Map.graph_def lookup_update' split: if_splits)
  have "filter (\<lambda>p. \<forall>(k, v) \<in> {(''day'', ''1'')}. contains p (k @ ''='' @ v))
      (map trim_space [''day=1'', ''day=2'', ''day=12'']) = [''day=1'', ''day=12'']" by code_simp
  then have logs: "table_targets sales_parts ''sales'' ((table_named ''logs'')\<lparr>tbl_PartitionColumn :=
      [Mapping.update ''day'' ''1'' Mapping.empty]\<rparr>) =
      [(''sales'', ''logs'', Some ''day=1''), (''sales'', ''logs'', Some ''day=12'')]"
    by (simp add: table_targets_def table_named_def selected_def e sales_parts_def)
  have hr: "table_targets sales_parts ''hr'' (table_named t) = [(''hr'', t, None)]" for t
    by (simp add: table_targets_def table_named_def)
  show "targets sales_tabs sales_parts sales_schemas = sales_targets"
    by (simp add: targets_def schema_targets_def schema_tables_def sales_schemas_def sales_tabs_def hr logs sales_targets_def)
  show "certain sales_tabs sales_parts sales_schemas =
    {(''hr'', ''orders'', None), (''hr'', ''users'', None), (''sales'', ''logs'', Some ''day=12'')}"
    by (simp add: certain_def table_certain_def schema_tables_def sales_schemas_def sales_tabs_def hr logs
        insert_commute)
qed

lemma sales_keys: "inj_on target_key (set sales_targets)"
proof -
  have "partition_filter ''day=1'' = Ret (''partition(day='' @ [CHR 0x27] @ ''1'' @ [CHR 0x27] @ '')'')"
    "partition_filter ''day=12'' = Ret (''partition(day='' @ [CHR 0x27] @ ''12'' @ [CHR 0x27] @ '')'')"
    by code_simp+
  then show ?thesis by (simp add: inj_on_def sales_targets_def)
qed

theorem reconcileDataTable_caches_witness:
  "\<exists>w' g' r. run_state (reconcileDataTable (sales_site []) (orders_ctx sales_orders))
      (orders_cluster sales_orders, globals0) = (Ret (r, None), (w', g')) \<and>
    location_at w' (''hr'', ''users'') = cached_url ''hr'' ''users'' \<and>
    location_at w' (logs_partition ''12'') = cached_url ''sales'' ''logs/day=12'' \<and>
    location_at w' (logs_partition ''2'') = location_at (orders_cluster sales_orders) (logs_partition ''2'') \<and>
    records (datatable_at w' (''default'', ''orders'')) [''datatable-hr-orders'', ''datatable-hr-users'',
      ''datatable-sales-logs-day.1'', ''datatable-sales-logs-day.12'']"
proof -
  let ?r = "run_state (reconcileDataTable (sales_site []) (orders_ctx sales_orders)) (orders_cluster sales_orders, globals0)"
  let ?T = "target_moves (set sales_targets)"
  have "map_outcome_ret snd (fst ?r) = Ret None" by code_simp
  then obtain res w' g' where r: "?r = (Ret (res, None), (w', g'))" by (cases "fst ?r"; cases ?r) auto
  have api: "retry_quiet (ts_client (sales_site [])) location_at" "retry_contract (ts_client (sales_site []))"
    "datatable_contract (ts_client (sales_site [])) datatable_at"
    using fake_retry_quiet fake_retry fake_datatable by (simp_all add: sales_site_def demo_site_def fake_site_def)
  have close: "leaves datatable_at (HiveClose (ts_hive (sales_site [])) c)" for c
    by (simp add: sales_site_def fake_hive_def leaves_def)
  have ctx: "dctx_Datatable (orders_ctx sales_orders) = sales_orders" "dctx_Namespace (orders_ctx sales_orders) = ''default''"
    "dctx_Name (orders_ctx sales_orders) = ''orders''" "dctx_FinalizerName (orders_ctx sales_orders) = DataTableFinalizerName"
    by (simp_all add: orders_ctx_def)
  have names: "plain_names sales_orders"
    by (simp add: plain_names_def sales_orders_def sales_schemas_def orders_def named_meta_def table_named_def)
  have fresh: "dtst_Schemas (dt_Status sales_orders) = []" "\<not> HasDeletionTimestamp (dt_meta sales_orders)"
    "ContainsString (om_Finalizers (dt_meta sales_orders)) DataTableFinalizerName"
    "dts_Schemas (dt_Spec sales_orders) = sales_schemas"
    by (simp_all add: sales_orders_def orders_def HasDeletionTimestamp_def named_meta_def ContainsString_def)
  have effect: "moved ?T (location_at (orders_cluster sales_orders)) (location_at w')"
    "\<forall>x \<in> certain sales_tabs sales_parts sales_schemas. \<exists>k. target_key x = Ret k \<and> location_at w' k = target_url x"
    "records (datatable_at w' (''default'', ''orders'')) (map target_label sales_targets)"
    using reconcileDataTable_caches [where ctx = "orders_ctx sales_orders", OF sales_contract api close sales_listing,
        unfolded ctx, OF names fresh sales_keys [folded sales_selected(1)] r, unfolded sales_selected(1)]
    by simp_all
  have filters: "partition_filter ''day=1'' = Ret (''partition(day='' @ [CHR 0x27] @ ''1'' @ [CHR 0x27] @ '')'')"
    "partition_filter ''day=12'' = Ret (''partition(day='' @ [CHR 0x27] @ ''12'' @ [CHR 0x27] @ '')'')"
    by code_simp+
  have "location_at w' (''hr'', ''users'') = cached_url ''hr'' ''users''"
    "location_at w' (logs_partition ''12'') = cached_url ''sales'' ''logs/day=12''"
    using effect(2) by (simp_all add: sales_selected(2) filters logs_partition_def cached_url_def)
  moreover have "\<forall>x \<in> set sales_targets. target_key x \<noteq> Ret (logs_partition ''2'')"
    by (simp add: sales_targets_def logs_partition_def filters)
  then have "(logs_partition ''2'', u) \<notin> ?T" for u unfolding target_moves_def by auto
  then have "location_at w' (logs_partition ''2'') = location_at (orders_cluster sales_orders) (logs_partition ''2'')"
    using effect(1) unfolding moved_def by blast
  moreover have "map target_label sales_targets = [''datatable-hr-orders'', ''datatable-hr-users'',
      ''datatable-sales-logs-day.1'', ''datatable-sales-logs-day.12'']" by code_simp
  ultimately show ?thesis using r effect(3) by auto
qed

text \<open>
  The dropped error: the metastore refuses to move the first of the two partitions, the request succeeds, and the
  label of the partition is recorded.
\<close>

theorem refused_partition_is_recorded:
  "case run_state (reconcileDataTable (sales_site (set_location (snd (logs_partition ''1'')) (cached_url ''sales'' ''logs/day=1'')))
      (orders_ctx sales_orders)) (orders_cluster sales_orders, globals0) of
    (r, (w', g')) \<Rightarrow> map_outcome_ret snd r = Ret None \<and>
      location_at w' (logs_partition ''1'') = location_at (orders_cluster sales_orders) (logs_partition ''1'') \<and>
      location_at w' (logs_partition ''12'') = cached_url ''sales'' ''logs/day=12'' \<and>
      map_option (\<lambda>d. om_Labels (dt_meta d) ''datatable-sales-logs-day.1'') (datatable_at w' (''default'', ''orders'')) =
        Some (Some ''true'')"
  by code_simp

end
