(* ===== verification/Reports.thy ===== *)
theory Reports
  imports Engine
begin

text \<open>
  The reports of the cache (\<open>report.go\<close>, \<open>cache.go\<close>, \<open>load_data.go\<close>): running the commands, reading
  the summary of the capacity, and computing the hit and throughput ratios from the counters and
  gauges of the metrics.
\<close>

section \<open>States of the cache\<close>

text \<open>The time stamp is a number of nanoseconds; the code in the sources never sets it.\<close>

record cacheHitStates =
  cacheHitRatio :: string
  localHitRatio :: string
  remoteHitRatio :: string
  localThroughputRatio :: string
  remoteThroughputRatio :: string
  cacheThroughputRatio :: string
  bytesReadLocal :: int64
  bytesReadRemote :: int64
  bytesReadUfsAll :: int64
  chs_timestamp :: int

record cacheStates =
  cacheCapacity :: string
  cached :: string
  cachedPercentage :: string
  cs_cacheHitStates :: cacheHitStates

definition no_hits :: cacheHitStates where
  "no_hits = \<lparr>cacheHitRatio = [], localHitRatio = [], remoteHitRatio = [], localThroughputRatio = [],
     remoteThroughputRatio = [], cacheThroughputRatio = [], bytesReadLocal = 0, bytesReadRemote = 0,
     bytesReadUfsAll = 0, chs_timestamp = 0\<rparr>"

definition no_cache :: cacheStates where
  "no_cache = \<lparr>cacheCapacity = [], cached = [], cachedPercentage = [], cs_cacheHitStates = no_hits\<rparr>"

text \<open>The query is commented out in the sources.\<close>

definition queryCacheStatus :: "'q AlluxioEngine \<Rightarrow> cacheStates \<times> err option" where
  "queryCacheStatus e = (no_cache, None)"

section \<open>Running the reports\<close>

definition GetReportSummary ::
    "('w, 'q) services \<Rightarrow> 'q AlluxioEngine \<Rightarrow> ('w, string \<times> err option) state" where
  "GetReportSummary sv e =
     (let (podName, containerName) = getMasterPodInfo e in
      ReportSummary (sv_exec sv) (NewAlluxioFileUtils podName containerName (eng_namespace e)))"

definition GetReportMetrics ::
    "('w, 'q) services \<Rightarrow> 'q AlluxioEngine \<Rightarrow> ('w, string \<times> err option) state" where
  "GetReportMetrics sv e =
     (let (podName, containerName) = getMasterPodInfo e in
      ReportMetrics (sv_exec sv) (NewAlluxioFileUtils podName containerName (eng_namespace e)))"

definition CheckRuntimeReady :: "('w, 'q) services \<Rightarrow> 'q AlluxioEngine \<Rightarrow> ('w, bool) state" where
  "CheckRuntimeReady sv e =
     (let (podName, containerName) = getMasterPodInfo e in do {
        ready \<leftarrow> Ready (sv_exec sv) (NewAlluxioFileUtils podName containerName (eng_namespace e));
        if \<not> ready then ret False else ret True
      })"

section \<open>The summary\<close>

definition SUMMARY_PREFIX_TOTAL_CAPACITY :: string where
  "SUMMARY_PREFIX_TOTAL_CAPACITY = ''Total Capacity: ''"

definition SUMMARY_PREFIX_USED_CAPACITY :: string where
  "SUMMARY_PREFIX_USED_CAPACITY = ''Used Capacity: ''"

text \<open>One line; the error of a size that cannot be read is dropped, its value - 1 is not.\<close>

definition summary_line :: "float_ops \<Rightarrow> cacheStates \<Rightarrow> string \<Rightarrow> cacheStates" where
  "summary_line F states line =
     (let str = trim_space line;
          states = (if has_prefix str SUMMARY_PREFIX_TOTAL_CAPACITY
                    then states\<lparr>cacheCapacity := utils_BytesSize F (FloatOfInt F
                           (fst (FromHumanSize F (trim_prefix str SUMMARY_PREFIX_TOTAL_CAPACITY))))\<rparr>
                    else states)
      in if has_prefix str SUMMARY_PREFIX_USED_CAPACITY
         then states\<lparr>cached := utils_BytesSize F (FloatOfInt F
                (fst (FromHumanSize F (trim_prefix str SUMMARY_PREFIX_USED_CAPACITY))))\<rparr>
         else states)"

definition ParseReportSummary :: "float_ops \<Rightarrow> string \<Rightarrow> cacheStates" where
  "ParseReportSummary F s = foldl (summary_line F) no_cache (split_on newline s)"

section \<open>The metrics\<close>

subsection \<open>The regular expressions\<close>

text \<open>
  Both have the form of a fixed head, a group \<open>.*\<close> and a fixed tail. A head is a list of bytes, with
  \<open>None\<close> for \<open>\s\<close>. The leftmost match begins at the first head; its group reaches to the last tail.
  A line holds no newline, so the dot stops nowhere.
\<close>

fun starts :: "char option list \<Rightarrow> string \<Rightarrow> string option" where
  "starts [] s = Some s"
| "starts (p # ps) [] = None"
| "starts (p # ps) (c # s) =
     (if (case p of Some d \<Rightarrow> c = d | None \<Rightarrow> c \<in> {CHR 0x09, CHR 0x0A, CHR 0x0C, CHR 0x0D, CHR 0x20})
      then starts ps s else None)"

fun behind_head :: "char option list \<Rightarrow> string \<Rightarrow> string option" where
  "behind_head ps [] = starts ps []"
| "behind_head ps (c # s) = (case starts ps (c # s) of Some r \<Rightarrow> Some r | None \<Rightarrow> behind_head ps s)"

fun before_last :: "string \<Rightarrow> string \<Rightarrow> string option" where
  "before_last t [] = (if t = [] then Some [] else None)"
| "before_last t (c # s) =
     (case before_last t s of
        Some g \<Rightarrow> Some (c # g)
      | None \<Rightarrow> if has_prefix (c # s) t then Some [] else None)"

definition submatch :: "char option list \<Rightarrow> string \<Rightarrow> string \<Rightarrow> string option" where
  "submatch ps t s = (case behind_head ps s of None \<Rightarrow> None | Some r \<Rightarrow> before_last t r)"

definition metric_head :: "string \<Rightarrow> char option list" where
  "metric_head kind =
     map Some ''(Type:'' @ [None] @ map Some (kind @ '','') @ [None] @ map Some ''Value:'' @ [None]"

definition counter_value :: "string \<Rightarrow> string option" where
  "counter_value s = submatch (metric_head ''COUNTER'') '')'' s"

definition gauge_value :: "string \<Rightarrow> string option" where
  "gauge_value s = submatch (metric_head ''GAUGE'') ''/MIN)'' s"

subsection \<open>Lines\<close>

definition METRICS_PREFIX_BYTES_READ_LOCAL :: string where
  "METRICS_PREFIX_BYTES_READ_LOCAL = ''Cluster.BytesReadLocal ''"

definition METRICS_PREFIX_BYTES_READ_REMOTE :: string where
  "METRICS_PREFIX_BYTES_READ_REMOTE = ''Cluster.BytesReadRemote ''"

definition METRICS_PREFIX_BYTES_READ_UFS_ALL :: string where
  "METRICS_PREFIX_BYTES_READ_UFS_ALL = ''Cluster.BytesReadUfsAll ''"

definition METRICS_PREFIX_BYTES_READ_LOCAL_THROUGHPUT :: string where
  "METRICS_PREFIX_BYTES_READ_LOCAL_THROUGHPUT = ''Cluster.BytesReadLocalThroughput ''"

definition METRICS_PREFIX_BYTES_READ_REMOTE_THROUGHPUT :: string where
  "METRICS_PREFIX_BYTES_READ_REMOTE_THROUGHPUT = ''Cluster.BytesReadRemoteThroughput ''"

definition METRICS_PREFIX_BYTES_READ_UFS_THROUGHPUT :: string where
  "METRICS_PREFIX_BYTES_READ_UFS_THROUGHPUT = ''Cluster.BytesReadUfsThroughput ''"

text \<open>The states beside the three throughputs, which are local variables of the method.\<close>

record metrics_read =
  mr_states :: cacheHitStates
  localThroughput :: int64
  remoteThroughput :: int64
  ufsThroughput :: int64

text \<open>The element 1 of the slice of submatches; a line that does not match panics.\<close>

definition with_size ::
    "float_ops \<Rightarrow> string option \<Rightarrow> (int64 \<Rightarrow> metrics_read) \<Rightarrow> metrics_read outcome" where
  "with_size F m f = (case m of None \<Rightarrow> Panic | Some v \<Rightarrow> Ret (f (fst (FromHumanSize F v))))"

definition metric_line :: "float_ops \<Rightarrow> metrics_read \<Rightarrow> string \<Rightarrow> metrics_read outcome" where
  "metric_line F r line =
     (let str = trim_space line; st = mr_states r in
      if has_prefix str METRICS_PREFIX_BYTES_READ_LOCAL
      then with_size F (counter_value str) (\<lambda>v. r\<lparr>mr_states := st\<lparr>bytesReadLocal := v\<rparr>\<rparr>)
      else if has_prefix str METRICS_PREFIX_BYTES_READ_REMOTE
      then with_size F (counter_value str) (\<lambda>v. r\<lparr>mr_states := st\<lparr>bytesReadRemote := v\<rparr>\<rparr>)
      else if has_prefix str METRICS_PREFIX_BYTES_READ_UFS_ALL
      then with_size F (counter_value str) (\<lambda>v. r\<lparr>mr_states := st\<lparr>bytesReadUfsAll := v\<rparr>\<rparr>)
      else if has_prefix str METRICS_PREFIX_BYTES_READ_LOCAL_THROUGHPUT
      then with_size F (gauge_value str) (\<lambda>v. r\<lparr>localThroughput := v\<rparr>)
      else if has_prefix str METRICS_PREFIX_BYTES_READ_REMOTE_THROUGHPUT
      then with_size F (gauge_value str) (\<lambda>v. r\<lparr>remoteThroughput := v\<rparr>)
      else if has_prefix str METRICS_PREFIX_BYTES_READ_UFS_THROUGHPUT
      then with_size F (gauge_value str) (\<lambda>v. r\<lparr>ufsThroughput := v\<rparr>)
      else Ret r)"

primrec metric_lines :: "float_ops \<Rightarrow> metrics_read \<Rightarrow> string list \<Rightarrow> metrics_read outcome" where
  "metric_lines F r [] = Ret r"
| "metric_lines F r (line # ls) =
     (case metric_line F r line of Panic \<Rightarrow> Panic | Ret r' \<Rightarrow> metric_lines F r' ls)"

subsection \<open>Ratios\<close>

definition percentage :: "float_ops \<Rightarrow> int64 \<Rightarrow> int64 \<Rightarrow> string" where
  "percentage F part whole =
     FormatFloat1 F (FloatDiv F (FloatMul F (FloatOfInt F part) (FloatOfInt F 100)) (FloatOfInt F whole)) @ ''%''"

definition hit_ratios :: "float_ops \<Rightarrow> cacheHitStates \<Rightarrow> cacheHitStates \<Rightarrow> cacheHitStates" where
  "hit_ratios F prev st =
     (let deltaReadLocal = bytesReadLocal st - bytesReadLocal prev;
          deltaReadRemote = bytesReadRemote st - bytesReadRemote prev;
          deltaReadUfsAll = bytesReadUfsAll st - bytesReadUfsAll prev;
          deltaReadTotal = deltaReadLocal + deltaReadRemote + deltaReadUfsAll
      in if deltaReadTotal \<noteq> 0
         then st\<lparr>localHitRatio := percentage F deltaReadLocal deltaReadTotal,
                 remoteHitRatio := percentage F deltaReadRemote deltaReadTotal,
                 cacheHitRatio := percentage F (deltaReadLocal + deltaReadRemote) deltaReadTotal\<rparr>
         else st\<lparr>localHitRatio := ''0.0%'', remoteHitRatio := ''0.0%'', cacheHitRatio := ''0.0%''\<rparr>)"

definition throughput_ratios :: "float_ops \<Rightarrow> metrics_read \<Rightarrow> cacheHitStates \<Rightarrow> cacheHitStates" where
  "throughput_ratios F r st =
     (let totalThroughput = localThroughput r + remoteThroughput r + ufsThroughput r in
      if totalThroughput \<noteq> 0
      then st\<lparr>localThroughputRatio := percentage F (localThroughput r) totalThroughput,
              remoteThroughputRatio := percentage F (remoteThroughput r) totalThroughput,
              cacheThroughputRatio := percentage F (localThroughput r + remoteThroughput r) totalThroughput\<rparr>
      else st\<lparr>localThroughputRatio := ''0.0%'', remoteThroughputRatio := ''0.0%'',
              cacheThroughputRatio := ''0.0%''\<rparr>)"

text \<open>The states are written through a pointer; the result is their new value.\<close>

definition ParseReportMetric ::
    "float_ops \<Rightarrow> string \<Rightarrow> cacheHitStates \<Rightarrow> cacheHitStates option \<Rightarrow> cacheHitStates outcome" where
  "ParseReportMetric F metrics st lastCacheHitStates =
     map_outcome_ret
       (\<lambda>r. case lastCacheHitStates of
              None \<Rightarrow> mr_states r
            | Some l \<Rightarrow> throughput_ratios F r (hit_ratios F l (mr_states r)))
       (metric_lines F \<lparr>mr_states = st, localThroughput = 0, remoteThroughput = 0, ufsThroughput = 0\<rparr>
          (split_on newline metrics))"

section \<open>The matcher and the expressions\<close>

lemma starts_append: "starts ps s = Some r \<Longrightarrow> starts ps (s @ t) = Some (r @ t)"
  by (induction ps s rule: starts.induct) (auto split: if_splits)

text \<open>The strings a head matches, and the matches of the whole expression.\<close>

definition fits :: "char option list \<Rightarrow> string \<Rightarrow> bool" where
  "fits ps h \<longleftrightarrow> starts ps h = Some []"

lemma starts_iff: "starts ps s = Some r \<longleftrightarrow> (\<exists>h. s = h @ r \<and> fits ps h)"
  unfolding fits_def
proof (induction ps s rule: starts.induct)
  case (3 p ps c s)
  show ?case
  proof
    assume "starts (p # ps) (c # s) = Some r"
    with 3 obtain h where "s = h @ r" "starts ps h = Some []"
        "case p of Some d \<Rightarrow> c = d | None \<Rightarrow> c \<in> {CHR 0x09, CHR 0x0A, CHR 0x0C, CHR 0x0D, CHR 0x20}"
      by (auto split: if_splits)
    then show "\<exists>h. c # s = h @ r \<and> starts (p # ps) h = Some []"
      by (intro exI [of _ "c # h"]) simp
  next
    assume "\<exists>h. c # s = h @ r \<and> starts (p # ps) h = Some []"
    then show "starts (p # ps) (c # s) = Some r"
      using starts_append by (metis append.left_neutral)
  qed
qed auto

lemma fits_length: "fits ps h \<Longrightarrow> length h = length ps"
  unfolding fits_def by (induction ps h rule: starts.induct) (auto split: if_splits)

lemma behind_head_None: "behind_head ps s = None \<longleftrightarrow> (\<nexists>pre h r. s = pre @ h @ r \<and> fits ps h)"
proof (induction ps s rule: behind_head.induct)
  case (1 ps)
  show ?case using starts_iff [of ps "[]"] by (cases "starts ps []") auto
next
  case (2 ps c s)
  show ?case
  proof (cases "starts ps (c # s)")
    case (Some r)
    then obtain h where "c # s = [] @ h @ r" "fits ps h" using starts_iff [of ps "c # s" r] by auto
    with Some show ?thesis by (metis behind_head.simps(2) option.distinct(1) option.simps(5))
  next
    case None
    then have no: "\<nexists>h r. c # s = h @ r \<and> fits ps h" using starts_iff [of ps "c # s"] by auto
    have "(\<exists>pre h r. c # s = pre @ h @ r \<and> fits ps h) \<longleftrightarrow> (\<exists>pre h r. s = pre @ h @ r \<and> fits ps h)"
      using no by (metis append_Cons append_Nil list.exhaust list.inject)
    with None 2 show ?thesis by simp
  qed
qed

lemma behind_head_Some:
  assumes "behind_head ps s = Some r"
  obtains pre h where "s = pre @ h @ r" "fits ps h"
    "\<And>pre' h' r'. s = pre' @ h' @ r' \<Longrightarrow> fits ps h' \<Longrightarrow> length pre \<le> length pre'"
proof -
  have "\<exists>pre h. s = pre @ h @ r \<and> fits ps h \<and>
      (\<forall>pre' h' r'. s = pre' @ h' @ r' \<longrightarrow> fits ps h' \<longrightarrow> length pre \<le> length pre')"
    using assms
  proof (induction ps s rule: behind_head.induct)
    case (1 ps)
    then show ?case using starts_iff [of ps "[]" r] by auto
  next
    case (2 ps c s)
    show ?case
    proof (cases "starts ps (c # s)")
      case (Some r')
      with 2 obtain h where "c # s = [] @ h @ r" "fits ps h"
        using starts_iff [of ps "c # s" r] by auto
      then show ?thesis by (intro exI [of _ "[]"] exI [of _ h]) simp
    next
      case None
      then have no: "\<nexists>h r. c # s = h @ r \<and> fits ps h" using starts_iff [of ps "c # s"] by auto
      from None 2 obtain pre h where ih: "s = pre @ h @ r" "fits ps h"
          "\<forall>pre' h' r'. s = pre' @ h' @ r' \<longrightarrow> fits ps h' \<longrightarrow> length pre \<le> length pre'"
        by auto
      have "length (c # pre) \<le> length pre'" if "c # s = pre' @ h' @ r'" "fits ps h'" for pre' h' r'
        using that no ih(3) by (cases pre') auto
      with ih show ?thesis by (intro exI [of _ "c # pre"] exI [of _ h]) auto
    qed
  qed
  with that show ?thesis by blast
qed

lemma before_last_None: "before_last t s = None \<longleftrightarrow> (\<nexists>g r. s = g @ t @ r)"
proof (induction t s rule: before_last.induct)
  case (1 t)
  show ?case by auto
next
  case (2 t c s)
  have pre: "has_prefix (c # s) t \<longleftrightarrow> (\<exists>r. c # s = t @ r)"
    unfolding has_prefix_def by (metis append_eq_conv_conj append_take_drop_id)
  have "(\<exists>g r. c # s = g @ t @ r) \<longleftrightarrow> (\<exists>r. c # s = t @ r) \<or> (\<exists>g r. s = g @ t @ r)"
    by (metis append_Cons append_Nil list.exhaust list.inject)
  moreover have "before_last t (c # s) = None \<longleftrightarrow> before_last t s = None \<and> \<not> has_prefix (c # s) t"
    by (simp split: option.split)
  ultimately show ?case using 2 pre by blast
qed

lemma before_last_Some:
  assumes "before_last t s = Some g"
  shows "(\<exists>r. s = g @ t @ r) \<and> (\<forall>g' r'. s = g' @ t @ r' \<longrightarrow> length g' \<le> length g)"
  using assms
proof (induction t s arbitrary: g rule: before_last.induct)
  case (1 t)
  then show ?case by (auto split: if_splits)
next
  case (2 t c s)
  show ?case
  proof (cases "before_last t s")
    case (Some g0)
    with 2 have g: "g = c # g0" by simp
    from 2(1) [OF Some] obtain r where r: "s = g0 @ t @ r"
        "\<forall>g' r'. s = g' @ t @ r' \<longrightarrow> length g' \<le> length g0" by auto
    have "length g' \<le> length g" if "c # s = g' @ t @ r'" for g' r'
      using that r(2) g by (cases g') auto
    with r(1) g show ?thesis by auto
  next
    case None
    then have no: "\<nexists>g r. s = g @ t @ r" by (simp add: before_last_None)
    from None 2 have g: "g = []" "has_prefix (c # s) t" by (auto split: if_splits)
    then have "\<exists>r. c # s = [] @ t @ r"
      unfolding has_prefix_def by (metis append_Nil append_take_drop_id)
    moreover have "g' = []" if "c # s = g' @ t @ r'" for g' r'
      using that no by (cases g') auto
    ultimately show ?thesis using g by auto
  qed
qed

definition matches :: "char option list \<Rightarrow> string \<Rightarrow> string \<Rightarrow> string \<Rightarrow> string \<Rightarrow> bool" where
  "matches ps t s pre g \<longleftrightarrow> (\<exists>h r. s = pre @ h @ g @ t @ r \<and> fits ps h)"

lemma submatch_best:
  assumes "submatch ps t s = Some g"
  shows "\<exists>pre. matches ps t s pre g \<and>
    (\<forall>pre' g'. matches ps t s pre' g' \<longrightarrow>
       length pre < length pre' \<or> length pre = length pre' \<and> length g' \<le> length g)"
proof -
  from assms obtain r where r: "behind_head ps s = Some r" "before_last t r = Some g"
    by (auto simp: submatch_def split: option.splits)
  from r(1) obtain pre h where s: "s = pre @ h @ r" "fits ps h"
    and least: "\<And>pre' h' r'. s = pre' @ h' @ r' \<Longrightarrow> fits ps h' \<Longrightarrow> length pre \<le> length pre'"
    by (rule behind_head_Some) blast
  from before_last_Some [OF r(2)] obtain r2 where g: "r = g @ t @ r2"
    "\<And>g' r'. r = g' @ t @ r' \<Longrightarrow> length g' \<le> length g" by blast
  have "length pre < length pre' \<or> length pre = length pre' \<and> length g' \<le> length g"
    if m: "s = pre' @ h' @ g' @ t @ r'" "fits ps h'" for pre' h' g' r'
  proof (cases "length pre = length pre'")
    case True
    moreover have "length h = length h'" using s(2) m(2) by (simp add: fits_length)
    ultimately have "r = g' @ t @ r'" using s(1) m(1) by simp
    with True g(2) show ?thesis by blast
  next
    case False
    with least [OF m] show ?thesis by simp
  qed
  with s g(1) show ?thesis unfolding matches_def by blast
qed

lemma append_shorter:
  assumes "length a \<le> length b" "a @ x = b @ y"
  obtains d where "x = d @ y"
proof -
  from assms(2) obtain us where "a = b @ us \<and> us @ x = y \<or> a @ us = b \<and> x = us @ y"
    by (auto simp: append_eq_append_conv2)
  with assms(1) have "x = us @ y" by auto
  then show thesis by (rule that)
qed

lemma submatch_exists:
  assumes "matches ps t s pre g"
  shows "submatch ps t s \<noteq> None"
proof -
  obtain h r where s: "s = pre @ h @ g @ t @ r" "fits ps h" using assms by (auto simp: matches_def)
  then have "behind_head ps s \<noteq> None" unfolding behind_head_None by blast
  then obtain r0 where r0: "behind_head ps s = Some r0" by blast
  then obtain pre0 h0 where s0: "s = pre0 @ h0 @ r0" "fits ps h0"
    and least: "\<And>pre' h' r'. s = pre' @ h' @ r' \<Longrightarrow> fits ps h' \<Longrightarrow> length pre0 \<le> length pre'"
    by (rule behind_head_Some) blast
  have "length (pre0 @ h0) \<le> length (pre @ h @ g)"
    using least [OF s(1,2)] fits_length [OF s(2)] fits_length [OF s0(2)] by simp
  moreover have "(pre0 @ h0) @ r0 = (pre @ h @ g) @ t @ r" using s s0 by simp
  ultimately obtain d where "r0 = d @ t @ r" by (rule append_shorter)
  then have "before_last t r0 \<noteq> None" by (auto simp: before_last_None)
  with r0 show ?thesis by (auto simp: submatch_def)
qed


text \<open>
  The group of a value is the one the leftmost-first semantics of regular expressions gives: the
  match starts as far left as possible and the group is as long as possible there.
\<close>

theorem submatch_leftmost_longest:
  "submatch ps t s = Some g \<longleftrightarrow>
     (\<exists>pre. matches ps t s pre g \<and>
       (\<forall>pre' g'. matches ps t s pre' g' \<longrightarrow>
          length pre < length pre' \<or> length pre = length pre' \<and> length g' \<le> length g))"
proof
  assume "submatch ps t s = Some g"
  then show "\<exists>pre. matches ps t s pre g \<and>
       (\<forall>pre' g'. matches ps t s pre' g' \<longrightarrow>
          length pre < length pre' \<or> length pre = length pre' \<and> length g' \<le> length g)"
    by (rule submatch_best)
next
  assume "\<exists>pre. matches ps t s pre g \<and>
       (\<forall>pre' g'. matches ps t s pre' g' \<longrightarrow>
          length pre < length pre' \<or> length pre = length pre' \<and> length g' \<le> length g)"
  then obtain pre where m: "matches ps t s pre g"
    and best: "\<And>pre' g'. matches ps t s pre' g' \<Longrightarrow>
          length pre < length pre' \<or> length pre = length pre' \<and> length g' \<le> length g"
    by blast
  from submatch_exists [OF m] obtain g0 where g0: "submatch ps t s = Some g0" by blast
  from submatch_best [OF g0] obtain pre0 where m0: "matches ps t s pre0 g0"
    and best0: "\<And>pre' g'. matches ps t s pre' g' \<Longrightarrow>
          length pre0 < length pre' \<or> length pre0 = length pre' \<and> length g' \<le> length g0"
    by blast
  have len: "length pre = length pre0" "length g = length g0" using best [OF m0] best0 [OF m] by auto
  obtain h r h0 r0 where "s = pre @ h @ g @ t @ r" "fits ps h" "s = pre0 @ h0 @ g0 @ t @ r0" "fits ps h0"
    using m m0 unfolding matches_def by (elim exE conjE) (rule that)
  then have "g = g0" using len by (simp add: fits_length)
  with g0 show "submatch ps t s = Some g" by simp
qed


theorem submatch_leftmost_longest_witness:
  "counter_value ''x (Type: COUNTER, Value: 3B) (y)'' = Some ''3B) (y'' \<and>
   (\<exists>pre. matches (metric_head ''COUNTER'') '')'' ''x (Type: COUNTER, Value: 3B) (y)'' pre ''3B) (y'')"
proof -
  have "submatch (metric_head ''COUNTER'') '')'' ''x (Type: COUNTER, Value: 3B) (y)'' = Some ''3B) (y''"
    by code_simp
  then show ?thesis
    using submatch_leftmost_longest [of "metric_head ''COUNTER''" "'')''" "''x (Type: COUNTER, Value: 3B) (y)''" "''3B) (y''"]
    by (auto simp: counter_value_def)
qed

section \<open>Reading a report\<close>

text \<open>The lines of a report, with the values in bytes.\<close>

definition counter_line :: "string \<Rightarrow> nat \<Rightarrow> string" where
  "counter_line name n = name @ '' (Type: COUNTER, Value: '' @ (fmt_nat n @ ''B'') @ '')''"

definition gauge_line :: "string \<Rightarrow> nat \<Rightarrow> string" where
  "gauge_line name n = name @ '' (Type: GAUGE, Value: '' @ (fmt_nat n @ ''B'') @ ''/MIN)''"

lemma before_last_end: "t \<noteq> [] \<Longrightarrow> before_last t (g @ t) = Some g"
proof -
  assume "t \<noteq> []"
  have "g @ t = g @ t @ []" by simp
  then have "before_last t (g @ t) \<noteq> None" unfolding before_last_None by blast
  then obtain g0 where g0: "before_last t (g @ t) = Some g0" by blast
  from before_last_Some [OF this] obtain r where r: "g @ t = g0 @ t @ r" "length g \<le> length g0"
    by (metis append_Nil2)
  from r(1) have "length (g @ t) = length (g0 @ t @ r)" by (rule arg_cong)
  then have "length g = length g0" using r(2) by simp
  with r g0 show ?thesis by simp
qed

lemma behind_head_skip:
  "CHR ''('' \<notin> set name \<Longrightarrow> behind_head (metric_head k) (name @ s) = behind_head (metric_head k) s"
  by (induction name) (auto simp: metric_head_def)

lemma starts_head:
  "starts (metric_head ''COUNTER'') (''(Type: COUNTER, Value: '' @ v) = Some v"
  "starts (metric_head ''GAUGE'') (''(Type: GAUGE, Value: '' @ v) = Some v"
  by (simp_all add: metric_head_def)

lemma metric_values:
  assumes "CHR ''('' \<notin> set name"
  shows "counter_value (counter_line name n) = Some (fmt_nat n @ ''B'')"
    and "gauge_value (gauge_line name n) = Some (fmt_nat n @ ''B'')"
proof -
  have "CHR ''('' \<notin> set (name @ '' '')" using assms by simp
  note skip = behind_head_skip [OF this]
  have head: "behind_head (metric_head ''COUNTER'') (''(Type: COUNTER, Value: '' @ v) = Some v"
    "behind_head (metric_head ''GAUGE'') (''(Type: GAUGE, Value: '' @ v) = Some v" for v
    using starts_head [of v] by simp_all
  show "counter_value (counter_line name n) = Some (fmt_nat n @ ''B'')"
    using skip [of "''COUNTER''" "''(Type: COUNTER, Value: '' @ (fmt_nat n @ ''B'') @ '')''"]
      head(1) [of "(fmt_nat n @ ''B'') @ '')''"] before_last_end [of "'')''" "fmt_nat n @ ''B''"]
    by (simp add: counter_value_def counter_line_def submatch_def)
  show "gauge_value (gauge_line name n) = Some (fmt_nat n @ ''B'')"
    using skip [of "''GAUGE''" "''(Type: GAUGE, Value: '' @ (fmt_nat n @ ''B'') @ ''/MIN)''"]
      head(2) [of "(fmt_nat n @ ''B'') @ ''/MIN)''"] before_last_end [of "''/MIN)''" "fmt_nat n @ ''B''"]
    by (simp add: gauge_value_def gauge_line_def submatch_def)
qed

lemma newline_digits: "newline \<notin> set (fmt_nat n)"
  using fmt_nat_digits [of n] by (auto simp: is_digit_def)

lemma line_shape:
  "trim_space (counter_line (CHR ''C'' # name) n) = counter_line (CHR ''C'' # name) n"
  "trim_space (gauge_line (CHR ''C'' # name) n) = gauge_line (CHR ''C'' # name) n"
  by (simp_all add: trim_space_def trim_left_by_def trim_right_by_def is_space_def counter_line_def gauge_line_def)

lemma line_no_newline:
  "newline \<notin> set name \<Longrightarrow> newline \<notin> set (counter_line name n)"
  "newline \<notin> set name \<Longrightarrow> newline \<notin> set (gauge_line name n)"
  by (simp_all add: counter_line_def gauge_line_def newline_digits)

lemmas metric_prefixes = METRICS_PREFIX_BYTES_READ_LOCAL_def METRICS_PREFIX_BYTES_READ_REMOTE_def
  METRICS_PREFIX_BYTES_READ_UFS_ALL_def METRICS_PREFIX_BYTES_READ_LOCAL_THROUGHPUT_def
  METRICS_PREFIX_BYTES_READ_REMOTE_THROUGHPUT_def METRICS_PREFIX_BYTES_READ_UFS_THROUGHPUT_def

lemma prefix_tests:
  "has_prefix (counter_line METRICS_PREFIX_BYTES_READ_LOCAL n) METRICS_PREFIX_BYTES_READ_LOCAL"
  "\<not> has_prefix (counter_line METRICS_PREFIX_BYTES_READ_REMOTE n) METRICS_PREFIX_BYTES_READ_LOCAL"
  "has_prefix (counter_line METRICS_PREFIX_BYTES_READ_REMOTE n) METRICS_PREFIX_BYTES_READ_REMOTE"
  "\<not> has_prefix (counter_line METRICS_PREFIX_BYTES_READ_UFS_ALL n) METRICS_PREFIX_BYTES_READ_LOCAL"
  "\<not> has_prefix (counter_line METRICS_PREFIX_BYTES_READ_UFS_ALL n) METRICS_PREFIX_BYTES_READ_REMOTE"
  "has_prefix (counter_line METRICS_PREFIX_BYTES_READ_UFS_ALL n) METRICS_PREFIX_BYTES_READ_UFS_ALL"
  "\<not> has_prefix (gauge_line METRICS_PREFIX_BYTES_READ_LOCAL_THROUGHPUT n) METRICS_PREFIX_BYTES_READ_LOCAL"
  "\<not> has_prefix (gauge_line METRICS_PREFIX_BYTES_READ_LOCAL_THROUGHPUT n) METRICS_PREFIX_BYTES_READ_REMOTE"
  "\<not> has_prefix (gauge_line METRICS_PREFIX_BYTES_READ_LOCAL_THROUGHPUT n) METRICS_PREFIX_BYTES_READ_UFS_ALL"
  "has_prefix (gauge_line METRICS_PREFIX_BYTES_READ_LOCAL_THROUGHPUT n) METRICS_PREFIX_BYTES_READ_LOCAL_THROUGHPUT"
  "\<not> has_prefix (gauge_line METRICS_PREFIX_BYTES_READ_REMOTE_THROUGHPUT n) METRICS_PREFIX_BYTES_READ_LOCAL"
  "\<not> has_prefix (gauge_line METRICS_PREFIX_BYTES_READ_REMOTE_THROUGHPUT n) METRICS_PREFIX_BYTES_READ_REMOTE"
  "\<not> has_prefix (gauge_line METRICS_PREFIX_BYTES_READ_REMOTE_THROUGHPUT n) METRICS_PREFIX_BYTES_READ_UFS_ALL"
  "\<not> has_prefix (gauge_line METRICS_PREFIX_BYTES_READ_REMOTE_THROUGHPUT n) METRICS_PREFIX_BYTES_READ_LOCAL_THROUGHPUT"
  "has_prefix (gauge_line METRICS_PREFIX_BYTES_READ_REMOTE_THROUGHPUT n) METRICS_PREFIX_BYTES_READ_REMOTE_THROUGHPUT"
  "\<not> has_prefix (gauge_line METRICS_PREFIX_BYTES_READ_UFS_THROUGHPUT n) METRICS_PREFIX_BYTES_READ_LOCAL"
  "\<not> has_prefix (gauge_line METRICS_PREFIX_BYTES_READ_UFS_THROUGHPUT n) METRICS_PREFIX_BYTES_READ_REMOTE"
  "\<not> has_prefix (gauge_line METRICS_PREFIX_BYTES_READ_UFS_THROUGHPUT n) METRICS_PREFIX_BYTES_READ_UFS_ALL"
  "\<not> has_prefix (gauge_line METRICS_PREFIX_BYTES_READ_UFS_THROUGHPUT n) METRICS_PREFIX_BYTES_READ_LOCAL_THROUGHPUT"
  "\<not> has_prefix (gauge_line METRICS_PREFIX_BYTES_READ_UFS_THROUGHPUT n) METRICS_PREFIX_BYTES_READ_REMOTE_THROUGHPUT"
  "has_prefix (gauge_line METRICS_PREFIX_BYTES_READ_UFS_THROUGHPUT n) METRICS_PREFIX_BYTES_READ_UFS_THROUGHPUT"
  by (simp_all add: metric_prefixes counter_line_def gauge_line_def has_prefix_def)

lemma trim_lines:
  "trim_space (counter_line METRICS_PREFIX_BYTES_READ_LOCAL n) = counter_line METRICS_PREFIX_BYTES_READ_LOCAL n"
  "trim_space (counter_line METRICS_PREFIX_BYTES_READ_REMOTE n) = counter_line METRICS_PREFIX_BYTES_READ_REMOTE n"
  "trim_space (counter_line METRICS_PREFIX_BYTES_READ_UFS_ALL n) = counter_line METRICS_PREFIX_BYTES_READ_UFS_ALL n"
  "trim_space (gauge_line METRICS_PREFIX_BYTES_READ_LOCAL_THROUGHPUT n) = gauge_line METRICS_PREFIX_BYTES_READ_LOCAL_THROUGHPUT n"
  "trim_space (gauge_line METRICS_PREFIX_BYTES_READ_REMOTE_THROUGHPUT n) = gauge_line METRICS_PREFIX_BYTES_READ_REMOTE_THROUGHPUT n"
  "trim_space (gauge_line METRICS_PREFIX_BYTES_READ_UFS_THROUGHPUT n) = gauge_line METRICS_PREFIX_BYTES_READ_UFS_THROUGHPUT n"
  by (simp_all add: metric_prefixes line_shape)

lemma values_of_lines:
  "counter_value (counter_line METRICS_PREFIX_BYTES_READ_LOCAL n) = Some (fmt_nat n @ ''B'')"
  "counter_value (counter_line METRICS_PREFIX_BYTES_READ_REMOTE n) = Some (fmt_nat n @ ''B'')"
  "counter_value (counter_line METRICS_PREFIX_BYTES_READ_UFS_ALL n) = Some (fmt_nat n @ ''B'')"
  "gauge_value (gauge_line METRICS_PREFIX_BYTES_READ_LOCAL_THROUGHPUT n) = Some (fmt_nat n @ ''B'')"
  "gauge_value (gauge_line METRICS_PREFIX_BYTES_READ_REMOTE_THROUGHPUT n) = Some (fmt_nat n @ ''B'')"
  "gauge_value (gauge_line METRICS_PREFIX_BYTES_READ_UFS_THROUGHPUT n) = Some (fmt_nat n @ ''B'')"
  by (simp_all add: metric_prefixes metric_values)

lemma metric_line_reads:
  assumes "float_contract F" and "int n \<le> 2 ^ 53"
  shows "metric_line F r (counter_line METRICS_PREFIX_BYTES_READ_LOCAL n) =
      Ret (r\<lparr>mr_states := (mr_states r)\<lparr>bytesReadLocal := of_nat n\<rparr>\<rparr>)"
    and "metric_line F r (counter_line METRICS_PREFIX_BYTES_READ_REMOTE n) =
      Ret (r\<lparr>mr_states := (mr_states r)\<lparr>bytesReadRemote := of_nat n\<rparr>\<rparr>)"
    and "metric_line F r (counter_line METRICS_PREFIX_BYTES_READ_UFS_ALL n) =
      Ret (r\<lparr>mr_states := (mr_states r)\<lparr>bytesReadUfsAll := of_nat n\<rparr>\<rparr>)"
    and "metric_line F r (gauge_line METRICS_PREFIX_BYTES_READ_LOCAL_THROUGHPUT n) =
      Ret (r\<lparr>localThroughput := of_nat n\<rparr>)"
    and "metric_line F r (gauge_line METRICS_PREFIX_BYTES_READ_REMOTE_THROUGHPUT n) =
      Ret (r\<lparr>remoteThroughput := of_nat n\<rparr>)"
    and "metric_line F r (gauge_line METRICS_PREFIX_BYTES_READ_UFS_THROUGHPUT n) =
      Ret (r\<lparr>ufsThroughput := of_nat n\<rparr>)"
  using FromHumanSize_bytes [OF assms]
  by (simp_all add: metric_line_def trim_lines prefix_tests values_of_lines with_size_def Let_def)

definition metric_report :: "nat \<Rightarrow> nat \<Rightarrow> nat \<Rightarrow> nat \<Rightarrow> nat \<Rightarrow> nat \<Rightarrow> string" where
  "metric_report l r u lt rt ut = join [newline]
     [counter_line METRICS_PREFIX_BYTES_READ_LOCAL l, gauge_line METRICS_PREFIX_BYTES_READ_LOCAL_THROUGHPUT lt,
      counter_line METRICS_PREFIX_BYTES_READ_REMOTE r, gauge_line METRICS_PREFIX_BYTES_READ_REMOTE_THROUGHPUT rt,
      counter_line METRICS_PREFIX_BYTES_READ_UFS_ALL u, gauge_line METRICS_PREFIX_BYTES_READ_UFS_THROUGHPUT ut]"

lemma split_report:
  "split_on newline (metric_report l r u lt rt ut) =
     [counter_line METRICS_PREFIX_BYTES_READ_LOCAL l, gauge_line METRICS_PREFIX_BYTES_READ_LOCAL_THROUGHPUT lt,
      counter_line METRICS_PREFIX_BYTES_READ_REMOTE r, gauge_line METRICS_PREFIX_BYTES_READ_REMOTE_THROUGHPUT rt,
      counter_line METRICS_PREFIX_BYTES_READ_UFS_ALL u, gauge_line METRICS_PREFIX_BYTES_READ_UFS_THROUGHPUT ut]"
  unfolding metric_report_def by (rule split_on_join) (auto simp: metric_prefixes line_no_newline)


text \<open>
  C38: the counters and gauges of a report in the format of the cache are read exactly, the states get
  the counters, and the ratios are those of the counters since the previous states and of the
  gauges.
\<close>

theorem ParseReportMetric_reads:
  assumes "float_contract F" and "\<forall>n \<in> {l, r, u, lt, rt, ut}. int n \<le> 2 ^ 53"
  shows "ParseReportMetric F (metric_report l r u lt rt ut) st prev =
    (let st' = st\<lparr>bytesReadLocal := of_nat l, bytesReadRemote := of_nat r, bytesReadUfsAll := of_nat u\<rparr>
     in Ret (case prev of
        None \<Rightarrow> st'
      | Some p \<Rightarrow> throughput_ratios F
          \<lparr>mr_states = st', localThroughput = of_nat lt, remoteThroughput = of_nat rt, ufsThroughput = of_nat ut\<rparr>
          (hit_ratios F p st')))"
  using assms(2)
  by (simp add: ParseReportMetric_def split_report metric_line_reads [OF assms(1)] Let_def
      split: option.split)

text \<open>No request in a minute shows as ratios of zero.\<close>

theorem ParseReportMetric_reads_witness:
  "ParseReportMetric integer_floats (metric_report 30 20 50 1 1 2) no_hits
       (Some (no_hits\<lparr>bytesReadLocal := 10, bytesReadRemote := 10, bytesReadUfsAll := 0\<rparr>)) =
     Ret (no_hits\<lparr>bytesReadLocal := 30, bytesReadRemote := 20, bytesReadUfsAll := 50,
       localHitRatio := ''25.0%'', remoteHitRatio := ''12.0%'', cacheHitRatio := ''37.0%'',
       localThroughputRatio := ''25.0%'', remoteThroughputRatio := ''25.0%'',
       cacheThroughputRatio := ''50.0%''\<rparr>)"
proof -
  have "ParseReportMetric integer_floats (metric_report 30 20 50 1 1 2) no_hits
       (Some (no_hits\<lparr>bytesReadLocal := 10, bytesReadRemote := 10, bytesReadUfsAll := 0\<rparr>)) =
     Ret (throughput_ratios integer_floats
       \<lparr>mr_states = no_hits\<lparr>bytesReadLocal := 30, bytesReadRemote := 20, bytesReadUfsAll := 50\<rparr>,
        localThroughput = 1, remoteThroughput = 1, ufsThroughput = 2\<rparr>
       (hit_ratios integer_floats
         (no_hits\<lparr>bytesReadLocal := 10, bytesReadRemote := 10, bytesReadUfsAll := 0\<rparr>)
         (no_hits\<lparr>bytesReadLocal := 30, bytesReadRemote := 20, bytesReadUfsAll := 50\<rparr>)))"
    using ParseReportMetric_reads [OF integer_floats_contract, of 30 20 50 1 1 2 no_hits
      "Some (no_hits\<lparr>bytesReadLocal := 10, bytesReadRemote := 10, bytesReadUfsAll := 0\<rparr>)"]
    by (simp add: Let_def)
  also have "\<dots> = Ret (no_hits\<lparr>bytesReadLocal := 30, bytesReadRemote := 20, bytesReadUfsAll := 50,
       localHitRatio := ''25.0%'', remoteHitRatio := ''12.0%'', cacheHitRatio := ''37.0%'',
       localThroughputRatio := ''25.0%'', remoteThroughputRatio := ''25.0%'',
       cacheThroughputRatio := ''50.0%''\<rparr>)"
    by code_simp
  finally show ?thesis .
qed

subsection \<open>The summary\<close>

definition summary_other :: "string \<Rightarrow> bool" where
  "summary_other l \<longleftrightarrow> newline \<notin> set l \<and> \<not> has_prefix (trim_space l) ''Total Capacity: '' \<and>
     \<not> has_prefix (trim_space l) ''Used Capacity: ''"

lemma summary_others: "\<forall>l \<in> set ls. summary_other l \<Longrightarrow> foldl (summary_line F) st ls = st"
  by (induction ls) (auto simp: summary_line_def summary_other_def Let_def
      SUMMARY_PREFIX_TOTAL_CAPACITY_def SUMMARY_PREFIX_USED_CAPACITY_def)

lemma trim_padded:
  assumes "set pad \<subseteq> {CHR '' ''}" "\<not> is_space c" "\<not> is_space d"
  shows "trim_space (pad @ c # x @ [d]) = c # x @ [d]"
proof -
  have "\<forall>p \<in> set pad. is_space p" using assms(1) by (auto simp: is_space_def)
  then show ?thesis using assms(2,3) by (simp add: trim_space_def trim_left_by_def trim_right_by_def)
qed

lemma summary_line_reads:
  assumes "float_contract F" "set pad \<subseteq> {CHR '' ''}" "int n * 1024 ^ e \<le> 2 ^ 53" "(c, e) \<in> size_units"
  shows "summary_line F st (pad @ ''Total Capacity: '' @ fmt_nat n @ c @ ''B'') =
      st\<lparr>cacheCapacity := utils_BytesSize F (FloatOfInt F (of_int (int n * 1024 ^ e)))\<rparr>"
    and "summary_line F st (pad @ ''Used Capacity: '' @ fmt_nat n @ c @ ''B'') =
      st\<lparr>cached := utils_BytesSize F (FloatOfInt F (of_int (int n * 1024 ^ e)))\<rparr>"
proof -
  have read: "FromHumanSize F (fmt_nat n @ c @ ''B'') = (of_int (int n * 1024 ^ e), None)"
    using FromHumanSize_units [OF assms(1), of "[]" "[]" "''B''" n e c] assms(3,4) by simp
  have trim: "trim_space (pad @ ''Total Capacity: '' @ fmt_nat n @ c @ ''B'') =
      ''Total Capacity: '' @ fmt_nat n @ c @ ''B''"
    "trim_space (pad @ ''Used Capacity: '' @ fmt_nat n @ c @ ''B'') = ''Used Capacity: '' @ fmt_nat n @ c @ ''B''"
    using trim_padded [OF assms(2), of "CHR ''T''" "CHR ''B''" "''otal Capacity: '' @ fmt_nat n @ c"]
      trim_padded [OF assms(2), of "CHR ''U''" "CHR ''B''" "''sed Capacity: '' @ fmt_nat n @ c"]
    by (simp_all add: is_space_def)
  note prefixes = SUMMARY_PREFIX_TOTAL_CAPACITY_def SUMMARY_PREFIX_USED_CAPACITY_def
  show "summary_line F st (pad @ ''Total Capacity: '' @ fmt_nat n @ c @ ''B'') =
      st\<lparr>cacheCapacity := utils_BytesSize F (FloatOfInt F (of_int (int n * 1024 ^ e)))\<rparr>"
    unfolding summary_line_def trim prefixes
    using read by (simp add: Let_def has_prefix_def trim_prefix_def)
  show "summary_line F st (pad @ ''Used Capacity: '' @ fmt_nat n @ c @ ''B'') =
      st\<lparr>cached := utils_BytesSize F (FloatOfInt F (of_int (int n * 1024 ^ e)))\<rparr>"
    unfolding summary_line_def trim prefixes
    using read by (simp add: Let_def has_prefix_def trim_prefix_def)
qed

lemma size_units_no_newline: "(c, e) \<in> size_units \<Longrightarrow> newline \<notin> set c"
  unfolding size_units_def by (elim insertE) simp_all

text \<open>
  C39: The summary of the cache. Of a report with one line for the total and one for the used capacity, indented
  by blanks and between any other lines, \<open>ParseReportSummary\<close> reads the total into the capacity of the cache and the used
  one into what is cached, each as the number times the power of 1024 of its unit and printed
  in Fluid's own units; nothing else is set.
\<close>

theorem ParseReportSummary_reads:
  assumes "float_contract F" and "set pad \<subseteq> {CHR '' ''}"
    and "\<forall>l \<in> set (before @ between @ after). summary_other l"
    and "(c, e) \<in> size_units" "int n * 1024 ^ e \<le> 2 ^ 53"
    and "(d, f) \<in> size_units" "int m * 1024 ^ f \<le> 2 ^ 53"
  shows "ParseReportSummary F (join [newline] (before @ (pad @ ''Total Capacity: '' @ fmt_nat n @ c @ ''B'') #
      between @ (pad @ ''Used Capacity: '' @ fmt_nat m @ d @ ''B'') # after)) =
    no_cache\<lparr>cacheCapacity := utils_BytesSize F (FloatOfInt F (of_int (int n * 1024 ^ e))),
      cached := utils_BytesSize F (FloatOfInt F (of_int (int m * 1024 ^ f)))\<rparr>"
proof -
  let ?total = "pad @ ''Total Capacity: '' @ fmt_nat n @ c @ ''B''"
  let ?used = "pad @ ''Used Capacity: '' @ fmt_nat m @ d @ ''B''"
  have "newline \<notin> set ?total" "newline \<notin> set ?used"
    using assms(2) size_units_no_newline [OF assms(4)] size_units_no_newline [OF assms(6)]
    by (auto simp: newline_digits)
  then have "split_on newline (join [newline] (before @ ?total # between @ ?used # after)) =
      before @ ?total # between @ ?used # after"
    using assms(3) by (intro split_on_join) (auto simp: summary_other_def)
  then show ?thesis
    using assms(3) summary_others [of before F] summary_others [of between F] summary_others [of after F]
      summary_line_reads(1) [OF assms(1,2,5,4)] summary_line_reads(2) [OF assms(1,2,7,6)]
    by (simp add: ParseReportSummary_def)
qed

theorem ParseReportSummary_reads_witness:
  "ParseReportSummary integer_floats (''Alluxio cluster summary: '' @ [newline] @ ''    Total Capacity: 2GB'' @ [newline] @
      ''        Tier: MEM  Size: 2GB'' @ [newline] @ ''    Used Capacity: 3KB'' @ [newline] @ ''    Free Capacity: 1GB'') =
    no_cache\<lparr>cacheCapacity := utils_BytesSize integer_floats 2147483648, cached := utils_BytesSize integer_floats 3072\<rparr>"
proof -
  have others: "\<forall>l \<in> set ([''Alluxio cluster summary: ''] @ [''        Tier: MEM  Size: 2GB''] @ [''    Free Capacity: 1GB'']).
      summary_other l"
    by code_simp
  have nums: "fmt_nat 2 = ''2''" "fmt_nat 3 = ''3''" by code_simp+
  have ints: "FloatOfInt integer_floats (of_int (int 2 * 1024 ^ 3)) = 2147483648"
    "FloatOfInt integer_floats (of_int (int 3 * 1024 ^ 1)) = 3072"
    by (simp_all add: integer_floats_def)
  show ?thesis
    using ParseReportSummary_reads [OF integer_floats_contract _ others, of "''    ''" "''G''" 3 2 "''K''" 1 3,
        unfolded nums ints]
    by (simp add: size_units_def)
qed

text \<open>A line of a counter without its value panics.\<close>

theorem metric_without_value_panics:
  "ParseReportMetric F (METRICS_PREFIX_BYTES_READ_LOCAL @ ''-'') st prev = Panic"
  by (simp add: ParseReportMetric_def metric_prefixes metric_line_def trim_space_def trim_left_by_def
      trim_right_by_def is_space_def has_prefix_def counter_value_def submatch_def metric_head_def
      with_size_def Let_def)

end
