(* ===== verification/Values.thy ===== *)
theory Values
  imports ByteSize Docker
begin

text \<open>
  The values that the charts take (\<open>types.go\<close>, \<open>types_selector.go\<close>, \<open>common/types.go\<close>), the
  quantities written into them (\<open>quantity.go\<close>), and the switch of the port check
  (\<open>common/init.go\<close>). The methods that fill most of the values are commented out in the
  sources.
\<close>

section \<open>The value file\<close>

record ImageInfo =
  ii_Image :: string
  ii_ImageTag :: string
  ii_ImagePullPolicy :: string

record Resources =
  res_Requests :: "string \<rightharpoonup> string"
  res_Limits :: "string \<rightharpoonup> string"

record HadoopConfig =
  hc_ConfigMap :: string
  hc_IncludeHdfsSite :: bool
  hc_IncludeCoreSite :: bool

record UFSVolume =
  ufs_Name :: string
  ufs_ContainerPath :: string

record UFSPath =
  ufs_HostPath :: string
  ufs_Volume :: UFSVolume

record Metastore =
  meta_VolumeType :: string
  meta_Size :: string

record Journal =
  journal_VolumeType :: string
  journal_Size :: string

record ShortCircuit =
  sc_Enable :: bool
  sc_Policy :: string
  sc_VolumeType :: string

record Ports =
  port_Rpc :: int64
  port_Web :: int64
  port_Embedded :: int64
  port_Data :: int64
  port_Rest :: int64

record APIGateway =
  gw_Enabled :: bool
  gw_Ports :: Ports

record JobMaster =
  jm_Ports :: Ports

record JobWorker =
  jw_Ports :: Ports

record Restore =
  restore_Enabled :: bool
  restore_Path :: string
  restore_PVCName :: string

record value_Level =
  vl_Alias :: string
  vl_Level :: int64
  vl_MediumType :: string
  vl_Type :: string
  vl_Path :: string
  vl_Quota :: string
  vl_High :: string
  vl_Low :: string

record value_TieredStore =
  vts_Levels :: "value_Level list"

section \<open>Node affinity\<close>

record NodeSelectorRequirement =
  nsr_Key :: string
  nsr_Operator :: string
  nsr_Values :: "string list"

record NodeSelectorTerm =
  nst_MatchExpressions :: "NodeSelectorRequirement list"

record NodeSelector =
  ns_NodeSelectorTerms :: "NodeSelectorTerm list"

record NodeAffinity =
  na_Required :: "NodeSelector option"

record Affinity =
  aff_NodeAffinity :: "NodeAffinity option"

text \<open>The selector of the API, whose terms can also match fields of a node.\<close>

record api_Requirement =
  ar_Key :: string
  ar_Operator :: string
  ar_Values :: "string list"

record api_Term =
  at_MatchExpressions :: "api_Requirement list"
  at_MatchFields :: "api_Requirement list"

record CacheableNodeAffinity =
  cna_Required :: "api_Term list option"

definition translateCacheToNodeAffinity :: "CacheableNodeAffinity option \<Rightarrow> NodeAffinity option" where
  "translateCacheToNodeAffinity dataAffinity =
     (case dataAffinity of
        None \<Rightarrow> None
      | Some a \<Rightarrow>
          (case cna_Required a of
             None \<Rightarrow> None
           | Some terms \<Rightarrow>
               Some \<lparr>na_Required = Some \<lparr>ns_NodeSelectorTerms =
                 map (\<lambda>srcTerm. \<lparr>nst_MatchExpressions =
                   map (\<lambda>srcMatch. \<lparr>nsr_Key = ar_Key srcMatch, nsr_Operator = ar_Operator srcMatch,
                          nsr_Values = ar_Values srcMatch\<rparr>)
                     (at_MatchExpressions srcTerm)\<rparr>) terms\<rparr>\<rparr>))"

section \<open>Components of the value file\<close>

record value_Worker =
  vw_JvmOptions :: "string list"
  vw_Env :: "string \<rightharpoonup> string"
  vw_NodeSelector :: "string \<rightharpoonup> string"
  vw_Properties :: "string \<rightharpoonup> string"
  vw_HostNetwork :: bool
  vw_Resources :: Resources
  vw_Ports :: Ports

record value_Master =
  vm_JvmOptions :: "string list"
  vm_Env :: "string \<rightharpoonup> string"
  vm_Affinity :: Affinity
  vm_NodeSelector :: "string \<rightharpoonup> string"
  vm_Properties :: "string \<rightharpoonup> string"
  vm_Replicas :: int32
  vm_HostNetwork :: bool
  vm_Resources :: Resources
  vm_Ports :: Ports
  vm_BackupPath :: string
  vm_Restore :: Restore

record value_Fuse =
  vf_Image :: string
  vf_NodeSelector :: "string \<rightharpoonup> string"
  vf_ImageTag :: string
  vf_ImagePullPolicy :: string
  vf_Properties :: "string \<rightharpoonup> string"
  vf_Env :: "string \<rightharpoonup> string"
  vf_JvmOptions :: "string list"
  vf_MountPath :: string
  vf_ShortCircuitPolicy :: string
  vf_Args :: "string list"
  vf_HostNetwork :: bool
  vf_Enabled :: bool
  vf_Resources :: Resources
  vf_Global :: bool
  vf_CriticalPod :: bool

text \<open>\<open>'t\<close> stands for the tolerations of the API.\<close>

record 't Alluxio =
  val_FullnameOverride :: string
  val_ImageInfo :: ImageInfo
  val_UserInfo :: UserInfo
  val_NodeSelector :: "string \<rightharpoonup> string"
  val_JvmOptions :: "string list"
  val_Properties :: "string \<rightharpoonup> string"
  val_Master :: value_Master
  val_JobMaster :: JobMaster
  val_Worker :: value_Worker
  val_JobWorker :: JobWorker
  val_Fuse :: value_Fuse
  val_APIGateway :: APIGateway
  val_TieredStore :: value_TieredStore
  val_Metastore :: Metastore
  val_Journal :: Journal
  val_ShortCircuit :: ShortCircuit
  val_UFSPaths :: "UFSPath list"
  val_UFSVolumes :: "UFSVolume list"
  val_InitUsers :: InitUsers
  val_Monitoring :: string
  val_HadoopConfig :: HadoopConfig
  val_Tolerations :: "'t list"

primrec level0_path :: "string \<Rightarrow> value_Level list \<Rightarrow> string" where
  "level0_path path [] = path"
| "level0_path path (level # levels) =
     (if vl_Level level = 0 then vl_Path level else level0_path path levels)"

definition getTiredStoreLevel0Path :: "'t Alluxio \<Rightarrow> string \<Rightarrow> string \<Rightarrow> string" where
  "getTiredStoreLevel0Path v name namespace =
     level0_path (''/dev/shm/'' @ namespace @ ''/'' @ name) (vts_Levels (val_TieredStore v))"

definition transformMasterSelector :: "'q AlluxioRuntime \<Rightarrow> string \<rightharpoonup> string" where
  "transformMasterSelector runtime =
     (case comp_NodeSelector (spec_Master (rt_Spec runtime)) of
        None \<Rightarrow> Map.empty
      | Some selector \<Rightarrow> selector)"

section \<open>Quantities\<close>

text \<open>\<open>ReplaceAll\<close> of a non-empty string by another one.\<close>

function replace_string :: "string \<Rightarrow> string \<Rightarrow> string \<Rightarrow> string" where
  "replace_string old new s =
     (if old = [] \<or> s = [] then s
      else if has_prefix s old then new @ replace_string old new (drop (length old) s)
      else hd s # replace_string old new (tl s))"
  by pat_completeness auto
termination by (relation "measure (\<lambda>(old, new, s). length s)") auto

declare replace_string.simps [simp del]

definition TransformQuantityToAlluxioUnit :: "'q quantity_ops \<Rightarrow> 'q \<Rightarrow> string" where
  "TransformQuantityToAlluxioUnit ops q =
     (let v = QuantityString ops q in
      if has_suffix v ''i'' then replace_string ''i'' ''B'' v else v)"

definition TransformQuantityToJindoUnit :: "'q quantity_ops \<Rightarrow> 'q \<Rightarrow> string" where
  "TransformQuantityToJindoUnit ops q =
     (let v = QuantityString ops q in
      if has_suffix v ''Gi'' then replace_string ''Gi'' ''g'' v else v)"

definition TransformQuantityToGooseFSUnit :: "'q quantity_ops \<Rightarrow> 'q \<Rightarrow> string" where
  "TransformQuantityToGooseFSUnit ops q =
     (let v = QuantityString ops q in
      if has_suffix v ''i'' then replace_string ''i'' ''B'' v else v)"

section \<open>The port check\<close>

text \<open>\<open>strconv.ParseBool\<close>.\<close>

definition ParseBool :: "string \<Rightarrow> bool option" where
  "ParseBool s =
     (if s \<in> {''1'', ''t'', ''T'', ''TRUE'', ''true'', ''True''} then Some True
      else if s \<in> {''0'', ''f'', ''F'', ''FALSE'', ''false'', ''False''} then Some False
      else None)"

text \<open>The initialisation of the package, and the value it leaves.\<close>

definition PortCheckEnabled :: "env \<Rightarrow> bool outcome" where
  "PortCheckEnabled env =
     (case env ''INIT_PORT_CHECK_ENABLED'' of
        None \<Rightarrow> Ret False
      | Some strVal \<Rightarrow> (case ParseBool strVal of None \<Rightarrow> Panic | Some b \<Rightarrow> Ret b))"

section \<open>Properties\<close>

lemma replace_char: "replace_string [c] [d] s = map (\<lambda>x. if x = c then d else x) s"
proof (induction s)
  case Nil
  then show ?case by (simp add: replace_string.simps)
next
  case (Cons x xs)
  then show ?case by (subst replace_string.simps) (simp add: has_prefix_def)
qed

lemma digits_no_i: "CHR ''i'' \<notin> set (fmt_nat n)"
  using fmt_nat_digits [of n] by (auto simp: is_digit_def)

text \<open>
  a binary quantity is written with the unit that the cache reads as the same number of bytes:
  what \<open>TransformQuantityToAlluxioUnit\<close> makes of \<open>n\<close> times \<open>Ki\<close>, \<open>Mi\<close>, \<open>Gi\<close>, \<open>Ti\<close> or \<open>Pi\<close>, read back by
  \<open>FromHumanSize\<close>, is \<open>n\<close> times the power of 1024.
\<close>

theorem quantity_read_back:
  assumes "float_contract F" and "c \<in> set ''KMGTP''"
    and "QuantityString ops q = fmt_nat n @ [c] @ ''i''"
    and "binaryMap [to_lower c] = Some m" and "int n * sint m \<le> 2 ^ 53"
  shows "FromHumanSize F (TransformQuantityToAlluxioUnit ops q) = (of_nat n * m, None)"
proof -
  have "c \<noteq> CHR ''i''" using assms(2) by auto
  then have "replace_string ''i'' ''B'' (fmt_nat n @ [c] @ ''i'') = fmt_nat n @ [] @ [c] @ [] @ ''B''"
    using digits_no_i [of n] by (auto simp: replace_char intro: map_idI)
  moreover have "has_suffix (fmt_nat n @ [c] @ ''i'') ''i''"
    by (simp add: has_suffix_def has_prefix_def)
  ultimately have "TransformQuantityToAlluxioUnit ops q = fmt_nat n @ [] @ [c] @ [] @ ''B''"
    using assms(3) by (simp add: TransformQuantityToAlluxioUnit_def Let_def)
  moreover have "FromHumanSize F (fmt_nat n @ [] @ [c] @ [] @ ''B'') = (of_nat n * m, None)"
    using assms by (intro FromHumanSize_unit) auto
  ultimately show ?thesis by simp
qed

text \<open>Quantities that print as gibibytes.\<close>

definition gi_quantities :: "int64 quantity_ops" where
  "gi_quantities = \<lparr>NewQuantity = id, QuantityValue = id, QuantityAdd = (+),
     QuantityCmp = (\<lambda>a b. sgn (sint a - sint b)), ParseQuantity = (\<lambda>s. Inl (ErrText s)),
     QuantityString = (\<lambda>q. fmt_nat (unat q div 1024 ^ 3) @ [CHR ''G''] @ ''i''), BytesSize = FormatInt64\<rparr>"

theorem quantity_read_back_witness:
  "TransformQuantityToAlluxioUnit gi_quantities (2 * 1024 ^ 3) = ''2GB'' \<and>
   FromHumanSize integer_floats (TransformQuantityToAlluxioUnit gi_quantities (2 * 1024 ^ 3)) =
     (2 * 1024 ^ 3, None)"
proof
  have "fmt_nat 2 = ''2''" by code_simp
  then have "QuantityString gi_quantities (2 * 1024 ^ 3) = ''2Gi''" by (simp add: gi_quantities_def)
  then show "TransformQuantityToAlluxioUnit gi_quantities (2 * 1024 ^ 3) = ''2GB''"
    by (simp add: TransformQuantityToAlluxioUnit_def replace_char has_suffix_def has_prefix_def)
  have "binaryMap [to_lower CHR ''G''] = Some (1024 ^ 3)" by code_simp
  then show "FromHumanSize integer_floats (TransformQuantityToAlluxioUnit gi_quantities (2 * 1024 ^ 3)) =
      (2 * 1024 ^ 3, None)"
    using quantity_read_back [OF integer_floats_contract, where c = "CHR ''G''" and ops = gi_quantities
        and q = "2 * 1024 ^ 3" and n = 2 and m = "1024 ^ 3"]
    by (simp add: gi_quantities_def)
qed

text \<open>
  The translation keeps the expressions of every term in their order, and forgets the conditions on
  fields: a term with only such conditions becomes a term without any.
\<close>

definition api_requirement :: "NodeSelectorRequirement \<Rightarrow> api_Requirement" where
  "api_requirement r = \<lparr>ar_Key = nsr_Key r, ar_Operator = nsr_Operator r, ar_Values = nsr_Values r\<rparr>"

lemma requirement_of [simp]:
  "\<lparr>ar_Key = ar_Key x, ar_Operator = ar_Operator x, ar_Values = ar_Values x\<rparr> = (x :: api_Requirement)"
  by simp

theorem translate_forgets_fields:
  "map_option (\<lambda>a. map (\<lambda>t. map api_requirement (nst_MatchExpressions t))
       (ns_NodeSelectorTerms (the (na_Required a))))
     (translateCacheToNodeAffinity (Some \<lparr>cna_Required = terms\<rparr>)) =
   map_option (map at_MatchExpressions) terms"
  by (cases terms) (simp_all add: translateCacheToNodeAffinity_def api_requirement_def comp_def)

end
