(* ===== verification/LocalTools.thy ===== *)
theory LocalTools
  imports Helm Docker PodExec
begin

text \<open>
  Helpers that talk to the machine the controllers run on: configuration maps through \<open>kubectl\<close>
  (\<open>pkg/utils/kubectl\<close>), the directory of the charts (\<open>charts.go\<close>), the home directory
  (\<open>home.go\<close>), the client for commands in pods (\<open>kubeclient/exec.go\<close>), value files and templates of
  helm (\<open>helm/helm.go\<close>, \<open>yaml.go\<close>).
\<close>

section \<open>The machine\<close>

text \<open>
  Beside processes: \<open>Stat\<close> with all its errors, \<open>IsExist\<close> of an error, creating a temporary file and
  writing it, and the home directory of the current user.
\<close>

record 'w machine = "'w os" +
  Stat :: "string \<Rightarrow> ('w, err option) state"
  IsExistErr :: "err \<Rightarrow> bool"
  TempFile :: "string \<Rightarrow> string \<Rightarrow> ('w, err + string) state"
  WriteFile :: "string \<Rightarrow> string \<Rightarrow> ('w, err option) state"
  CurrentHome :: "('w, err + string) state"

definition Getenv :: "env \<Rightarrow> string \<Rightarrow> string" where
  "Getenv env key = (case env key of None \<Rightarrow> [] | Some v \<Rightarrow> v)"

definition TempDir :: "env \<Rightarrow> string" where
  "TempDir env = (if Getenv env ''TMPDIR'' = [] then ''/tmp'' else Getenv env ''TMPDIR'')"

section \<open>kubectl\<close>

definition kubectlCmd :: string where
  "kubectlCmd = ''kubectl''"

definition kubectl :: "('w, 'x) os_scheme \<Rightarrow> string list \<Rightarrow> ('w, string \<times> err option) state" where
  "kubectl m args = do {
     r \<leftarrow> LookPath m kubectlCmd;
     case r of
       Inl e \<Rightarrow> ret ([], Some e)
     | Inr binary \<Rightarrow> do {
         p \<leftarrow> RunProcess m binary args;
         ret (proc_output p)
       }
   }"

definition CreateConfigMapFromFile ::
    "('w, 'x) os_scheme \<Rightarrow> string \<Rightarrow> string \<Rightarrow> string \<Rightarrow> string \<Rightarrow> ('w, err option) state" where
  "CreateConfigMapFromFile m name key fileName namespace = do {
     missing \<leftarrow> StatNotExist m fileName;
     case missing of
       Some e \<Rightarrow> ret (Some e)
     | None \<Rightarrow> do {
         (out, e) \<leftarrow> kubectl m [''create'', ''configmap'', name, ''--namespace'', namespace,
                      ''--from-file='' @ key @ ''='' @ fileName];
         ret e
       }
   }"

text \<open>Without a file its name cannot be logged: the error branch panics.\<close>

definition SaveConfigMapToFile ::
    "'w machine \<Rightarrow> env \<Rightarrow> string \<Rightarrow> string \<Rightarrow> string \<Rightarrow> ('w, (string \<times> err option) outcome) state" where
  "SaveConfigMapToFile m env name key namespace = do {
     r \<leftarrow> LookPath m kubectlCmd;
     case r of
       Inl e \<Rightarrow> ret (Ret ([], Some e))
     | Inr binary \<Rightarrow> do {
         f \<leftarrow> TempFile m (TempDir env) name;
         case f of
           Inl e \<Rightarrow> ret Panic
         | Inr fileName \<Rightarrow>
             (let args = [binary, ''get'', ''configmap'', name, ''--namespace'', namespace,
                    ''-o=jsonpath='' @ [CHR 0x27] @ ''{.data.'' @ key @ ''}'' @ [CHR 0x27], ''>'', fileName]
              in do {
                p \<leftarrow> RunProcess m ''bash'' [''-c'', join '' '' args];
                ret (Ret (fileName, case proc_output p of
                   (_, None) \<Rightarrow> None
                 | (_, Some e) \<Rightarrow> Some (ErrText (''failed to execute kubectl, '' @ fmt_slice args @
                      '' with '' @ err_msg e))))
              })
       }
   }"

section \<open>Charts\<close>

definition PathExists :: "'w machine \<Rightarrow> string \<Rightarrow> ('w, bool) state" where
  "PathExists m path = do {
     e \<leftarrow> Stat m path;
     ret (case e of Some x \<Rightarrow> IsExistErr m x | None \<Rightarrow> True)
   }"

text \<open>The package variable \<open>chartFolder\<close> is given and returned beside the result.\<close>

definition GetChartsDirectory :: "'w machine \<Rightarrow> env \<Rightarrow> string \<Rightarrow> ('w, string \<times> string) state" where
  "GetChartsDirectory m env chartFolder =
     (if chartFolder \<noteq> [] then ret (chartFolder, chartFolder)
      else let homeChartsFolder = Getenv env ''HOME'' @ ''/charts'' in do {
        ex \<leftarrow> PathExists m homeChartsFolder;
        (let folder = (if \<not> ex then ''/charts'' else homeChartsFolder) in ret (folder, folder))
      })"

section \<open>The home directory\<close>

definition homeUnix :: "('w, 'x) os_scheme \<Rightarrow> env \<Rightarrow> ('w, string \<times> err option) state" where
  "homeUnix m env =
     (if Getenv env ''HOME'' \<noteq> [] then ret (Getenv env ''HOME'', None)
      else do {
        p \<leftarrow> RunProcess m ''sh'' [''-c'', ''eval echo ~$USER''];
        ret (case proc_output p of
           (_, Some e) \<Rightarrow> ([], Some e)
         | (stdout, None) \<Rightarrow>
             (let result = trim_space stdout in
              if result = [] then ([], Some (ErrText ''blank output when reading home directory''))
              else (result, None)))
      })"

definition homeWindows :: "env \<Rightarrow> string \<times> err option" where
  "homeWindows env =
     (let drive = Getenv env ''HOMEDRIVE''; path = Getenv env ''HOMEPATH'';
          home = (if drive = [] \<or> path = [] then Getenv env ''USERPROFILE'' else drive @ path)
      in if home = [] then ([], Some (ErrText ''HOMEDRIVE, HOMEPATH, and USERPROFILE are blank''))
         else (home, None))"

definition Home :: "'w machine \<Rightarrow> string \<Rightarrow> env \<Rightarrow> ('w, string \<times> err option) state" where
  "Home m goos env = do {
     user \<leftarrow> CurrentHome m;
     case user of
       Inr homeDir \<Rightarrow> ret (homeDir, None)
     | Inl _ \<Rightarrow> (if goos = ''windows'' then ret (homeWindows env) else homeUnix m env)
   }"

section \<open>The client for commands\<close>

text \<open>\<open>path.Clean\<close> and \<open>path.Join\<close> of two elements.\<close>

primrec clean_elements :: "bool \<Rightarrow> string list \<Rightarrow> string list \<Rightarrow> string list" where
  "clean_elements rooted acc [] = rev acc"
| "clean_elements rooted acc (e # es) =
     (if e = [] \<or> e = ''.'' then clean_elements rooted acc es
      else if e = ''..''
      then (if acc \<noteq> [] \<and> hd acc \<noteq> ''..'' then clean_elements rooted (tl acc) es
            else if rooted then clean_elements rooted acc es
            else clean_elements rooted (e # acc) es)
      else clean_elements rooted (e # acc) es)"

definition path_Clean :: "string \<Rightarrow> string" where
  "path_Clean p =
     (let rooted = has_prefix p ''/''; out = join ''/'' (clean_elements rooted [] (split_on CHR ''/'' p))
      in if rooted then ''/'' @ out else if out = [] then ''.'' else out)"

definition path_Join :: "string \<Rightarrow> string \<Rightarrow> string" where
  "path_Join a b =
     (if a = [] \<and> b = [] then []
      else path_Clean (if a = [] then b else if b = [] then a else a @ ''/'' @ b))"

text \<open>The package variables; the two constructors of the client library are parameters.\<close>

record ('c, 's) kube_vars =
  restConfig :: "'c option"
  clientset :: "'s option"

definition kubeconfig_path :: "'w machine \<Rightarrow> env \<Rightarrow> string \<Rightarrow> ('w, string) state" where
  "kubeconfig_path m env home =
     (let path = (if Getenv env ''KUBECONFIG'' \<noteq> [] then Getenv env ''KUBECONFIG''
                  else path_Join home ''.kube/config'') in do {
        ex \<leftarrow> PathExists m path;
        ret (if \<not> ex then [] else path)
      })"

definition rest_config ::
    "'w machine \<Rightarrow> string \<Rightarrow> env \<Rightarrow> (string \<Rightarrow> err + 'c) \<Rightarrow> ('c, 's) kube_vars
      \<Rightarrow> ('w, err + ('c, 's) kube_vars) state" where
  "rest_config m goos env BuildConfigFromFlags kv =
     (case restConfig kv of
        Some c \<Rightarrow> ret (Inr kv)
      | None \<Rightarrow> do {
          (home, e) \<leftarrow> Home m goos env;
          case e of
            Some x \<Rightarrow> ret (Inl x)
          | None \<Rightarrow> do {
              path \<leftarrow> kubeconfig_path m env home;
              ret (case BuildConfigFromFlags path of
                 Inl x \<Rightarrow> Inl x
               | Inr c \<Rightarrow> Inr (kv\<lparr>restConfig := Some c\<rparr>))
            }
        })"

definition initClient ::
    "'w machine \<Rightarrow> string \<Rightarrow> env \<Rightarrow> (string \<Rightarrow> err + 'c) \<Rightarrow> ('c \<Rightarrow> err + 's) \<Rightarrow> ('c, 's) kube_vars
      \<Rightarrow> ('w, err option \<times> ('c, 's) kube_vars) state" where
  "initClient m goos env BuildConfigFromFlags NewForConfig kv = do {
     r \<leftarrow> rest_config m goos env BuildConfigFromFlags kv;
     ret (case r of
        Inl x \<Rightarrow> (Some x, kv)
      | Inr kv' \<Rightarrow>
          (case clientset kv' of
             Some s \<Rightarrow> (None, kv')
           | None \<Rightarrow>
               (case NewForConfig (the (restConfig kv')) of
                  Inl x \<Rightarrow> (Some x, kv')
                | Inr s \<Rightarrow> (None, kv'\<lparr>clientset := Some s\<rparr>))))
   }"

text \<open>
  The first container of a pod; \<open>GetPod\<close> reads the names of the containers. The client is used without
  being set up, and a pod without containers is not expected.
\<close>

definition ExecCommandInPod ::
    "'w podexec \<Rightarrow> ('s \<Rightarrow> string \<Rightarrow> string \<Rightarrow> ('w, err + string list) state) \<Rightarrow> ('c, 's) kube_vars
      \<Rightarrow> string \<Rightarrow> string \<Rightarrow> string list \<Rightarrow> ('w, (string \<times> string \<times> err option) outcome) state" where
  "ExecCommandInPod px GetPod kv podName namespace cmd =
     (case clientset kv of
        None \<Rightarrow> ret Panic
      | Some s \<Rightarrow> do {
          r \<leftarrow> GetPod s namespace podName;
          case r of
            Inl e \<Rightarrow> ret (Ret ([], ''Failed to find the pod'', Some e))
          | Inr [] \<Rightarrow> ret Panic
          | Inr (c # cs) \<Rightarrow> do {
              out \<leftarrow> ExecCommandInContainer px podName c namespace cmd;
              ret (Ret out)
            }
        })"

section \<open>Value files and templates\<close>

definition ToYaml :: "'w machine \<Rightarrow> ('v \<Rightarrow> err + string) \<Rightarrow> 'v \<Rightarrow> string \<Rightarrow> ('w, err option) state" where
  "ToYaml m Marshal vals file =
     (case Marshal vals of Inl e \<Rightarrow> ret (Some e) | Inr data \<Rightarrow> WriteFile m file data)"

definition GenerateValueFile ::
    "'w machine \<Rightarrow> env \<Rightarrow> ('v \<Rightarrow> err + string) \<Rightarrow> 'v \<Rightarrow> ('w, (string \<times> err option) outcome) state" where
  "GenerateValueFile m env Marshal vals = do {
     f \<leftarrow> TempFile m (TempDir env) ''values'';
     case f of
       Inl e \<Rightarrow> ret Panic
     | Inr valueFileName \<Rightarrow> do {
         e \<leftarrow> ToYaml m Marshal vals valueFileName;
         ret (Ret (valueFileName, e))
       }
   }"

definition GenerateHelmTemplate ::
    "'w machine \<Rightarrow> string \<Rightarrow> string \<Rightarrow> string \<Rightarrow> string \<Rightarrow> string list \<Rightarrow> ('w, string \<times> err option) state" where
  "GenerateHelmTemplate m name namespace valueFileName chartName options = do {
     f \<leftarrow> TempFile m [] (name @ ''.yaml'');
     case f of
       Inl e \<Rightarrow> ret ([], Some e)
     | Inr templateFileName \<Rightarrow> do {
         r \<leftarrow> LookPath m helm_binary;
         case r of
           Inl e \<Rightarrow> ret (templateFileName, Some e)
         | Inr binary \<Rightarrow> do {
             missing \<leftarrow> Stat m chartName;
             case missing of
               Some e \<Rightarrow> ret (templateFileName, Some e)
             | None \<Rightarrow>
                 (let args = [binary, ''template'', ''-f'', valueFileName, ''--namespace'', namespace,
                        ''--name'', name] @ options @ [chartName, ''>'', templateFileName]
                  in do {
                    p \<leftarrow> RunProcess m ''bash'' [''-c'', join '' '' args];
                    ret (templateFileName, case proc_output p of
                       (_, None) \<Rightarrow> None
                     | (_, Some e) \<Rightarrow> Some (ErrText (''failed to execute '' @ binary @ '', '' @
                         fmt_slice args @ '' with '' @ err_msg e)))
                  })
           }
       }
   }"

text \<open>\<open>filepath.Base\<close>: the last element, without trailing separators.\<close>

definition filepath_Base :: "string \<Rightarrow> string" where
  "filepath_Base path =
     (if path = [] then ''.''
      else let path = trim_right_by (\<lambda>c. c = CHR ''/'') path;
               elem = rev (takeWhile (\<lambda>c. c \<noteq> CHR ''/'') (rev path))
           in if elem = [] then ''/'' else elem)"

definition GetChartName :: "string \<Rightarrow> string" where
  "GetChartName chart = filepath_Base chart"

section \<open>Properties\<close>

text \<open>
  The directory of the charts is looked up once: a later call returns what the first one did and asks
  nothing of the machine.
\<close>

lemma GetChartsDirectory_once:
  assumes "run_state (GetChartsDirectory m env []) w = ((dir, folder), w')"
  shows "folder = dir \<and> dir \<noteq> [] \<and>
    run_state (GetChartsDirectory m env' folder) v = ((dir, folder), v)"
  using assms
  by (auto simp: GetChartsDirectory_def PathExists_def Let_def run_simps split: prod.splits if_splits)

text \<open>A chart below a directory has the name of its last element, with or without a final separator.\<close>

lemma GetChartName_last:
  assumes "name \<noteq> []" and "CHR ''/'' \<notin> set name"
  shows "GetChartName (dir @ ''/'' @ name) = name"
    and "GetChartName (dir @ ''/'' @ name @ ''/'') = name"
proof -
  obtain c r where r: "rev name = c # r" "c \<noteq> CHR ''/''"
    using assms by (cases "rev name") auto
  then have n: "name = rev r @ [c]" by (metis rev.simps(2) rev_rev_ident)
  have "takeWhile (\<lambda>c. c \<noteq> CHR ''/'') (rev name @ CHR ''/'' # rev dir) = rev name"
    using assms(2) by (subst takeWhile_append2) auto
  with r n show "GetChartName (dir @ ''/'' @ name) = name"
    and "GetChartName (dir @ ''/'' @ name @ ''/'') = name"
    by (simp_all add: GetChartName_def filepath_Base_def trim_right_by_def Let_def)
qed

text \<open>The client is set up once: after a success the next call asks nothing and changes nothing.\<close>

lemma rest_config_sets:
  "run_state (rest_config m goos env b kv) w = (Inr kv', w') \<Longrightarrow> restConfig kv' \<noteq> None"
  by (auto simp: rest_config_def run_simps split: option.splits prod.splits sum.splits)

lemma initClient_once:
  assumes "run_state (initClient m goos env b n kv) w = ((None, kv'), w')"
  shows "run_state (initClient m goos' env' b n kv') v = ((None, kv'), v)"
proof -
  obtain r w1 where r: "run_state (rest_config m goos env b kv) w = (r, w1)" by fastforce
  with assms obtain kv1 where kv1: "r = Inr kv1"
    by (cases r) (auto simp: initClient_def run_simps)
  then have "restConfig kv1 \<noteq> None" using r rest_config_sets by metis
  moreover have "restConfig kv' = restConfig kv1 \<and> clientset kv' \<noteq> None"
    using assms r kv1 by (auto simp: initClient_def run_simps split: option.splits sum.splits)
  ultimately show ?thesis
    by (auto simp: initClient_def rest_config_def run_simps)
qed

text \<open>
  a value file that cannot be created makes \<open>GenerateValueFile\<close> panic instead of returning the
  error, because the name of the missing file is logged.
\<close>

theorem GenerateValueFile_without_file:
  assumes "run_state (TempFile m (TempDir env) ''values'') w = (Inl e, w')"
  shows "run_state (GenerateValueFile m env Marshal vals) w = (Panic, w')"
  using assms by (simp add: GenerateValueFile_def run_simps)

end
