(* ===== verification/Spec2Isabelle.thy ===== *)
theory Spec2Isabelle
  imports Deletion CachedInfo Caching Reports Values LocalTools
begin

text \<open>
  A verification of Fluid-DataTable, two Kubernetes controllers written in Go: one runs an Alluxio cache
  for every \<open>AlluxioRuntime\<close>, the other moves the Hive tables of every \<open>DataTable\<close> into such a
  cache and back.

  \<^bold>\<open>The program.\<close> The controller of runtimes (\<open>pkg/controllers/runtime_controller.go\<close>) keeps a map of
  engines. A request for a runtime gets or creates its engine (\<open>pkg/ddc/factory.go\<close>), adds a
  finalizer, and lets the template engine (\<open>pkg/ddc/base\<close>) set up master and workers or synchronise
  their status through the methods of the Alluxio engine (\<open>pkg/ddc/alluxio\<close>). The engine installs
  a helm release, places workers by labelling nodes (\<open>pkg/utils/lifecycle\<close>), runs Alluxio
  commands in the master pod and writes conditions and phases to the runtime. A deleted runtime
  makes it clean the cache, unlabel the nodes and delete the release. The controller of data tables
  (\<open>pkg/controllers/v1alpha1/datatable\<close>) makes room in the cache, moves the location of Hive tables
  and partitions (\<open>pkg/utils/hive\<close>), mounts them in Alluxio (\<open>pkg/utils/exec\<close>), keeps their sizes
  in Redis (\<open>pkg/utils/redisUtil\<close>) and records what it cached as labels of the data table.

  \<^bold>\<open>Theories.\<close>
  \<^item> \<open>Prelude\<close>, \<open>GoNum\<close>: machine integers, errors, panics, Go's string functions, printing and
    parsing of numbers, running monadic programs.
  \<^item> \<open>KubeTypes\<close>, \<open>ApiTypes\<close>: the objects of Kubernetes as plain data and the resources of
    \<open>api/v1alpha1\<close>, one record per structure and one datatype per enumeration.
  \<^item> \<open>Client\<close>, \<open>FakeCluster\<close>, \<open>Fixtures\<close>: the external services as parameters with their contracts, and an
    in-memory cluster that satisfies the contracts and on which the concrete instances run.
  \<^item> \<open>Utils\<close> (\<open>crtl_utils.go\<close>, \<open>slice.go\<close>, \<open>label.go\<close>, \<open>runtime_condition.go\<close>), \<open>KubeClient\<close>
    (\<open>pkg/utils/kubeclient\<close>), \<open>Tieredstore\<close> (\<open>pkg/ddc/base/runtime.go\<close>, \<open>label.go\<close>,
    \<open>pkg/utils/tieredstore\<close>), \<open>Schedule\<close> (\<open>pkg/utils/lifecycle\<close>).
  \<^item> \<open>PodExec\<close> (\<open>kubeclient/exec.go\<close>, \<open>execInPod.go\<close>), \<open>Operations\<close> (\<open>ddc/alluxio/operations\<close>), \<open>Docker\<close>,
    \<open>Helm\<close>, \<open>ByteSize\<close> (\<open>byte_size.go\<close>), \<open>LocalTools\<close> (\<open>kubectl\<close>, \<open>charts.go\<close>, \<open>home.go\<close>,
    \<open>yaml.go\<close>, \<open>initClient\<close>): commands, images, releases, sizes and the local machine.
  \<^item> \<open>Engine\<close> (state of the engine and its reading of objects), \<open>EngineStatus\<close> (\<open>master.go\<close>, \<open>worker.go\<close>,
    \<open>status.go\<close>, \<open>health_check.go\<close>), \<open>EngineShutdown\<close> (\<open>shutdown.go\<close>, \<open>cache.go\<close>, capacity report),
    \<open>Reports\<close> (\<open>report.go\<close>), \<open>Values\<close> (\<open>types.go\<close>, \<open>types_selector.go\<close>, \<open>quantity.go\<close>),
    \<open>TemplateEngine\<close> (\<open>template_engine.go\<close>, \<open>syncs.go\<close>, \<open>factory.go\<close>), \<open>RuntimeController\<close>,
    \<open>Deletion\<close> and \<open>CachedInfo\<close> (properties of runs of the controller).
  \<^item> \<open>DatatableLabel\<close>, \<open>Redis\<close>, \<open>Hive\<close>, \<open>DatatableController\<close>: the controller of data tables and what it
    uses; \<open>Catalog\<close> and \<open>Placement\<close>: where the tables are after a request that succeeds; \<open>Moves\<close>: what
    any request, and any sequence of requests, may move.

  \<^bold>\<open>How code is modelled.\<close> A function that calls services is a program of the state monad over an abstract
  world \<open>'w\<close>; a method that changes its engine or package variables takes them and returns them.
  Errors are values (\<open>err + 'a\<close>, or a pair with \<open>err option\<close> where Go returns both), a run-time panic is
  the value \<open>Panic\<close>. A map is a partial function, a nil map the empty one; where the code iterates over a map
  the order is a parameter. \<open>int32\<close> and \<open>int64\<close> are words and wrap around. The closures given to
  \<open>RetryOnConflict\<close> share captured variables, which are a record threaded through the attempts.
  Messages of wrapped errors are texts; log lines, events, back-off times and metrics are left
  out. Mutexes are left out as well: one request is one sequential program, and the world may change
  between attempts of a retry as the contract of \<open>RetryOnConflict\<close> allows.

  \<^bold>\<open>What is a parameter.\<close> The API client, \<open>RetryOnConflict\<close>, \<open>Poll\<close>, label selectors and the clock
  (\<open>client\<close>); resource quantities (\<open>quantity_ops\<close>); execution in pods and timers (\<open>podexec\<close>); processes
  and files (\<open>os\<close>, \<open>machine\<close>); \<open>sort.Slice\<close> and the selector printer (\<open>services\<close>); floating-point
  numbers (\<open>float_ops\<close>); the Hive driver (\<open>hive\<close>) and the Redis client (\<open>redis\<close>). What a theorem
  relies on is a named hypothesis: \<open>api_contracts\<close> (reads and writes of runtimes),
  \<open>datatable_contract\<close>, \<open>patch_contract\<close>, \<open>get_node_contract\<close>, \<open>configmap_contract\<close>, \<open>poll_contract\<close>,
  \<open>retry_contract\<close>, \<open>retry_quiet\<close> (nobody else moves tables between two attempts), \<open>sort_contract\<close>, \<open>quantity_laws\<close>, \<open>float_contract\<close> (integers up to \<open>2^53\<close> are
  exact), \<open>site_contract\<close> and \<open>tables_contract\<close> (a statement on the catalog does what it says and
  the services do not touch each other's state), \<open>listing_contract\<close> (Hive lists names without quotes). \<open>FakeCluster\<close> and the fixtures discharge every one
  of them on concrete functions.

  \<^bold>\<open>What the theorems show.\<close>
  \<^item> Data tables: a successful request has moved exactly the wanted tables to the cache and
    recorded exactly their labels; a successful deletion moves back exactly the tables no other data
    table uses; the finalizer comes before the first move; moving one table changes its location and
    the record of its size and nothing else. However a request ends, by an error or a panic
    half-way too, it has moved only tables and partitions of the schemas the data table names, each to
    its own location; after any sequence of requests and restarts every location is the first one
    or one of the two own ones.
  \<^item> Runtimes: no request panics and every reachable engine is well formed, its cached information
    included; the finalizer goes only after a shutdown without error; a deletion whose later steps
    succeed ends within six requests; an engine retries the clean-up five times at most; a set up
    that reports ready has recorded it; each status update and health check records what it saw.
  \<^item> Placement on nodes: the order of candidates is a stable sort, the choice of nodes, labelling
    and unlabelling, the equality of the two ways to change labels, the totals per kind of store.
  \<^item> Parsers and printers: labels of tables, pod names, capacity and metrics reports, sizes; the
    matcher of the metrics agrees with the leftmost, longest match of its regular expression.
  \<^item> Behaviour that is not what the code means to do is stated as well: labels written with one
    value and looked up with another, colliding identifiers, lost status updates, an error after a
    successful clean-up, aliased results, eviction that cannot happen.

  \<^bold>\<open>Interfaces.\<close> The template engine is written against the methods of \<open>Implement\<close>; the locale \<open>implement\<close>
  states what it relies on, and is interpreted twice on the Alluxio engine, for the recorded status
  and for the cached information. \<open>runtime_labels\<close> (the five labels of a runtime are distinct) is
  interpreted on the label names and used by the scheduler; \<open>stable_insertion\<close> on the binary insertion
  of the scheduler; \<open>allowance\<close> (what a program may change, construct by construct) on the two relations
  between the catalogs before and after a request.

  \<^bold>\<open>Bounds.\<close> All loops are recursion over a list or over a number that the code itself decreases, so no
  definition has fuel. The five retries of the clean-up are \<open>eng_gracefulShutdownLimits\<close> as the factory sets it.
  The contract of \<open>RetryOnConflict\<close> allows any finite number of attempts; the fake one makes
  three, and its \<open>Poll\<close> is bounded likewise. Lengths are assumed below \<open>2^31\<close> or \<open>2^63\<close> where
  the code converts them to an integer of that width.

  \<^bold>\<open>Not modelled.\<close> Generated deep copies and the registration of types; the \<open>main\<close> functions, which parse flags and start
  managers; everything that is commented out in the sources (transformation of a runtime into chart
  values, metadata synchronisation, mounting of under file systems, replicas, data loading): the methods whose
  bodies are comments are modelled as the empty methods they are. The structures that no code fills
  any more are in \<open>Values\<close>. The contents of the charts are YAML templates. In
  \<open>pkg/utils/kubeclient/exec.go\<close> the transport of a command is a parameter and the set-up of the client is
  \<open>initClient\<close> of \<open>LocalTools\<close>. The field \<open>IntelligentCache\<close> that the controller of data tables reads is not in the
  structure of the sources; it is a field of the model's specification.
\<close>

end
